(* ===== verification/Prelude.thy ===== *)
theory Prelude
  imports Main "HOL-Library.List_Lexorder" "HOL-Library.Char_ord"
begin

text \<open>
  The shared base of the development: result combinators for the source's
  \<open>Result\<close>, a state and error monad for its \<open>&mut self\<close> methods with a
  weakest-precondition calculus, i64/i128/u64 arithmetic with the wrap-around and the
  overflow checks written out, and the Rust string functions the source uses, over
  UTF-8 byte strings.
\<close>

named_theorems wp_simps "weakest preconditions of the monad's operations"
named_theorems steps_intros "rules for relations kept by every step of an action"

section \<open>Results\<close>

text \<open>A \<open>Result\<close> is a sum, \<open>Inl\<close> the error. \<open>rbind\<close> is the \<open>?\<close> operator.\<close>

definition rbind :: "'e + 'a \<Rightarrow> ('a \<Rightarrow> 'e + 'b) \<Rightarrow> 'e + 'b" where
  "rbind r f = (case r of Inl e \<Rightarrow> Inl e | Inr x \<Rightarrow> f x)"

definition ok_or :: "'e \<Rightarrow> 'a option \<Rightarrow> 'e + 'a" where
  "ok_or e x = (case x of None \<Rightarrow> Inl e | Some y \<Rightarrow> Inr y)"

definition ensure :: "bool \<Rightarrow> 'e \<Rightarrow> 'e + unit" where
  "ensure b e = (if b then Inr () else Inl e)"

definition is_ok :: "'e + 'a \<Rightarrow> bool" where
  "is_ok r = (case r of Inl _ \<Rightarrow> False | Inr _ \<Rightarrow> True)"

fun rfold :: "('s \<Rightarrow> 'x \<Rightarrow> 'e + 's) \<Rightarrow> 's \<Rightarrow> 'x list \<Rightarrow> 'e + 's" where
  "rfold f s [] = Inr s"
| "rfold f s (x # xs) = rbind (f s x) (\<lambda>s'. rfold f s' xs)"

fun rall :: "('x \<Rightarrow> 'e + unit) \<Rightarrow> 'x list \<Rightarrow> 'e + unit" where
  "rall f [] = Inr ()"
| "rall f (x # xs) = rbind (f x) (\<lambda>_. rall f xs)"

fun rmap :: "('x \<Rightarrow> 'e + 'y) \<Rightarrow> 'x list \<Rightarrow> 'e + 'y list" where
  "rmap f [] = Inr []"
| "rmap f (x # xs) = rbind (f x) (\<lambda>y. rbind (rmap f xs) (\<lambda>ys. Inr (y # ys)))"

lemma rbind_simps [simp]:
  "rbind (Inl e) f = Inl e"
  "rbind (Inr x) f = f x"
  by (simp_all add: rbind_def)

lemma rbind_Inr_iff: "rbind r f = Inr y \<longleftrightarrow> (\<exists>x. r = Inr x \<and> f x = Inr y)"
  by (cases r) auto

lemma rbind_Inl_iff: "rbind r f = Inl e \<longleftrightarrow> r = Inl e \<or> (\<exists>x. r = Inr x \<and> f x = Inl e)"
  by (cases r) auto

lemma ok_or_Inr_iff [simp]: "ok_or e x = Inr y \<longleftrightarrow> x = Some y"
  by (cases x) (auto simp: ok_or_def)

lemma ok_or_Inl_iff [simp]: "ok_or e x = Inl e' \<longleftrightarrow> x = None \<and> e' = e"
  by (cases x) (auto simp: ok_or_def)

lemma ok_or_simps [simp]: "ok_or e None = Inl e" "ok_or e (Some y) = Inr y"
  by (simp_all add: ok_or_def)

lemma ensure_Inr_iff [simp]: "ensure b e = Inr u \<longleftrightarrow> b"
  by (simp add: ensure_def)

lemma ensure_Inl_iff [simp]: "ensure b e = Inl e' \<longleftrightarrow> \<not> b \<and> e' = e"
  by (auto simp: ensure_def)

lemma ensure_simps [simp]: "ensure True e = Inr ()" "ensure False e = Inl e"
  by (simp_all add: ensure_def)

lemma is_ok_simps [simp]: "is_ok (Inl e) = False" "is_ok (Inr x) = True"
  by (simp_all add: is_ok_def)

lemma rall_Inr_iff: "rall f xs = Inr u \<longleftrightarrow> (\<forall>x \<in> set xs. f x = Inr ())"
  by (induction xs) (auto simp: rbind_Inr_iff)

lemma rmap_Inr_set: "rmap f xs = Inr ys \<Longrightarrow> y \<in> set ys \<Longrightarrow> \<exists>x \<in> set xs. f x = Inr y"
  by (induction xs arbitrary: ys) (auto simp: rbind_Inr_iff)

lemma rmap_length: "rmap f xs = Inr ys \<Longrightarrow> length ys = length xs"
  by (induction xs arbitrary: ys) (auto simp: rbind_Inr_iff)

lemma find_SomeD: "find P xs = Some x \<Longrightarrow> x \<in> set xs \<and> P x"
  by (induction xs) (auto split: if_splits)

section \<open>Actions: state and errors\<close>

text \<open>
  A method that may change \<open>self\<close>, read the clock or draw randomness is an action. An
  error keeps the state reached so far: Rust does not roll back on \<open>?\<close>, only where the
  source restores a snapshot.
\<close>

type_synonym ('s, 'e, 'a) action = "'s \<Rightarrow> ('e + 'a) \<times> 's"

definition ret :: "'a \<Rightarrow> ('s, 'e, 'a) action" where
  "ret x = (\<lambda>s. (Inr x, s))"

definition fail :: "'e \<Rightarrow> ('s, 'e, 'a) action" where
  "fail e = (\<lambda>s. (Inl e, s))"

definition lift :: "'e + 'a \<Rightarrow> ('s, 'e, 'a) action" where
  "lift r = (\<lambda>s. (r, s))"

definition gets :: "('s \<Rightarrow> 'a) \<Rightarrow> ('s, 'e, 'a) action" where
  "gets f = (\<lambda>s. (Inr (f s), s))"

definition modify :: "('s \<Rightarrow> 's) \<Rightarrow> ('s, 'e, unit) action" where
  "modify f = (\<lambda>s. (Inr (), f s))"

definition bind :: "('s, 'e, 'a) action \<Rightarrow> ('a \<Rightarrow> ('s, 'e, 'b) action) \<Rightarrow> ('s, 'e, 'b) action" where
  "bind m f = (\<lambda>s. case m s of (Inl e, t) \<Rightarrow> (Inl e, t) | (Inr x, t) \<Rightarrow> f x t)"

definition guard :: "bool \<Rightarrow> 'e \<Rightarrow> ('s, 'e, unit) action" where
  "guard b e = (if b then ret () else fail e)"

text \<open>\<open>attempt\<close> hands the \<open>Result\<close> itself to the continuation, as a \<open>match\<close> does.\<close>

definition attempt :: "('s, 'e, 'a) action \<Rightarrow> ('s, 'e, 'e + 'a) action" where
  "attempt m = (\<lambda>s. case m s of (r, t) \<Rightarrow> (Inr r, t))"

fun each :: "('x \<Rightarrow> ('s, 'e, unit) action) \<Rightarrow> 'x list \<Rightarrow> ('s, 'e, unit) action" where
  "each f [] = ret ()"
| "each f (x # xs) = bind (f x) (\<lambda>_. each f xs)"

fun collect :: "('x \<Rightarrow> ('s, 'e, 'y) action) \<Rightarrow> 'x list \<Rightarrow> ('s, 'e, 'y list) action" where
  "collect f [] = ret []"
| "collect f (x # xs) = bind (f x) (\<lambda>y. bind (collect f xs) (\<lambda>ys. ret (y # ys)))"

lemmas action_defs = ret_def fail_def lift_def gets_def modify_def bind_def guard_def attempt_def

subsection \<open>Weakest preconditions\<close>

definition wp :: "('s, 'e, 'a) action \<Rightarrow> ('a \<Rightarrow> 's \<Rightarrow> bool) \<Rightarrow> ('e \<Rightarrow> 's \<Rightarrow> bool) \<Rightarrow> 's \<Rightarrow> bool" where
  "wp m Q R s = (case m s of (Inl e, t) \<Rightarrow> R e t | (Inr x, t) \<Rightarrow> Q x t)"

lemma wp_basic [wp_simps]:
  "wp (ret x) Q R s = Q x s"
  "wp (fail e) Q R s = R e s"
  "wp (gets f) Q R s = Q (f s) s"
  by (simp_all add: wp_def action_defs)

lemma wp_modify [wp_simps]: "wp (modify g) Q R s = Q () (g s)"
  by (simp add: wp_def action_defs)

lemma wp_lift [wp_simps]:
  "wp (lift r) Q R s = ((\<forall>e. r = Inl e \<longrightarrow> R e s) \<and> (\<forall>x. r = Inr x \<longrightarrow> Q x s))"
  by (cases r) (simp_all add: wp_def lift_def)

lemma wp_guard [wp_simps]: "wp (guard b e) Q R s = ((b \<longrightarrow> Q () s) \<and> (\<not> b \<longrightarrow> R e s))"
  by (simp add: guard_def wp_basic)

lemma wp_bind [wp_simps]: "wp (bind m f) Q R s = wp m (\<lambda>x. wp (f x) Q R) R s"
  by (auto simp: wp_def bind_def split: prod.splits sum.splits)

lemma wp_attempt [wp_simps]:
  "wp (attempt m) Q R s = wp m (\<lambda>x. Q (Inr x)) (\<lambda>e. Q (Inl e)) s"
  by (auto simp: wp_def attempt_def split: prod.splits sum.splits)

lemma wp_if [wp_simps]:
  "wp (if b then m else n) Q R s = ((b \<longrightarrow> wp m Q R s) \<and> (\<not> b \<longrightarrow> wp n Q R s))"
  by simp

lemma wp_case_sum [wp_simps]:
  "wp (case r of Inl e \<Rightarrow> f e | Inr x \<Rightarrow> g x) Q R s =
     ((\<forall>e. r = Inl e \<longrightarrow> wp (f e) Q R s) \<and> (\<forall>x. r = Inr x \<longrightarrow> wp (g x) Q R s))"
  by (cases r) auto

lemma wp_case_option [wp_simps]:
  "wp (case x of None \<Rightarrow> m | Some y \<Rightarrow> f y) Q R s =
     ((x = None \<longrightarrow> wp m Q R s) \<and> (\<forall>y. x = Some y \<longrightarrow> wp (f y) Q R s))"
  by (cases x) auto

lemma wp_mono:
  "wp m Q R s \<Longrightarrow> (\<And>x t. Q x t \<Longrightarrow> Q' x t) \<Longrightarrow> (\<And>e t. R e t \<Longrightarrow> R' e t) \<Longrightarrow> wp m Q' R' s"
  by (auto simp: wp_def split: prod.splits sum.splits)

lemma wp_conj: "wp m Q R s \<Longrightarrow> wp m Q' R' s \<Longrightarrow> wp m (\<lambda>x t. Q x t \<and> Q' x t) (\<lambda>e t. R e t \<and> R' e t) s"
  by (auto simp: wp_def split: prod.splits sum.splits)

lemma wp_OkD: "wp m Q R s \<Longrightarrow> m s = (Inr x, t) \<Longrightarrow> Q x t"
  by (simp add: wp_def)

lemma wp_ErrD: "wp m Q R s \<Longrightarrow> m s = (Inl e, t) \<Longrightarrow> R e t"
  by (simp add: wp_def)

lemma wpI: "(\<And>x t. m s = (Inr x, t) \<Longrightarrow> Q x t) \<Longrightarrow> (\<And>e t. m s = (Inl e, t) \<Longrightarrow> R e t) \<Longrightarrow> wp m Q R s"
  by (auto simp: wp_def split: prod.splits sum.splits)

lemma bind_Inr_iff:
  "bind m f s = (Inr y, u) \<longleftrightarrow> (\<exists>x t. m s = (Inr x, t) \<and> f x t = (Inr y, u))"
  by (auto simp: bind_def split: prod.splits sum.splits)

lemma run_simps [simp]:
  "ret x s = (Inr x, s)"
  "fail e s = (Inl e, s)"
  "lift r s = (r, s)"
  "gets f s = (Inr (f s), s)"
  "modify g s = (Inr (), g s)"
  "guard True e s = (Inr (), s)"
  "guard False e s = (Inl e, s)"
  by (simp_all add: action_defs)

lemma run_bind: "bind m f s = (case m s of (Inl e, t) \<Rightarrow> (Inl e, t) | (Inr x, t) \<Rightarrow> f x t)"
  by (simp add: bind_def)

subsection \<open>Relations that every step of an action keeps\<close>

text \<open>
  A fact about what an operation may do to the state, on success and on error alike, is a
  reflexive and transitive relation between the state before and after. The locale gives
  the rules by which such a relation passes through an action's structure.
\<close>

definition keeps :: "('s \<Rightarrow> 's \<Rightarrow> bool) \<Rightarrow> ('s, 'e, 'a) action \<Rightarrow> bool" where
  "keeps R m \<longleftrightarrow> (\<forall>s. R s (snd (m s)))"

lemma keepsI: "(\<And>s. R s (snd (m s))) \<Longrightarrow> keeps R m"
  by (simp add: keeps_def)

lemma keepsD: "keeps R m \<Longrightarrow> R s (snd (m s))"
  by (simp add: keeps_def)

lemma keeps_wp: "keeps R m \<longleftrightarrow> (\<forall>s. wp m (\<lambda>_. R s) (\<lambda>_. R s) s)"
  unfolding keeps_def wp_def by (simp add: case_prod_beta split: sum.split)

lemma wp_kept: "keeps R m \<Longrightarrow> wp m (\<lambda>_. R w) (\<lambda>_ _. True) w"
  unfolding keeps_wp by (blast intro: wp_mono)

lemma keeps_run: "keeps R m \<Longrightarrow> m s = (r, t) \<Longrightarrow> R s t"
  by (metis keepsD snd_conv)

locale step_relation =
  fixes R :: "'s \<Rightarrow> 's \<Rightarrow> bool"
  assumes rel_refl: "R s s"
    and rel_trans: "R s t \<Longrightarrow> R t u \<Longrightarrow> R s u"
begin

lemma keeps_ret: "keeps R (ret x)"
  by (simp add: keeps_def rel_refl)

lemma keeps_fail: "keeps R (fail e)"
  by (simp add: keeps_def rel_refl)

lemma keeps_lift: "keeps R (lift r)"
  by (simp add: keeps_def rel_refl)

lemma keeps_gets: "keeps R (gets f)"
  by (simp add: keeps_def rel_refl)

lemma keeps_guard: "keeps R (guard b e)"
  by (simp add: guard_def keeps_ret keeps_fail)

lemma keeps_modify: "(\<And>s. R s (g s)) \<Longrightarrow> keeps R (modify g)"
  by (simp add: keeps_def)

lemma keeps_bind:
  assumes "keeps R m" and "\<And>x. keeps R (f x)"
  shows "keeps R (bind m f)"
proof (rule keepsI)
  fix s
  obtain r t where m: "m s = (r, t)" by (cases "m s")
  from assms(1) m have "R s t" by (rule keeps_run)
  moreover have "R t (snd (f x t))" for x by (rule keepsD [OF assms(2)])
  ultimately show "R s (snd (bind m f s))"
    by (cases r) (auto simp: bind_def m intro: rel_trans)
qed

lemma keeps_attempt: "keeps R m \<Longrightarrow> keeps R (attempt m)"
  by (simp add: keeps_def attempt_def case_prod_beta)

lemma keeps_if: "(b \<Longrightarrow> keeps R m) \<Longrightarrow> (\<not> b \<Longrightarrow> keeps R n) \<Longrightarrow> keeps R (if b then m else n)"
  by simp

lemma keeps_case_option:
  "(x = None \<Longrightarrow> keeps R m) \<Longrightarrow> (\<And>y. x = Some y \<Longrightarrow> keeps R (f y)) \<Longrightarrow>
     keeps R (case x of None \<Rightarrow> m | Some y \<Rightarrow> f y)"
  by (cases x) auto

lemma keeps_case_sum:
  "(\<And>e. r = Inl e \<Longrightarrow> keeps R (f e)) \<Longrightarrow> (\<And>y. r = Inr y \<Longrightarrow> keeps R (g y)) \<Longrightarrow>
     keeps R (case r of Inl e \<Rightarrow> f e | Inr y \<Rightarrow> g y)"
  by (cases r) auto

lemma keeps_each: "(\<And>x. keeps R (f x)) \<Longrightarrow> keeps R (each f xs)"
  by (induction xs) (auto intro: keeps_ret keeps_bind)

lemma keeps_collect: "(\<And>x. keeps R (f x)) \<Longrightarrow> keeps R (collect f xs)"
  by (induction xs) (auto intro: keeps_ret keeps_bind)

lemmas keeps_rules = keeps_ret keeps_fail keeps_lift keeps_gets keeps_guard keeps_bind
  keeps_attempt keeps_if keeps_case_option keeps_case_sum keeps_each keeps_collect

end

section \<open>Machine integers\<close>

text \<open>
  i64 and i128 values are integers in range. Plain \<open>+\<close> wraps (a release build), the
  \<open>checked_\<close> operations return \<open>None\<close> outside the range, \<open>saturating_sub\<close> clamps.
\<close>

definition i64_min :: int where "i64_min = -9223372036854775808"
definition i64_max :: int where "i64_max = 9223372036854775807"

definition in_i64 :: "int \<Rightarrow> bool" where
  "in_i64 x \<longleftrightarrow> i64_min \<le> x \<and> x \<le> i64_max"

definition in_i128 :: "int \<Rightarrow> bool" where
  "in_i128 x \<longleftrightarrow> -170141183460469231731687303715884105728 \<le> x
     \<and> x \<le> 170141183460469231731687303715884105727"

definition i64_checked_add :: "int \<Rightarrow> int \<Rightarrow> int option" where
  "i64_checked_add a b = (if in_i64 (a + b) then Some (a + b) else None)"

definition i64_checked_sub :: "int \<Rightarrow> int \<Rightarrow> int option" where
  "i64_checked_sub a b = (if in_i64 (a - b) then Some (a - b) else None)"

definition i64_checked_mul :: "int \<Rightarrow> int \<Rightarrow> int option" where
  "i64_checked_mul a b = (if in_i64 (a * b) then Some (a * b) else None)"

definition i128_checked_mul :: "int \<Rightarrow> int \<Rightarrow> int option" where
  "i128_checked_mul a b = (if in_i128 (a * b) then Some (a * b) else None)"

definition i64_saturating_sub :: "int \<Rightarrow> int \<Rightarrow> int" where
  "i64_saturating_sub a b = max i64_min (min i64_max (a - b))"

definition i64_add :: "int \<Rightarrow> int \<Rightarrow> int" where
  "i64_add a b = (a + b + 9223372036854775808) mod 18446744073709551616 - 9223372036854775808"

definition i64_sub :: "int \<Rightarrow> int \<Rightarrow> int" where
  "i64_sub a b = i64_add a (- b)"

definition trunc_div :: "int \<Rightarrow> int \<Rightarrow> int" where
  "trunc_div a b = (if (a < 0) = (b < 0) then \<bar>a\<bar> div \<bar>b\<bar> else - (\<bar>a\<bar> div \<bar>b\<bar>))"

definition u64_max :: nat where "u64_max = 18446744073709551615"

definition u64_checked_add :: "nat \<Rightarrow> nat \<Rightarrow> nat option" where
  "u64_checked_add a b = (if a + b \<le> u64_max then Some (a + b) else None)"

definition u64_add :: "nat \<Rightarrow> nat \<Rightarrow> nat" where
  "u64_add a b = (a + b) mod 18446744073709551616"

definition u32_max :: nat where "u32_max = 4294967295"

lemma i64_add_exact: "in_i64 (a + b) \<Longrightarrow> i64_add a b = a + b"
  by (simp add: i64_add_def in_i64_def i64_min_def i64_max_def)

lemma i64_add_in_range: "in_i64 (i64_add a b)"
  by (simp add: i64_add_def in_i64_def i64_min_def i64_max_def)

lemma i64_checked_add_Some [simp]:
  "i64_checked_add a b = Some c \<longleftrightarrow> in_i64 (a + b) \<and> c = a + b"
  by (auto simp: i64_checked_add_def)

lemma i64_checked_sub_Some [simp]:
  "i64_checked_sub a b = Some c \<longleftrightarrow> in_i64 (a - b) \<and> c = a - b"
  by (auto simp: i64_checked_sub_def)

lemma i64_checked_mul_Some [simp]:
  "i64_checked_mul a b = Some c \<longleftrightarrow> in_i64 (a * b) \<and> c = a * b"
  by (auto simp: i64_checked_mul_def)

lemma trunc_div_nonneg: "0 \<le> a \<Longrightarrow> 0 < b \<Longrightarrow> trunc_div a b = a div b"
  by (simp add: trunc_div_def)

section \<open>Strings\<close>

text \<open>
  A Rust \<open>String\<close> is its UTF-8 bytes: a list of \<open>char\<close>, one byte each. \<open>len\<close> is
  \<open>length\<close>; \<open>chars\<close> decodes; the order on strings is the bytewise lexicographic one.
\<close>

definition byte :: "char \<Rightarrow> nat" where
  "byte c = of_char c"

definition cont :: "nat list \<Rightarrow> nat \<Rightarrow> nat" where
  "cont bs k = (if k < length bs then bs ! k mod 64 else 0)"

fun utf8_chars :: "nat list \<Rightarrow> nat list" where
  "utf8_chars [] = []"
| "utf8_chars (b # bs) =
     (if b < 128 then b # utf8_chars bs
      else if b < 224 then (b mod 32 * 64 + cont bs 0) # utf8_chars (drop 1 bs)
      else if b < 240 then
        (b mod 16 * 4096 + cont bs 0 * 64 + cont bs 1) # utf8_chars (drop 2 bs)
      else (b mod 8 * 262144 + cont bs 0 * 4096 + cont bs 1 * 64 + cont bs 2)
        # utf8_chars (drop 3 bs))"

definition chars :: "string \<Rightarrow> nat list" where
  "chars s = utf8_chars (map byte s)"

definition is_control :: "nat \<Rightarrow> bool" where
  "is_control c \<longleftrightarrow> c < 32 \<or> 127 \<le> c \<and> c < 160"

definition is_ascii_uppercase :: "char \<Rightarrow> bool" where
  "is_ascii_uppercase c \<longleftrightarrow> 65 \<le> byte c \<and> byte c \<le> 90"

definition is_ascii_lowercase :: "char \<Rightarrow> bool" where
  "is_ascii_lowercase c \<longleftrightarrow> 97 \<le> byte c \<and> byte c \<le> 122"

definition is_ascii_digit :: "char \<Rightarrow> bool" where
  "is_ascii_digit c \<longleftrightarrow> 48 \<le> byte c \<and> byte c \<le> 57"

definition is_ascii_hexdigit :: "char \<Rightarrow> bool" where
  "is_ascii_hexdigit c \<longleftrightarrow> is_ascii_digit c \<or> 65 \<le> byte c \<and> byte c \<le> 70
     \<or> 97 \<le> byte c \<and> byte c \<le> 102"

definition is_ascii_alphanumeric :: "char \<Rightarrow> bool" where
  "is_ascii_alphanumeric c \<longleftrightarrow> is_ascii_uppercase c \<or> is_ascii_lowercase c \<or> is_ascii_digit c"

definition lower_char :: "char \<Rightarrow> char" where
  "lower_char c = (if is_ascii_uppercase c then char_of (byte c + 32) else c)"

definition to_ascii_lowercase :: "string \<Rightarrow> string" where
  "to_ascii_lowercase s = map lower_char s"

definition eq_ignore_ascii_case :: "string \<Rightarrow> string \<Rightarrow> bool" where
  "eq_ignore_ascii_case a b \<longleftrightarrow> to_ascii_lowercase a = to_ascii_lowercase b"

definition trim_end_matches :: "char \<Rightarrow> string \<Rightarrow> string" where
  "trim_end_matches c s = rev (dropWhile (\<lambda>d. d = c) (rev s))"

fun contains_str :: "string \<Rightarrow> string \<Rightarrow> bool" where
  "contains_str p [] \<longleftrightarrow> p = []"
| "contains_str p (c # cs) \<longleftrightarrow> take (length p) (c # cs) = p \<or> contains_str p cs"

definition starts_with :: "string \<Rightarrow> string \<Rightarrow> bool" where
  "starts_with p s \<longleftrightarrow> take (length p) s = p"

definition ends_with :: "string \<Rightarrow> string \<Rightarrow> bool" where
  "ends_with p s \<longleftrightarrow> length p \<le> length s \<and> drop (length s - length p) s = p"

fun split_on :: "char \<Rightarrow> string \<Rightarrow> string list" where
  "split_on c [] = [[]]"
| "split_on c (d # ds) =
     (if d = c then [] # split_on c ds
      else (case split_on c ds of [] \<Rightarrow> [[d]] | p # ps \<Rightarrow> (d # p) # ps))"

fun join_with :: "string \<Rightarrow> string list \<Rightarrow> string" where
  "join_with sep [] = []"
| "join_with sep [x] = x"
| "join_with sep (x # y # xs) = x @ sep @ join_with sep (y # xs)"

definition digit_char :: "nat \<Rightarrow> char" where
  "digit_char n = char_of (48 + n)"

fun show_nat :: "nat \<Rightarrow> string" where
  "show_nat n = (if n < 10 then [digit_char n] else show_nat (n div 10) @ [digit_char (n mod 10)])"

declare show_nat.simps [simp del]

lemma trim_end_matches_last: "trim_end_matches c s \<noteq> [] \<Longrightarrow> last (trim_end_matches c s) \<noteq> c"
  unfolding trim_end_matches_def
  by (metis (mono_tags, lifting) hd_dropWhile last_rev rev.simps(1))

lemma trim_end_matches_id: "s = [] \<or> last s \<noteq> c \<Longrightarrow> trim_end_matches c s = s"
  unfolding trim_end_matches_def
  by (cases s rule: rev_cases) auto

lemma trim_end_matches_subset: "set (trim_end_matches c s) \<subseteq> set s"
  unfolding trim_end_matches_def by (auto dest: set_dropWhileD)

lemma split_on_nonempty [simp]: "split_on c s \<noteq> []"
  by (induction s) (auto split: list.splits)

lemma trunc_div_bounds:
  assumes "0 \<le> a" and "0 < b"
  shows "0 \<le> trunc_div a b" and "trunc_div a b \<le> a"
  using assms zdiv_mono2 [of a 1 b]
  by (simp_all add: trunc_div_nonneg pos_imp_zdiv_nonneg_iff)

end
