(* ===== verification/Ordered_Map.thy ===== *)
theory Ordered_Map
  imports Prelude
begin

text \<open>
  Rust's \<open>BTreeMap\<close> and \<open>BTreeSet\<close>: a map that iterates in key order. The type holds
  the entries as a list with strictly increasing keys, so order and uniqueness of keys are
  part of the type. The client side of the interface is the locale \<open>keyed_store\<close>.
\<close>

section \<open>Entries in key order\<close>

fun ins :: "'k::linorder \<Rightarrow> 'v \<Rightarrow> ('k \<times> 'v) list \<Rightarrow> ('k \<times> 'v) list" where
  "ins k v [] = [(k, v)]"
| "ins k v (e # es) =
     (if k = fst e then (k, v) # es
      else if k < fst e then (k, v) # e # es
      else e # ins k v es)"

definition del :: "'k \<Rightarrow> ('k \<times> 'v) list \<Rightarrow> ('k \<times> 'v) list" where
  "del k es = filter (\<lambda>e. fst e \<noteq> k) es"

definition increasing :: "('k::linorder \<times> 'v) list \<Rightarrow> bool" where
  "increasing es \<longleftrightarrow> sorted_wrt (<) (map fst es)"

lemma set_ins_fst: "fst ` set (ins k v es) = insert k (fst ` set es)"
  by (induction es) auto

lemma increasing_ins: "increasing es \<Longrightarrow> increasing (ins k v es)"
  unfolding increasing_def
proof (induction es)
  case (Cons e es)
  have "set (map fst (ins k v es)) = insert k (set (map fst es))"
    using set_ins_fst [of k v es] by simp
  with Cons show ?case by auto
qed simp

lemma increasing_del: "increasing es \<Longrightarrow> increasing (del k es)"
  unfolding increasing_def del_def by (induction es) auto

lemma increasing_distinct: "increasing es \<Longrightarrow> distinct (map fst es)"
  by (simp add: increasing_def strict_sorted_iff)

lemma map_of_ins: "increasing es \<Longrightarrow> map_of (ins k v es) = (map_of es)(k \<mapsto> v)"
  unfolding increasing_def by (induction es) (auto simp: fun_eq_iff)

lemma map_of_del: "map_of (del k es) = (map_of es)(k := None)"
  unfolding del_def by (induction es) (auto simp: fun_eq_iff)

lemma sum_list_ins:
  fixes f :: "'v \<Rightarrow> 'n::ab_group_add"
  assumes "increasing es"
  shows "sum_list (map (\<lambda>e. f (snd e)) (ins k v es)) =
    sum_list (map (\<lambda>e. f (snd e)) es) - (case map_of es k of None \<Rightarrow> 0 | Some u \<Rightarrow> f u) + f v"
  using assms unfolding increasing_def
proof (induction es)
  case (Cons e es)
  show ?case
  proof (cases "k < fst e")
    case True
    with Cons.prems have "map_of es k = None"
      by (force simp: map_of_eq_None_iff)
    with True show ?thesis by (cases e) (auto simp: algebra_simps)
  next
    case False
    with Cons show ?thesis by (cases e) (auto simp: algebra_simps)
  qed
qed simp

section \<open>The map type\<close>

typedef (overloaded) ('k::linorder, 'v) bmap = "{es :: ('k \<times> 'v) list. increasing es}"
  morphisms items Abs_bmap
proof
  show "[] \<in> {es :: ('k \<times> 'v) list. increasing es}" by (simp add: increasing_def)
qed

setup_lifting type_definition_bmap

lift_definition bempty :: "('k::linorder, 'v) bmap" is "[]"
  by (simp add: increasing_def)

lift_definition bput :: "'k::linorder \<Rightarrow> 'v \<Rightarrow> ('k, 'v) bmap \<Rightarrow> ('k, 'v) bmap" is ins
  by (rule increasing_ins)

lift_definition bdel :: "'k::linorder \<Rightarrow> ('k, 'v) bmap \<Rightarrow> ('k, 'v) bmap" is del
  by (rule increasing_del)

definition bget :: "('k::linorder, 'v) bmap \<Rightarrow> 'k \<Rightarrow> 'v option" where
  "bget m k = map_of (items m) k"

definition bkeys :: "('k::linorder, 'v) bmap \<Rightarrow> 'k list" where
  "bkeys m = map fst (items m)"

definition bvals :: "('k::linorder, 'v) bmap \<Rightarrow> 'v list" where
  "bvals m = map snd (items m)"

definition bsize :: "('k::linorder, 'v) bmap \<Rightarrow> nat" where
  "bsize m = length (items m)"

lift_definition bmap_vals :: "('v \<Rightarrow> 'w) \<Rightarrow> ('k::linorder, 'v) bmap \<Rightarrow> ('k, 'w) bmap"
  is "\<lambda>f. map (\<lambda>e. (fst e, f (snd e)))"
  by (simp add: increasing_def comp_def)

lift_definition bfilter :: "('k \<Rightarrow> 'v \<Rightarrow> bool) \<Rightarrow> ('k::linorder, 'v) bmap \<Rightarrow> ('k, 'v) bmap"
  is "\<lambda>P. filter (\<lambda>e. P (fst e) (snd e))"
  unfolding increasing_def by (simp add: sorted_wrt_filter sorted_wrt_map)

instantiation bmap :: (linorder, equal) equal
begin

definition "HOL.equal m n \<longleftrightarrow> items m = items n"

instance by standard (simp add: equal_bmap_def items_inject)

end

instantiation bmap :: (linorder, type) size
begin

definition size_bmap :: "('a, 'b) bmap \<Rightarrow> nat" where "size_bmap = bsize"

instance ..

end

lemma items_rep [simp]:
  "items bempty = []"
  "items (bput k v m) = ins k v (items m)"
  "items (bdel k m) = del k (items m)"
  "items (bmap_vals f m) = map (\<lambda>e. (fst e, f (snd e))) (items m)"
  "items (bfilter P m) = filter (\<lambda>e. P (fst e) (snd e)) (items m)"
  by (simp_all add: bempty.rep_eq bput.rep_eq bdel.rep_eq bmap_vals.rep_eq bfilter.rep_eq)

lemma increasing_items [simp]: "increasing (items m)"
  using items [of m] by simp

lemma distinct_items [simp]: "distinct (map fst (items m))"
  by (rule increasing_distinct) simp

lemma bget_bempty [simp]: "bget bempty k = None"
  by (simp add: bget_def)

lemma bget_bput [simp]: "bget (bput k v m) j = (if j = k then Some v else bget m j)"
  by (simp add: bget_def map_of_ins)

lemma bget_bdel [simp]: "bget (bdel k m) j = (if j = k then None else bget m j)"
  by (simp add: bget_def map_of_del)

lemma bget_bmap_vals [simp]: "bget (bmap_vals f m) k = map_option f (bget m k)"
proof -
  have "map_of (map (\<lambda>e. (fst e, f (snd e))) es) k = map_option f (map_of es k)" for es
    by (induction es) auto
  then show ?thesis by (simp add: bget_def)
qed

lemma bget_items: "bget m k = Some v \<longleftrightarrow> (k, v) \<in> set (items m)"
  by (simp add: bget_def)

lemma bget_bfilter [simp]:
  "bget (bfilter P m) k = (case bget m k of None \<Rightarrow> None | Some v \<Rightarrow> if P k v then Some v else None)"
proof -
  have "map_of (filter (\<lambda>e. P (fst e) (snd e)) es) k =
      (case map_of es k of None \<Rightarrow> None | Some v \<Rightarrow> if P k v then Some v else None)"
    if "distinct (map fst es)" for es
    using that
  proof (induction es)
    case (Cons e es)
    have "map_of es (fst e) = None" using Cons.prems by (simp add: map_of_eq_None_iff)
    with Cons show ?case by (cases e) auto
  qed simp
  from this [OF distinct_items] show ?thesis by (simp add: bget_def)
qed

lemma bsize_bfilter: "bsize (bfilter P m) \<le> bsize m"
  by (simp add: bsize_def)

lemma set_bvals: "v \<in> set (bvals m) \<longleftrightarrow> (\<exists>k. bget m k = Some v)"
  by (force simp: bvals_def bget_items)

lemma set_bkeys: "k \<in> set (bkeys m) \<longleftrightarrow> bget m k \<noteq> None"
  unfolding bkeys_def bget_def by (simp add: map_of_eq_None_iff)

lemma bvals_bempty [simp]: "bvals bempty = []"
  by (simp add: bvals_def)

lemma bsize_bempty [simp]: "bsize bempty = 0"
  by (simp add: bsize_def)

lemma bget_in_bvals: "bget m k = Some v \<Longrightarrow> v \<in> set (bvals m)"
  by (auto simp: set_bvals)

lemma bkeys_sorted: "sorted_wrt (<) (bkeys m)"
  using increasing_items [of m] by (simp add: increasing_def bkeys_def)

lemma length_bvals [simp]: "length (bvals m) = bsize m"
  by (simp add: bvals_def bsize_def)

lemma length_bkeys [simp]: "length (bkeys m) = bsize m"
  by (simp add: bkeys_def bsize_def)

text \<open>Sums over the values: an insertion replaces the old value's share by the new one's.\<close>

lemma sum_bvals_bput:
  fixes f :: "'v \<Rightarrow> int"
  shows "sum_list (map f (bvals (bput k v m))) =
    sum_list (map f (bvals m)) - (case bget m k of None \<Rightarrow> 0 | Some u \<Rightarrow> f u) + f v"
  using sum_list_ins [OF increasing_items, of f k v m]
  by (simp add: bvals_def bget_def comp_def)

lemma bsize_bput: "bsize (bput k v m) = bsize m + (if bget m k = None then 1 else 0)"
proof -
  have "int (bsize n) = sum_list (map (\<lambda>_. 1) (bvals n))" for n :: "('a, 'b) bmap"
    by (simp add: sum_list_triv)
  then have "int (bsize (bput k v m)) = int (bsize m) + (if bget m k = None then 1 else 0)"
    using sum_bvals_bput [of "\<lambda>_. 1" k v m] by (auto split: option.splits)
  then show ?thesis by (auto split: if_splits)
qed

lemma bmap_eqI:
  assumes "\<And>k. bget m k = bget n k"
  shows "m = n"
proof -
  have "map_of (items m) = map_of (items n)"
    using assms by (simp add: bget_def fun_eq_iff)
  then have set_eq: "set (items m) = set (items n)"
    by (metis distinct_items map_of_inject_set)
  have srt: "sorted (map fst (items x)) \<and> distinct (map fst (items x))" for x :: "('a, 'b) bmap"
    using bkeys_sorted [of x] by (simp add: bkeys_def strict_sorted_iff)
  have "inj_on fst (set (items m) \<union> set (items n))"
    using set_eq distinct_items [of m] by (simp add: distinct_map)
  then have "items m = items n"
    using srt [of m] srt [of n] set_eq map_sorted_distinct_set_unique by blast
  then show ?thesis by (simp add: items_inject)
qed

section \<open>Sets\<close>

type_synonym 'k bset = "('k, unit) bmap"

definition bs_mem :: "'k::linorder \<Rightarrow> 'k bset \<Rightarrow> bool" where
  "bs_mem k m \<longleftrightarrow> bget m k \<noteq> None"

definition bs_insert :: "'k::linorder \<Rightarrow> 'k bset \<Rightarrow> 'k bset" where
  "bs_insert k m = bput k () m"

definition bs_of_list :: "'k::linorder list \<Rightarrow> 'k bset" where
  "bs_of_list xs = fold bs_insert xs bempty"

lemma bs_mem_simps [simp]:
  "bs_mem k bempty = False"
  "bs_mem k (bs_insert j m) = (k = j \<or> bs_mem k m)"
  by (simp_all add: bs_mem_def bs_insert_def)

lemma bs_mem_keys: "k \<in> set (bkeys m) \<longleftrightarrow> bs_mem k m"
  by (simp add: bs_mem_def set_bkeys)

section \<open>The interface: a store of records under their own key\<close>

text \<open>
  The treasury keeps agents, policies and intents in maps under the key that the record
  itself carries. The laws are what \<open>BTreeMap\<close> promises; the client facts are about
  stores whose entries sit under their own key.
\<close>

locale keyed_store =
  fixes get :: "'m \<Rightarrow> 'k \<Rightarrow> 'v option"
    and put :: "'k \<Rightarrow> 'v \<Rightarrow> 'm \<Rightarrow> 'm"
    and vals :: "'m \<Rightarrow> 'v list"
  assumes get_put: "get (put k v m) j = (if j = k then Some v else get m j)"
    and vals_get: "v \<in> set (vals m) \<longleftrightarrow> (\<exists>k. get m k = Some v)"
begin

definition well_keyed :: "('v \<Rightarrow> 'k) \<Rightarrow> 'm \<Rightarrow> bool" where
  "well_keyed key m \<longleftrightarrow> (\<forall>k v. get m k = Some v \<longrightarrow> key v = k)"

lemma well_keyedD: "well_keyed key m \<Longrightarrow> get m k = Some v \<Longrightarrow> key v = k"
  by (simp add: well_keyed_def)

lemma well_keyed_put: "well_keyed key m \<Longrightarrow> key v = k \<Longrightarrow> well_keyed key (put k v m)"
  by (auto simp: well_keyed_def get_put)

lemma well_keyed_vals: "well_keyed key m \<Longrightarrow> v \<in> set (vals m) \<Longrightarrow> get m (key v) = Some v"
  by (auto simp: well_keyed_def vals_get)

lemma all_vals_put:
  "\<forall>v \<in> set (vals m). P v \<Longrightarrow> P w \<Longrightarrow> \<forall>v \<in> set (vals (put k w m)). P v"
  by (auto simp: vals_get get_put split: if_splits)

end

interpretation bm: keyed_store bget bput bvals
  by unfold_locales (simp_all add: set_bvals)

end
