(* ===== verification/Base.thy ===== *)
theory Base
  imports Ordered_Map
begin

text \<open>
  What every component of \<open>crates/domain/src/lib.rs\<close> uses: the error type, JSON values,
  the environment of third-party functions, the world an operation runs in (state, clock,
  randomness, file system), tokens, hashes, bounded strings and redaction.
\<close>

section \<open>Errors\<close>

text \<open>
  \<open>TreasuryError\<close>, and \<open>Panic\<close> for an \<open>expect\<close> or a slice out of range, which unwinds
  instead of returning: no handler of the source catches it.
\<close>

datatype treasury_error =
    Invalid string | Unauthorized | Forbidden string | NotFound string | Conflict string
  | MoneyError string | Serialization string | Io string | Panic string

type_synonym 'a res = "treasury_error + 'a"

primrec error_text :: "treasury_error \<Rightarrow> string" where
  "error_text (Invalid m) = ''invalid input: '' @ m"
| "error_text Unauthorized = ''unauthorized''"
| "error_text (Forbidden m) = ''forbidden: '' @ m"
| "error_text (NotFound m) = ''not found: '' @ m"
| "error_text (Conflict m) = ''conflict: '' @ m"
| "error_text (MoneyError m) = ''money error: '' @ m"
| "error_text (Serialization m) = ''serialization error: '' @ m"
| "error_text (Io m) = ''I/O error: '' @ m"
| "error_text (Panic m) = m"

definition is_panic :: "treasury_error \<Rightarrow> bool" where
  "is_panic e = (case e of Panic _ \<Rightarrow> True | _ \<Rightarrow> False)"

lemma is_panic_simps [simp]:
  "is_panic (Invalid m) = False" "is_panic Unauthorized = False" "is_panic (Forbidden m) = False"
  "is_panic (NotFound m) = False" "is_panic (Conflict m) = False"
  "is_panic (MoneyError m) = False" "is_panic (Serialization m) = False"
  "is_panic (Io m) = False" "is_panic (Panic m) = True"
  by (simp_all add: is_panic_def)

section \<open>JSON values\<close>

datatype json =
    JNull | JBool bool | JInt int | JStr string | JArr "json list" | JObj "(string \<times> json) list"

definition j_opt_str :: "string option \<Rightarrow> json" where
  "j_opt_str x = (case x of None \<Rightarrow> JNull | Some s \<Rightarrow> JStr s)"

definition j_opt_int :: "int option \<Rightarrow> json" where
  "j_opt_int x = (case x of None \<Rightarrow> JNull | Some i \<Rightarrow> JInt i)"

definition j_opt_nat :: "nat option \<Rightarrow> json" where
  "j_opt_nat x = (case x of None \<Rightarrow> JNull | Some i \<Rightarrow> JInt (int i))"

definition j_strs :: "string list \<Rightarrow> json" where
  "j_strs xs = JArr (map JStr xs)"

definition j_field :: "string \<Rightarrow> json \<Rightarrow> json" where
  "j_field k v = (case v of JObj fs \<Rightarrow> (case map_of fs k of None \<Rightarrow> JNull | Some x \<Rightarrow> x) | _ \<Rightarrow> JNull)"

definition j_as_str :: "json \<Rightarrow> string option" where
  "j_as_str v = (case v of JStr s \<Rightarrow> Some s | _ \<Rightarrow> None)"

definition j_set :: "string \<Rightarrow> json \<Rightarrow> json \<Rightarrow> json" where
  "j_set k x v = (case v of JObj fs \<Rightarrow> JObj (filter (\<lambda>f. fst f \<noteq> k) fs @ [(k, x)]) | _ \<Rightarrow> v)"

section \<open>The environment\<close>

text \<open>The targets the program is built for.\<close>

datatype target = Linux | MacOS | OtherUnix

text \<open>
  Third-party code the source calls: hex, SHA-256, HMAC, JSON text, URL parsing, IDNA and
  regular-expression replacement. Each is a parameter; nothing is assumed of them here.
\<close>

record url =
  u_scheme :: string
  u_username :: string
  u_password :: "string option"
  u_host :: "string option"
  u_port :: "nat option"
  u_path :: string
  u_query :: "string option"
  u_fragment :: "string option"

record env =
  hex_encode :: "string \<Rightarrow> string"
  sha256 :: "string \<Rightarrow> string"
  hmac_sha256 :: "string \<Rightarrow> string \<Rightarrow> string"
  json_text :: "json \<Rightarrow> string"
  url_parse :: "string \<Rightarrow> url option"
  url_set_host :: "url \<Rightarrow> string \<Rightarrow> url option"
  url_text :: "url \<Rightarrow> string"
  domain_to_ascii :: "string \<Rightarrow> string option"
  replace_all :: "string \<Rightarrow> string \<Rightarrow> string \<Rightarrow> string"

section \<open>The world\<close>

text \<open>
  An operation runs over \<open>self.state\<close> and the audit key, and reads the clock, draws
  random bytes and touches the file system. The \<open>i\<close>-th reading of the clock, the \<open>i\<close>-th
  draw and the outcome of the \<open>i\<close>-th file-system call (\<open>None\<close>: it succeeds; otherwise the
  error and the number of bytes transferred before it) are given by oracles, so two calls of
  \<open>now()\<close> in one operation may differ, as they may in the program. The disk is the data
  directory with the files in it.
\<close>

datatype file_kind = RegularFile | SymbolicLink | DirectoryNode

record file_node =
  fn_kind :: file_kind
  fn_mode :: nat
  fn_bytes :: string

record disk =
  d_path :: string
  d_dir :: "file_node option"
  d_files :: "(string, file_node) bmap"

record 's world =
  w_state :: 's
  w_key :: string
  w_clock :: "nat \<Rightarrow> int"
  w_reads :: nat
  w_rand :: "nat \<Rightarrow> nat \<Rightarrow> string"
  w_draws :: nat
  w_disk :: disk
  w_io :: "nat \<Rightarrow> (string \<times> nat) option"
  w_ios :: nat

type_synonym ('s, 'a) op = "('s world, treasury_error, 'a) action"

definition now :: "('s, int) op" where
  "now = (\<lambda>w. (Inr (w_clock w (w_reads w)), w\<lparr>w_reads := Suc (w_reads w)\<rparr>))"

definition random_hex :: "env \<Rightarrow> nat \<Rightarrow> ('s, string) op" where
  "random_hex E n =
     (\<lambda>w. (Inr (hex_encode E (w_rand w (w_draws w) n)), w\<lparr>w_draws := Suc (w_draws w)\<rparr>))"

definition new_id :: "env \<Rightarrow> string \<Rightarrow> ('s, string) op" where
  "new_id E prefix = bind (random_hex E 12) (\<lambda>r. ret (prefix @ ''_'' @ r))"

definition new_token :: "env \<Rightarrow> ('s, string) op" where
  "new_token E = random_hex E 32"

definition get_state :: "('s, 's) op" where
  "get_state = gets w_state"

definition put_state :: "'s \<Rightarrow> ('s, unit) op" where
  "put_state s = modify (\<lambda>w. w\<lparr>w_state := s\<rparr>)"

definition update_state :: "('s \<Rightarrow> 's) \<Rightarrow> ('s, unit) op" where
  "update_state f = modify (\<lambda>w. w\<lparr>w_state := f (w_state w)\<rparr>)"

lemma wp_now [wp_simps]:
  "wp now Q R w = Q (w_clock w (w_reads w)) (w\<lparr>w_reads := Suc (w_reads w)\<rparr>)"
  by (simp add: wp_def now_def)

lemma wp_random [wp_simps]:
  "wp (random_hex E n) Q R w =
     Q (hex_encode E (w_rand w (w_draws w) n)) (w\<lparr>w_draws := Suc (w_draws w)\<rparr>)"
  "wp (new_id E p) Q R w =
     Q (p @ ''_'' @ hex_encode E (w_rand w (w_draws w) 12)) (w\<lparr>w_draws := Suc (w_draws w)\<rparr>)"
  "wp (new_token E) Q R w =
     Q (hex_encode E (w_rand w (w_draws w) 32)) (w\<lparr>w_draws := Suc (w_draws w)\<rparr>)"
  by (simp_all add: wp_def random_hex_def new_id_def new_token_def action_defs)

lemma wp_get_state [wp_simps]: "wp get_state Q R w = Q (w_state w) w"
  by (simp add: wp_def get_state_def gets_def)

lemma wp_put_state [wp_simps]:
  "wp (put_state s) Q R w = Q () (w\<lparr>w_state := s\<rparr>)"
  "wp (update_state f) Q R w = Q () (w\<lparr>w_state := f (w_state w)\<rparr>)"
  by (simp_all add: wp_def put_state_def update_state_def modify_def)

lemma run_world [simp]:
  "now w = (Inr (w_clock w (w_reads w)), w\<lparr>w_reads := Suc (w_reads w)\<rparr>)"
  "random_hex E n w =
     (Inr (hex_encode E (w_rand w (w_draws w) n)), w\<lparr>w_draws := Suc (w_draws w)\<rparr>)"
  "new_id E p w =
     (Inr (p @ ''_'' @ hex_encode E (w_rand w (w_draws w) 12)), w\<lparr>w_draws := Suc (w_draws w)\<rparr>)"
  "new_token E w =
     (Inr (hex_encode E (w_rand w (w_draws w) 32)), w\<lparr>w_draws := Suc (w_draws w)\<rparr>)"
  "get_state w = (Inr (w_state w), w)"
  "put_state s w = (Inr (), w\<lparr>w_state := s\<rparr>)"
  "update_state f w = (Inr (), w\<lparr>w_state := f (w_state w)\<rparr>)"
  by (simp_all add: now_def random_hex_def new_id_def new_token_def get_state_def
      put_state_def update_state_def action_defs)

text \<open>
  What a pure query leaves unchanged: everything but the oracle positions, which only grow.
\<close>

definition same_state :: "'s world \<Rightarrow> 's world \<Rightarrow> bool" where
  "same_state v w \<longleftrightarrow> w_state w = w_state v \<and> w_key w = w_key v \<and> w_disk w = w_disk v
     \<and> w_clock w = w_clock v \<and> w_rand w = w_rand v \<and> w_io w = w_io v \<and> w_draws v \<le> w_draws w"

interpretation same: step_relation "same_state :: 's world \<Rightarrow> 's world \<Rightarrow> bool"
  by unfold_locales (simp_all add: same_state_def)

lemma keeps_same_basic:
  "keeps same_state now"
  "keeps same_state (random_hex E n)"
  "keeps same_state (new_id E p)"
  "keeps same_state (new_token E)"
  "keeps same_state get_state"
  by (simp_all add: keeps_def same_state_def)

lemmas keeps_same = same.keeps_rules keeps_same_basic

section \<open>Tokens, hashes and bounded strings\<close>

definition validate_capability_token :: "string \<Rightarrow> unit res" where
  "validate_capability_token token =
     (if length token \<noteq> 64 \<or> \<not> list_all is_ascii_hexdigit token
      then Inl (Invalid ''prepared capability token must contain exactly 64 hexadecimal characters'')
      else Inr ())"

definition token_hash :: "env \<Rightarrow> string \<Rightarrow> string" where
  "token_hash E token =
     hex_encode E (sha256 E (''cixa capability token v1'' @ [CHR 0x00] @ token))"

definition capability_fingerprint :: "env \<Rightarrow> string \<Rightarrow> string" where
  "capability_fingerprint E token = token_hash E token"

definition hmac_hash :: "env \<Rightarrow> string \<Rightarrow> json \<Rightarrow> string" where
  "hmac_hash E key v = hex_encode E (hmac_sha256 E key (json_text E v))"

definition hmac_bytes :: "env \<Rightarrow> string \<Rightarrow> string \<Rightarrow> string" where
  "hmac_bytes E key v = hex_encode E (hmac_sha256 E key v)"

definition bounded :: "string \<Rightarrow> string \<Rightarrow> nat \<Rightarrow> unit res" where
  "bounded value field mx =
     (if value = [] \<or> mx < length (chars value)
      then Inl (Invalid (field @ '' must contain 1..'' @ show_nat mx @ '' characters''))
      else if list_ex is_control (chars value)
      then Inl (Invalid (field @ '' contains a control character''))
      else Inr ())"

definition bounded_bytes :: "string \<Rightarrow> string \<Rightarrow> nat \<Rightarrow> unit res" where
  "bounded_bytes value field mx =
     (if value = [] \<or> mx < length value
      then Inl (Invalid (field @ '' must contain 1..'' @ show_nat mx @ '' bytes''))
      else Inr ())"

lemma bounded_Inr_iff:
  "bounded value field mx = Inr u \<longleftrightarrow>
     value \<noteq> [] \<and> length (chars value) \<le> mx \<and> list_all (\<lambda>c. \<not> is_control c) (chars value)"
  by (auto simp: bounded_def list_all_iff list_ex_iff not_less)

lemma bounded_bytes_Inr_iff:
  "bounded_bytes value field mx = Inr u \<longleftrightarrow> value \<noteq> [] \<and> length value \<le> mx"
  by (auto simp: bounded_bytes_def not_less)

text \<open>\<open>constant_time_eq\<close>: bytes are XORed and the differences ORed together.\<close>

definition xor8 :: "nat \<Rightarrow> nat \<Rightarrow> nat" where
  "xor8 a b = Bit_Operations.xor a b"

definition or8 :: "nat \<Rightarrow> nat \<Rightarrow> nat" where
  "or8 a b = Bit_Operations.or a b"

definition constant_time_eq :: "string \<Rightarrow> string \<Rightarrow> bool" where
  "constant_time_eq left right =
     (if length left \<noteq> length right then False
      else foldl (\<lambda>difference (a, b). or8 difference (xor8 (byte a) (byte b))) 0 (zip left right) = 0)"

lemma or8_zero: "or8 a b = 0 \<longleftrightarrow> a = 0 \<and> b = 0"
  by (auto simp: or8_def bit_eq_iff bit_or_iff)

lemma xor8_zero: "xor8 a b = 0 \<longleftrightarrow> a = b"
  by (auto simp: xor8_def bit_eq_iff bit_xor_iff)

lemma byte_inject [simp]: "byte a = byte b \<longleftrightarrow> a = b"
  by (simp add: byte_def)

lemma foldl_diff_zero:
  "foldl (\<lambda>d (a, b). or8 d (xor8 (byte a) (byte b))) d0 ps = 0
     \<longleftrightarrow> d0 = 0 \<and> (\<forall>(a, b) \<in> set ps. a = b)"
  by (induction ps arbitrary: d0) (auto simp: or8_zero xor8_zero)

lemma constant_time_eq_iff: "constant_time_eq l r \<longleftrightarrow> l = r"
proof (cases "length l = length r")
  case True
  then have "(\<forall>(a, b) \<in> set (zip l r). a = b) \<longleftrightarrow> l = r"
    by (induction l r rule: list_induct2) auto
  with True show ?thesis by (simp add: constant_time_eq_def foldl_diff_zero)
qed (auto simp: constant_time_eq_def)

section \<open>Redaction\<close>

definition pan_pattern :: string where
  "pan_pattern = [CHR 0x5C] @ ''b(?:[0-9][ -]?){12,18}[0-9]'' @ [CHR 0x5C] @ ''b''"

definition cvv_pattern :: string where
  "cvv_pattern = ''(?i)'' @ [CHR 0x5C]
     @ ''b(cvv2?|cvc2?|security[ _-]?code)([[:space:]]*[:=]?[[:space:]]*)[0-9]{3,4}''
     @ [CHR 0x5C] @ ''b''"

definition redact_sensitive :: "env \<Rightarrow> string \<Rightarrow> string" where
  "redact_sensitive E input =
     replace_all E cvv_pattern ''$1$2[REDACTED_CVV]'' (replace_all E pan_pattern ''[REDACTED_PAN]'' input)"

fun redact_json_value :: "env \<Rightarrow> json \<Rightarrow> json" where
  "redact_json_value E (JStr s) = JStr (redact_sensitive E s)"
| "redact_json_value E (JArr vs) = JArr (map (redact_json_value E) vs)"
| "redact_json_value E (JObj fs) = JObj (map (\<lambda>f. (fst f, redact_json_value E (snd f))) fs)"
| "redact_json_value E v = v"

definition validate_provider_reference :: "env \<Rightarrow> string \<Rightarrow> string res" where
  "validate_provider_reference E input =
     rbind (bounded input ''provider_reference'' 128) (\<lambda>_.
     if redact_sensitive E input \<noteq> input
     then Inl (Invalid ''provider reference appears to contain payment data'')
     else if \<not> list_all (\<lambda>c. is_ascii_alphanumeric c \<or> c \<in> {CHR ''_'', CHR ''-'', CHR ''.''}) input
     then Inl (Invalid ''provider reference contains unsupported characters'')
     else Inr input)"

definition sanitize_provider_reference :: "env \<Rightarrow> string \<Rightarrow> string" where
  "sanitize_provider_reference E input =
     (case validate_provider_reference E input of
        Inr r \<Rightarrow> r
      | Inl _ \<Rightarrow> ''provider_ref_'' @ take 24 (hex_encode E (sha256 E input)))"

definition opaque_reference :: "env \<Rightarrow> string \<Rightarrow> string \<Rightarrow> string" where
  "opaque_reference E kind input =
     kind @ ''_ref_'' @ take 32 (hex_encode E (sha256 E
       (''cixa '' @ kind @ '' reference v1'' @ [CHR 0x00] @ input)))"

lemma validate_provider_reference_Inr:
  "validate_provider_reference E x = Inr r \<Longrightarrow> r = x"
  by (auto simp: validate_provider_reference_def rbind_Inr_iff split: if_splits)

end
