(* ===== verification/Money.thy ===== *)
theory Money
  imports Base
begin

text \<open>\<open>Money\<close>: an amount of minor units in one currency, with checked arithmetic.\<close>

record money =
  minor :: int
  currency :: string

definition money_json :: "money \<Rightarrow> json" where
  "money_json m = JObj [(''minor'', JInt (minor m)), (''currency'', JStr (currency m))]"

definition money_new :: "int \<Rightarrow> string \<Rightarrow> money res" where
  "money_new m cur =
     (if length cur \<noteq> 3 \<or> \<not> list_all is_ascii_uppercase cur
      then Inl (MoneyError ''currency must be an uppercase ISO 4217 code'')
      else Inr \<lparr>minor = m, currency = cur\<rparr>)"

definition money_positive :: "int \<Rightarrow> string \<Rightarrow> money res" where
  "money_positive m cur =
     rbind (money_new m cur) (\<lambda>money.
     if minor money \<le> 0 then Inl (MoneyError ''amount must be positive'') else Inr money)"

definition money_zero :: "string \<Rightarrow> money res" where
  "money_zero cur = money_new 0 cur"

definition same_currency :: "money \<Rightarrow> money \<Rightarrow> unit res" where
  "same_currency a b =
     (if currency a \<noteq> currency b
      then Inl (MoneyError (''currency mismatch: '' @ currency a @ '' and '' @ currency b))
      else Inr ())"

definition checked_add :: "money \<Rightarrow> money \<Rightarrow> money res" where
  "checked_add a b =
     rbind (same_currency a b) (\<lambda>_.
     rbind (ok_or (MoneyError ''minor-unit overflow'') (i64_checked_add (minor a) (minor b))) (\<lambda>m.
     Inr \<lparr>minor = m, currency = currency a\<rparr>))"

definition checked_sub :: "money \<Rightarrow> money \<Rightarrow> money res" where
  "checked_sub a b =
     rbind (same_currency a b) (\<lambda>_.
     rbind (ok_or (MoneyError ''minor-unit underflow'') (i64_checked_sub (minor a) (minor b))) (\<lambda>m.
     Inr \<lparr>minor = m, currency = currency a\<rparr>))"

definition scaled_basis_points :: "money \<Rightarrow> nat \<Rightarrow> money res" where
  "scaled_basis_points a basis_points =
     (if 10000 < basis_points
      then Inl (MoneyError ''basis points must be between 0 and 10000'')
      else rbind (ok_or (MoneyError ''basis-point multiplication overflow'')
             (i128_checked_mul (minor a) (int basis_points))) (\<lambda>product.
           let scaled = trunc_div product 10000 in
           if \<not> in_i64 scaled then Inl (MoneyError ''scaled minor-unit overflow'')
           else Inr \<lparr>minor = scaled, currency = currency a\<rparr>))"

definition remaining_money :: "money \<Rightarrow> money \<Rightarrow> money res" where
  "remaining_money limit used =
     rbind (same_currency limit used) (\<lambda>_.
     money_new (max (i64_saturating_sub (minor limit) (minor used)) 0) (currency limit))"

section \<open>Lemmas\<close>

definition money_ok :: "money \<Rightarrow> bool" where
  "money_ok m \<longleftrightarrow> in_i64 (minor m)"

definition iso_code :: "string \<Rightarrow> bool" where
  "iso_code cur \<longleftrightarrow> length cur = 3 \<and> list_all is_ascii_uppercase cur"

lemma money_new_Inr [simp]:
  "money_new m cur = Inr x \<longleftrightarrow> iso_code cur \<and> x = \<lparr>minor = m, currency = cur\<rparr>"
  by (auto simp: money_new_def iso_code_def)

lemma money_zero_Inr [simp]:
  "money_zero cur = Inr x \<longleftrightarrow> iso_code cur \<and> x = \<lparr>minor = 0, currency = cur\<rparr>"
  by (auto simp: money_zero_def)

lemma money_positive_Inr [simp]:
  "money_positive m cur = Inr x \<longleftrightarrow> iso_code cur \<and> 0 < m \<and> x = \<lparr>minor = m, currency = cur\<rparr>"
  by (auto simp: money_positive_def rbind_Inr_iff)

lemma same_currency_Inr [simp]: "same_currency a b = Inr u \<longleftrightarrow> currency a = currency b"
  by (simp add: same_currency_def)

lemma checked_add_Inr:
  "checked_add a b = Inr c \<longleftrightarrow>
     currency a = currency b \<and> in_i64 (minor a + minor b)
     \<and> c = \<lparr>minor = minor a + minor b, currency = currency a\<rparr>"
  by (auto simp: checked_add_def rbind_Inr_iff)

lemma checked_sub_Inr:
  "checked_sub a b = Inr c \<longleftrightarrow>
     currency a = currency b \<and> in_i64 (minor a - minor b)
     \<and> c = \<lparr>minor = minor a - minor b, currency = currency a\<rparr>"
  by (auto simp: checked_sub_def rbind_Inr_iff)

lemmas checked_Inr = checked_add_Inr checked_sub_Inr

lemma i128_product_fits: "in_i64 m \<Longrightarrow> bps \<le> 10000 \<Longrightarrow> in_i128 (m * int bps)"
proof -
  assume m: "in_i64 m" and b: "bps \<le> 10000"
  have "\<bar>m * int bps\<bar> = \<bar>m\<bar> * int bps" by (simp add: abs_mult)
  also have "\<dots> \<le> 9223372036854775808 * 10000"
    using m b by (intro mult_mono) (auto simp: in_i64_def i64_min_def i64_max_def)
  finally show ?thesis by (auto simp: in_i128_def abs_le_iff)
qed

end
