(* ===== verification/Net.thy ===== *)
theory Net
  imports Base "HOL-Library.Word"
begin

text \<open>
  Merchant domains, IP literals and checkout URLs: \<open>canonicalize_domain\<close>,
  \<open>validate_resolved_ip\<close>, \<open>is_non_public_ip\<close>, \<open>validate_https_url\<close> and
  \<open>normalize_https_url\<close>. The standard library's IP address parser is modelled too; URL
  parsing and IDNA are parameters of the environment.
\<close>

unbundle bit_operations_syntax

section \<open>IP addresses\<close>

datatype ip_addr =
    V4 "8 word" "8 word" "8 word" "8 word"
  | V6 "16 word" "16 word" "16 word" "16 word" "16 word" "16 word" "16 word" "16 word"

definition non_public_v4 :: "8 word \<Rightarrow> 8 word \<Rightarrow> 8 word \<Rightarrow> bool" where
  "non_public_v4 a b c \<longleftrightarrow>
     a = 0
     \<or> a = 10
     \<or> a = 100 \<and> 64 \<le> b \<and> b \<le> 127
     \<or> a = 127
     \<or> a = 169 \<and> b = 254
     \<or> a = 172 \<and> 16 \<le> b \<and> b \<le> 31
     \<or> a = 192 \<and> b = 0 \<and> c = 0
     \<or> a = 192 \<and> b = 0 \<and> c = 2
     \<or> a = 192 \<and> b = 168
     \<or> a = 198 \<and> (b = 18 \<or> b = 19)
     \<or> a = 198 \<and> b = 51 \<and> c = 100
     \<or> a = 203 \<and> b = 0 \<and> c = 113
     \<or> 224 \<le> a"

definition high_octet :: "16 word \<Rightarrow> 8 word" where
  "high_octet x = ucast (drop_bit 8 x)"

definition low_octet :: "16 word \<Rightarrow> 8 word" where
  "low_octet x = ucast x"

fun is_non_public_ip :: "ip_addr \<Rightarrow> bool" where
  "is_non_public_ip (V4 a b c d) = non_public_v4 a b c"
| "is_non_public_ip (V6 s0 s1 s2 s3 s4 s5 s6 s7) =
     (if [s0, s1, s2, s3, s4, s5] = [0, 0, 0, 0, 0, 0xFFFF]
      then non_public_v4 (high_octet s6) (low_octet s6) (high_octet s7)
      else
        [s0, s1, s2, s3, s4, s5, s6, s7] = [0, 0, 0, 0, 0, 0, 0, 1]
        \<or> [s0, s1, s2, s3, s4, s5, s6, s7] = [0, 0, 0, 0, 0, 0, 0, 0]
        \<or> s0 AND 0xFF00 = 0xFF00
        \<or> s0 AND 0xFE00 = 0xFC00
        \<or> s0 AND 0xFFC0 = 0xFE80
        \<or> s0 AND 0xFFC0 = 0xFEC0
        \<or> [s0, s1] = [0x2001, 0x0DB8])"

definition validate_resolved_ip :: "ip_addr \<Rightarrow> unit res" where
  "validate_resolved_ip ip =
     (if is_non_public_ip ip
      then Inl (Invalid ''private, loopback, link-local, multicast, and metadata IPs are blocked'')
      else Inr ())"

section \<open>The standard library's IP parser\<close>

text \<open>
  A parser takes the remaining text and returns the value with what is left, or \<open>None\<close>.
  Octets are decimal without a leading zero; groups are up to four hexadecimal digits; an
  IPv4 tail may stand for the last two groups; one \<open>::\<close> stands for the missing groups.
\<close>

definition digit_val :: "char \<Rightarrow> nat" where
  "digit_val c =
     (if is_ascii_digit c then byte c - 48
      else if 97 \<le> byte c then byte c - 87 else byte c - 55)"

definition digits_val :: "nat \<Rightarrow> string \<Rightarrow> nat" where
  "digits_val radix ds = foldl (\<lambda>n d. n * radix + digit_val d) 0 ds"

definition read_number ::
  "nat \<Rightarrow> nat \<Rightarrow> bool \<Rightarrow> nat \<Rightarrow> string \<Rightarrow> (nat \<times> string) option" where
  "read_number radix max_digits allow_zero_prefix max_val s =
     (let is_dig = (if radix = 16 then is_ascii_hexdigit else is_ascii_digit);
          ds = takeWhile is_dig s; rest = dropWhile is_dig s
      in if ds = [] \<or> max_digits < length ds \<or> max_val < digits_val radix ds
            \<or> (\<not> allow_zero_prefix \<and> hd ds = CHR ''0'' \<and> 1 < length ds)
         then None else Some (digits_val radix ds, rest))"

definition read_given_char :: "char \<Rightarrow> string \<Rightarrow> string option" where
  "read_given_char c s = (case s of [] \<Rightarrow> None | d # ds \<Rightarrow> if d = c then Some ds else None)"

definition read_separator ::
  "char \<Rightarrow> nat \<Rightarrow> (string \<Rightarrow> ('a \<times> string) option) \<Rightarrow> string \<Rightarrow> ('a \<times> string) option" where
  "read_separator sep index inner s =
     (if 0 < index then Option.bind (read_given_char sep s) inner else inner s)"

definition read_octet :: "string \<Rightarrow> (nat \<times> string) option" where
  "read_octet = read_number 10 3 False 255"

definition read_ipv4_addr :: "string \<Rightarrow> ((nat \<times> nat \<times> nat \<times> nat) \<times> string) option" where
  "read_ipv4_addr s =
     Option.bind (read_separator CHR ''.'' 0 read_octet s) (\<lambda>(a, s).
     Option.bind (read_separator CHR ''.'' 1 read_octet s) (\<lambda>(b, s).
     Option.bind (read_separator CHR ''.'' 2 read_octet s) (\<lambda>(c, s).
     Option.bind (read_separator CHR ''.'' 3 read_octet s) (\<lambda>(d, s).
     Some ((a, b, c, d), s)))))"

function read_groups :: "nat \<Rightarrow> nat \<Rightarrow> string \<Rightarrow> nat list \<times> bool \<times> string" where
  "read_groups limit i s =
     (if limit \<le> i then ([], False, s)
      else case (if i + 1 < limit then read_separator CHR '':'' i read_ipv4_addr s else None) of
        Some ((a, b, c, d), r) \<Rightarrow> ([a * 256 + b, c * 256 + d], True, r)
      | None \<Rightarrow>
          (case read_separator CHR '':'' i (read_number 16 4 True 65535) s of
             Some (g, r) \<Rightarrow> (case read_groups limit (Suc i) r of (gs, v4, r') \<Rightarrow> (g # gs, v4, r'))
           | None \<Rightarrow> ([], False, s)))"
  by pat_completeness auto
termination
  by (relation "measure (\<lambda>(limit, i, s). limit - i)") auto

declare read_groups.simps [simp del]

definition v6_of_groups :: "nat list \<Rightarrow> ip_addr option" where
  "v6_of_groups gs =
     (case map word_of_nat gs of
        [a, b, c, d, e, f, g, h] \<Rightarrow> Some (V6 a b c d e f g h)
      | _ \<Rightarrow> None)"

definition read_ipv6_addr :: "string \<Rightarrow> (ip_addr \<times> string) option" where
  "read_ipv6_addr s =
     (case read_groups 8 0 s of (head, head_v4, r) \<Rightarrow>
      if length head = 8 then map_option (\<lambda>ip. (ip, r)) (v6_of_groups head)
      else if head_v4 then None
      else
        Option.bind (read_given_char CHR '':'' r) (\<lambda>r.
        Option.bind (read_given_char CHR '':'' r) (\<lambda>r.
        case read_groups (8 - (length head + 1)) 0 r of (tail, tail_v4, r') \<Rightarrow>
        map_option (\<lambda>ip. (ip, r'))
          (v6_of_groups (head @ replicate (8 - length head - length tail) 0 @ tail)))))"

definition parse_ip :: "string \<Rightarrow> ip_addr option" where
  "parse_ip s =
     (case read_ipv4_addr s of
        Some ((a, b, c, d), r) \<Rightarrow>
          if r = [] then Some (V4 (word_of_nat a) (word_of_nat b) (word_of_nat c) (word_of_nat d))
          else None
      | None \<Rightarrow>
          (case read_ipv6_addr s of Some (ip, r) \<Rightarrow> if r = [] then Some ip else None
           | None \<Rightarrow> None))"

section \<open>Domains and URLs\<close>

definition candidate_host :: "env \<Rightarrow> string \<Rightarrow> string res" where
  "candidate_host E input =
     (if contains_str ''://'' input
      then rbind (ok_or (Invalid ''malformed URL'') (url_parse E input)) (\<lambda>url.
        if u_scheme url \<noteq> ''https'' \<or> u_username url \<noteq> '''' \<or> u_password url \<noteq> None
           \<or> u_port url \<noteq> None \<or> u_query url \<noteq> None \<or> u_fragment url \<noteq> None
           \<or> u_path url \<noteq> ''/'' \<and> u_path url \<noteq> ''''
        then Inl (Invalid ''merchant URLs must be HTTPS origin URLs without credentials, ports, or paths'')
        else ok_or (Invalid ''URL has no host'') (u_host url))
      else Inr (trim_end_matches CHR ''.'' input))"

definition bad_label :: "string \<Rightarrow> bool" where
  "bad_label l \<longleftrightarrow> l = [] \<or> starts_with ''-'' l \<or> ends_with ''-'' l"

definition canonicalize_domain :: "env \<Rightarrow> string \<Rightarrow> string res" where
  "canonicalize_domain E input =
     rbind (bounded input ''domain'' 320) (\<lambda>_.
     rbind (candidate_host E input) (\<lambda>candidate.
     rbind (ok_or (Invalid ''invalid internationalized domain'') (domain_to_ascii E candidate)) (\<lambda>ascii.
     let ascii = to_ascii_lowercase (trim_end_matches CHR ''.'' ascii) in
     if ascii = [] \<or> CHR ''/'' \<in> set ascii \<or> CHR ''@'' \<in> set ascii \<or> CHR ''?'' \<in> set ascii
        \<or> CHR ''#'' \<in> set ascii \<or> ascii = ''localhost'' \<or> ends_with ''.localhost'' ascii
     then Inl (Invalid ''local or malformed domain is not allowed'')
     else
       rbind (case parse_ip ascii of Some ip \<Rightarrow> validate_resolved_ip ip | None \<Rightarrow> Inr ()) (\<lambda>_.
       if list_ex bad_label (split_on CHR ''.'' ascii)
       then Inl (Invalid ''invalid DNS label'')
       else Inr ascii))))"

definition validate_https_url :: "env \<Rightarrow> string \<Rightarrow> string res" where
  "validate_https_url E input =
     rbind (ok_or (Invalid ''malformed redirect URL'') (url_parse E input)) (\<lambda>url.
     if u_scheme url \<noteq> ''https'' \<or> u_username url \<noteq> '''' \<or> u_password url \<noteq> None \<or> u_port url \<noteq> None
     then Inl (Invalid ''redirects must be HTTPS without credentials or explicit ports'')
     else rbind (ok_or (Invalid ''redirect has no host'') (u_host url)) (\<lambda>host.
       canonicalize_domain E host))"

definition normalize_https_url :: "env \<Rightarrow> string \<Rightarrow> string res" where
  "normalize_https_url E input =
     rbind (validate_https_url E input) (\<lambda>canonical_host.
     rbind (ok_or (Invalid ''malformed redirect URL'') (url_parse E input)) (\<lambda>url.
     rbind (ok_or (Invalid ''redirect host cannot be normalized'')
              (url_set_host E url canonical_host)) (\<lambda>url'.
     Inr (url_text E url'))))"

section \<open>What a canonical domain is\<close>

definition public_name :: "string \<Rightarrow> bool" where
  "public_name d \<longleftrightarrow>
     d \<noteq> [] \<and> set d \<inter> {CHR ''/'', CHR ''@'', CHR ''?'', CHR ''#''} = {}
     \<and> d \<noteq> ''localhost'' \<and> \<not> ends_with ''.localhost'' d
     \<and> (\<forall>ip. parse_ip d = Some ip \<longrightarrow> \<not> is_non_public_ip ip)
     \<and> (\<forall>l \<in> set (split_on CHR ''.'' d). \<not> bad_label l)
     \<and> list_all (\<lambda>c. \<not> is_ascii_uppercase c) d"

lemma lower_char_not_upper [simp]: "\<not> is_ascii_uppercase (lower_char c)"
  by (auto simp: lower_char_def is_ascii_uppercase_def byte_def)

lemma lower_char_id: "\<not> is_ascii_uppercase c \<Longrightarrow> lower_char c = c"
  by (simp add: lower_char_def)

lemma to_ascii_lowercase_id: "list_all (\<lambda>c. \<not> is_ascii_uppercase c) s \<Longrightarrow> to_ascii_lowercase s = s"
  unfolding to_ascii_lowercase_def
  by (intro map_idI) (simp add: list_all_iff lower_char_id)

lemma canonicalize_domain_Inr:
  "canonicalize_domain E input = Inr d \<Longrightarrow> public_name d"
  by (auto simp: canonicalize_domain_def rbind_Inr_iff Let_def public_name_def list_ex_iff
      validate_resolved_ip_def list_all_iff to_ascii_lowercase_def split: if_splits option.splits)

lemma contains_scheme_slash: "contains_str ''://'' s \<Longrightarrow> CHR ''/'' \<in> set s"
proof (induction s)
  case (Cons c cs)
  from Cons.prems consider "take (length ''://'') (c # cs) = ''://''" | "contains_str ''://'' cs"
    by (simp only: contains_str.simps) blast
  then show ?case
  proof cases
    case 1
    then have "CHR ''/'' \<in> set (take (length ''://'') (c # cs))" by (simp only:) simp
    then show ?thesis by (rule in_set_takeD)
  next
    case 2
    with Cons.IH show ?thesis by simp
  qed
qed simp

lemma split_on_last_piece:
  "s \<noteq> [] \<Longrightarrow> last s = c \<Longrightarrow> last (split_on c s) = [] \<and> 2 \<le> length (split_on c s)"
proof (induction s)
  case (Cons d ds)
  then show ?case by (cases "split_on c ds") (auto split: if_splits)
qed simp

lemma split_on_last: "s \<noteq> [] \<Longrightarrow> last s = c \<Longrightarrow> [] \<in> set (split_on c s)"
  using split_on_last_piece [of s c] last_in_set [of "split_on c s"] by force

lemma public_name_no_trailing_dot: "public_name d \<Longrightarrow> trim_end_matches CHR ''.'' d = d"
  by (rule trim_end_matches_id) (auto simp: public_name_def bad_label_def dest: split_on_last)

lemma canonicalize_public_name:
  assumes "public_name d" and "domain_to_ascii E d = Some d" and "bounded d ''domain'' 320 = Inr ()"
  shows "canonicalize_domain E d = Inr d"
proof -
  have "\<not> contains_str ''://'' d"
    using assms(1) contains_scheme_slash by (fastforce simp: public_name_def)
  moreover have "to_ascii_lowercase d = d"
    using assms(1) by (simp add: public_name_def to_ascii_lowercase_id)
  ultimately show ?thesis
    using assms public_name_no_trailing_dot [OF assms(1)]
    by (auto simp: canonicalize_domain_def candidate_host_def Let_def public_name_def list_ex_iff
        validate_resolved_ip_def split: option.splits)
qed

end
