(* ===== verification/Policy.thy ===== *)
theory Policy
  imports Money Net
begin

text \<open>
  The spending policy, the purchase request and \<open>Policy::evaluate\<close>: the decision whether
  a request is allowed, needs the owner or is denied, with the reasons in the code's order.
\<close>

definition max_purchase_request_bytes :: nat where "max_purchase_request_bytes = 4 * 1024"
definition max_policy_bytes :: nat where "max_policy_bytes = 2 * 1024"

section \<open>Data\<close>

datatype autonomy_mode = Observe | ApprovalRequiredMode | BoundedAutonomous | Disabled

primrec mode_name :: "autonomy_mode \<Rightarrow> string" where
  "mode_name Observe = ''observe''"
| "mode_name ApprovalRequiredMode = ''approval_required''"
| "mode_name BoundedAutonomous = ''bounded_autonomous''"
| "mode_name Disabled = ''disabled''"

datatype payment_form_trust = HostedFields | OwnerApprovedMerchant | MerchantControlled

primrec form_name :: "payment_form_trust \<Rightarrow> string" where
  "form_name HostedFields = ''hosted_fields''"
| "form_name OwnerApprovedMerchant = ''owner_approved_merchant''"
| "form_name MerchantControlled = ''merchant_controlled''"

datatype simulated_scenario =
    Normal | Decline | DelayedSettlement | TimeoutBeforeSubmit | TimeoutAfterSubmit
  | DuplicateFormSubmission | MisleadingSuccessPage | PromptInjection | AmountChanged
  | CurrencyChanged | HiddenRecurring | CardSaving | Tip | Preauthorization
  | MerchantControlledForm | RedirectToOtherDomain | RedirectToLocalhost | DnsRebindingLike
  | BrowserCrash

primrec scenario_name :: "simulated_scenario \<Rightarrow> string" where
  "scenario_name Normal = ''normal''"
| "scenario_name Decline = ''decline''"
| "scenario_name DelayedSettlement = ''delayed_settlement''"
| "scenario_name TimeoutBeforeSubmit = ''timeout_before_submit''"
| "scenario_name TimeoutAfterSubmit = ''timeout_after_submit''"
| "scenario_name DuplicateFormSubmission = ''duplicate_form_submission''"
| "scenario_name MisleadingSuccessPage = ''misleading_success_page''"
| "scenario_name PromptInjection = ''prompt_injection''"
| "scenario_name AmountChanged = ''amount_changed''"
| "scenario_name CurrencyChanged = ''currency_changed''"
| "scenario_name HiddenRecurring = ''hidden_recurring''"
| "scenario_name CardSaving = ''card_saving''"
| "scenario_name Tip = ''tip''"
| "scenario_name Preauthorization = ''preauthorization''"
| "scenario_name MerchantControlledForm = ''merchant_controlled_form''"
| "scenario_name RedirectToOtherDomain = ''redirect_to_other_domain''"
| "scenario_name RedirectToLocalhost = ''redirect_to_localhost''"
| "scenario_name DnsRebindingLike = ''dns_rebinding_like''"
| "scenario_name BrowserCrash = ''browser_crash''"

record policy =
  pl_id :: string
  pl_version :: nat
  primary_currency :: string
  max_per_transaction :: money
  max_per_session :: money
  max_rolling_24h :: money
  max_lifetime :: money
  absolute_exposure_ceiling :: money
  max_treasury_size :: money
  reinvestment_ratio_bps :: nat
  allowed_currencies :: "string bset"
  allowed_merchants :: "string bset"
  denied_merchants :: "string bset"
  approved_redirect_domains :: "string bset"
  require_approval_for_new_merchants :: bool
  approved_fulfillment_profiles :: "string bset"
  allow_recurring :: bool
  allow_trials :: bool
  allow_stored_card :: bool
  allow_tips :: bool
  allow_preauthorization :: bool
  allow_installments :: bool
  denied_categories :: "string bset"
  max_order_total_drift_minor :: int
  max_attempts :: nat
  max_transactions_per_minute :: nat
  max_redirects :: nat
  intent_ttl_secs :: int
  card_session_ttl_secs :: int

record purchase_item =
  item_label :: string
  quantity :: nat
  unit_price_minor :: int

record purchase_request =
  idempotency_key :: string
  rq_amount :: money
  final_total :: money
  merchant_domain :: string
  category :: string
  rq_items :: "purchase_item list"
  recurring :: bool
  trial_auto_renew :: bool
  stored_card :: bool
  tip_minor :: int
  preauthorization :: bool
  installments :: bool
  fulfillment_profile :: string
  payment_form :: payment_form_trust
  redirect_chain :: "string list"
  attempts :: nat
  session_id :: string
  scenario :: simulated_scenario

record policy_decision =
  allowed :: bool
  requires_approval :: bool
  reasons :: "string list"
  decision_version :: nat

record budget_usage =
  session_amount :: money
  rolling_24h_amount :: money
  lifetime_amount :: money
  us_reserved_amount :: money
  recent_transaction_count :: nat

definition j_set_of :: "string bset \<Rightarrow> json" where
  "j_set_of s = j_strs (bkeys s)"

definition policy_json :: "policy \<Rightarrow> json" where
  "policy_json p = JObj
    [(''id'', JStr (pl_id p)),
     (''version'', JInt (int (pl_version p))),
     (''primary_currency'', JStr (primary_currency p)),
     (''max_per_transaction'', money_json (max_per_transaction p)),
     (''max_per_session'', money_json (max_per_session p)),
     (''max_rolling_24h'', money_json (max_rolling_24h p)),
     (''max_lifetime'', money_json (max_lifetime p)),
     (''absolute_exposure_ceiling'', money_json (absolute_exposure_ceiling p)),
     (''max_treasury_size'', money_json (max_treasury_size p)),
     (''reinvestment_ratio_bps'', JInt (int (reinvestment_ratio_bps p))),
     (''allowed_currencies'', j_set_of (allowed_currencies p)),
     (''allowed_merchants'', j_set_of (allowed_merchants p)),
     (''denied_merchants'', j_set_of (denied_merchants p)),
     (''approved_redirect_domains'', j_set_of (approved_redirect_domains p)),
     (''require_approval_for_new_merchants'', JBool (require_approval_for_new_merchants p)),
     (''approved_fulfillment_profiles'', j_set_of (approved_fulfillment_profiles p)),
     (''allow_recurring'', JBool (allow_recurring p)),
     (''allow_trials'', JBool (allow_trials p)),
     (''allow_stored_card'', JBool (allow_stored_card p)),
     (''allow_tips'', JBool (allow_tips p)),
     (''allow_preauthorization'', JBool (allow_preauthorization p)),
     (''allow_installments'', JBool (allow_installments p)),
     (''denied_categories'', j_set_of (denied_categories p)),
     (''max_order_total_drift_minor'', JInt (max_order_total_drift_minor p)),
     (''max_attempts'', JInt (int (max_attempts p))),
     (''max_transactions_per_minute'', JInt (int (max_transactions_per_minute p))),
     (''max_redirects'', JInt (int (max_redirects p))),
     (''intent_ttl_secs'', JInt (intent_ttl_secs p)),
     (''card_session_ttl_secs'', JInt (card_session_ttl_secs p))]"

definition item_json :: "purchase_item \<Rightarrow> json" where
  "item_json i = JObj
    [(''label'', JStr (item_label i)), (''quantity'', JInt (int (quantity i))),
     (''unit_price_minor'', JInt (unit_price_minor i))]"

definition request_json :: "purchase_request \<Rightarrow> json" where
  "request_json r = JObj
    [(''idempotency_key'', JStr (idempotency_key r)),
     (''amount'', money_json (rq_amount r)),
     (''final_total'', money_json (final_total r)),
     (''merchant_domain'', JStr (merchant_domain r)),
     (''category'', JStr (category r)),
     (''items'', JArr (map item_json (rq_items r))),
     (''recurring'', JBool (recurring r)),
     (''trial_auto_renew'', JBool (trial_auto_renew r)),
     (''stored_card'', JBool (stored_card r)),
     (''tip_minor'', JInt (tip_minor r)),
     (''preauthorization'', JBool (preauthorization r)),
     (''installments'', JBool (installments r)),
     (''fulfillment_profile'', JStr (fulfillment_profile r)),
     (''payment_form'', JStr (form_name (payment_form r))),
     (''redirect_chain'', j_strs (redirect_chain r)),
     (''attempts'', JInt (int (attempts r))),
     (''session_id'', JStr (session_id r)),
     (''scenario'', JStr (scenario_name (scenario r)))]"

definition decision_json :: "policy_decision \<Rightarrow> json" where
  "decision_json d = JObj
    [(''allowed'', JBool (allowed d)), (''requires_approval'', JBool (requires_approval d)),
     (''reasons'', j_strs (reasons d)), (''policy_version'', JInt (int (decision_version d)))]"

definition usage_json :: "budget_usage \<Rightarrow> json" where
  "usage_json u = JObj
    [(''session_amount'', money_json (session_amount u)),
     (''rolling_24h_amount'', money_json (rolling_24h_amount u)),
     (''lifetime_amount'', money_json (lifetime_amount u)),
     (''reserved_amount'', money_json (us_reserved_amount u)),
     (''recent_transaction_count'', JInt (int (recent_transaction_count u)))]"

definition usage_zero :: "string \<Rightarrow> budget_usage res" where
  "usage_zero cur = rbind (money_zero cur) (\<lambda>zero.
     Inr \<lparr>session_amount = zero, rolling_24h_amount = zero, lifetime_amount = zero,
          us_reserved_amount = zero, recent_transaction_count = 0\<rparr>)"

definition conservative_demo :: "policy res" where
  "conservative_demo =
     rbind (money_positive 2500 ''CAD'') (\<lambda>tx.
     rbind (money_positive 5000 ''CAD'') (\<lambda>session.
     rbind (money_positive 10000 ''CAD'') (\<lambda>rolling.
     rbind (money_positive 25000 ''CAD'') (\<lambda>life.
     rbind (money_positive 100000 ''CAD'') (\<lambda>ceiling.
     rbind (money_positive 100000 ''CAD'') (\<lambda>size.
     Inr \<lparr>pl_id = ''policy_demo'', pl_version = 1, primary_currency = ''CAD'',
          max_per_transaction = tx, max_per_session = session, max_rolling_24h = rolling,
          max_lifetime = life, absolute_exposure_ceiling = ceiling, max_treasury_size = size,
          reinvestment_ratio_bps = 0,
          allowed_currencies = bs_of_list [''CAD''],
          allowed_merchants = bs_of_list [''merchant.example.test''],
          denied_merchants = bempty, approved_redirect_domains = bempty,
          require_approval_for_new_merchants = True,
          approved_fulfillment_profiles = bs_of_list [''digital-email''],
          allow_recurring = False, allow_trials = False, allow_stored_card = False,
          allow_tips = False, allow_preauthorization = False, allow_installments = False,
          denied_categories = bs_of_list [''gambling'', ''crypto'', ''financial_transfer'',
            ''cash_withdrawal'', ''gift_card'', ''cash_equivalent''],
          max_order_total_drift_minor = 0, max_attempts = 1, max_transactions_per_minute = 10,
          max_redirects = 2, intent_ttl_secs = 15 * 60, card_session_ttl_secs = 10 * 60\<rparr>))))))"

section \<open>Validation\<close>

definition policy_amounts :: "policy \<Rightarrow> money list" where
  "policy_amounts p =
     [max_per_transaction p, max_per_session p, max_rolling_24h p, max_lifetime p,
      absolute_exposure_ceiling p, max_treasury_size p]"

definition policy_validate :: "env \<Rightarrow> policy \<Rightarrow> unit res" where
  "policy_validate E p =
     (if max_policy_bytes < length (json_text E (policy_json p))
      then Inl (Invalid ''policy exceeds the 2048-byte limit'')
      else
     rbind (money_zero (primary_currency p)) (\<lambda>_.
     if 10000 < reinvestment_ratio_bps p
     then Inl (Invalid ''reinvestment ratio must be 0..10000 basis points'')
     else if max_transactions_per_minute p = 0
     then Inl (Invalid ''transaction rate limit must be positive'')
     else if intent_ttl_secs p \<le> 0 \<or> card_session_ttl_secs p \<le> 0 \<or> max_order_total_drift_minor p < 0
     then Inl (Invalid ''policy expiry and total-drift values are invalid'')
     else if list_ex (\<lambda>m. currency m \<noteq> primary_currency p \<or> minor m \<le> 0) (policy_amounts p)
     then Inl (Invalid ''policy money values must be positive and use the primary currency'')
     else if minor (max_treasury_size p) < minor (absolute_exposure_ceiling p)
     then Inl (Invalid ''exposure ceiling cannot exceed maximum treasury size'')
     else
       rall (\<lambda>merchant.
         rbind (canonicalize_domain E merchant) (\<lambda>canonical.
         if canonical \<noteq> merchant
         then Inl (Invalid ''policy merchant domains must be canonical'') else Inr ()))
       (bkeys (allowed_merchants p) @ bkeys (denied_merchants p) @ bkeys (approved_redirect_domains p))))"

definition add_item :: "int \<Rightarrow> purchase_item \<Rightarrow> int res" where
  "add_item item_total item =
     rbind (bounded (item_label item) ''item_label'' 160) (\<lambda>_.
     rbind (bounded_bytes (item_label item) ''item_label'' 640) (\<lambda>_.
     if quantity item = 0 \<or> 10000 < quantity item \<or> unit_price_minor item < 0
     then Inl (Invalid ''purchase line item is invalid'')
     else
       rbind (ok_or (MoneyError ''line-item total overflow'')
                (i64_checked_mul (unit_price_minor item) (int (quantity item)))) (\<lambda>line.
       ok_or (MoneyError ''line-item total overflow'') (i64_checked_add item_total line))))"

definition request_validate :: "env \<Rightarrow> purchase_request \<Rightarrow> policy \<Rightarrow> int \<Rightarrow> unit res" where
  "request_validate E r p at =
     (if max_purchase_request_bytes < length (json_text E (request_json r))
      then Inl (Invalid ''purchase request exceeds the 4096-byte limit'')
      else
     rbind (bounded (idempotency_key r) ''idempotency_key'' 128) (\<lambda>_.
     rbind (bounded (merchant_domain r) ''merchant_domain'' 253) (\<lambda>_.
     rbind (bounded (category r) ''category'' 64) (\<lambda>_.
     rbind (bounded (fulfillment_profile r) ''fulfillment_profile'' 64) (\<lambda>_.
     rbind (bounded (session_id r) ''session_id'' 128) (\<lambda>_.
     if minor (rq_amount r) \<le> 0 \<or> minor (final_total r) \<le> 0
     then Inl (Invalid ''purchase amount must be positive'')
     else if rq_items r = [] \<or> 50 < length (rq_items r)
     then Inl (Invalid ''purchase must contain 1..50 line items'')
     else
     rbind (rfold add_item 0 (rq_items r)) (\<lambda>item_total.
     if minor (rq_amount r) < item_total
     then Inl (Invalid ''line-item subtotal exceeds the approved amount'')
     else if tip_minor r < 0
     then Inl (Invalid ''tip amount cannot be negative'')
     else if currency (rq_amount r) \<noteq> currency (final_total r)
     then Inl (Invalid ''final total currency must match intent currency'')
     else
     rbind (ok_or (MoneyError ''order-total overflow'')
              (i64_checked_add (minor (rq_amount r)) (max_order_total_drift_minor p))) (\<lambda>allowed_total.
     if allowed_total < minor (final_total r)
     then Inl (Invalid ''final total exceeds the configured drift allowance'')
     else if attempts r = 0 \<or> max_attempts p < attempts r
     then Inl (Invalid ''attempt count exceeds policy'')
     else if max_redirects p < length (redirect_chain r)
     then Inl (Invalid ''redirect chain is too long'')
     else
     rbind (rall (\<lambda>redirect. bounded_bytes redirect ''redirect_url'' 2048) (redirect_chain r)) (\<lambda>_.
     if 128 < length (idempotency_key r)
     then Inl (Invalid ''idempotency key is too long'')
     else Inr ())))))))))"

section \<open>Evaluation\<close>

definition reason_if :: "bool \<Rightarrow> string \<Rightarrow> string list" where
  "reason_if b r = (if b then [r] else [])"

text \<open>The reasons of the first block: mode, emergency stop and currency.\<close>

definition mode_reasons :: "policy \<Rightarrow> purchase_request \<Rightarrow> autonomy_mode \<Rightarrow> bool \<Rightarrow> string list" where
  "mode_reasons p r mode emergency_stop =
     reason_if emergency_stop ''emergency stop is active''
     @ reason_if (mode = Observe \<or> mode = Disabled) ''agent is not armed for spending''
     @ reason_if (\<not> bs_mem (currency (final_total r)) (allowed_currencies p)) ''currency is not allowed''
     @ reason_if (currency (final_total r) \<noteq> primary_currency p) ''foreign exchange is denied by default''"

text \<open>The budget block; the running amounts may overflow, which is an error.\<close>

definition budget_reasons :: "policy \<Rightarrow> purchase_request \<Rightarrow> budget_usage \<Rightarrow> string list res" where
  "budget_reasons p r usage =
     (if currency (final_total r) = primary_currency p
      then
        rbind (checked_add (session_amount usage) (final_total r)) (\<lambda>session.
        rbind (checked_add (rolling_24h_amount usage) (final_total r)) (\<lambda>rolling.
        rbind (checked_add (lifetime_amount usage) (final_total r)) (\<lambda>lifetime.
        Inr (reason_if (minor (max_per_transaction p) < minor (final_total r)) ''per-transaction limit exceeded''
          @ reason_if (minor (max_per_session p) < minor session) ''per-session limit exceeded''
          @ reason_if (minor (max_rolling_24h p) < minor rolling) ''rolling 24-hour limit exceeded''
          @ reason_if (minor (max_lifetime p) < minor lifetime) ''lifetime limit exceeded''
          @ reason_if (max_transactions_per_minute p \<le> recent_transaction_count usage)
              ''transaction rate limit exceeded''))))
      else Inr [])"

definition merchant_reasons :: "policy \<Rightarrow> string \<Rightarrow> string list" where
  "merchant_reasons p merchant =
     reason_if (bs_mem merchant (denied_merchants p)) ''merchant is explicitly denied''
     @ reason_if (bsize (allowed_merchants p) \<noteq> 0 \<and> \<not> bs_mem merchant (allowed_merchants p)
         \<and> \<not> require_approval_for_new_merchants p) ''merchant is not allowlisted''"

definition consent_reasons :: "policy \<Rightarrow> purchase_request \<Rightarrow> string list" where
  "consent_reasons p r =
     reason_if (\<not> bs_mem (fulfillment_profile r) (approved_fulfillment_profiles p))
       ''fulfillment profile is not approved''
     @ reason_if ((recurring r \<or> trial_auto_renew r)
         \<and> (\<not> allow_recurring p \<or> trial_auto_renew r \<and> \<not> allow_trials p))
       ''recurring or auto-renewing purchase is denied''
     @ reason_if (stored_card r \<and> \<not> allow_stored_card p) ''stored-card consent is denied''
     @ reason_if (0 < tip_minor r \<and> \<not> allow_tips p) ''tips and open-ended totals are denied''
     @ reason_if (preauthorization r \<and> \<not> allow_preauthorization p) ''preauthorizations are denied''
     @ reason_if (installments r \<and> \<not> allow_installments p)
       ''installments and buy-now-pay-later are denied''
     @ reason_if (bs_mem (category r) (denied_categories p))
       (''category '' @ category r @ '' is denied'')
     @ reason_if (max_redirects p < length (redirect_chain r)) ''redirect limit exceeded''"

definition redirect_reasons :: "env \<Rightarrow> policy \<Rightarrow> string \<Rightarrow> string list \<Rightarrow> string list res" where
  "redirect_reasons E p merchant chain =
     rbind (rmap (\<lambda>redirect.
       rbind (validate_https_url E redirect) (\<lambda>redirect_host.
       Inr (reason_if (redirect_host \<noteq> merchant \<and> \<not> bs_mem redirect_host (approved_redirect_domains p))
         (''redirect domain '' @ redirect_host @ '' is not owner-approved'')))) chain)
     (\<lambda>rs. Inr (concat rs))"

text \<open>The approval flag: whether anything asks for the owner.\<close>

definition needs_approval ::
  "policy \<Rightarrow> purchase_request \<Rightarrow> autonomy_mode \<Rightarrow> bool \<Rightarrow> string \<Rightarrow> bool" where
  "needs_approval p r mode known_merchant merchant \<longleftrightarrow>
     (bsize (allowed_merchants p) \<noteq> 0 \<and> \<not> bs_mem merchant (allowed_merchants p)
        \<and> require_approval_for_new_merchants p)
     \<or> (\<not> known_merchant \<and> \<not> bs_mem merchant (allowed_merchants p)
        \<and> require_approval_for_new_merchants p)
     \<or> payment_form r = MerchantControlled
     \<or> scenario r = PromptInjection
     \<or> scenario r \<in> {AmountChanged, CurrencyChanged, HiddenRecurring, CardSaving, Tip,
          Preauthorization, RedirectToLocalhost, DnsRebindingLike}
     \<or> (\<not> known_merchant \<and> mode = ApprovalRequiredMode)
     \<or> mode = ApprovalRequiredMode"

definition decide :: "policy \<Rightarrow> string list \<Rightarrow> bool \<Rightarrow> policy_decision" where
  "decide p rs approval =
     (if rs \<noteq> []
      then \<lparr>allowed = False, requires_approval = False, reasons = rs, decision_version = pl_version p\<rparr>
      else \<lparr>allowed = \<not> approval, requires_approval = approval,
            reasons = (if approval then [''owner approval is required''] else []),
            decision_version = pl_version p\<rparr>)"

definition evaluate ::
  "env \<Rightarrow> policy \<Rightarrow> purchase_request \<Rightarrow> budget_usage \<Rightarrow> autonomy_mode \<Rightarrow> bool \<Rightarrow> bool \<Rightarrow> int
     \<Rightarrow> policy_decision res" where
  "evaluate E p r usage mode known_merchant emergency_stop at =
     rbind (policy_validate E p) (\<lambda>_.
     rbind (request_validate E r p at) (\<lambda>_.
     rbind (budget_reasons p r usage) (\<lambda>budget.
     rbind (canonicalize_domain E (merchant_domain r)) (\<lambda>merchant.
     rbind (redirect_reasons E p merchant (redirect_chain r)) (\<lambda>redirects.
     Inr (decide p
       (mode_reasons p r mode emergency_stop @ budget @ merchant_reasons p merchant
         @ consent_reasons p r @ redirects)
       (needs_approval p r mode known_merchant merchant)))))))"

end
