(* ===== verification/Intent.thy ===== *)
theory Intent
  imports Policy
begin

text \<open>
  The purchase intent: its transaction state machine (\<open>TransactionState::can_transition\<close>),
  the guarded \<open>transition\<close>, and the receipt.
\<close>

section \<open>Transaction states\<close>

datatype transaction_state =
    Draft | Proposed | PolicyValidated | ApprovalRequired | Approved | FundsReserved
  | Executing | ProviderPending | Settled | Declined | Failed | Unknown | Cancelled
  | Refunded | ReconciliationRequired

primrec state_name :: "transaction_state \<Rightarrow> string" where
  "state_name Draft = ''draft''"
| "state_name Proposed = ''proposed''"
| "state_name PolicyValidated = ''policy_validated''"
| "state_name ApprovalRequired = ''approval_required''"
| "state_name Approved = ''approved''"
| "state_name FundsReserved = ''funds_reserved''"
| "state_name Executing = ''executing''"
| "state_name ProviderPending = ''provider_pending''"
| "state_name Settled = ''settled''"
| "state_name Declined = ''declined''"
| "state_name Failed = ''failed''"
| "state_name Unknown = ''unknown''"
| "state_name Cancelled = ''cancelled''"
| "state_name Refunded = ''refunded''"
| "state_name ReconciliationRequired = ''reconciliation_required''"

text \<open>The derived \<open>Debug\<close> text, used in error messages.\<close>

primrec state_debug :: "transaction_state \<Rightarrow> string" where
  "state_debug Draft = ''Draft''"
| "state_debug Proposed = ''Proposed''"
| "state_debug PolicyValidated = ''PolicyValidated''"
| "state_debug ApprovalRequired = ''ApprovalRequired''"
| "state_debug Approved = ''Approved''"
| "state_debug FundsReserved = ''FundsReserved''"
| "state_debug Executing = ''Executing''"
| "state_debug ProviderPending = ''ProviderPending''"
| "state_debug Settled = ''Settled''"
| "state_debug Declined = ''Declined''"
| "state_debug Failed = ''Failed''"
| "state_debug Unknown = ''Unknown''"
| "state_debug Cancelled = ''Cancelled''"
| "state_debug Refunded = ''Refunded''"
| "state_debug ReconciliationRequired = ''ReconciliationRequired''"

definition can_transition :: "transaction_state \<Rightarrow> transaction_state \<Rightarrow> bool" where
  "can_transition s next \<longleftrightarrow> (s, next) \<in> set
     [(Draft, Proposed),
      (Proposed, PolicyValidated),
      (Proposed, ApprovalRequired),
      (Proposed, Failed),
      (Proposed, Cancelled),
      (PolicyValidated, FundsReserved),
      (ApprovalRequired, Approved),
      (ApprovalRequired, Cancelled),
      (Approved, FundsReserved),
      (FundsReserved, Executing),
      (Executing, ProviderPending),
      (Executing, Settled),
      (Executing, Declined),
      (Executing, Failed),
      (Executing, Unknown),
      (ProviderPending, Settled),
      (ProviderPending, Declined),
      (ProviderPending, Unknown),
      (ProviderPending, ReconciliationRequired),
      (Unknown, ReconciliationRequired),
      (ReconciliationRequired, Settled),
      (ReconciliationRequired, Declined),
      (Unknown, Settled),
      (Unknown, Declined),
      (Settled, Refunded)]"

text \<open>The table read by target: which states lead into a given one.\<close>

lemma can_transition_into:
  "can_transition s Draft = False"
  "can_transition s Proposed = (s = Draft)"
  "can_transition s PolicyValidated = (s = Proposed)"
  "can_transition s ApprovalRequired = (s = Proposed)"
  "can_transition s Approved = (s = ApprovalRequired)"
  "can_transition s FundsReserved = (s = PolicyValidated \<or> s = Approved)"
  "can_transition s Executing = (s = FundsReserved)"
  "can_transition s ProviderPending = (s = Executing)"
  "can_transition s Settled = (s = Executing \<or> s = ProviderPending \<or> s = ReconciliationRequired \<or> s = Unknown)"
  "can_transition s Declined = (s = Executing \<or> s = ProviderPending \<or> s = ReconciliationRequired \<or> s = Unknown)"
  "can_transition s Failed = (s = Proposed \<or> s = Executing)"
  "can_transition s Unknown = (s = Executing \<or> s = ProviderPending)"
  "can_transition s Cancelled = (s = Proposed \<or> s = ApprovalRequired)"
  "can_transition s Refunded = (s = Settled)"
  "can_transition s ReconciliationRequired = (s = ProviderPending \<or> s = Unknown)"
  by (auto simp: can_transition_def)

section \<open>Receipts and intents\<close>

record receipt =
  rc_intent_id :: string
  rc_merchant_domain :: string
  rc_amount :: money
  rc_status :: transaction_state
  rc_provider_reference :: "string option"
  rc_issued_at :: int
  rc_personal_information_redacted :: bool

text \<open>\<open>Receipt.status\<close> has no serde rename of its own; the state type's names apply.\<close>

definition receipt_json :: "receipt \<Rightarrow> json" where
  "receipt_json r = JObj
    [(''intent_id'', JStr (rc_intent_id r)),
     (''merchant_domain'', JStr (rc_merchant_domain r)),
     (''amount'', money_json (rc_amount r)),
     (''status'', JStr (state_name (rc_status r))),
     (''provider_reference'', j_opt_str (rc_provider_reference r)),
     (''issued_at'', JInt (rc_issued_at r)),
     (''personal_information_redacted'', JBool (rc_personal_information_redacted r))]"

definition receipt_hash :: "env \<Rightarrow> receipt \<Rightarrow> string" where
  "receipt_hash E r = hex_encode E (sha256 E (json_text E (receipt_json r)))"

record purchase_intent =
  in_id :: string
  in_agent_id :: string
  in_broker_session_id :: string
  in_request :: purchase_request
  in_state :: transaction_state
  in_decision :: policy_decision
  in_policy_version :: nat
  in_created_at :: int
  in_updated_at :: int
  in_provider_reference :: "string option"
  in_receipt_hash :: "string option"
  in_receipt :: "receipt option"
  in_last_error :: "string option"

definition transition_error :: "transaction_state \<Rightarrow> transaction_state \<Rightarrow> treasury_error" where
  "transition_error s next =
     Conflict (''invalid transaction transition '' @ state_debug s @ '' -> '' @ state_debug next)"

definition transition :: "purchase_intent \<Rightarrow> transaction_state \<Rightarrow> ('s, purchase_intent) op" where
  "transition i next =
     (if \<not> can_transition (in_state i) next
      then fail (transition_error (in_state i) next)
      else bind now (\<lambda>at. ret (i\<lparr>in_state := next, in_updated_at := at\<rparr>)))"

definition issue_receipt :: "env \<Rightarrow> purchase_intent \<Rightarrow> ('s, purchase_intent) op" where
  "issue_receipt E i =
     (if in_receipt i \<noteq> None \<or> in_receipt_hash i \<noteq> None
      then fail (Conflict ''receipt was already issued for this intent'')
      else bind now (\<lambda>at.
        let receipt = \<lparr>rc_intent_id = in_id i, rc_merchant_domain = merchant_domain (in_request i),
              rc_amount = final_total (in_request i), rc_status = in_state i,
              rc_provider_reference = in_provider_reference i, rc_issued_at = at,
              rc_personal_information_redacted = True\<rparr>
        in ret (i\<lparr>in_receipt_hash := Some (receipt_hash E receipt), in_receipt := Some receipt\<rparr>)))"

definition same_checkout_facts :: "purchase_request \<Rightarrow> purchase_request \<Rightarrow> bool" where
  "same_checkout_facts l r \<longleftrightarrow>
     final_total l = final_total r \<and> merchant_domain l = merchant_domain r"

definition sanitized_intent :: "purchase_intent \<Rightarrow> json" where
  "sanitized_intent i = JObj
    [(''id'', JStr (in_id i)),
     (''agent_id'', JStr (in_agent_id i)),
     (''state'', JStr (state_name (in_state i))),
     (''requested_amount'', money_json (rq_amount (in_request i))),
     (''final_total'', money_json (final_total (in_request i))),
     (''amount'', money_json (final_total (in_request i))),
     (''merchant_domain'', JStr (merchant_domain (in_request i))),
     (''category'', JStr (category (in_request i))),
     (''items'', JArr (map item_json (rq_items (in_request i)))),
     (''fulfillment_profile'', JStr (fulfillment_profile (in_request i))),
     (''decision'', decision_json (in_decision i)),
     (''policy_version'', JInt (int (in_policy_version i))),
     (''created_at'', JInt (in_created_at i)),
     (''updated_at'', JInt (in_updated_at i)),
     (''provider_reference'', j_opt_str (in_provider_reference i)),
     (''receipt_hash'', j_opt_str (in_receipt_hash i)),
     (''last_error'', j_opt_str (in_last_error i))]"

definition owner_intent :: "purchase_intent \<Rightarrow> json" where
  "owner_intent i = j_set ''checkout_facts'' (JObj
    [(''payment_form'', JStr (form_name (payment_form (in_request i)))),
     (''redirect_chain'', j_strs (redirect_chain (in_request i))),
     (''recurring'', JBool (recurring (in_request i))),
     (''trial_auto_renew'', JBool (trial_auto_renew (in_request i))),
     (''stored_card'', JBool (stored_card (in_request i))),
     (''tip_minor'', JInt (tip_minor (in_request i))),
     (''preauthorization'', JBool (preauthorization (in_request i))),
     (''installments'', JBool (installments (in_request i))),
     (''scenario'', JStr (scenario_name (scenario (in_request i))))]) (sanitized_intent i)"

section \<open>Classes of states\<close>

text \<open>
  The states whose total is held against the budget, and the terminal ones, as the ledger,
  the budget usage and the provider configuration list them.
\<close>

definition holds_funds :: "transaction_state \<Rightarrow> bool" where
  "holds_funds s \<longleftrightarrow>
     s \<in> {FundsReserved, Executing, ProviderPending, Unknown, ReconciliationRequired}"

definition is_terminal :: "transaction_state \<Rightarrow> bool" where
  "is_terminal s \<longleftrightarrow> s \<in> {Declined, Failed, Cancelled, Settled, Refunded}"

section \<open>Lemmas\<close>

lemma wp_transition [wp_simps]:
  "wp (transition i n) Q R w =
     (if can_transition (in_state i) n
      then Q (i\<lparr>in_state := n, in_updated_at := w_clock w (w_reads w)\<rparr>)
             (w\<lparr>w_reads := Suc (w_reads w)\<rparr>)
      else R (transition_error (in_state i) n) w)"
  by (cases "can_transition (in_state i) n") (simp_all add: transition_def wp_simps)

lemma wp_issue_receipt [wp_simps]:
  "wp (issue_receipt E i) Q R w =
     (if in_receipt i \<noteq> None \<or> in_receipt_hash i \<noteq> None
      then R (Conflict ''receipt was already issued for this intent'') w
      else let receipt = \<lparr>rc_intent_id = in_id i, rc_merchant_domain = merchant_domain (in_request i),
              rc_amount = final_total (in_request i), rc_status = in_state i,
              rc_provider_reference = in_provider_reference i,
              rc_issued_at = w_clock w (w_reads w), rc_personal_information_redacted = True\<rparr>
        in Q (i\<lparr>in_receipt_hash := Some (receipt_hash E receipt), in_receipt := Some receipt\<rparr>)
             (w\<lparr>w_reads := Suc (w_reads w)\<rparr>))"
  by (cases "in_receipt i \<noteq> None \<or> in_receipt_hash i \<noteq> None")
    (simp_all add: issue_receipt_def wp_simps Let_def)

lemma keeps_same_transition:
  "keeps same_state (transition i n)" "keeps same_state (issue_receipt E i)"
  by (simp_all add: transition_def issue_receipt_def Let_def keeps_same)

text \<open>Reaching one state from another along permitted transitions.\<close>

inductive reaches :: "transaction_state \<Rightarrow> transaction_state \<Rightarrow> bool" where
  here: "reaches s s"
| step: "reaches s t \<Longrightarrow> can_transition t u \<Longrightarrow> reaches s u"

inductive_cases can_reach_elim: "reaches s t"

lemma reaches_trans: "reaches t u \<Longrightarrow> reaches s t \<Longrightarrow> reaches s u"
  by (induction rule: reaches.induct) (auto intro: reaches.intros)

lemma reaches_one: "can_transition s t \<Longrightarrow> reaches s t"
  by (blast intro: reaches.intros)

text \<open>A set closed under transitions is never left.\<close>

lemma reaches_closed:
  assumes "reaches s t" and "P s" and "\<And>x y. P x \<Longrightarrow> can_transition x y \<Longrightarrow> P y"
  shows "P t"
  using assms(1,2) by (induction rule: reaches.induct) (auto intro: assms(3))

definition spent_or_ambiguous :: "transaction_state \<Rightarrow> bool" where
  "spent_or_ambiguous s \<longleftrightarrow>
     s \<in> {ProviderPending, Unknown, ReconciliationRequired, Settled, Declined, Failed, Refunded,
          Cancelled}"

lemma spent_or_ambiguous_closed:
  "spent_or_ambiguous s \<Longrightarrow> can_transition s t \<Longrightarrow> spent_or_ambiguous t"
  by (cases t) (auto simp: spent_or_ambiguous_def can_transition_into)

lemma terminal_step: "is_terminal s \<Longrightarrow> can_transition s t \<Longrightarrow> s = Settled \<and> t = Refunded"
  by (cases t) (auto simp: is_terminal_def can_transition_into)

lemma into_holding:
  "can_transition s t \<Longrightarrow> holds_funds t \<Longrightarrow> \<not> holds_funds s \<Longrightarrow>
     t = FundsReserved \<and> (s = PolicyValidated \<or> s = Approved)"
  by (cases t) (auto simp: holds_funds_def can_transition_into)

lemma settled_pred: "can_transition s Settled \<Longrightarrow>
    s = Executing \<or> s = ProviderPending \<or> s = Unknown \<or> s = ReconciliationRequired"
  by (auto simp: can_transition_into)

end
