(* ===== verification/Provider.thy ===== *)
theory Provider
  imports Intent
begin

text \<open>
  The payment providers behind the trait \<open>PaymentProvider\<close>: the simulated local provider
  (balance, holds, charges) and the manual prepaid card. The trait is the locale
  \<open>payment_provider\<close>, interpreted on both.
\<close>

section \<open>Data\<close>

datatype provider_outcome =
    OutApproved string | OutDeclined string | OutPending string | OutUnknown string

record provider_charge =
  ch_intent_id :: string
  ch_amount :: money
  ch_provider_reference :: string
  ch_settled :: bool
  ch_refunded :: bool

record simulated_provider =
  sp_provider_id :: string
  sp_balance :: money
  sp_holds :: "(string, money) bmap"
  sp_charges :: "(string, provider_charge) bmap"
  sp_incoming_deposits :: "money list"

datatype balance_status = Estimated | OwnerConfirmed | ProviderVerified

primrec balance_status_name :: "balance_status \<Rightarrow> string" where
  "balance_status_name Estimated = ''estimated''"
| "balance_status_name OwnerConfirmed = ''owner_confirmed''"
| "balance_status_name ProviderVerified = ''provider_verified''"

record manual_balance_snapshot =
  bs_amount :: money
  bs_status :: balance_status
  bs_observed_at :: int
  bs_source :: string
  bs_expires_at :: int

record secret_reference =
  sr_reference :: string
  sr_provider_kind :: string
  sr_last_four :: "string option"
  sr_persisted_secret :: bool

record manual_provider =
  mp_provider_id :: string
  mp_card :: secret_reference
  mp_balance_snapshot :: "manual_balance_snapshot option"
  mp_outgoing_supported :: bool

section \<open>The manual prepaid card\<close>

definition manual_provider_new :: "secret_reference \<Rightarrow> manual_provider" where
  "manual_provider_new reference =
     \<lparr>mp_provider_id = ''manual-prepaid-card'', mp_card = reference, mp_balance_snapshot = None,
      mp_outgoing_supported = False\<rparr>"

definition set_owner_confirmed_balance ::
  "manual_provider \<Rightarrow> money \<Rightarrow> string \<Rightarrow> int \<Rightarrow> ('s, manual_provider) op" where
  "set_owner_confirmed_balance p amount source ttl_secs =
     bind (lift (bounded source ''balance_source'' 128)) (\<lambda>_.
     if ttl_secs \<le> 0 \<or> minor amount < 0
     then fail (Invalid ''balance snapshot is invalid'')
     else bind now (\<lambda>at. ret (p\<lparr>mp_balance_snapshot := Some
       \<lparr>bs_amount = amount, bs_status = OwnerConfirmed, bs_observed_at = at, bs_source = source,
        bs_expires_at = i64_add at ttl_secs\<rparr>\<rparr>)))"

definition manual_available_balance :: "manual_provider \<Rightarrow> ('s, money) op" where
  "manual_available_balance p =
     bind (lift (ok_or (Conflict ''manual balance requires owner reconciliation'')
       (mp_balance_snapshot p))) (\<lambda>snapshot.
     bind now (\<lambda>at.
     if bs_expires_at snapshot \<le> at
     then fail (Conflict ''manual balance snapshot has expired; owner refresh is required'')
     else if bs_status snapshot = Estimated
     then fail (Conflict ''estimated manual balances cannot authorize spending'')
     else ret (bs_amount snapshot)))"

definition manual_authorize ::
  "manual_provider \<Rightarrow> purchase_intent \<Rightarrow> ('s, provider_outcome \<times> manual_provider) op" where
  "manual_authorize p intent = ret
     (OutUnknown ''manual card provider requires owner-controlled checkout and reconciliation'', p)"

section \<open>The simulated provider\<close>

definition simulated_new :: "money \<Rightarrow> simulated_provider" where
  "simulated_new balance =
     \<lparr>sp_provider_id = ''simulated-local'', sp_balance = balance, sp_holds = bempty,
      sp_charges = bempty, sp_incoming_deposits = []\<rparr>"

definition simulated_available_balance :: "simulated_provider \<Rightarrow> money res" where
  "simulated_available_balance p =
     rbind (money_zero (currency (sp_balance p))) (\<lambda>zero.
     rbind (rfold checked_add zero (bvals (sp_holds p))) (\<lambda>reserved.
     checked_sub (sp_balance p) reserved))"

text \<open>
  \<open>authorize\<close> and its kin mutate the provider in place: on an error the provider is as it
  was, since every fallible step precedes the first write.
\<close>

definition simulated_authorize ::
  "env \<Rightarrow> simulated_provider \<Rightarrow> purchase_intent \<Rightarrow> ('s, provider_outcome \<times> simulated_provider) op" where
  "simulated_authorize E p intent =
     (let total = final_total (in_request intent); sc = scenario (in_request intent) in
      case bget (sp_charges p) (in_id intent) of
        Some charge \<Rightarrow> ret (OutApproved (ch_provider_reference charge), p)
      | None \<Rightarrow>
          if sc = Decline then ret (OutDeclined ''simulated issuer decline'', p)
          else if sc = TimeoutBeforeSubmit
          then ret (OutUnknown ''network failed before the broker observed submission'', p)
          else
            bind (lift (simulated_available_balance p)) (\<lambda>available.
            if minor available < minor total
            then ret (OutDeclined ''simulated provider balance is insufficient'', p)
            else
              bind (new_id E ''sim_charge'') (\<lambda>reference.
              if sc = DelayedSettlement
              then ret (OutPending reference, p\<lparr>sp_holds := bput (in_id intent) total (sp_holds p)\<rparr>)
              else
                bind (lift (checked_sub (sp_balance p) total)) (\<lambda>balance.
                let p' = p\<lparr>sp_balance := balance, sp_charges := bput (in_id intent)
                      \<lparr>ch_intent_id = in_id intent, ch_amount = total,
                       ch_provider_reference = reference,
                       ch_settled = (sc \<noteq> TimeoutAfterSubmit), ch_refunded = False\<rparr>
                      (sp_charges p)\<rparr> in
                if sc = TimeoutAfterSubmit \<or> sc = BrowserCrash
                then ret (OutUnknown ''provider may have accepted the charge but the result was lost'', p')
                else ret (OutApproved reference, p')))))"

text \<open>
  \<open>settle_pending\<close> and \<open>refund\<close> write before a fallible step: the new provider is part of
  the error too. The second component of the result is the provider after the call.
\<close>

definition settle_pending ::
  "env \<Rightarrow> simulated_provider \<Rightarrow> purchase_intent \<Rightarrow> ('s, string res \<times> simulated_provider) op" where
  "settle_pending E p intent =
     (case bget (sp_holds p) (in_id intent) of
        None \<Rightarrow> ret (Inl (NotFound ''provider hold''), p)
      | Some amount \<Rightarrow>
          let p1 = p\<lparr>sp_holds := bdel (in_id intent) (sp_holds p)\<rparr> in
          case checked_sub (sp_balance p1) amount of
            Inl e \<Rightarrow> ret (Inl e, p1)
          | Inr balance \<Rightarrow>
              bind (new_id E ''sim_charge'') (\<lambda>reference.
              ret (Inr reference, p1\<lparr>sp_balance := balance, sp_charges := bput (in_id intent)
                \<lparr>ch_intent_id = in_id intent, ch_amount = amount,
                 ch_provider_reference = reference, ch_settled = True, ch_refunded = False\<rparr>
                (sp_charges p1)\<rparr>)))"

definition simulated_refund :: "simulated_provider \<Rightarrow> string \<Rightarrow> money res \<times> simulated_provider" where
  "simulated_refund p intent_id =
     (case bget (sp_charges p) intent_id of
        None \<Rightarrow> (Inl (NotFound ''provider charge''), p)
      | Some charge \<Rightarrow>
          if ch_refunded charge then (Inl (Conflict ''provider charge was already refunded''), p)
          else
            let p1 = p\<lparr>sp_charges := bput intent_id (charge\<lparr>ch_refunded := True\<rparr>) (sp_charges p)\<rparr> in
            case checked_add (sp_balance p1) (ch_amount charge) of
              Inl e \<Rightarrow> (Inl e, p1)
            | Inr balance \<Rightarrow> (Inr (ch_amount charge), p1\<lparr>sp_balance := balance\<rparr>))"

definition release_hold :: "simulated_provider \<Rightarrow> string \<Rightarrow> simulated_provider" where
  "release_hold p intent_id = p\<lparr>sp_holds := bdel intent_id (sp_holds p)\<rparr>"

definition reconcile_settled ::
  "env \<Rightarrow> simulated_provider \<Rightarrow> purchase_intent \<Rightarrow> string
     \<Rightarrow> ('s, string res \<times> simulated_provider) op" where
  "reconcile_settled E p intent reference =
     (if bget (sp_holds p) (in_id intent) \<noteq> None then settle_pending E p intent
      else case bget (sp_charges p) (in_id intent) of
        Some charge \<Rightarrow>
          ret (Inr (ch_provider_reference charge),
               p\<lparr>sp_charges := bput (in_id intent) (charge\<lparr>ch_settled := True\<rparr>) (sp_charges p)\<rparr>)
      | None \<Rightarrow>
          (case simulated_available_balance p of
             Inl e \<Rightarrow> ret (Inl e, p)
           | Inr available \<Rightarrow>
               if minor available < minor (final_total (in_request intent))
               then ret (Inl (MoneyError ''provider balance is insufficient for reconciled settlement''), p)
               else case checked_sub (sp_balance p) (final_total (in_request intent)) of
                 Inl e \<Rightarrow> ret (Inl e, p)
               | Inr balance \<Rightarrow>
                   ret (Inr reference, p\<lparr>sp_balance := balance, sp_charges := bput (in_id intent)
                     \<lparr>ch_intent_id = in_id intent, ch_amount = final_total (in_request intent),
                      ch_provider_reference = reference, ch_settled = True, ch_refunded = False\<rparr>
                     (sp_charges p)\<rparr>)))"

section \<open>Accounting\<close>

text \<open>
  What the provider has committed: held amounts are still in the balance, so the spendable
  part is the balance less the holds. A provider is sound when nothing is negative and its
  balance covers its holds, all in one currency.
\<close>

definition hold_total :: "simulated_provider \<Rightarrow> int" where
  "hold_total p = sum_list (map minor (bvals (sp_holds p)))"

definition spendable :: "simulated_provider \<Rightarrow> int" where
  "spendable p = minor (sp_balance p) - hold_total p"

definition provider_sound :: "simulated_provider \<Rightarrow> bool" where
  "provider_sound p \<longleftrightarrow> 0 \<le> spendable p
     \<and> (\<forall>m \<in> set (bvals (sp_holds p)). 0 \<le> minor m)
     \<and> (\<forall>c \<in> set (bvals (sp_charges p)). 0 \<le> minor (ch_amount c))"

lemma rfold_checked_add:
  "rfold checked_add m ms = Inr r \<Longrightarrow> minor r = minor m + sum_list (map minor ms) \<and> currency r = currency m"
  by (induction ms arbitrary: m) (auto simp: rbind_Inr_iff checked_Inr)

lemma simulated_available_Inr:
  assumes "simulated_available_balance p = Inr m"
  shows "minor m = spendable p \<and> currency m = currency (sp_balance p)"
proof -
  from assms obtain zero reserved where z: "money_zero (currency (sp_balance p)) = Inr zero"
    and r: "rfold checked_add zero (bvals (sp_holds p)) = Inr reserved"
    and m: "checked_sub (sp_balance p) reserved = Inr m"
    by (auto simp only: simulated_available_balance_def rbind_Inr_iff)
  from rfold_checked_add [OF r] z have "minor reserved = hold_total p"
    by (simp add: hold_total_def)
  with m show ?thesis by (simp add: checked_Inr spendable_def)
qed

lemma hold_total_bput:
  "hold_total (p\<lparr>sp_holds := bput k m (sp_holds p)\<rparr>) =
     hold_total p - (case bget (sp_holds p) k of None \<Rightarrow> 0 | Some u \<Rightarrow> minor u) + minor m"
  by (simp add: hold_total_def sum_bvals_bput)

lemma hold_total_nonneg: "\<forall>m \<in> set (bvals (sp_holds p)). 0 \<le> minor m \<Longrightarrow> 0 \<le> hold_total p"
  by (auto simp: hold_total_def intro!: sum_list_nonneg)

text \<open>Removing a key gives its value's share back.\<close>

lemma sum_bvals_bdel:
  fixes f :: "'v \<Rightarrow> int"
  shows "sum_list (map f (bvals (bdel k m))) =
    sum_list (map f (bvals m)) - (case bget m k of None \<Rightarrow> 0 | Some u \<Rightarrow> f u)"
proof (cases "bget m k")
  case None
  then have "bdel k m = m" by (intro bmap_eqI) simp
  with None show ?thesis by simp
next
  case (Some u)
  then have "m = bput k u (bdel k m)" by (intro bmap_eqI) simp
  then have "sum_list (map f (bvals m)) = sum_list (map f (bvals (bdel k m))) + f u"
    using sum_bvals_bput [of f k u "bdel k m"] by simp
  with Some show ?thesis by simp
qed

lemma bvals_bdel_subset: "set (bvals (bdel k m)) \<subseteq> set (bvals m)"
  by (auto simp: set_bvals split: if_splits)

section \<open>The trait as an interface\<close>

text \<open>
  What the treasury relies on when it authorizes a payment: the provider stays sound, a
  payment takes at most its total, and a declined payment takes nothing.
\<close>

locale payment_provider =
  fixes authorize :: "'p \<Rightarrow> purchase_intent \<Rightarrow> ('s, provider_outcome \<times> 'p) op"
    and funds :: "'p \<Rightarrow> int"
    and sound :: "'p \<Rightarrow> bool"
  assumes authorize_sound:
      "sound p \<Longrightarrow> 0 \<le> minor (final_total (in_request i)) \<Longrightarrow>
         authorize p i w = (Inr (out, p'), w') \<Longrightarrow> sound p'"
    and authorize_takes:
      "sound p \<Longrightarrow> 0 \<le> minor (final_total (in_request i)) \<Longrightarrow>
         authorize p i w = (Inr (out, p'), w') \<Longrightarrow>
         funds p - minor (final_total (in_request i)) \<le> funds p'"
    and authorize_declined:
      "sound p \<Longrightarrow> 0 \<le> minor (final_total (in_request i)) \<Longrightarrow>
         authorize p i w = (Inr (OutDeclined r, p'), w') \<Longrightarrow> funds p' = funds p"
    and authorize_frame: "keeps same_state (authorize p i)"
begin

text \<open>A client that authorizes a list of intents one after the other.\<close>

fun authorize_all :: "purchase_intent list \<Rightarrow> 'p \<Rightarrow> ('s, 'p) op" where
  "authorize_all [] p = ret p"
| "authorize_all (i # is) p = bind (authorize p i) (\<lambda>r. authorize_all is (snd r))"

lemma authorize_all_takes:
  assumes "authorize_all is p w = (Inr p', w')" and "sound p"
    and "\<forall>i \<in> set is. 0 \<le> minor (final_total (in_request i))"
  shows "sound p'
     \<and> funds p - sum_list (map (\<lambda>i. minor (final_total (in_request i))) is) \<le> funds p'"
  using assms
proof (induction "is" arbitrary: p w)
  case (Cons i "is")
  then obtain out q v where a: "authorize p i w = (Inr (out, q), v)"
    and rest: "authorize_all is q v = (Inr p', w')"
    by (auto simp: bind_Inr_iff)
  from Cons.prems have "0 \<le> minor (final_total (in_request i))" by simp
  note q = authorize_sound [OF Cons.prems(2) this a] authorize_takes [OF Cons.prems(2) this a]
  from Cons.IH [OF rest q(1)] Cons.prems(3) q(2) show ?case by auto
qed simp

end

lemma simulated_hold_sound:
  assumes "provider_sound p" and "0 \<le> minor t" and "minor t \<le> spendable p"
  shows "provider_sound (p\<lparr>sp_holds := bput k t (sp_holds p)\<rparr>)
    \<and> spendable p - minor t \<le> spendable (p\<lparr>sp_holds := bput k t (sp_holds p)\<rparr>)"
proof -
  have "0 \<le> (case bget (sp_holds p) k of None \<Rightarrow> 0 | Some u \<Rightarrow> minor u)"
    using assms(1) by (auto simp: provider_sound_def dest: bget_in_bvals split: option.split)
  moreover have "\<forall>m \<in> set (bvals (bput k t (sp_holds p))). 0 \<le> minor m"
    using assms(1,2) by (auto simp: provider_sound_def set_bvals split: if_splits)
  ultimately show ?thesis
    using assms hold_total_bput [where p = p and k = k and m = t] by (simp add: provider_sound_def spendable_def)
qed

lemma simulated_charge_sound:
  assumes "provider_sound p" and "0 \<le> minor t" and "minor t \<le> spendable p"
    and "checked_sub (sp_balance p) t = Inr b" and "ch_amount c = t"
  shows "provider_sound (p\<lparr>sp_balance := b, sp_charges := bput k c (sp_charges p)\<rparr>)
    \<and> spendable (p\<lparr>sp_balance := b, sp_charges := bput k c (sp_charges p)\<rparr>) = spendable p - minor t"
proof -
  have "\<forall>c \<in> set (bvals (bput k c (sp_charges p))). 0 \<le> minor (ch_amount c)"
    using assms(1,2,5) by (auto simp: provider_sound_def set_bvals split: if_splits)
  then show ?thesis
    using assms by (simp add: provider_sound_def spendable_def hold_total_def checked_Inr)
qed

lemma simulated_authorize_wp:
  assumes "provider_sound p" and "0 \<le> minor (final_total (in_request i))"
  shows "wp (simulated_authorize E p i)
    (\<lambda>r w'. provider_sound (snd r)
       \<and> spendable p - minor (final_total (in_request i)) \<le> spendable (snd r)
       \<and> ((\<exists>m. fst r = OutDeclined m) \<longrightarrow> snd r = p)) (\<lambda>_ _. True) w"
  using assms simulated_hold_sound [OF assms] simulated_charge_sound [OF assms]
  by (auto simp: simulated_authorize_def Let_def wp_simps dest!: simulated_available_Inr)

lemma keeps_same_authorize: "keeps same_state (simulated_authorize E p i)"
  unfolding simulated_authorize_def Let_def by (intro keeps_same)

interpretation sim: payment_provider "simulated_authorize E" spendable provider_sound for E
proof
  fix p :: simulated_provider and i :: purchase_intent and w :: "'a world" and out p' w'
  assume a: "provider_sound p" "0 \<le> minor (final_total (in_request i))"
    "simulated_authorize E p i w = (Inr (out, p'), w')"
  show "provider_sound p'" and "spendable p - minor (final_total (in_request i)) \<le> spendable p'"
    using wp_OkD [OF simulated_authorize_wp [OF a(1,2)] a(3)] by simp_all
next
  fix p :: simulated_provider and i :: purchase_intent and w :: "'a world" and r p' w'
  assume a: "provider_sound p" "0 \<le> minor (final_total (in_request i))"
    "simulated_authorize E p i w = (Inr (OutDeclined r, p'), w')"
  show "spendable p' = spendable p"
    using wp_OkD [OF simulated_authorize_wp [OF a(1,2)] a(3)] by simp
qed (rule keeps_same_authorize)

definition manual_funds :: "manual_provider \<Rightarrow> int" where
  "manual_funds p = (case mp_balance_snapshot p of None \<Rightarrow> 0 | Some b \<Rightarrow> minor (bs_amount b))"

interpretation manual: payment_provider manual_authorize manual_funds "\<lambda>p. 0 \<le> manual_funds p"
  by unfold_locales (auto simp: manual_authorize_def keeps_same)

end
