(* ===== verification/State.thy ===== *)
theory State
  imports Provider
begin

text \<open>
  \<open>TreasuryState\<close> and the records it holds, the actors, and the lookups every handler
  starts with. The JSON encoders are the derived \<open>Serialize\<close> instances, over which the
  state's authentication code is computed.
\<close>

section \<open>Records\<close>

datatype ledger_event_kind =
    OwnerCapital | IncomeVerified | IncomeUnverified | OperatorTopUp | HoldReserved
  | HoldReleased | SpendingSettled | Reversal | Refund | UnknownCharge | Reconciliation

primrec ledger_kind_name :: "ledger_event_kind \<Rightarrow> string" where
  "ledger_kind_name OwnerCapital = ''owner_capital''"
| "ledger_kind_name IncomeVerified = ''income_verified''"
| "ledger_kind_name IncomeUnverified = ''income_unverified''"
| "ledger_kind_name OperatorTopUp = ''operator_top_up''"
| "ledger_kind_name HoldReserved = ''hold_reserved''"
| "ledger_kind_name HoldReleased = ''hold_released''"
| "ledger_kind_name SpendingSettled = ''spending_settled''"
| "ledger_kind_name Reversal = ''reversal''"
| "ledger_kind_name Refund = ''refund''"
| "ledger_kind_name UnknownCharge = ''unknown_charge''"
| "ledger_kind_name Reconciliation = ''reconciliation''"

record ledger_event =
  le_id :: string
  le_at :: int
  le_kind :: ledger_event_kind
  le_amount :: money
  le_intent_id :: "string option"
  le_source :: string
  le_verified :: bool

record ledger_snap =
  ls_currency :: string
  owner_capital :: money
  verified_income :: money
  unverified_income :: money
  operator_topups :: money
  settled_spending :: money
  refunds :: money
  ls_reserved_amount :: money
  available_authority :: money

record receive_info =
  ri_method :: string
  ri_address :: string
  ri_memo_template :: string
  ri_public :: bool
  ri_configured_at :: int

record agent_record =
  ag_id :: string
  ag_name :: string
  ag_token_hash :: string
  ag_scopes :: "string bset"
  ag_policy_id :: string
  ag_approved_merchants :: "string bset"
  ag_session_id :: string
  ag_session_expires_at :: int
  ag_mode :: autonomy_mode
  ag_created_at :: int
  ag_expires_at :: int
  ag_revoked :: bool

record owner_record =
  ow_id :: string
  ow_name :: string
  ow_token_hash :: string
  ow_created_at :: int

record audit_entry =
  au_sequence :: nat
  au_at :: int
  au_actor :: string
  au_action :: string
  au_intent_id :: "string option"
  au_policy_version :: "nat option"
  au_decision :: "string option"
  au_details :: json
  au_previous_hash :: string
  au_hash :: string

datatype provider_mode_kind = Simulated | ManualPrepaidCard

primrec provider_mode_name :: "provider_mode_kind \<Rightarrow> string" where
  "provider_mode_name Simulated = ''simulated''"
| "provider_mode_name ManualPrepaidCard = ''manual_prepaid_card''"

record treasury_state =
  schema_version :: nat
  generation :: nat
  owner :: owner_record
  agents :: "(string, agent_record) bmap"
  policies :: "(string, policy) bmap"
  intents :: "(string, purchase_intent) bmap"
  ledger :: "ledger_event list"
  audit_log :: "audit_entry list"
  receive_instructions :: "receive_info option"
  emergency_stop :: bool
  provider :: simulated_provider
  provider_mode :: provider_mode_kind
  manual_provider :: "manual_provider option"
  processed_deposits :: "(string, string) bmap"

datatype actor = OwnerActor | AgentActor string

type_synonym 'a top = "(treasury_state, 'a) op"

section \<open>Serialization\<close>

definition j_map :: "('v \<Rightarrow> json) \<Rightarrow> (string, 'v) bmap \<Rightarrow> json" where
  "j_map f m = JObj (map (\<lambda>e. (fst e, f (snd e))) (items m))"

definition j_option :: "('v \<Rightarrow> json) \<Rightarrow> 'v option \<Rightarrow> json" where
  "j_option f x = (case x of None \<Rightarrow> JNull | Some v \<Rightarrow> f v)"

definition ledger_event_json :: "ledger_event \<Rightarrow> json" where
  "ledger_event_json e = JObj
    [(''id'', JStr (le_id e)), (''at'', JInt (le_at e)),
     (''kind'', JStr (ledger_kind_name (le_kind e))), (''amount'', money_json (le_amount e)),
     (''intent_id'', j_opt_str (le_intent_id e)), (''source'', JStr (le_source e)),
     (''verified'', JBool (le_verified e))]"

definition ledger_snap_json :: "ledger_snap \<Rightarrow> json" where
  "ledger_snap_json l = JObj
    [(''currency'', JStr (ls_currency l)),
     (''owner_capital'', money_json (owner_capital l)),
     (''verified_income'', money_json (verified_income l)),
     (''unverified_income'', money_json (unverified_income l)),
     (''operator_topups'', money_json (operator_topups l)),
     (''settled_spending'', money_json (settled_spending l)),
     (''refunds'', money_json (refunds l)),
     (''reserved_amount'', money_json (ls_reserved_amount l)),
     (''available_authority'', money_json (available_authority l))]"

definition receive_json :: "receive_info \<Rightarrow> json" where
  "receive_json r = JObj
    [(''method'', JStr (ri_method r)), (''address'', JStr (ri_address r)),
     (''memo_template'', JStr (ri_memo_template r)), (''public'', JBool (ri_public r)),
     (''configured_at'', JInt (ri_configured_at r))]"

definition agent_json :: "agent_record \<Rightarrow> json" where
  "agent_json a = JObj
    [(''id'', JStr (ag_id a)), (''name'', JStr (ag_name a)),
     (''capability_token_hash'', JStr (ag_token_hash a)),
     (''scopes'', j_set_of (ag_scopes a)), (''policy_id'', JStr (ag_policy_id a)),
     (''approved_merchants'', j_set_of (ag_approved_merchants a)),
     (''broker_session_id'', JStr (ag_session_id a)),
     (''broker_session_expires_at'', JInt (ag_session_expires_at a)),
     (''mode'', JStr (mode_name (ag_mode a))), (''created_at'', JInt (ag_created_at a)),
     (''expires_at'', JInt (ag_expires_at a)), (''revoked'', JBool (ag_revoked a))]"

definition owner_json :: "owner_record \<Rightarrow> json" where
  "owner_json r = JObj
    [(''id'', JStr (ow_id r)), (''name'', JStr (ow_name r)),
     (''capability_token_hash'', JStr (ow_token_hash r)), (''created_at'', JInt (ow_created_at r))]"

definition audit_entry_json :: "audit_entry \<Rightarrow> json" where
  "audit_entry_json e = JObj
    [(''sequence'', JInt (int (au_sequence e))), (''at'', JInt (au_at e)),
     (''actor'', JStr (au_actor e)), (''action'', JStr (au_action e)),
     (''intent_id'', j_opt_str (au_intent_id e)),
     (''policy_version'', j_opt_nat (au_policy_version e)),
     (''decision'', j_opt_str (au_decision e)), (''details'', au_details e),
     (''previous_hash'', JStr (au_previous_hash e)), (''hash'', JStr (au_hash e))]"

definition intent_json :: "purchase_intent \<Rightarrow> json" where
  "intent_json i = JObj
    [(''id'', JStr (in_id i)), (''agent_id'', JStr (in_agent_id i)),
     (''broker_session_id'', JStr (in_broker_session_id i)),
     (''request'', request_json (in_request i)), (''state'', JStr (state_name (in_state i))),
     (''decision'', decision_json (in_decision i)),
     (''policy_version'', JInt (int (in_policy_version i))),
     (''created_at'', JInt (in_created_at i)), (''updated_at'', JInt (in_updated_at i)),
     (''provider_reference'', j_opt_str (in_provider_reference i)),
     (''receipt_hash'', j_opt_str (in_receipt_hash i)),
     (''receipt'', j_option receipt_json (in_receipt i)),
     (''last_error'', j_opt_str (in_last_error i))]"

definition charge_json :: "provider_charge \<Rightarrow> json" where
  "charge_json c = JObj
    [(''intent_id'', JStr (ch_intent_id c)), (''amount'', money_json (ch_amount c)),
     (''provider_reference'', JStr (ch_provider_reference c)),
     (''settled'', JBool (ch_settled c)), (''refunded'', JBool (ch_refunded c))]"

definition simulated_json :: "simulated_provider \<Rightarrow> json" where
  "simulated_json p = JObj
    [(''provider_id'', JStr (sp_provider_id p)), (''balance'', money_json (sp_balance p)),
     (''holds'', j_map money_json (sp_holds p)), (''charges'', j_map charge_json (sp_charges p)),
     (''incoming_deposits'', JArr (map money_json (sp_incoming_deposits p)))]"

definition balance_json :: "manual_balance_snapshot \<Rightarrow> json" where
  "balance_json b = JObj
    [(''amount'', money_json (bs_amount b)), (''status'', JStr (balance_status_name (bs_status b))),
     (''observed_at'', JInt (bs_observed_at b)), (''source'', JStr (bs_source b)),
     (''expires_at'', JInt (bs_expires_at b))]"

definition secret_reference_json :: "secret_reference \<Rightarrow> json" where
  "secret_reference_json r = JObj
    [(''reference'', JStr (sr_reference r)), (''provider_kind'', JStr (sr_provider_kind r)),
     (''last_four'', j_opt_str (sr_last_four r)),
     (''persisted_secret'', JBool (sr_persisted_secret r))]"

definition manual_json :: "manual_provider \<Rightarrow> json" where
  "manual_json p = JObj
    [(''provider_id'', JStr (mp_provider_id p)), (''card'', secret_reference_json (mp_card p)),
     (''balance_snapshot'', j_option balance_json (mp_balance_snapshot p)),
     (''outgoing_supported'', JBool (mp_outgoing_supported p))]"

definition state_json :: "treasury_state \<Rightarrow> json" where
  "state_json s = JObj
    [(''schema_version'', JInt (int (schema_version s))),
     (''generation'', JInt (int (generation s))), (''owner'', owner_json (owner s)),
     (''agents'', j_map agent_json (agents s)), (''policies'', j_map policy_json (policies s)),
     (''intents'', j_map intent_json (intents s)),
     (''ledger'', JArr (map ledger_event_json (ledger s))),
     (''audit'', JArr (map audit_entry_json (audit_log s))),
     (''receive_instructions'', j_option receive_json (receive_instructions s)),
     (''emergency_stop'', JBool (emergency_stop s)),
     (''provider'', simulated_json (provider s)),
     (''provider_mode'', JStr (provider_mode_name (provider_mode s))),
     (''manual_provider'', j_option manual_json (manual_provider s)),
     (''processed_deposits'', j_map JStr (processed_deposits s))]"

section \<open>Lookups\<close>

definition agent_of :: "treasury_state \<Rightarrow> string \<Rightarrow> agent_record res" where
  "agent_of s agent_id = ok_or (NotFound (''agent '' @ agent_id)) (bget (agents s) agent_id)"

definition policy_of :: "treasury_state \<Rightarrow> string \<Rightarrow> policy res" where
  "policy_of s policy_id = ok_or (NotFound (''policy '' @ policy_id)) (bget (policies s) policy_id)"

definition intent_for_agent :: "treasury_state \<Rightarrow> string \<Rightarrow> string \<Rightarrow> purchase_intent res" where
  "intent_for_agent s agent_id intent_id =
     rbind (ok_or (NotFound intent_id) (bget (intents s) intent_id)) (\<lambda>intent.
     if in_agent_id intent \<noteq> agent_id then Inl (Forbidden ''intent belongs to another agent'')
     else Inr intent)"

definition put_intent :: "string \<Rightarrow> purchase_intent \<Rightarrow> unit top" where
  "put_intent k i = update_state (\<lambda>s. s\<lparr>intents := bput k i (intents s)\<rparr>)"

definition put_agent :: "string \<Rightarrow> agent_record \<Rightarrow> unit top" where
  "put_agent k a = update_state (\<lambda>s. s\<lparr>agents := bput k a (agents s)\<rparr>)"

lemma agent_of_Inr [simp]: "agent_of s k = Inr a \<longleftrightarrow> bget (agents s) k = Some a"
  by (simp add: agent_of_def)

lemma policy_of_Inr [simp]: "policy_of s k = Inr p \<longleftrightarrow> bget (policies s) k = Some p"
  by (simp add: policy_of_def)

lemma intent_for_agent_Inr [simp]:
  "intent_for_agent s a k = Inr i \<longleftrightarrow> bget (intents s) k = Some i \<and> in_agent_id i = a"
  by (auto simp: intent_for_agent_def rbind_Inr_iff)

lemma wp_put_entry [wp_simps]:
  "wp (put_intent k i) Q R w =
     Q () (w\<lparr>w_state := (w_state w)\<lparr>intents := bput k i (intents (w_state w))\<rparr>\<rparr>)"
  "wp (put_agent k a) Q R w =
     Q () (w\<lparr>w_state := (w_state w)\<lparr>agents := bput k a (agents (w_state w))\<rparr>\<rparr>)"
  by (simp_all add: put_intent_def put_agent_def wp_simps)

lemma keeps_case_mode:
  "keeps R m \<Longrightarrow> keeps R n \<Longrightarrow> keeps R (case x of Simulated \<Rightarrow> m | ManualPrepaidCard \<Rightarrow> n)"
  by (cases x) auto

lemma keeps_case_actor:
  "keeps R m \<Longrightarrow> (\<And>k. keeps R (f k)) \<Longrightarrow>
     keeps R (case x of OwnerActor \<Rightarrow> m | AgentActor k \<Rightarrow> f k)"
  by (cases x) auto

lemma keeps_case_pair: "(\<And>a b. keeps R (f a b)) \<Longrightarrow> keeps R (case x of (a, b) \<Rightarrow> f a b)"
  by (cases x) auto

lemma wp_case_mode [wp_simps]:
  "wp (case x of Simulated \<Rightarrow> m | ManualPrepaidCard \<Rightarrow> n) Q R w =
     ((x = Simulated \<longrightarrow> wp m Q R w) \<and> (x = ManualPrepaidCard \<longrightarrow> wp n Q R w))"
  by (cases x) auto

lemma wp_case_actor [wp_simps]:
  "wp (case x of OwnerActor \<Rightarrow> m | AgentActor k \<Rightarrow> f k) Q R w =
     ((x = OwnerActor \<longrightarrow> wp m Q R w) \<and> (\<forall>k. x = AgentActor k \<longrightarrow> wp (f k) Q R w))"
  by (cases x) auto

lemma wp_case_pair [wp_simps]:
  "wp (case x of (a, b) \<Rightarrow> f a b) Q R w = wp (f (fst x) (snd x)) Q R w"
  by (cases x) auto

lemmas keeps_cases = keeps_case_mode keeps_case_actor keeps_case_pair

end
