(* ===== verification/Audit_Log.thy ===== *)
theory Audit_Log
  imports State
begin

text \<open>
  The audit log: a hash chain under the treasury's key with a capacity reserve for money
  safety and for the emergency stop (\<open>audit\<close>, \<open>verify_audit_chain\<close>,
  \<open>audit_capacity_allows\<close>, \<open>require_money_workflow_audit_capacity\<close>).
\<close>

definition max_audit_entries :: nat where "max_audit_entries = 100000"
definition audit_safety_reserve :: nat where "audit_safety_reserve = 1024"
definition emergency_audit_reserve :: nat where "emergency_audit_reserve = 256"

section \<open>Capacity\<close>

definition is_emergency_audit :: "string \<Rightarrow> bool" where
  "is_emergency_audit action \<longleftrightarrow> action = ''emergency_stop_on'' \<or> action = ''emergency_stop_off''"

definition is_money_safety_audit :: "string \<Rightarrow> bool" where
  "is_money_safety_audit action \<longleftrightarrow>
     action = ''reserve_funds''
     \<or> action = ''provider_outcome''
     \<or> action = ''quarantine_provider_error''
     \<or> action = ''recover_interrupted_execution''
     \<or> action = ''begin_manual_handoff''
     \<or> action = ''complete_manual_handoff''
     \<or> action = ''controlled_checkout_handoff''
     \<or> action = ''reconcile_intent''"

definition audit_capacity_allows :: "nat \<Rightarrow> nat \<Rightarrow> string \<Rightarrow> bool" where
  "audit_capacity_allows non_emergency emergency action =
     (if action = ''emergency_stop_on'' then True
      else if action = ''emergency_stop_off'' then emergency < emergency_audit_reserve
      else
        let limit = (if is_money_safety_audit action then max_audit_entries
                     else max_audit_entries - audit_safety_reserve) in
        non_emergency < limit)"

definition usize_saturating_add :: "nat \<Rightarrow> nat \<Rightarrow> nat" where
  "usize_saturating_add a b = min u64_max (a + b)"

definition money_workflow_capacity_allows :: "nat \<Rightarrow> nat \<Rightarrow> nat \<Rightarrow> bool" where
  "money_workflow_capacity_allows used reserved new_slots \<longleftrightarrow>
     usize_saturating_add (usize_saturating_add used reserved) new_slots \<le> max_audit_entries"

definition reserved_slots :: "transaction_state \<Rightarrow> nat" where
  "reserved_slots s =
     (if s = Executing then 2
      else if s = ProviderPending \<or> s = Unknown \<or> s = ReconciliationRequired then 1
      else 0)"

definition emergency_count :: "audit_entry list \<Rightarrow> nat" where
  "emergency_count es = length (filter (\<lambda>e. is_emergency_audit (au_action e)) es)"

definition ordinary_count :: "audit_entry list \<Rightarrow> nat" where
  "ordinary_count es = length (filter (\<lambda>e. \<not> is_emergency_audit (au_action e)) es)"

definition total_reserved :: "treasury_state \<Rightarrow> nat" where
  "total_reserved s = sum_list (map (\<lambda>i. reserved_slots (in_state i)) (bvals (intents s)))"

definition require_money_workflow_audit_capacity :: "treasury_state \<Rightarrow> nat \<Rightarrow> unit res" where
  "require_money_workflow_audit_capacity s new_slots =
     (if \<not> money_workflow_capacity_allows (ordinary_count (audit_log s)) (total_reserved s) new_slots
      then Inl (Conflict ''audit safety reserve is full; resolve existing payment outcomes first'')
      else Inr ())"

section \<open>Appending an entry\<close>

definition unsigned_json ::
  "nat \<Rightarrow> int \<Rightarrow> string \<Rightarrow> string \<Rightarrow> string option \<Rightarrow> nat option \<Rightarrow> string option \<Rightarrow> json
     \<Rightarrow> string \<Rightarrow> json" where
  "unsigned_json sequence at actor action intent_id policy_version decision details previous =
     JObj [(''sequence'', JInt (int sequence)), (''at'', JInt at), (''actor'', JStr actor),
           (''action'', JStr action), (''intent_id'', j_opt_str intent_id),
           (''policy_version'', j_opt_nat policy_version), (''decision'', j_opt_str decision),
           (''details'', details), (''previous_hash'', JStr previous)]"

definition last_hash :: "audit_entry list \<Rightarrow> string" where
  "last_hash es = (if es = [] then [] else au_hash (last es))"

definition new_entry ::
  "env \<Rightarrow> string \<Rightarrow> audit_entry list \<Rightarrow> int \<Rightarrow> string \<Rightarrow> string \<Rightarrow> string option \<Rightarrow> nat option
     \<Rightarrow> string option \<Rightarrow> json \<Rightarrow> audit_entry" where
  "new_entry E key es at actor action intent_id policy_version decision details =
     (let redacted = redact_json_value E details; sequence = length es + 1;
          previous = last_hash es in
      \<lparr>au_sequence = sequence, au_at = at, au_actor = actor, au_action = action,
       au_intent_id = intent_id, au_policy_version = policy_version, au_decision = decision,
       au_details = redacted, au_previous_hash = previous,
       au_hash = hmac_hash E key (unsigned_json sequence at actor action intent_id policy_version
         decision redacted previous)\<rparr>)"

definition audited :: "treasury_state \<Rightarrow> audit_entry \<Rightarrow> treasury_state" where
  "audited s e = s\<lparr>generation := generation s + 1, audit_log := audit_log s @ [e]\<rparr>"

definition audit ::
  "env \<Rightarrow> string \<Rightarrow> string \<Rightarrow> string option \<Rightarrow> nat option \<Rightarrow> string option \<Rightarrow> json
     \<Rightarrow> unit top" where
  "audit E actor action intent_id policy_version decision details =
     bind get_state (\<lambda>s.
     let emergency = emergency_count (audit_log s);
         non_emergency = length (audit_log s) - emergency in
     if \<not> audit_capacity_allows non_emergency emergency action
     then fail (Conflict ''durable audit quota reached; archive this treasury before continuing'')
     else
       bind (lift (ok_or (Conflict ''state generation overflow'') (u64_checked_add (generation s) 1)))
         (\<lambda>_.
       bind now (\<lambda>at.
       bind (gets w_key) (\<lambda>key.
       update_state (\<lambda>s. audited s (new_entry E key (audit_log s) at actor action intent_id
         policy_version decision details))))))"

section \<open>Verification of the chain\<close>

fun verify_from :: "env \<Rightarrow> string \<Rightarrow> nat \<Rightarrow> string \<Rightarrow> audit_entry list \<Rightarrow> unit res" where
  "verify_from E key index previous [] = Inr ()"
| "verify_from E key index previous (e # es) =
     (if au_sequence e \<noteq> index + 1
      then Inl (Conflict (''audit sequence '' @ show_nat (au_sequence e) @ '' is not contiguous''))
      else if au_previous_hash e \<noteq> previous
      then Inl (Conflict (''audit sequence '' @ show_nat (au_sequence e)
        @ '' has a broken predecessor''))
      else if hmac_hash E key (unsigned_json (au_sequence e) (au_at e) (au_actor e) (au_action e)
          (au_intent_id e) (au_policy_version e) (au_decision e) (au_details e)
          (au_previous_hash e)) \<noteq> au_hash e
      then Inl (Conflict (''audit sequence '' @ show_nat (au_sequence e) @ '' has an invalid hash''))
      else verify_from E key (index + 1) (au_hash e) es)"

definition verify_audit_chain :: "env \<Rightarrow> string \<Rightarrow> treasury_state \<Rightarrow> unit res" where
  "verify_audit_chain E key s = verify_from E key 0 [] (audit_log s)"

definition chained :: "env \<Rightarrow> treasury_state world \<Rightarrow> bool" where
  "chained E w \<longleftrightarrow> verify_audit_chain E (w_key w) (w_state w) = Inr ()"

section \<open>Lemmas\<close>

lemma audited_simps [simp]:
  "schema_version (audited s e) = schema_version s"
  "generation (audited s e) = generation s + 1"
  "owner (audited s e) = owner s"
  "agents (audited s e) = agents s"
  "policies (audited s e) = policies s"
  "intents (audited s e) = intents s"
  "ledger (audited s e) = ledger s"
  "audit_log (audited s e) = audit_log s @ [e]"
  "receive_instructions (audited s e) = receive_instructions s"
  "emergency_stop (audited s e) = emergency_stop s"
  "provider (audited s e) = provider s"
  "provider_mode (audited s e) = provider_mode s"
  "manual_provider (audited s e) = manual_provider s"
  "processed_deposits (audited s e) = processed_deposits s"
  by (simp_all add: audited_def)

lemma counts_sum: "ordinary_count es + emergency_count es = length es"
  unfolding ordinary_count_def emergency_count_def
  using sum_length_filter_compl [of "\<lambda>e. is_emergency_audit (au_action e)" es] by simp

lemma ordinary_count_length: "length es - emergency_count es = ordinary_count es"
  using counts_sum [of es] by simp

lemma count_snoc [simp]:
  "emergency_count (es @ [e]) = emergency_count es + (if is_emergency_audit (au_action e) then 1 else 0)"
  "ordinary_count (es @ [e]) = ordinary_count es + (if is_emergency_audit (au_action e) then 0 else 1)"
  by (simp_all add: emergency_count_def ordinary_count_def)

lemma new_entry_action [simp]:
  "au_action (new_entry E key es at actor action iid pv dec det) = action"
  by (simp add: new_entry_def Let_def)

definition audit_refused :: "treasury_state \<Rightarrow> string \<Rightarrow> bool" where
  "audit_refused s action \<longleftrightarrow>
     \<not> audit_capacity_allows (ordinary_count (audit_log s)) (emergency_count (audit_log s)) action"

definition audit_full :: treasury_error where
  "audit_full = Conflict ''durable audit quota reached; archive this treasury before continuing''"

definition generation_full :: treasury_error where
  "generation_full = Conflict ''state generation overflow''"

lemma wp_audit [wp_simps]:
  "wp (audit E actor action iid pv dec det) Q R w =
     (if audit_refused (w_state w) action then R audit_full w
      else if u64_max \<le> generation (w_state w) then R generation_full w
      else Q () (w\<lparr>w_reads := Suc (w_reads w),
         w_state := audited (w_state w) (new_entry E (w_key w) (audit_log (w_state w))
           (w_clock w (w_reads w)) actor action iid pv dec det)\<rparr>))"
  by (simp add: audit_def wp_simps Let_def u64_checked_add_def audit_refused_def
      ordinary_count_length audit_full_def generation_full_def)

lemma run_audit:
  "audit E actor action iid pv dec det w =
     (if audit_refused (w_state w) action then (Inl audit_full, w)
      else if u64_max \<le> generation (w_state w) then (Inl generation_full, w)
      else (Inr (), w\<lparr>w_reads := Suc (w_reads w),
         w_state := audited (w_state w) (new_entry E (w_key w) (audit_log (w_state w))
           (w_clock w (w_reads w)) actor action iid pv dec det)\<rparr>))"
  by (simp add: audit_def run_bind Let_def u64_checked_add_def audit_refused_def
      ordinary_count_length audit_full_def generation_full_def)

lemma verify_from_snoc:
  "verify_from E key n prev (es @ [e]) = Inr () \<longleftrightarrow>
     verify_from E key n prev es = Inr ()
     \<and> verify_from E key (n + length es) (if es = [] then prev else au_hash (last es)) [e] = Inr ()"
  by (induction es arbitrary: n prev) auto

lemma chain_extended:
  assumes "verify_from E key 0 [] es = Inr ()"
  shows "verify_from E key 0 [] (es @ [new_entry E key es at actor action iid pv dec det]) = Inr ()"
  using assms by (auto simp: verify_from_snoc new_entry_def last_hash_def Let_def)

text \<open>A verified chain fixes the numbering and each link.\<close>

lemma verify_from_nth:
  assumes "verify_from E key n prev es = Inr ()" and "k < length es"
  shows "au_sequence (es ! k) = n + k + 1
    \<and> au_previous_hash (es ! k) = (if k = 0 then prev else au_hash (es ! (k - 1)))"
  using assms
proof (induction es arbitrary: n prev k)
  case (Cons e es)
  then show ?case by (cases k) (auto split: if_splits simp: nth_Cons')
qed simp

end
