(* ===== verification/Ledger.thy ===== *)
theory Ledger
  imports Audit_Log
begin

text \<open>
  The ledger of events, the snapshot computed from it and from the intents that hold funds,
  the budget usage of an agent, the authority check, and the dispatch to the configured
  provider.
\<close>

section \<open>The snapshot\<close>

definition apply_event :: "string \<Rightarrow> ledger_snap \<Rightarrow> ledger_event \<Rightarrow> ledger_snap res" where
  "apply_event cur l e =
     (if currency (le_amount e) \<noteq> cur then Inr l
      else case le_kind e of
        OwnerCapital \<Rightarrow> rbind (checked_add (owner_capital l) (le_amount e)) (\<lambda>m.
          Inr (l\<lparr>owner_capital := m\<rparr>))
      | IncomeVerified \<Rightarrow> rbind (checked_add (verified_income l) (le_amount e)) (\<lambda>m.
          Inr (l\<lparr>verified_income := m\<rparr>))
      | IncomeUnverified \<Rightarrow> rbind (checked_add (unverified_income l) (le_amount e)) (\<lambda>m.
          Inr (l\<lparr>unverified_income := m\<rparr>))
      | OperatorTopUp \<Rightarrow> rbind (checked_add (operator_topups l) (le_amount e)) (\<lambda>m.
          Inr (l\<lparr>operator_topups := m\<rparr>))
      | SpendingSettled \<Rightarrow> rbind (checked_add (settled_spending l) (le_amount e)) (\<lambda>m.
          Inr (l\<lparr>settled_spending := m\<rparr>))
      | Refund \<Rightarrow> rbind (checked_add (refunds l) (le_amount e)) (\<lambda>m.
          Inr (l\<lparr>refunds := m\<rparr>))
      | _ \<Rightarrow> Inr l)"

definition apply_hold :: "string \<Rightarrow> ledger_snap \<Rightarrow> purchase_intent \<Rightarrow> ledger_snap res" where
  "apply_hold cur l i =
     (if currency (final_total (in_request i)) = cur \<and> holds_funds (in_state i)
      then rbind (checked_add (ls_reserved_amount l) (final_total (in_request i))) (\<lambda>m.
        Inr (l\<lparr>ls_reserved_amount := m\<rparr>))
      else Inr l)"

definition ledger_snapshot :: "treasury_state \<Rightarrow> string \<Rightarrow> ledger_snap res" where
  "ledger_snapshot s cur =
     rbind (money_zero cur) (\<lambda>zero.
     rbind (rfold (apply_event cur)
       \<lparr>ls_currency = cur, owner_capital = zero, verified_income = zero, unverified_income = zero,
        operator_topups = zero, settled_spending = zero, refunds = zero,
        ls_reserved_amount = zero, available_authority = zero\<rparr> (ledger s)) (\<lambda>l1.
     rbind (rfold (apply_hold cur) l1 (bvals (intents s))) (\<lambda>l.
     rbind (rbind (checked_add (owner_capital l) (operator_topups l))
       (\<lambda>sum. checked_add sum (refunds l))) (\<lambda>credits.
     rbind (checked_add (settled_spending l) (ls_reserved_amount l)) (\<lambda>debits.
     rbind (checked_sub credits debits) (\<lambda>available.
     if minor available < 0
     then Inl (Conflict ''ledger authority invariant would become negative'')
     else Inr (l\<lparr>available_authority := available\<rparr>)))))))"

section \<open>Usage\<close>

definition event_belongs :: "treasury_state \<Rightarrow> string \<Rightarrow> ledger_event \<Rightarrow> bool" where
  "event_belongs s agent_id e =
     (case le_intent_id e of
        None \<Rightarrow> True
      | Some k \<Rightarrow> (case bget (intents s) k of None \<Rightarrow> False | Some i \<Rightarrow> in_agent_id i = agent_id))"

definition usage_event ::
  "treasury_state \<Rightarrow> string \<Rightarrow> string \<Rightarrow> string \<Rightarrow> int \<Rightarrow> budget_usage \<Rightarrow> ledger_event
     \<Rightarrow> budget_usage res" where
  "usage_event s agent_id sid cur at u e =
     (if currency (le_amount e) \<noteq> cur \<or> \<not> event_belongs s agent_id e
          \<or> le_kind e \<noteq> SpendingSettled
      then Inr u
      else
        rbind (checked_add (lifetime_amount u) (le_amount e)) (\<lambda>life.
        rbind (if i64_sub at (24 * 60 * 60) \<le> le_at e
               then checked_add (rolling_24h_amount u) (le_amount e)
               else Inr (rolling_24h_amount u)) (\<lambda>rolling.
        rbind (case Option.bind (le_intent_id e) (bget (intents s)) of
                 Some i \<Rightarrow> if in_broker_session_id i = sid
                           then checked_add (session_amount u) (le_amount e)
                           else Inr (session_amount u)
               | None \<Rightarrow> Inr (session_amount u)) (\<lambda>session.
        Inr (u\<lparr>lifetime_amount := life, rolling_24h_amount := rolling,
               session_amount := session\<rparr>)))))"

definition usage_hold :: "string \<Rightarrow> string \<Rightarrow> budget_usage \<Rightarrow> purchase_intent \<Rightarrow> budget_usage res" where
  "usage_hold agent_id sid u i =
     (if in_agent_id i = agent_id \<and> holds_funds (in_state i)
      then
        let total = final_total (in_request i) in
        rbind (checked_add (us_reserved_amount u) total) (\<lambda>held.
        rbind (checked_add (lifetime_amount u) total) (\<lambda>life.
        rbind (checked_add (rolling_24h_amount u) total) (\<lambda>rolling.
        rbind (if in_broker_session_id i = sid
               then checked_add (session_amount u) total else Inr (session_amount u)) (\<lambda>session.
        Inr (u\<lparr>us_reserved_amount := held, lifetime_amount := life,
               rolling_24h_amount := rolling, session_amount := session\<rparr>)))))
      else Inr u)"

definition recent_count :: "treasury_state \<Rightarrow> string \<Rightarrow> int \<Rightarrow> nat" where
  "recent_count s agent_id at = min u32_max (length (filter
     (\<lambda>i. in_agent_id i = agent_id \<and> i64_sub at 60 \<le> in_created_at i) (bvals (intents s))))"

definition usage_at :: "treasury_state \<Rightarrow> string \<Rightarrow> string \<Rightarrow> int \<Rightarrow> budget_usage \<Rightarrow> budget_usage res" where
  "usage_at s agent_id cur at zero =
     rbind (agent_of s agent_id) (\<lambda>agent.
     let sid = ag_session_id agent;
         u0 = zero\<lparr>recent_transaction_count := recent_count s agent_id at\<rparr> in
     rbind (rfold (usage_event s agent_id sid cur at) u0 (ledger s)) (\<lambda>u.
     rfold (usage_hold agent_id sid) u (bvals (intents s))))"

definition usage_of :: "string \<Rightarrow> string \<Rightarrow> budget_usage top" where
  "usage_of agent_id cur =
     bind (lift (usage_zero cur)) (\<lambda>zero.
     bind now (\<lambda>at.
     bind get_state (\<lambda>s. lift (usage_at s agent_id cur at zero))))"

section \<open>The provider in use\<close>

definition provider_id :: "treasury_state \<Rightarrow> string" where
  "provider_id s =
     (case provider_mode s of
        Simulated \<Rightarrow> sp_provider_id (provider s)
      | ManualPrepaidCard \<Rightarrow> (case manual_provider s of
          Some p \<Rightarrow> mp_provider_id p | None \<Rightarrow> ''manual-provider-unconfigured''))"

definition provider_available_balance :: "money top" where
  "provider_available_balance =
     bind get_state (\<lambda>s.
     case provider_mode s of
       Simulated \<Rightarrow> lift (simulated_available_balance (provider s))
     | ManualPrepaidCard \<Rightarrow>
         bind (lift (ok_or (Conflict ''manual provider is not configured'') (manual_provider s)))
           (\<lambda>p.
         bind (manual_available_balance p) (\<lambda>reported.
         bind (lift (ledger_snapshot s (currency reported))) (\<lambda>l.
         bind (lift (checked_sub reported (ls_reserved_amount l))) (\<lambda>available.
         if minor available < 0
         then fail (Conflict ''manual provider reservations exceed its reported balance'')
         else ret available)))))"

definition manual_snapshot :: "treasury_state \<Rightarrow> manual_balance_snapshot option" where
  "manual_snapshot s = Option.bind (manual_provider s) mp_balance_snapshot"

definition provider_reported_balance :: "treasury_state \<Rightarrow> money res" where
  "provider_reported_balance s =
     (case provider_mode s of
        Simulated \<Rightarrow> simulated_available_balance (provider s)
      | ManualPrepaidCard \<Rightarrow> ok_or (Conflict ''manual balance snapshot is unavailable'')
          (map_option bs_amount (manual_snapshot s)))"

definition provider_balance_status :: "treasury_state \<Rightarrow> string" where
  "provider_balance_status s =
     (case provider_mode s of
        Simulated \<Rightarrow> ''simulated_provider_verified''
      | ManualPrepaidCard \<Rightarrow> (case map_option bs_status (manual_snapshot s) of
          Some Estimated \<Rightarrow> ''estimated''
        | Some OwnerConfirmed \<Rightarrow> ''owner_confirmed''
        | Some ProviderVerified \<Rightarrow> ''provider_verified''
        | None \<Rightarrow> ''unavailable''))"

definition provider_balance_evidence :: "json top" where
  "provider_balance_evidence =
     bind get_state (\<lambda>s.
     case provider_mode s of
       Simulated \<Rightarrow> ret (JObj [(''status'', JStr (provider_balance_status s)),
         (''observed_at'', JNull), (''expires_at'', JNull), (''stale'', JBool False)])
     | ManualPrepaidCard \<Rightarrow>
         bind (case manual_snapshot s of
                 None \<Rightarrow> ret True
               | Some b \<Rightarrow> bind now (\<lambda>at. ret (bs_expires_at b \<le> at))) (\<lambda>stale.
         ret (JObj [(''status'', JStr (provider_balance_status s)),
           (''observed_at'', j_opt_int (map_option bs_observed_at (manual_snapshot s))),
           (''expires_at'', j_opt_int (map_option bs_expires_at (manual_snapshot s))),
           (''stale'', JBool stale)])))"

definition provider_authorize :: "env \<Rightarrow> purchase_intent \<Rightarrow> provider_outcome top" where
  "provider_authorize E i =
     bind get_state (\<lambda>s.
     case provider_mode s of
       Simulated \<Rightarrow>
         bind (simulated_authorize E (provider s) i) (\<lambda>(out, p).
         bind (update_state (\<lambda>s. s\<lparr>provider := p\<rparr>)) (\<lambda>_. ret out))
     | ManualPrepaidCard \<Rightarrow>
         bind (lift (ok_or (Conflict ''manual provider is not configured'') (manual_provider s)))
           (\<lambda>p.
         bind (manual_authorize p i) (\<lambda>(out, p).
         bind (update_state (\<lambda>s. s\<lparr>manual_provider := Some p\<rparr>)) (\<lambda>_. ret out))))"

section \<open>Authority\<close>

definition deny_with :: "string \<Rightarrow> policy_decision \<Rightarrow> policy_decision" where
  "deny_with reason d =
     d\<lparr>allowed := False, requires_approval := False, reasons := reasons d @ [reason]\<rparr>"

definition deny_if :: "bool \<Rightarrow> string \<Rightarrow> policy_decision \<Rightarrow> policy_decision" where
  "deny_if b reason d = (if b then deny_with reason d else d)"

definition configured_balance :: "treasury_state \<Rightarrow> money res" where
  "configured_balance s =
     (case provider_mode s of
        Simulated \<Rightarrow> Inr (sp_balance (provider s))
      | ManualPrepaidCard \<Rightarrow> ok_or (Conflict ''manual balance snapshot is unavailable'')
          (map_option bs_amount (manual_snapshot s)))"

definition enforce_authority ::
  "policy_decision \<Rightarrow> purchase_request \<Rightarrow> budget_usage \<Rightarrow> policy \<Rightarrow> policy_decision top" where
  "enforce_authority d request usage p =
     (if currency (final_total request) \<noteq> primary_currency p then ret d
      else
        bind get_state (\<lambda>s.
        bind (lift (ledger_snapshot s (primary_currency p))) (\<lambda>l.
        let d1 = deny_if (minor (available_authority l) < minor (final_total request))
          ''available policy authority is insufficient'' d in
        bind provider_available_balance (\<lambda>balance.
        let d2 = deny_if (minor balance < minor (final_total request))
          ''provider balance is insufficient'' d1 in
        bind (lift (configured_balance s)) (\<lambda>configured.
        let d3 = deny_if (minor (max_treasury_size p) < minor configured)
          ''provider balance exceeds maximum treasury size'' d2 in
        bind (lift (checked_add (lifetime_amount usage) (final_total request))) (\<lambda>exposure.
        ret (deny_if (minor (absolute_exposure_ceiling p) < minor exposure)
          ''absolute exposure ceiling exceeded'' d3)))))))"

definition validate_policy_exposure :: "treasury_state \<Rightarrow> policy \<Rightarrow> unit res" where
  "validate_policy_exposure s p =
     rbind (ledger_snapshot s (primary_currency p)) (\<lambda>l.
     if minor (absolute_exposure_ceiling p) < minor (available_authority l)
     then Inl (Forbidden ''policy exposure ceiling is below currently available authority'')
     else Inr ())"

section \<open>Ledger events\<close>

definition append_ledger ::
  "env \<Rightarrow> ledger_event_kind \<Rightarrow> money \<Rightarrow> string option \<Rightarrow> string \<Rightarrow> bool \<Rightarrow> unit top" where
  "append_ledger E kind amount intent_id source verified =
     bind (new_id E ''ledger'') (\<lambda>k.
     bind now (\<lambda>at.
     update_state (\<lambda>s. s\<lparr>ledger := ledger s @
       [\<lparr>le_id = k, le_at = at, le_kind = kind, le_amount = amount, le_intent_id = intent_id,
         le_source = source, le_verified = verified\<rparr>]\<rparr>)))"

definition has_event :: "treasury_state \<Rightarrow> string \<Rightarrow> ledger_event_kind \<Rightarrow> bool" where
  "has_event s k kind \<longleftrightarrow> list_ex (\<lambda>e. le_intent_id e = Some k \<and> le_kind e = kind) (ledger s)"

definition record_settled :: "env \<Rightarrow> purchase_intent \<Rightarrow> unit top" where
  "record_settled E i =
     bind get_state (\<lambda>s.
     bind (if \<not> has_event s (in_id i) HoldReleased
           then append_ledger E HoldReleased (final_total (in_request i)) (Some (in_id i))
             ''settlement'' True
           else ret ()) (\<lambda>_.
     bind get_state (\<lambda>s.
     if has_event s (in_id i) SpendingSettled then ret ()
     else append_ledger E SpendingSettled (final_total (in_request i)) (Some (in_id i))
       (provider_id s) True)))"

section \<open>What the snapshot computes\<close>

text \<open>
  The same quantities as plain sums: \<open>kind_sum\<close> over the events of one kind,
  \<open>held_total\<close> over the intents that hold funds, and their balance, \<open>authority\<close>.
\<close>

definition kind_sum :: "string \<Rightarrow> ledger_event_kind \<Rightarrow> ledger_event list \<Rightarrow> int" where
  "kind_sum cur k es = sum_list (map (\<lambda>e.
     if currency (le_amount e) = cur \<and> le_kind e = k then minor (le_amount e) else 0) es)"

definition held_amount :: "string \<Rightarrow> purchase_intent \<Rightarrow> int" where
  "held_amount cur i =
     (if currency (final_total (in_request i)) = cur \<and> holds_funds (in_state i)
      then minor (final_total (in_request i)) else 0)"

definition held_total :: "string \<Rightarrow> treasury_state \<Rightarrow> int" where
  "held_total cur s = sum_list (map (held_amount cur) (bvals (intents s)))"

definition authority :: "string \<Rightarrow> treasury_state \<Rightarrow> int" where
  "authority cur s =
     kind_sum cur OwnerCapital (ledger s) + kind_sum cur OperatorTopUp (ledger s)
     + kind_sum cur Refund (ledger s) - kind_sum cur SpendingSettled (ledger s)
     - held_total cur s"

lemma kind_sum_simps [simp]:
  "kind_sum cur k [] = 0"
  "kind_sum cur k (es @ es') = kind_sum cur k es + kind_sum cur k es'"
  "kind_sum cur k (e # es) =
     (if currency (le_amount e) = cur \<and> le_kind e = k then minor (le_amount e) else 0)
     + kind_sum cur k es"
  by (simp_all add: kind_sum_def)

lemma apply_event_sum:
  assumes "apply_event cur l e = Inr l'"
  shows "minor (owner_capital l') = minor (owner_capital l) + kind_sum cur OwnerCapital [e]"
    and "minor (operator_topups l') = minor (operator_topups l) + kind_sum cur OperatorTopUp [e]"
    and "minor (refunds l') = minor (refunds l) + kind_sum cur Refund [e]"
    and "minor (settled_spending l') = minor (settled_spending l) + kind_sum cur SpendingSettled [e]"
    and "minor (verified_income l') = minor (verified_income l) + kind_sum cur IncomeVerified [e]"
    and "minor (unverified_income l') = minor (unverified_income l) + kind_sum cur IncomeUnverified [e]"
    and "ls_reserved_amount l' = ls_reserved_amount l"
  using assms
  by (cases "le_kind e"; auto simp: apply_event_def rbind_Inr_iff checked_Inr split: if_splits)+

lemma rfold_event_sum:
  assumes "rfold (apply_event cur) l es = Inr l'"
  shows "minor (owner_capital l') = minor (owner_capital l) + kind_sum cur OwnerCapital es
    \<and> minor (operator_topups l') = minor (operator_topups l) + kind_sum cur OperatorTopUp es
    \<and> minor (refunds l') = minor (refunds l) + kind_sum cur Refund es
    \<and> minor (settled_spending l') = minor (settled_spending l) + kind_sum cur SpendingSettled es
    \<and> minor (verified_income l') = minor (verified_income l) + kind_sum cur IncomeVerified es
    \<and> minor (unverified_income l') = minor (unverified_income l) + kind_sum cur IncomeUnverified es
    \<and> ls_reserved_amount l' = ls_reserved_amount l"
  using assms
proof (induction es arbitrary: l)
  case (Cons e es)
  then obtain m where "apply_event cur l e = Inr m" and "rfold (apply_event cur) m es = Inr l'"
    by (auto simp: rbind_Inr_iff)
  with apply_event_sum [of cur l e m] Cons.IH [of m] show ?case by simp
qed simp

lemma rfold_hold_sum:
  assumes "rfold (apply_hold cur) l is = Inr l'"
  shows "minor (ls_reserved_amount l') = minor (ls_reserved_amount l) + sum_list (map (held_amount cur) is)
    \<and> owner_capital l' = owner_capital l \<and> operator_topups l' = operator_topups l
    \<and> refunds l' = refunds l \<and> settled_spending l' = settled_spending l
    \<and> verified_income l' = verified_income l \<and> unverified_income l' = unverified_income l"
  using assms
proof (induction "is" arbitrary: l)
  case (Cons i "is")
  then obtain m where m: "apply_hold cur l i = Inr m" and "rfold (apply_hold cur) m is = Inr l'"
    by (auto simp: rbind_Inr_iff)
  moreover have "minor (ls_reserved_amount m) = minor (ls_reserved_amount l) + held_amount cur i
      \<and> owner_capital m = owner_capital l \<and> operator_topups m = operator_topups l
      \<and> refunds m = refunds l \<and> settled_spending m = settled_spending l
      \<and> verified_income m = verified_income l \<and> unverified_income m = unverified_income l"
    using m by (auto simp: apply_hold_def held_amount_def rbind_Inr_iff checked_Inr split: if_splits)
  ultimately show ?case using Cons.IH [of m] by simp
qed simp

text \<open>A snapshot that is returned is the balance of the ledger, and it is not negative.\<close>

lemma snapshot_sums:
  assumes "ledger_snapshot s cur = Inr l"
  shows "minor (available_authority l) = authority cur s"
    and "0 \<le> authority cur s"
    and "minor (ls_reserved_amount l) = held_total cur s"
    and "minor (settled_spending l) = kind_sum cur SpendingSettled (ledger s)"
    and "minor (unverified_income l) = kind_sum cur IncomeUnverified (ledger s)"
proof -
  from assms obtain zero l1 l2 c0 c d a where
    z: "money_zero cur = Inr zero" and
    e: "rfold (apply_event cur) \<lparr>ls_currency = cur, owner_capital = zero, verified_income = zero,
        unverified_income = zero, operator_topups = zero, settled_spending = zero, refunds = zero,
        ls_reserved_amount = zero, available_authority = zero\<rparr> (ledger s) = Inr l1" and
    h: "rfold (apply_hold cur) l1 (bvals (intents s)) = Inr l2" and
    c: "checked_add (owner_capital l2) (operator_topups l2) = Inr c0"
      "checked_add c0 (refunds l2) = Inr c" and
    d: "checked_add (settled_spending l2) (ls_reserved_amount l2) = Inr d" and
    a: "checked_sub c d = Inr a" and na: "\<not> minor a < 0" and l: "l = l2\<lparr>available_authority := a\<rparr>"
    unfolding ledger_snapshot_def rbind_Inr_iff by (auto simp del: money_zero_Inr split: if_splits)
  from z have z0: "minor zero = 0" by simp
  note sums = rfold_event_sum [OF e] rfold_hold_sum [OF h]
  from c have mc: "minor c = minor (owner_capital l2) + minor (operator_topups l2) + minor (refunds l2)"
    by (auto simp: checked_Inr)
  from d have md: "minor d = minor (settled_spending l2) + minor (ls_reserved_amount l2)"
    by (auto simp: checked_Inr)
  from a have ma: "minor a = minor c - minor d" by (auto simp: checked_Inr)
  show "minor (available_authority l) = authority cur s"
    using sums z0 mc md ma l by (simp add: authority_def held_total_def)
  then show "0 \<le> authority cur s" using na l by simp
  show "minor (ls_reserved_amount l) = held_total cur s"
    using sums z0 l by (simp add: held_total_def)
  show "minor (settled_spending l) = kind_sum cur SpendingSettled (ledger s)"
    and "minor (unverified_income l) = kind_sum cur IncomeUnverified (ledger s)"
    using sums z0 l by simp_all
qed

lemma ledger_snapshot_cong:
  "ledger s = ledger t \<Longrightarrow> intents s = intents t \<Longrightarrow> ledger_snapshot s cur = ledger_snapshot t cur"
  by (simp add: ledger_snapshot_def)

lemma authority_cong [simp]: "authority cur (audited s e) = authority cur s"
  by (simp add: authority_def held_total_def)

lemma held_total_put:
  "held_total cur (s\<lparr>intents := bput k i (intents s)\<rparr>) =
     held_total cur s - (case bget (intents s) k of None \<Rightarrow> 0 | Some j \<Rightarrow> held_amount cur j)
     + held_amount cur i"
  by (simp add: held_total_def sum_bvals_bput)

section \<open>Budget usage\<close>

text \<open>The held part of the usage as a plain sum.\<close>

lemma usage_event_frame:
  "usage_event s a sid cur at u e = Inr u' \<Longrightarrow>
     us_reserved_amount u' = us_reserved_amount u
     \<and> recent_transaction_count u' = recent_transaction_count u"
  by (auto simp: usage_event_def rbind_Inr_iff split: if_splits)

lemma keeps_same_usage: "keeps same_state (usage_of a cur)"
  by (simp add: usage_of_def keeps_same)

lemma keeps_same_available: "keeps same_state provider_available_balance"
  unfolding provider_available_balance_def manual_available_balance_def
  by (intro keeps_same keeps_cases)

lemma keeps_same_authority: "keeps same_state (enforce_authority d r u p)"
  unfolding enforce_authority_def Let_def by (intro keeps_same keeps_same_available)

end
