(* ===== verification/Auth.thy ===== *)
theory Auth
  imports Ledger
begin

text \<open>
  Capabilities and scopes: \<open>authenticate\<close>, \<open>require_owner\<close>, \<open>require_agent\<close>,
  \<open>require_agent_scope\<close>, and the queries the daemon makes on them.
\<close>

definition is_owner_token :: "env \<Rightarrow> treasury_state \<Rightarrow> string \<Rightarrow> bool" where
  "is_owner_token E s token \<longleftrightarrow> ow_token_hash (owner s) = token_hash E token"

definition active_agent_capabilities :: "(string \<times> int) list top" where
  "active_agent_capabilities =
     bind now (\<lambda>at.
     bind get_state (\<lambda>s.
     ret (map (\<lambda>a. (ag_token_hash a, ag_expires_at a))
       (filter (\<lambda>a. \<not> ag_revoked a \<and> at < ag_expires_at a) (bvals (agents s))))))"

definition controlled_checkout_enabled :: "treasury_state \<Rightarrow> bool" where
  "controlled_checkout_enabled s \<longleftrightarrow>
     provider_mode s = ManualPrepaidCard
     \<and> (case manual_provider s of None \<Rightarrow> False | Some p \<Rightarrow> mp_outgoing_supported p)"

definition live_agent :: "string \<Rightarrow> int \<Rightarrow> agent_record \<Rightarrow> bool" where
  "live_agent hash at a \<longleftrightarrow> ag_token_hash a = hash \<and> \<not> ag_revoked a \<and> at < ag_expires_at a"

definition authenticate :: "env \<Rightarrow> string \<Rightarrow> actor top" where
  "authenticate E token =
     (if token = [] \<or> 128 < length token then fail Unauthorized
      else
        bind get_state (\<lambda>s.
        let hash = token_hash E token in
        if hash = ow_token_hash (owner s) then ret OwnerActor
        else
          bind now (\<lambda>at.
          lift (ok_or Unauthorized (map_option (\<lambda>a. AgentActor (ag_id a))
            (find (live_agent hash at) (bvals (agents s))))))))"

definition require_owner :: "actor \<Rightarrow> unit res" where
  "require_owner a =
     (if a \<noteq> OwnerActor
      then Inl (Forbidden ''this operation is owner-only and is never exposed to agents'')
      else Inr ())"

definition require_agent :: "actor \<Rightarrow> string res" where
  "require_agent a =
     (case a of
        AgentActor k \<Rightarrow> Inr k
      | OwnerActor \<Rightarrow> Inl (Forbidden ''this operation requires an agent capability''))"

definition require_agent_scope :: "treasury_state \<Rightarrow> actor \<Rightarrow> string \<Rightarrow> string res" where
  "require_agent_scope s a scope =
     rbind (require_agent a) (\<lambda>agent_id.
     rbind (agent_of s agent_id) (\<lambda>agent.
     if \<not> bs_mem scope (ag_scopes agent)
     then Inl (Forbidden (''agent scope '' @ scope @ '' is missing''))
     else Inr agent_id))"

section \<open>Lemmas\<close>

lemma require_owner_Inr [simp]: "require_owner a = Inr u \<longleftrightarrow> a = OwnerActor"
  by (simp add: require_owner_def)

lemma require_agent_Inr [simp]: "require_agent a = Inr k \<longleftrightarrow> a = AgentActor k"
  by (cases a) (auto simp: require_agent_def)

lemma require_agent_scope_Inr [simp]:
  "require_agent_scope s a scope = Inr k \<longleftrightarrow>
     a = AgentActor k \<and> (\<exists>r. bget (agents s) k = Some r \<and> bs_mem scope (ag_scopes r))"
  by (auto simp: require_agent_scope_def rbind_Inr_iff)

lemma keeps_same_auth:
  "keeps same_state (authenticate E token)"
  by (simp add: authenticate_def Let_def keeps_same)

lemma keeps_same_capabilities: "keeps same_state active_agent_capabilities"
  by (simp add: active_agent_capabilities_def keeps_same)

text \<open>An authenticated actor holds a token whose hash is on record and, for an agent, live.\<close>

lemma wp_authenticate:
  "wp (authenticate E token)
     (\<lambda>a v. same_state w v \<and> (case a of
          OwnerActor \<Rightarrow> token_hash E token = ow_token_hash (owner (w_state w))
        | AgentActor k \<Rightarrow> token_hash E token \<noteq> ow_token_hash (owner (w_state w))
            \<and> (\<exists>r \<in> set (bvals (agents (w_state w))). ag_id r = k
               \<and> live_agent (token_hash E token) (w_clock w (w_reads w)) r)))
     (\<lambda>e v. e = Unauthorized \<and> same_state w v) w"
  by (auto simp: authenticate_def wp_simps Let_def same_state_def dest!: find_SomeD)

end
