(* ===== verification/Purchase.thy ===== *)
theory Purchase
  imports Auth
begin

text \<open>
  The purchase workflow of an agent: \<open>create_intent\<close>, \<open>prepare_intent_execution\<close>,
  \<open>complete_intent_execution\<close>, \<open>execute_intent\<close>, \<open>apply_provider_outcome\<close>,
  \<open>quarantine_execution\<close>, \<open>cancel_intent\<close> and \<open>recover_interrupted_executions\<close>.
\<close>

definition max_intents :: nat where "max_intents = 10000"
definition max_intents_per_agent :: nat where "max_intents_per_agent = 2000"

section \<open>Creating an intent\<close>

definition agent_intents :: "treasury_state \<Rightarrow> string \<Rightarrow> purchase_intent list" where
  "agent_intents s agent_id = filter (\<lambda>i. in_agent_id i = agent_id) (bvals (intents s))"

definition canonical_request :: "env \<Rightarrow> purchase_request \<Rightarrow> purchase_request res" where
  "canonical_request E r =
     rbind (canonicalize_domain E (merchant_domain r)) (\<lambda>merchant.
     rbind (rmap (normalize_https_url E) (redirect_chain r)) (\<lambda>chain.
     Inr (r\<lparr>merchant_domain := merchant, redirect_chain := chain\<rparr>)))"

definition inactive_for_duplicates :: "transaction_state \<Rightarrow> bool" where
  "inactive_for_duplicates s \<longleftrightarrow> s \<in> {Failed, Declined, Cancelled, Refunded}"

definition potential_duplicate :: "treasury_state \<Rightarrow> string \<Rightarrow> int \<Rightarrow> purchase_request \<Rightarrow> bool" where
  "potential_duplicate s agent_id start r \<longleftrightarrow>
     list_ex (\<lambda>i. in_agent_id i = agent_id \<and> start \<le> in_updated_at i
       \<and> \<not> inactive_for_duplicates (in_state i) \<and> same_checkout_facts (in_request i) r)
       (bvals (intents s))"

definition duplicate_reason :: "string list" where
  "duplicate_reason = [''potential duplicate checkout within 15 minutes requires owner approval'']"

definition handoff_reason :: "string list" where
  "handoff_reason = [''manual prepaid-card checkout requires an authenticated owner handoff'']"

definition ask_owner :: "string list \<Rightarrow> policy_decision \<Rightarrow> policy_decision" where
  "ask_owner rs d = d\<lparr>allowed := False, requires_approval := True, reasons := rs\<rparr>"

text \<open>The two adjustments that turn an automatic permission into an owner approval.\<close>

definition adjust_decision :: "treasury_state \<Rightarrow> bool \<Rightarrow> policy_decision \<Rightarrow> policy_decision" where
  "adjust_decision s duplicate d0 =
     (let d1 = (if duplicate \<and> allowed d0 then ask_owner duplicate_reason d0 else d0);
          manual_checkout_requires_owner =
            (provider_mode s = ManualPrepaidCard
              \<and> \<not> (case manual_provider s of None \<Rightarrow> False | Some m \<Rightarrow> mp_outgoing_supported m)) in
      if manual_checkout_requires_owner \<and> (allowed d1 \<or> requires_approval d1)
      then ask_owner handoff_reason d1 else d1)"

definition decision_label :: "transaction_state \<Rightarrow> string" where
  "decision_label s =
     (if s = PolicyValidated then ''allowed''
      else if s = ApprovalRequired then ''approval_required''
      else ''denied'')"

definition created_details :: "purchase_intent \<Rightarrow> policy_decision \<Rightarrow> json" where
  "created_details i d = JObj
    [(''merchant_domain'', JStr (merchant_domain (in_request i))),
     (''amount'', money_json (final_total (in_request i))),
     (''reasons'', j_strs (reasons d))]"

definition draft_intent ::
  "string \<Rightarrow> agent_record \<Rightarrow> string \<Rightarrow> purchase_request \<Rightarrow> policy_decision \<Rightarrow> nat \<Rightarrow> int
     \<Rightarrow> purchase_intent" where
  "draft_intent k agent agent_id request decision version at =
     \<lparr>in_id = k, in_agent_id = agent_id, in_broker_session_id = ag_session_id agent,
      in_request = request, in_state = Draft, in_decision = decision,
      in_policy_version = version, in_created_at = at, in_updated_at = at,
      in_provider_reference = None, in_receipt_hash = None, in_receipt = None,
      in_last_error = None\<rparr>"

text \<open>The tail of \<open>create_intent\<close>: the new intent is moved to its first state and stored.\<close>

definition file_intent ::
  "env \<Rightarrow> string \<Rightarrow> agent_record \<Rightarrow> policy \<Rightarrow> purchase_request \<Rightarrow> policy_decision \<Rightarrow> json top" where
  "file_intent E agent_id agent p request decision =
     bind (new_id E ''intent'') (\<lambda>k.
     bind now (\<lambda>at.
     bind (transition (draft_intent k agent agent_id request decision (pl_version p) at) Proposed)
       (\<lambda>proposed.
     bind (if reasons decision \<noteq> [] \<and> \<not> requires_approval decision
           then transition (proposed\<lparr>in_last_error := Some (join_with ''; '' (reasons decision))\<rparr>) Failed
           else if requires_approval decision then transition proposed ApprovalRequired
           else transition proposed PolicyValidated) (\<lambda>intent.
     bind (audit E agent_id ''create_purchase_intent'' (Some k) (Some (pl_version p))
       (Some (decision_label (in_state intent))) (created_details intent decision)) (\<lambda>_.
     bind (put_intent k intent) (\<lambda>_.
     ret (sanitized_intent intent)))))))"

definition recently_limited :: "treasury_state \<Rightarrow> string \<Rightarrow> int \<Rightarrow> bool" where
  "recently_limited s agent_id at \<longleftrightarrow>
     list_ex (\<lambda>e. i64_sub at 60 \<le> au_at e \<and> au_actor e = agent_id
       \<and> au_action e = ''transaction_rate_limited'') (rev (audit_log s))"

definition rate_limited :: "env \<Rightarrow> string \<Rightarrow> policy \<Rightarrow> 'a top" where
  "rate_limited E agent_id p =
     bind now (\<lambda>at.
     bind get_state (\<lambda>s.
     bind (if \<not> recently_limited s agent_id at
           then audit E agent_id ''transaction_rate_limited'' None (Some (pl_version p))
             (Some ''denied'') (JObj [(''window_seconds'', JInt 60)])
           else ret ()) (\<lambda>_.
     fail (Forbidden ''transaction rate limit exceeded''))))"

definition known_merchant_for :: "policy \<Rightarrow> agent_record \<Rightarrow> string \<Rightarrow> bool" where
  "known_merchant_for p agent merchant \<longleftrightarrow>
     bs_mem merchant (allowed_merchants p) \<or> bs_mem merchant (ag_approved_merchants agent)"

text \<open>From the policy evaluation to the stored intent.\<close>

definition decide_and_file ::
  "env \<Rightarrow> string \<Rightarrow> agent_record \<Rightarrow> policy \<Rightarrow> purchase_request \<Rightarrow> budget_usage \<Rightarrow> json top" where
  "decide_and_file E agent_id agent p request usage =
     bind get_state (\<lambda>s.
     bind (lift (canonicalize_domain E (merchant_domain request))) (\<lambda>merchant.
     bind now (\<lambda>at.
     bind (lift (evaluate E p request usage (ag_mode agent) (known_merchant_for p agent merchant)
       (emergency_stop s) at)) (\<lambda>d0.
     bind (enforce_authority d0 request usage p) (\<lambda>d1.
     bind now (\<lambda>at.
     file_intent E agent_id agent p request (adjust_decision s
       (potential_duplicate s agent_id (i64_sub at (15 * 60)) request) d1)))))))"

definition create_intent :: "env \<Rightarrow> actor \<Rightarrow> purchase_request \<Rightarrow> json top" where
  "create_intent E a request =
     bind get_state (\<lambda>s.
     bind (lift (require_agent_scope s a ''purchase_intents:create'')) (\<lambda>agent_id.
     bind (lift (agent_of s agent_id)) (\<lambda>agent.
     bind (lift (canonical_request E request)) (\<lambda>request.
     case find (\<lambda>i. in_agent_id i = agent_id
         \<and> idempotency_key (in_request i) = idempotency_key request) (bvals (intents s)) of
       Some existing \<Rightarrow>
         if in_request existing = request then ret (sanitized_intent existing)
         else fail (Conflict ''idempotency key is already bound to another request'')
     | None \<Rightarrow>
         if max_intents \<le> bsize (intents s)
         then fail (Conflict
           ''durable transaction quota reached; archive this treasury before continuing'')
         else if max_intents_per_agent \<le> length (agent_intents s agent_id)
         then fail (Conflict
           ''agent durable transaction quota reached; owner rotation is required'')
         else
           bind (lift (policy_of s (ag_policy_id agent))) (\<lambda>p.
           bind (if emergency_stop s then ret False
                 else bind now (\<lambda>at. ret (ag_session_expires_at agent \<le> at))) (\<lambda>expired.
           if expired
           then fail (Forbidden
             ''agent spending session has expired and must be re-armed by the owner'')
           else
             bind (usage_of agent_id (primary_currency p)) (\<lambda>usage.
             if max_transactions_per_minute p \<le> recent_transaction_count usage
             then rate_limited E agent_id p
             else decide_and_file E agent_id agent p request usage)))))))"

section \<open>Preparing the execution\<close>

definition executable_state :: "transaction_state \<Rightarrow> unit res" where
  "executable_state s =
     (if s = Unknown \<or> s = ProviderPending
      then Inl (Conflict
        ''ambiguous or pending payment requires owner reconciliation; retry is disabled'')
      else if s = ApprovalRequired
      then Inl (Forbidden ''owner approval is required before execution'')
      else if s \<noteq> PolicyValidated \<and> s \<noteq> Approved
      then Inl (Conflict (''intent is not executable in state '' @ state_debug s))
      else Inr ())"

text \<open>
  \<open>now() > a || now() > b\<close> reads the clock a second time only when the first comparison
  fails.
\<close>

definition intent_expired :: "purchase_intent \<Rightarrow> policy \<Rightarrow> bool top" where
  "intent_expired i p =
     bind now (\<lambda>at.
     if i64_add (in_created_at i) (intent_ttl_secs p) < at then ret True
     else bind now (\<lambda>at. ret (i64_add (in_created_at i) (card_session_ttl_secs p) < at)))"

definition reserve_and_start ::
  "env \<Rightarrow> string \<Rightarrow> string \<Rightarrow> policy \<Rightarrow> purchase_intent \<Rightarrow> unit top" where
  "reserve_and_start E agent_id intent_id p existing =
     bind (transition existing FundsReserved) (\<lambda>held.
     bind (append_ledger E HoldReserved (final_total (in_request held)) (Some (in_id held))
       ''policy-reservation'' True) (\<lambda>_.
     bind (audit E agent_id ''reserve_funds'' (Some intent_id) (Some (pl_version p))
       (Some ''allowed'') (JObj [(''amount'', money_json (final_total (in_request held)))])) (\<lambda>_.
     bind (transition held Executing) (\<lambda>intent.
     put_intent (in_id intent) intent))))"

definition pre_submit_error :: "policy_decision \<Rightarrow> treasury_error" where
  "pre_submit_error d =
     Forbidden (''pre-submit policy validation failed: '' @ join_with ''; '' (reasons d))"

definition prepare_intent_execution :: "env \<Rightarrow> actor \<Rightarrow> string \<Rightarrow> unit top" where
  "prepare_intent_execution E a intent_id =
     bind get_state (\<lambda>s.
     bind (lift (require_money_workflow_audit_capacity s 4)) (\<lambda>_.
     bind (lift (require_agent_scope s a ''purchase_intents:execute'')) (\<lambda>agent_id.
     bind (lift (ok_or (NotFound (''purchase intent '' @ intent_id)) (bget (intents s) intent_id)))
       (\<lambda>existing.
     if in_agent_id existing \<noteq> agent_id
     then fail (Forbidden ''intent belongs to another agent'')
     else
     bind (lift (executable_state (in_state existing))) (\<lambda>_.
     bind (lift (agent_of s agent_id)) (\<lambda>agent.
     bind (lift (policy_of s (ag_policy_id agent))) (\<lambda>p.
     bind now (\<lambda>at.
     if ag_session_expires_at agent \<le> at \<or> in_broker_session_id existing \<noteq> ag_session_id agent
     then fail (Forbidden ''owner-armed spending session is expired or no longer current'')
     else
     bind (intent_expired existing p) (\<lambda>expired.
     if expired
     then fail (Conflict ''purchase intent or card session has expired; create a new intent'')
     else
     bind (usage_of agent_id (primary_currency p)) (\<lambda>usage.
     bind (lift (canonicalize_domain E (merchant_domain (in_request existing)))) (\<lambda>merchant.
     bind now (\<lambda>at.
     bind (lift (evaluate E p (in_request existing) usage (ag_mode agent)
       (known_merchant_for p agent merchant) (emergency_stop s) at)) (\<lambda>d0.
     bind (enforce_authority d0 (in_request existing) usage p) (\<lambda>d.
     if \<not> (allowed d \<or> in_state existing = Approved \<and> requires_approval d)
     then fail (pre_submit_error d)
     else reserve_and_start E agent_id intent_id p existing))))))))))))))"

section \<open>Completing the execution\<close>

definition outcome_label :: "transaction_state \<Rightarrow> string" where
  "outcome_label s =
     (if s = Settled then ''settled''
      else if s = Declined then ''declined''
      else if s = ProviderPending then ''provider_pending''
      else if s = Unknown then ''unknown''
      else ''unexpected'')"

definition outcome_details :: "purchase_intent \<Rightarrow> json" where
  "outcome_details i = JObj
    [(''state'', JStr (state_name (in_state i))),
     (''provider_reference'', j_opt_str (in_provider_reference i))]"

text \<open>The \<open>match\<close> on the outcome: the intent as it becomes, and the response.\<close>

definition settle_outcome :: "env \<Rightarrow> purchase_intent \<Rightarrow> provider_outcome \<Rightarrow> (purchase_intent \<times> json) top" where
  "settle_outcome E i outcome =
     (case outcome of
        OutApproved reference \<Rightarrow>
          bind (transition (i\<lparr>in_provider_reference := Some (sanitize_provider_reference E reference)\<rparr>)
            Settled) (\<lambda>i.
          bind (issue_receipt E i) (\<lambda>i.
          bind (record_settled E i) (\<lambda>_.
          ret (i, JObj [(''status'', JStr ''settled''), (''intent'', sanitized_intent i),
            (''receipt'', j_option receipt_json (in_receipt i))]))))
      | OutDeclined reason \<Rightarrow>
          bind (transition (i\<lparr>in_last_error := Some ''provider_declined''\<rparr>) Declined) (\<lambda>i.
          bind (append_ledger E HoldReleased (final_total (in_request i)) (Some (in_id i))
            ''provider-decline'' True) (\<lambda>_.
          ret (i, JObj [(''status'', JStr ''declined''), (''intent'', sanitized_intent i)])))
      | OutPending reference \<Rightarrow>
          bind (transition (i\<lparr>in_provider_reference := Some (sanitize_provider_reference E reference)\<rparr>)
            ProviderPending) (\<lambda>i.
          ret (i, JObj [(''status'', JStr ''provider_pending''), (''intent'', sanitized_intent i),
            (''action'', JStr ''owner_reconcile'')]))
      | OutUnknown reason \<Rightarrow>
          bind (transition (i\<lparr>in_last_error := Some ''provider_outcome_unknown''\<rparr>) Unknown) (\<lambda>i.
          ret (i, JObj [(''status'', JStr ''unknown''), (''intent'', sanitized_intent i),
            (''action'', JStr ''owner_reconcile''), (''retry'', JBool False)])))"

definition apply_provider_outcome :: "env \<Rightarrow> string \<Rightarrow> string \<Rightarrow> provider_outcome \<Rightarrow> json top" where
  "apply_provider_outcome E agent_id intent_id outcome =
     bind get_state (\<lambda>s.
     bind (lift (intent_for_agent s agent_id intent_id)) (\<lambda>i.
     if in_state i \<noteq> Executing
     then fail (Conflict ''provider outcome requires an executing intent'')
     else
       bind (settle_outcome E i outcome) (\<lambda>(j, response).
       bind (audit E agent_id ''provider_outcome'' (Some intent_id) (Some (in_policy_version i))
         (Some (outcome_label (in_state j))) (outcome_details j)) (\<lambda>_.
       bind (put_intent (in_id j) j) (\<lambda>_.
       ret response)))))"

definition complete_intent_execution :: "env \<Rightarrow> actor \<Rightarrow> string \<Rightarrow> json top" where
  "complete_intent_execution E a intent_id =
     bind get_state (\<lambda>s.
     bind (lift (require_agent_scope s a ''purchase_intents:execute'')) (\<lambda>agent_id.
     bind (lift (intent_for_agent s agent_id intent_id)) (\<lambda>i.
     if in_state i \<noteq> Executing
     then fail (Conflict ''provider completion requires an executing intent'')
     else
       bind (provider_authorize E i) (\<lambda>outcome.
       apply_provider_outcome E agent_id intent_id outcome))))"

definition quarantine_execution :: "env \<Rightarrow> string \<Rightarrow> string \<Rightarrow> unit top" where
  "quarantine_execution E intent_id reason =
     bind get_state (\<lambda>s.
     bind (lift (ok_or (NotFound intent_id) (bget (intents s) intent_id))) (\<lambda>i.
     if in_state i \<noteq> Executing \<and> in_state i \<noteq> Unknown then ret ()
     else
       bind (if in_state i = Executing then transition i Unknown else ret i) (\<lambda>i.
       let j = i\<lparr>in_last_error := Some ''provider_execution_error''\<rparr> in
       bind (put_intent (in_id j) j) (\<lambda>_.
       audit E ''broker'' ''quarantine_provider_error'' (Some intent_id)
         (Some (in_policy_version j)) (Some ''unknown'')
         (JObj [(''reason'', JStr (redact_sensitive E reason)), (''retry'', JBool False)])))))"

definition execute_intent :: "env \<Rightarrow> actor \<Rightarrow> string \<Rightarrow> json top" where
  "execute_intent E a intent_id =
     bind get_state (\<lambda>s.
     if provider_mode s = ManualPrepaidCard
     then fail (Forbidden
       ''manual prepaid-card execution requires the owner begin-handoff workflow'')
     else
       bind (attempt (prepare_intent_execution E a intent_id)) (\<lambda>prepared.
       case prepared of
         Inl e \<Rightarrow> bind (put_state s) (\<lambda>_. fail e)
       | Inr _ \<Rightarrow>
           bind (attempt (complete_intent_execution E a intent_id)) (\<lambda>completed.
           case completed of
             Inr v \<Rightarrow> ret v
           | Inl e \<Rightarrow> bind (quarantine_execution E intent_id (error_text e)) (\<lambda>_. fail e))))"

section \<open>Cancelling and recovering\<close>

definition cancel_intent :: "env \<Rightarrow> actor \<Rightarrow> string \<Rightarrow> json top" where
  "cancel_intent E a intent_id =
     bind get_state (\<lambda>s.
     bind (lift (require_agent_scope s a ''purchase_intents:cancel'')) (\<lambda>agent_id.
     bind (lift (intent_for_agent s agent_id intent_id)) (\<lambda>i.
     if in_state i \<notin> {Proposed, ApprovalRequired, PolicyValidated}
     then fail (Conflict ''only unexecuted intents can be cancelled'')
     else
       bind (transition i Cancelled) (\<lambda>j.
       bind (put_intent (in_id j) j) (\<lambda>_.
       bind (audit E agent_id ''cancel_purchase_intent'' (Some intent_id) None (Some ''allowed'')
         (JObj [])) (\<lambda>_.
       ret (sanitized_intent j)))))))"

definition recovered_error :: string where
  "recovered_error = ''broker restarted during provider submission; automatic retry is forbidden''"

definition recover_one :: "env \<Rightarrow> string \<Rightarrow> unit top" where
  "recover_one E k =
     bind get_state (\<lambda>s.
     bind (lift (ok_or (Panic ''collected intent exists'') (bget (intents s) k))) (\<lambda>i.
     bind (transition i Unknown) (\<lambda>i.
     let j = i\<lparr>in_last_error := Some recovered_error\<rparr> in
     bind (put_intent k j) (\<lambda>_.
     audit E ''broker'' ''recover_interrupted_execution'' (Some k) (Some (in_policy_version j))
       (Some ''unknown'') (JObj [(''retry'', JBool False)])))))"

definition recover_interrupted_executions :: "env \<Rightarrow> nat top" where
  "recover_interrupted_executions E =
     bind get_state (\<lambda>s.
     let found = map in_id (filter (\<lambda>i. in_state i = Executing) (bvals (intents s))) in
     bind (each (recover_one E) found) (\<lambda>_. ret (length found)))"

end
