(* ===== verification/Owner.thy ===== *)
theory Owner
  imports Purchase
begin

text \<open>
  The owner's operations on agents, policies, approvals and the manual handoff:
  \<open>owner_create_agent\<close>, \<open>owner_arm_agent_session\<close>, \<open>owner_update_policy\<close>,
  \<open>owner_emergency_stop\<close>, \<open>owner_set_agent_mode\<close>, \<open>owner_revoke_agent\<close>,
  \<open>owner_rotate_agent_capability\<close>, \<open>owner_approve\<close>, \<open>owner_deny\<close>,
  \<open>owner_begin_manual_handoff\<close>, \<open>owner_complete_manual_handoff\<close>,
  \<open>owner_approve_merchant\<close>. Those that move money are in the theory Treasury.
\<close>

definition max_agents :: nat where "max_agents = 16"
definition max_agent_approved_merchants :: nat where "max_agent_approved_merchants = 8"
definition max_agent_ttl :: int where "max_agent_ttl = 24 * 60 * 60"

section \<open>Agents\<close>

definition agent_scopes :: "string list" where
  "agent_scopes =
     [''status:read'', ''capabilities:read'', ''budget:read'', ''receive:read'',
      ''purchase_intents:create'', ''purchase_intents:read'', ''purchase_intents:execute'',
      ''purchase_intents:cancel'', ''transactions:read'', ''receipts:read'']"

definition ttl_invalid :: "int \<Rightarrow> bool" where
  "ttl_invalid ttl_secs \<longleftrightarrow> ttl_secs \<le> 0 \<or> max_agent_ttl < ttl_secs"

definition ttl_error :: treasury_error where
  "ttl_error = Invalid ''agent TTL must be between 1 second and 24 hours''"

definition put_policy :: "string \<Rightarrow> policy \<Rightarrow> unit top" where
  "put_policy k p = update_state (\<lambda>s. s\<lparr>policies := bput k p (policies s)\<rparr>)"

definition created_agent_json :: "agent_record \<Rightarrow> bool \<Rightarrow> string \<Rightarrow> json" where
  "created_agent_json agent prepared token =
     (let response = JObj
        [(''agent_id'', JStr (ag_id agent)), (''expires_at'', JInt (ag_expires_at agent)),
         (''broker_session_expires_at'', JInt (ag_session_expires_at agent)),
         (''warning'', JStr (''Store this token once in a protected file. ''
           @ ''It is never shown again and is not an owner credential.''))] in
      if prepared then response else j_set ''capability_token'' (JStr token) response)"

text \<open>From the validated token on: the policy gets its own id, the agent its record.\<close>

definition enroll_agent ::
  "env \<Rightarrow> string \<Rightarrow> policy \<Rightarrow> autonomy_mode \<Rightarrow> int \<Rightarrow> bool \<Rightarrow> string \<Rightarrow> json top" where
  "enroll_agent E name p mode ttl_secs prepared token =
     bind get_state (\<lambda>s.
     bind (new_id E ''agent'') (\<lambda>agent_id.
     let p = p\<lparr>pl_id := ''policy_'' @ agent_id, pl_version := 1\<rparr> in
     bind (lift (policy_validate E p)) (\<lambda>_.
     let session_ttl = min ttl_secs (card_session_ttl_secs p) in
     bind (if emergency_stop s then ret 0
           else bind now (\<lambda>at. ret (i64_add at session_ttl))) (\<lambda>session_expires_at.
     bind (new_id E ''session'') (\<lambda>session.
     bind now (\<lambda>created.
     bind now (\<lambda>at.
     let agent = \<lparr>ag_id = agent_id, ag_name = name, ag_token_hash = token_hash E token,
           ag_scopes = bs_of_list agent_scopes, ag_policy_id = pl_id p,
           ag_approved_merchants = bempty, ag_session_id = session,
           ag_session_expires_at = session_expires_at, ag_mode = mode, ag_created_at = created,
           ag_expires_at = i64_add at ttl_secs, ag_revoked = False\<rparr> in
     bind (put_policy (pl_id p) p) (\<lambda>_.
     bind (put_agent agent_id agent) (\<lambda>_.
     bind (audit E ''owner'' ''create_agent'' None (Some 1) (Some ''allowed'')
       (JObj [(''agent_id'', JStr agent_id),
              (''broker_session_expires_at'', JInt session_expires_at)])) (\<lambda>_.
     ret (created_agent_json agent prepared token)))))))))))"

definition owner_create_agent ::
  "env \<Rightarrow> actor \<Rightarrow> string \<Rightarrow> policy \<Rightarrow> autonomy_mode \<Rightarrow> int \<Rightarrow> string option \<Rightarrow> json top" where
  "owner_create_agent E a name p mode ttl_secs capability_token =
     bind get_state (\<lambda>s.
     bind (lift (require_owner a)) (\<lambda>_.
     if max_agents \<le> bsize (agents s)
     then fail (Conflict ''agent quota reached; revoke and rotate an existing agent'')
     else
     bind (lift (bounded name ''agent_name'' 128)) (\<lambda>_.
     bind (lift (policy_validate E p)) (\<lambda>_.
     bind (lift (validate_policy_exposure s p)) (\<lambda>_.
     if ttl_invalid ttl_secs then fail ttl_error
     else
     bind (case capability_token of None \<Rightarrow> new_token E | Some t \<Rightarrow> ret t) (\<lambda>token.
     bind (lift (validate_capability_token token)) (\<lambda>_.
     enroll_agent E name p mode ttl_secs (capability_token \<noteq> None) token)))))))"

definition armed_json :: "string \<Rightarrow> string \<Rightarrow> int \<Rightarrow> json" where
  "armed_json agent_id session expires_at = JObj
     [(''agent_id'', JStr agent_id), (''session_id'', JStr session), (''expires_at'', JInt expires_at)]"

definition owner_arm_agent_session :: "env \<Rightarrow> actor \<Rightarrow> string \<Rightarrow> int \<Rightarrow> json top" where
  "owner_arm_agent_session E a agent_id ttl_secs =
     bind get_state (\<lambda>s.
     bind (lift (require_owner a)) (\<lambda>_.
     if emergency_stop s
     then fail (Forbidden
       ''agent spending sessions cannot be armed while emergency stop is active'')
     else
     bind (lift (agent_of s agent_id)) (\<lambda>agent.
     bind (lift (policy_of s (ag_policy_id agent))) (\<lambda>p.
     if ttl_secs \<le> 0 \<or> card_session_ttl_secs p < ttl_secs
     then fail (Invalid
       ''session TTL must be positive and no longer than the policy card-session TTL'')
     else
     bind now (\<lambda>at.
     let expires_at = min (i64_add at ttl_secs) (ag_expires_at agent) in
     bind (new_id E ''session'') (\<lambda>session.
     bind (put_agent agent_id
       (agent\<lparr>ag_session_id := session, ag_session_expires_at := expires_at\<rparr>)) (\<lambda>_.
     bind (audit E ''owner'' ''arm_agent_session'' None (Some (pl_version p)) (Some ''allowed'')
       (armed_json agent_id session expires_at)) (\<lambda>_.
     ret (armed_json agent_id session expires_at)))))))))"

definition owner_update_policy :: "env \<Rightarrow> actor \<Rightarrow> string \<Rightarrow> policy \<Rightarrow> json top" where
  "owner_update_policy E a agent_id p =
     bind get_state (\<lambda>s.
     bind (lift (require_owner a)) (\<lambda>_.
     bind (lift (policy_validate E p)) (\<lambda>_.
     bind (lift (validate_policy_exposure s p)) (\<lambda>_.
     bind (lift (agent_of s agent_id)) (\<lambda>agent.
     bind (lift (policy_of s (ag_policy_id agent))) (\<lambda>current.
     let p = p\<lparr>pl_id := ag_policy_id agent, pl_version := u64_add (pl_version current) 1\<rparr> in
     bind (lift (policy_validate E p)) (\<lambda>_.
     bind (put_policy (pl_id p) p) (\<lambda>_.
     bind (audit E ''owner'' ''update_policy'' None (Some (pl_version p)) (Some ''allowed'')
       (JObj [(''agent_id'', JStr agent_id), (''policy_version'', JInt (int (pl_version p)))]))
       (\<lambda>_.
     ret (JObj [(''agent_id'', JStr agent_id), (''policy'', policy_json p),
       (''note'', JStr (''Existing rejected intents remain rejected ''
         @ ''until a new intent is created.''))]))))))))))"

text \<open>Stopping renames and expires every agent's session.\<close>

definition stop_agent :: "env \<Rightarrow> string \<Rightarrow> unit top" where
  "stop_agent E k =
     bind (new_id E ''stopped-session'') (\<lambda>session.
     update_state (\<lambda>s. s\<lparr>agents := (case bget (agents s) k of
         None \<Rightarrow> agents s
       | Some agent \<Rightarrow> bput k (agent\<lparr>ag_session_id := session, ag_session_expires_at := 0\<rparr>)
           (agents s))\<rparr>))"

definition owner_emergency_stop :: "env \<Rightarrow> actor \<Rightarrow> bool \<Rightarrow> json top" where
  "owner_emergency_stop E a stopped =
     bind get_state (\<lambda>s.
     bind (lift (require_owner a)) (\<lambda>_.
     if emergency_stop s = stopped
     then ret (JObj [(''emergency_stop'', JBool stopped), (''invalidated_sessions'', JInt 0),
       (''unchanged'', JBool True)])
     else
     bind (if stopped \<and> \<not> emergency_stop s
           then bind (each (stop_agent E) (bkeys (agents s))) (\<lambda>_. ret (bsize (agents s)))
           else ret 0) (\<lambda>invalidated_sessions.
     bind (update_state (\<lambda>s. s\<lparr>emergency_stop := stopped\<rparr>)) (\<lambda>_.
     bind (audit E ''owner'' (if stopped then ''emergency_stop_on'' else ''emergency_stop_off'')
       None None (Some ''allowed'')
       (JObj [(''stopped'', JBool stopped),
              (''invalidated_sessions'', JInt (int invalidated_sessions))])) (\<lambda>_.
     ret (JObj [(''emergency_stop'', JBool stopped),
       (''invalidated_sessions'', JInt (int invalidated_sessions)),
       (''pending_operations_resume_automatically'', JBool False)]))))))"

definition owner_set_agent_mode :: "env \<Rightarrow> actor \<Rightarrow> string \<Rightarrow> autonomy_mode \<Rightarrow> json top" where
  "owner_set_agent_mode E a agent_id mode =
     bind get_state (\<lambda>s.
     bind (lift (require_owner a)) (\<lambda>_.
     bind (lift (agent_of s agent_id)) (\<lambda>agent.
     bind (put_agent agent_id (agent\<lparr>ag_mode := mode\<rparr>)) (\<lambda>_.
     bind (audit E ''owner'' ''set_agent_mode'' None None (Some ''allowed'')
       (JObj [(''agent_id'', JStr agent_id), (''mode'', JStr (mode_name mode))])) (\<lambda>_.
     ret (JObj [(''agent_id'', JStr agent_id), (''mode'', JStr (mode_name mode))]))))))"

definition owner_revoke_agent :: "env \<Rightarrow> actor \<Rightarrow> string \<Rightarrow> json top" where
  "owner_revoke_agent E a agent_id =
     bind get_state (\<lambda>s.
     bind (lift (require_owner a)) (\<lambda>_.
     bind (lift (agent_of s agent_id)) (\<lambda>agent.
     bind (put_agent agent_id (agent\<lparr>ag_revoked := True, ag_mode := Disabled\<rparr>)) (\<lambda>_.
     bind (audit E ''owner'' ''revoke_agent'' None None (Some ''allowed'')
       (JObj [(''agent_id'', JStr agent_id)])) (\<lambda>_.
     ret (JObj [(''agent_id'', JStr agent_id), (''revoked'', JBool True),
       (''mode'', JStr ''disabled'')]))))))"

definition owner_rotate_agent_capability ::
  "env \<Rightarrow> actor \<Rightarrow> string \<Rightarrow> int \<Rightarrow> string \<Rightarrow> json top" where
  "owner_rotate_agent_capability E a agent_id ttl_secs capability_token =
     bind get_state (\<lambda>s.
     bind (lift (require_owner a)) (\<lambda>_.
     if ttl_invalid ttl_secs then fail ttl_error
     else
     bind (lift (agent_of s agent_id)) (\<lambda>agent.
     bind (lift (policy_of s (ag_policy_id agent))) (\<lambda>p.
     bind (lift (validate_capability_token capability_token)) (\<lambda>_.
     bind now (\<lambda>at.
     let expires_at = i64_add at ttl_secs in
     bind (if emergency_stop s then ret 0
           else bind now (\<lambda>at. ret (i64_add at (min ttl_secs (card_session_ttl_secs p)))))
       (\<lambda>session_expires_at.
     bind (new_id E ''session'') (\<lambda>session.
     bind (put_agent agent_id
       (agent\<lparr>ag_token_hash := token_hash E capability_token, ag_expires_at := expires_at,
              ag_session_id := session, ag_session_expires_at := session_expires_at,
              ag_revoked := False, ag_mode := ApprovalRequiredMode\<rparr>)) (\<lambda>_.
     bind (audit E ''owner'' ''rotate_agent_capability'' None (Some (pl_version p))
       (Some ''allowed'')
       (JObj [(''agent_id'', JStr agent_id), (''expires_at'', JInt expires_at),
              (''mode'', JStr ''approval_required'')])) (\<lambda>_.
     ret (JObj [(''agent_id'', JStr agent_id), (''expires_at'', JInt expires_at),
       (''broker_session_expires_at'', JInt session_expires_at),
       (''mode'', JStr ''approval_required''),
       (''warning'', JStr (''The previous capability is invalid. ''
         @ ''Store this replacement once in a protected file.''))])))))))))))"

section \<open>Approvals\<close>

definition stored_intent :: "treasury_state \<Rightarrow> string \<Rightarrow> purchase_intent res" where
  "stored_intent s intent_id = ok_or (NotFound intent_id) (bget (intents s) intent_id)"

definition owner_approve :: "env \<Rightarrow> actor \<Rightarrow> string \<Rightarrow> json top" where
  "owner_approve E a intent_id =
     bind get_state (\<lambda>s.
     bind (lift (require_owner a)) (\<lambda>_.
     bind (lift (stored_intent s intent_id)) (\<lambda>i.
     if in_state i \<noteq> ApprovalRequired
     then fail (Conflict ''intent is not awaiting approval'')
     else
     bind (transition i Approved) (\<lambda>j.
     bind (put_intent (in_id j) j) (\<lambda>_.
     bind (audit E ''owner'' ''approve_intent'' (Some intent_id) (Some (in_policy_version j))
       (Some ''allowed'')
       (JObj [(''owner_action'', JBool True), (''approval_scope'', JStr ''intent_only'')])) (\<lambda>_.
     ret (sanitized_intent j)))))))"

definition owner_deny :: "env \<Rightarrow> actor \<Rightarrow> string \<Rightarrow> json top" where
  "owner_deny E a intent_id =
     bind get_state (\<lambda>s.
     bind (lift (require_owner a)) (\<lambda>_.
     bind (lift (stored_intent s intent_id)) (\<lambda>i.
     if in_state i \<noteq> ApprovalRequired
     then fail (Conflict ''intent is not awaiting approval'')
     else
     bind (transition i Cancelled) (\<lambda>i.
     let j = i\<lparr>in_last_error := Some ''owner_denied''\<rparr> in
     bind (put_intent (in_id j) j) (\<lambda>_.
     bind (audit E ''owner'' ''deny_intent'' (Some intent_id) (Some (in_policy_version j))
       (Some ''denied'')
       (JObj [(''owner_action'', JBool True), (''retry'', JBool False)])) (\<lambda>_.
     ret (sanitized_intent j)))))))"

section \<open>The manual handoff\<close>

definition handoff_instructions :: string where
  "handoff_instructions =
     ''Keep the agent suspended, verify these facts in an owner-only browser, submit at most once, ''
     @ ''then run complete-handoff before reconciliation.''"

definition owner_begin_manual_handoff :: "env \<Rightarrow> actor \<Rightarrow> string \<Rightarrow> json top" where
  "owner_begin_manual_handoff E a intent_id =
     bind get_state (\<lambda>s.
     bind (lift (require_owner a)) (\<lambda>_.
     if provider_mode s \<noteq> ManualPrepaidCard
     then fail (Conflict ''manual handoff requires the manual prepaid-card provider'')
     else
     bind (lift (stored_intent s intent_id)) (\<lambda>i.
     if in_state i \<noteq> Approved
     then fail (Conflict ''manual handoff requires an explicitly approved intent'')
     else
     bind (prepare_intent_execution E (AgentActor (in_agent_id i)) intent_id) (\<lambda>_.
     bind (audit E ''owner'' ''begin_manual_handoff'' (Some intent_id)
       (Some (in_policy_version i)) (Some ''ready'')
       (JObj [(''manual_owner_control'', JBool True)])) (\<lambda>_.
     bind get_state (\<lambda>s.
     bind (lift (ok_or (Panic ''prepared intent exists'') (bget (intents s) intent_id)))
       (\<lambda>executing.
     ret (JObj [(''status'', JStr ''owner_handoff_ready''), (''intent'', owner_intent executing),
       (''instructions'', JStr handoff_instructions),
       (''secret_material_required_by_broker'', JBool False)]))))))))"

definition owner_complete_manual_handoff :: "env \<Rightarrow> actor \<Rightarrow> string \<Rightarrow> json top" where
  "owner_complete_manual_handoff E a intent_id =
     bind get_state (\<lambda>s.
     bind (lift (require_owner a)) (\<lambda>_.
     bind (lift (stored_intent s intent_id)) (\<lambda>i.
     if provider_mode s \<noteq> ManualPrepaidCard \<or> in_state i \<noteq> Executing
     then fail (Conflict ''manual handoff is not awaiting owner completion'')
     else
     bind (transition i Unknown) (\<lambda>i.
     let j = i\<lparr>in_last_error := Some ''manual_provider_outcome_requires_reconciliation''\<rparr> in
     bind (put_intent (in_id j) j) (\<lambda>_.
     bind (audit E ''owner'' ''complete_manual_handoff'' (Some intent_id)
       (Some (in_policy_version j)) (Some ''unknown'')
       (JObj [(''retry'', JBool False), (''action'', JStr ''owner_reconcile'')])) (\<lambda>_.
     ret (JObj [(''status'', JStr ''unknown''), (''intent'', owner_intent j),
       (''action'', JStr ''owner_reconcile''), (''retry'', JBool False)])))))))"

section \<open>Merchants\<close>

definition merchant_json :: "string \<Rightarrow> string \<Rightarrow> (string \<times> json) list \<Rightarrow> json" where
  "merchant_json agent_id merchant rest = JObj
     ([(''agent_id'', JStr agent_id), (''merchant_domain'', JStr merchant)] @ rest)"

definition owner_approve_merchant :: "env \<Rightarrow> actor \<Rightarrow> string \<Rightarrow> string \<Rightarrow> json top" where
  "owner_approve_merchant E a agent_id domain =
     bind get_state (\<lambda>s.
     bind (lift (require_owner a)) (\<lambda>_.
     bind (lift (canonicalize_domain E domain)) (\<lambda>merchant.
     bind (lift (agent_of s agent_id)) (\<lambda>agent.
     if bs_mem merchant (ag_approved_merchants agent)
     then ret (merchant_json agent_id merchant
       [(''approved'', JBool True), (''unchanged'', JBool True)])
     else if max_agent_approved_merchants \<le> bsize (ag_approved_merchants agent)
     then fail (Conflict
       ''agent merchant-approval quota reached; update the policy instead'')
     else
     bind (put_agent agent_id
       (agent\<lparr>ag_approved_merchants := bs_insert merchant (ag_approved_merchants agent)\<rparr>)) (\<lambda>_.
     bind (audit E ''owner'' ''approve_merchant'' None None (Some ''allowed'')
       (merchant_json agent_id merchant [])) (\<lambda>_.
     ret (merchant_json agent_id merchant [(''approved'', JBool True)])))))))"

end
