(* ===== verification/Treasury.thy ===== *)
theory Treasury
  imports Owner
begin

text \<open>
  The owner's operations that move money or configure where it comes from:
  \<open>owner_reconcile\<close>, \<open>owner_record_deposit\<close>, \<open>owner_configure_receive\<close>,
  \<open>owner_configure_manual_provider\<close> and \<open>validate_secret_reference\<close>.
\<close>

section \<open>Reconciliation\<close>

datatype reconciliation_outcome = RecSettled | RecDeclined | RecRefunded

primrec reconciliation_name :: "reconciliation_outcome \<Rightarrow> string" where
  "reconciliation_name RecSettled = ''settled''"
| "reconciliation_name RecDeclined = ''declined''"
| "reconciliation_name RecRefunded = ''refunded''"

definition unconfigured :: treasury_error where
  "unconfigured = Conflict ''manual provider is not configured''"

definition no_snapshot :: treasury_error where
  "no_snapshot = Conflict ''manual balance snapshot is unavailable''"

definition put_provider :: "simulated_provider \<Rightarrow> unit top" where
  "put_provider p = update_state (\<lambda>s. s\<lparr>provider := p\<rparr>)"

text \<open>The manual provider's snapshot, for writing: both must exist.\<close>

definition manual_entry :: "(manual_provider \<times> manual_balance_snapshot) top" where
  "manual_entry =
     bind get_state (\<lambda>s.
     bind (lift (ok_or unconfigured (manual_provider s))) (\<lambda>p.
     bind (lift (ok_or no_snapshot (mp_balance_snapshot p))) (\<lambda>b.
     ret (p, b))))"

definition put_manual_balance :: "manual_provider \<Rightarrow> manual_balance_snapshot \<Rightarrow> unit top" where
  "put_manual_balance p b =
     update_state (\<lambda>s. s\<lparr>manual_provider := Some (p\<lparr>mp_balance_snapshot := Some b\<rparr>)\<rparr>)"

definition settle_simulated ::
  "env \<Rightarrow> purchase_intent \<Rightarrow> string option \<Rightarrow> string top" where
  "settle_simulated E i reference =
     bind (case reference of
             Some r \<Rightarrow> ret r
           | None \<Rightarrow> (case in_provider_reference i of
               Some r \<Rightarrow> ret r | None \<Rightarrow> new_id E ''reconciled'')) (\<lambda>reference.
     bind get_state (\<lambda>s.
     bind (reconcile_settled E (provider s) i reference) (\<lambda>(r, p).
     bind (put_provider p) (\<lambda>_. lift r))))"

definition settle_manual :: "purchase_intent \<Rightarrow> string option \<Rightarrow> string top" where
  "settle_manual i reference =
     bind (lift (ok_or (Invalid
       ''manual settlement requires an owner-verified provider reference'') reference)) (\<lambda>reference.
     bind manual_entry (\<lambda>(p, b).
     if minor (bs_amount b) < minor (final_total (in_request i))
     then fail (Conflict ''manual settlement exceeds the reported provider balance'')
     else
     bind (lift (checked_sub (bs_amount b) (final_total (in_request i)))) (\<lambda>m.
     bind now (\<lambda>at.
     bind (put_manual_balance p (b\<lparr>bs_amount := m, bs_observed_at := at\<rparr>)) (\<lambda>_.
     ret reference)))))"

definition mark_settled :: "env \<Rightarrow> purchase_intent \<Rightarrow> string \<Rightarrow> purchase_intent top" where
  "mark_settled E i reference =
     bind (transition (i\<lparr>in_provider_reference := Some reference\<rparr>) Settled) (\<lambda>i.
     bind (issue_receipt E i) (\<lambda>i.
     bind (record_settled E i) (\<lambda>_. ret i)))"

definition reconcile_as_settled ::
  "env \<Rightarrow> purchase_intent \<Rightarrow> string option \<Rightarrow> purchase_intent top" where
  "reconcile_as_settled E i provider_reference =
     bind get_state (\<lambda>s.
     bind (case provider_mode s of
             Simulated \<Rightarrow> settle_simulated E i provider_reference
           | ManualPrepaidCard \<Rightarrow> settle_manual i provider_reference) (\<lambda>reference.
     mark_settled E i reference))"

definition reconcile_as_declined :: "env \<Rightarrow> purchase_intent \<Rightarrow> purchase_intent top" where
  "reconcile_as_declined E i =
     bind get_state (\<lambda>s.
     if provider_mode s = Simulated \<and> bget (sp_charges (provider s)) (in_id i) \<noteq> None
     then fail (Conflict ''a known provider charge cannot be reconciled as declined'')
     else
     bind (if provider_mode s = Simulated
           then put_provider (release_hold (provider s) (in_id i)) else ret ()) (\<lambda>_.
     bind (transition i Declined) (\<lambda>i.
     bind (append_ledger E HoldReleased (final_total (in_request i)) (Some (in_id i))
       ''owner-reconciliation'' True) (\<lambda>_.
     ret i))))"

definition refund_simulated :: "purchase_intent \<Rightarrow> money top" where
  "refund_simulated i =
     bind get_state (\<lambda>s.
     let (r, p) = simulated_refund (provider s) (in_id i) in
     bind (put_provider p) (\<lambda>_. lift r))"

definition refund_manual :: "purchase_intent \<Rightarrow> bool \<Rightarrow> money top" where
  "refund_manual i was_settled =
     bind manual_entry (\<lambda>(p, b).
     bind (if was_settled then lift (checked_add (bs_amount b) (final_total (in_request i)))
           else ret (bs_amount b)) (\<lambda>m.
     bind now (\<lambda>at.
     bind (put_manual_balance p (b\<lparr>bs_amount := m, bs_observed_at := at\<rparr>)) (\<lambda>_.
     ret (final_total (in_request i))))))"

definition reconcile_as_refunded ::
  "env \<Rightarrow> purchase_intent \<Rightarrow> bool \<Rightarrow> string option \<Rightarrow> purchase_intent top" where
  "reconcile_as_refunded E i was_settled provider_reference =
     bind (if in_state i \<noteq> Settled
           then bind (lift (ok_or (Invalid
               ''refund reconciliation requires a provider reference'') provider_reference))
             (\<lambda>reference. mark_settled E i reference)
           else ret i) (\<lambda>i.
     bind get_state (\<lambda>s.
     bind (case provider_mode s of
             Simulated \<Rightarrow> refund_simulated i
           | ManualPrepaidCard \<Rightarrow> refund_manual i was_settled) (\<lambda>refund.
     bind (transition i Refunded) (\<lambda>i.
     bind (append_ledger E Refund refund (Some (in_id i)) ''owner_reconciliation'' True) (\<lambda>_.
     ret i)))))"

definition uncertain :: "transaction_state \<Rightarrow> bool" where
  "uncertain s \<longleftrightarrow> s \<in> {Unknown, ProviderPending, ReconciliationRequired}"

definition owner_reconcile_inner ::
  "env \<Rightarrow> string \<Rightarrow> reconciliation_outcome \<Rightarrow> string option \<Rightarrow> json top" where
  "owner_reconcile_inner E intent_id outcome provider_reference =
     bind (case provider_reference of
             None \<Rightarrow> ret None
           | Some r \<Rightarrow> bind (lift (validate_provider_reference E r)) (\<lambda>r. ret (Some r)))
       (\<lambda>provider_reference.
     bind get_state (\<lambda>s.
     bind (lift (stored_intent s intent_id)) (\<lambda>i0.
     let was_settled = (in_state i0 = Settled) in
     if \<not> (uncertain (in_state i0) \<or> outcome = RecRefunded \<and> in_state i0 = Settled)
     then fail (Conflict ''intent is not eligible for the requested reconciliation'')
     else
     bind (if uncertain (in_state i0) \<and> (in_state i0 = Unknown \<or> in_state i0 = ProviderPending)
           then transition i0 ReconciliationRequired else ret i0) (\<lambda>i1.
     bind (case outcome of
             RecSettled \<Rightarrow> reconcile_as_settled E i1 provider_reference
           | RecDeclined \<Rightarrow> reconcile_as_declined E i1
           | RecRefunded \<Rightarrow> reconcile_as_refunded E i1 was_settled provider_reference) (\<lambda>i.
     bind (put_intent (in_id i) i) (\<lambda>_.
     bind (audit E ''owner'' ''reconcile_intent'' (Some intent_id) (Some (in_policy_version i))
       (Some ''allowed'')
       (JObj [(''outcome'', JStr (reconciliation_name outcome)),
              (''provider_reference'', j_opt_str (in_provider_reference i))])) (\<lambda>_.
     ret (sanitized_intent i))))))))"

definition owner_reconcile ::
  "env \<Rightarrow> actor \<Rightarrow> string \<Rightarrow> reconciliation_outcome \<Rightarrow> string option \<Rightarrow> json top" where
  "owner_reconcile E a intent_id outcome provider_reference =
     bind (lift (require_owner a)) (\<lambda>_.
     bind get_state (\<lambda>snapshot.
     bind (attempt (owner_reconcile_inner E intent_id outcome provider_reference)) (\<lambda>r.
     case r of
       Inr v \<Rightarrow> ret v
     | Inl e \<Rightarrow> bind (put_state snapshot) (\<lambda>_. fail e))))"

section \<open>Deposits\<close>

definition deposit_fingerprint ::
  "env \<Rightarrow> money \<Rightarrow> string \<Rightarrow> bool \<Rightarrow> string option \<Rightarrow> string" where
  "deposit_fingerprint E amount source verified agent_id =
     hex_encode E (sha256 E (json_text E (JObj
       [(''amount'', money_json amount), (''source'', JStr source), (''verified'', JBool verified),
        (''agent_id'', j_opt_str agent_id)])))"

text \<open>The checks of a verified deposit; the result is the reinvested part.\<close>

definition verified_reinvestment ::
  "treasury_state \<Rightarrow> money \<Rightarrow> string option \<Rightarrow> money res" where
  "verified_reinvestment s amount agent_id =
     rbind (ok_or (Invalid ''verified deposits require an explicit target agent policy'') agent_id)
       (\<lambda>agent_id.
     rbind (agent_of s agent_id) (\<lambda>agent.
     rbind (policy_of s (ag_policy_id agent)) (\<lambda>p.
     if currency amount \<noteq> primary_currency p
     then Inl (MoneyError ''deposit currency does not match policy currency'')
     else
     rbind (provider_reported_balance s) (\<lambda>balance.
     rbind (checked_add balance amount) (\<lambda>projected.
     if minor (max_treasury_size p) < minor projected
     then Inl (Forbidden ''maximum treasury size would be exceeded'')
     else
     rbind (scaled_basis_points amount (reinvestment_ratio_bps p)) (\<lambda>reinvested.
     rbind (ledger_snapshot s (primary_currency p)) (\<lambda>l.
     rbind (checked_add (available_authority l) reinvested) (\<lambda>exposure.
     if minor (absolute_exposure_ceiling p) < minor exposure
     then Inl (Forbidden ''absolute exposure ceiling would be exceeded'')
     else Inr reinvested))))))))"

definition credit_provider :: "money \<Rightarrow> unit top" where
  "credit_provider amount =
     bind get_state (\<lambda>s.
     case provider_mode s of
       Simulated \<Rightarrow>
         bind (lift (checked_add (sp_balance (provider s)) amount)) (\<lambda>m.
         put_provider ((provider s)\<lparr>sp_balance := m,
           sp_incoming_deposits := sp_incoming_deposits (provider s) @ [amount]\<rparr>))
     | ManualPrepaidCard \<Rightarrow>
         bind manual_entry (\<lambda>(p, b).
         bind (lift (checked_add (bs_amount b) amount)) (\<lambda>m.
         bind now (\<lambda>at.
         put_manual_balance p
           (b\<lparr>bs_amount := m, bs_status := OwnerConfirmed, bs_observed_at := at\<rparr>)))))"

definition file_deposit ::
  "env \<Rightarrow> money \<Rightarrow> string \<Rightarrow> bool \<Rightarrow> string option \<Rightarrow> string \<Rightarrow> string \<Rightarrow> money \<Rightarrow> json top" where
  "file_deposit E amount source verified agent_id reference fingerprint reinvested =
     bind (if verified then credit_provider amount else ret ()) (\<lambda>_.
     bind (append_ledger E (if verified then IncomeVerified else IncomeUnverified) amount None
       source verified) (\<lambda>_.
     bind (if 0 < minor reinvested
           then append_ledger E OperatorTopUp reinvested None ''verified-income-reinvestment'' True
           else ret ()) (\<lambda>_.
     bind (update_state (\<lambda>s. s\<lparr>processed_deposits :=
         bput reference fingerprint (processed_deposits s)\<rparr>)) (\<lambda>_.
     bind (audit E ''owner'' ''record_deposit'' None None
       (Some (if verified then ''verified'' else ''unverified''))
       (JObj [(''amount'', money_json amount), (''source'', JStr source),
              (''agent_id'', j_opt_str agent_id), (''reinvested'', money_json reinvested),
              (''external_reference'', JStr reference)])) (\<lambda>_.
     ret (JObj [(''recorded'', JBool True), (''duplicate'', JBool False),
       (''verified'', JBool verified), (''spendable'', JBool (0 < minor reinvested)),
       (''reinvested'', money_json reinvested), (''external_reference'', JStr reference)]))))))"

definition owner_record_deposit ::
  "env \<Rightarrow> actor \<Rightarrow> money \<Rightarrow> string \<Rightarrow> bool \<Rightarrow> string option \<Rightarrow> string \<Rightarrow> json top" where
  "owner_record_deposit E a amount source verified agent_id external_reference =
     bind get_state (\<lambda>s.
     bind (lift (require_owner a)) (\<lambda>_.
     bind (lift (bounded source ''deposit_source'' 128)) (\<lambda>_.
     bind (lift (bounded external_reference ''external_reference'' 160)) (\<lambda>_.
     let reference = opaque_reference E ''deposit'' external_reference;
         source = redact_sensitive E source in
     if minor amount \<le> 0 then fail (Invalid ''deposit must be positive'')
     else
     let fingerprint = deposit_fingerprint E amount source verified agent_id in
     case bget (processed_deposits s) reference of
       Some existing \<Rightarrow>
         if existing = fingerprint
         then ret (JObj [(''recorded'', JBool True), (''duplicate'', JBool True),
           (''external_reference'', JStr reference)])
         else fail (Conflict
           ''external deposit reference is already bound to different details'')
     | None \<Rightarrow>
         bind (lift (if verified then verified_reinvestment s amount agent_id
                     else money_zero (currency amount))) (\<lambda>reinvested.
         file_deposit E amount source verified agent_id reference fingerprint reinvested)))))"

section \<open>Receiving and the manual provider\<close>

definition owner_configure_receive ::
  "env \<Rightarrow> actor \<Rightarrow> string \<Rightarrow> string \<Rightarrow> string \<Rightarrow> json top" where
  "owner_configure_receive E a mtd address memo_template =
     bind (lift (require_owner a)) (\<lambda>_.
     bind (lift (bounded mtd ''receive_method'' 64)) (\<lambda>_.
     bind (lift (bounded address ''receive_address'' 320)) (\<lambda>_.
     bind (lift (bounded memo_template ''memo_template'' 160)) (\<lambda>_.
     if \<not> eq_ignore_ascii_case mtd ''interac_e_transfer'' \<and> \<not> eq_ignore_ascii_case mtd ''manual''
     then fail (Invalid
       ''initial release supports only manual or Interac e-Transfer receiving instructions'')
     else
     bind now (\<lambda>at.
     bind (update_state (\<lambda>s. s\<lparr>receive_instructions := Some
       \<lparr>ri_method = mtd, ri_address = address, ri_memo_template = memo_template,
        ri_public = True, ri_configured_at = at\<rparr>\<rparr>)) (\<lambda>_.
     bind (audit E ''owner'' ''configure_receive_instructions'' None None (Some ''allowed'')
       (JObj [(''public'', JBool True)])) (\<lambda>_.
     ret (JObj [(''configured'', JBool True),
       (''outgoing_transfers_supported'', JBool False)]))))))))"

definition validate_secret_reference :: "env \<Rightarrow> string \<Rightarrow> string \<Rightarrow> unit res" where
  "validate_secret_reference E reference provider_kind =
     rbind (bounded reference ''credential_reference'' 256) (\<lambda>_.
     rbind (bounded provider_kind ''provider_kind'' 64) (\<lambda>_.
     if provider_kind \<notin> {''os-credential-store'', ''macos-keychain'', ''linux-secret-service'',
          ''windows-credential-manager''}
     then Inl (Invalid ''provider_kind is not an approved operating-system credential store'')
     else if redact_sensitive E reference \<noteq> reference
     then Inl (Invalid ''credential_reference appears to contain payment data'')
     else
     rbind (ok_or (Invalid ''credential_reference must be an opaque store URL'')
       (url_parse E reference)) (\<lambda>u.
     if u_scheme u \<notin> {''keychain'', ''secret-service'', ''credential-manager'',
            ''os-credential-store''}
          \<or> u_username u \<noteq> [] \<or> u_password u \<noteq> None \<or> u_query u \<noteq> None
          \<or> u_fragment u \<noteq> None \<or> u_host u = None
     then Inl (Invalid
       ''credential_reference must use an approved local credential-store scheme'')
     else Inr ())))"

record manual_configuration =
  mc_credential_reference :: string
  mc_provider_kind :: string
  mc_last_four :: "string option"
  mc_balance :: money
  mc_balance_status :: balance_status
  mc_balance_ttl_secs :: int
  mc_autonomous_checkout :: bool

text \<open>The checks of \<open>owner_configure_manual_provider\<close>, in order.\<close>

definition check_configuration :: "env \<Rightarrow> treasury_state \<Rightarrow> manual_configuration \<Rightarrow> unit res" where
  "check_configuration E s c =
     rbind (validate_secret_reference E (mc_credential_reference c) (mc_provider_kind c)) (\<lambda>_.
     if list_ex (\<lambda>i. \<not> is_terminal (in_state i)) (bvals (intents s))
     then Inl (Conflict ''provider cannot change while non-terminal purchase history exists'')
     else if minor (mc_balance c) < 0 \<or> mc_balance_ttl_secs c \<le> 0
       \<or> 24 * 60 * 60 < mc_balance_ttl_secs c
     then Inl (Invalid ''manual balance and freshness TTL are invalid'')
     else if mc_balance_status c = ProviderVerified
     then Inl (Invalid ''manual owner configuration cannot claim provider-verified status'')
     else if currency (mc_balance c) \<noteq> currency (sp_balance (provider s))
     then Inl (Invalid ''manual provider currency must match the treasury currency'')
     else if (case mc_last_four c of None \<Rightarrow> False
              | Some d \<Rightarrow> length d \<noteq> 4 \<or> \<not> list_all is_ascii_digit d)
     then Inl (Invalid ''last_four must contain exactly four digits'')
     else rall (\<lambda>p.
       if currency (mc_balance c) \<noteq> primary_currency p
          \<or> minor (max_treasury_size p) < minor (mc_balance c)
       then Inl (Forbidden ''manual balance is outside an active policy treasury envelope'')
       else Inr ()) (bvals (policies s)))"

definition configured_provider :: "manual_configuration \<Rightarrow> int \<Rightarrow> manual_provider" where
  "configured_provider c at =
     (manual_provider_new \<lparr>sr_reference = mc_credential_reference c,
        sr_provider_kind = mc_provider_kind c, sr_last_four = mc_last_four c,
        sr_persisted_secret = False\<rparr>)
     \<lparr>mp_outgoing_supported := mc_autonomous_checkout c,
      mp_balance_snapshot := Some \<lparr>bs_amount = mc_balance c, bs_status = mc_balance_status c,
        bs_observed_at = at, bs_source = ''owner-provider-configuration'',
        bs_expires_at = i64_add at (mc_balance_ttl_secs c)\<rparr>\<rparr>"

definition configured_json :: "manual_configuration \<Rightarrow> int \<Rightarrow> json" where
  "configured_json c at = JObj
     [(''provider'', JStr ''manual-prepaid-card''),
      (''balance_status'', JStr (balance_status_name (mc_balance_status c))),
      (''balance'', money_json (mc_balance c)),
      (''expires_at'', JInt (i64_add at (mc_balance_ttl_secs c))),
      (''credential_material_persisted'', JBool False),
      (''autonomous_checkout'', JBool (mc_autonomous_checkout c))]"

definition owner_configure_manual_provider ::
  "env \<Rightarrow> actor \<Rightarrow> manual_configuration \<Rightarrow> json top" where
  "owner_configure_manual_provider E a c =
     bind get_state (\<lambda>s.
     bind (lift (require_owner a)) (\<lambda>_.
     bind (lift (check_configuration E s c)) (\<lambda>_.
     bind now (\<lambda>at.
     bind (update_state (\<lambda>s. s\<lparr>provider_mode := ManualPrepaidCard,
       manual_provider := Some (configured_provider c at)\<rparr>)) (\<lambda>_.
     bind (audit E ''owner'' ''configure_manual_provider'' None None (Some ''allowed'')
       (configured_json c at)) (\<lambda>_.
     ret (configured_json c at)))))))"

end
