(* ===== verification/Views.thy ===== *)
theory Views
  imports Treasury "HOL-Library.Product_Lexorder"
begin

text \<open>
  The queries: \<open>get_status\<close>, \<open>owner_get_dashboard\<close>, \<open>get_capabilities\<close>,
  \<open>get_budget\<close>, \<open>get_receive_instructions\<close>, \<open>get_intent\<close>, the transaction and audit
  pages and \<open>get_receipt\<close>. None of them writes the state.
\<close>

definition dashboard_history_limit :: nat where "dashboard_history_limit = 10"
definition dashboard_audit_limit :: nat where "dashboard_audit_limit = 25"
definition owner_page_limit :: nat where "owner_page_limit = 50"

section \<open>Status, capabilities, budget\<close>

definition get_status :: "actor \<Rightarrow> json top" where
  "get_status a =
     bind get_state (\<lambda>s.
     case a of
       OwnerActor \<Rightarrow> ret (JObj
         [(''principal'', JStr ''owner''), (''emergency_stop'', JBool (emergency_stop s)),
          (''agent_count'', JInt (int (bsize (agents s)))),
          (''audit_entries'', JInt (int (length (audit_log s)))),
          (''provider'', JStr (provider_id s))])
     | AgentActor agent_id \<Rightarrow>
         bind (lift (require_agent_scope s a ''status:read'')) (\<lambda>_.
         bind (lift (agent_of s agent_id)) (\<lambda>agent.
         ret (JObj
           [(''principal'', JStr ''agent''), (''agent_id'', JStr (ag_id agent)),
            (''mode'', JStr (mode_name (ag_mode agent))), (''revoked'', JBool (ag_revoked agent)),
            (''emergency_stop'', JBool (emergency_stop s)),
            (''policy_id'', JStr (ag_policy_id agent)),
            (''broker_session_expires_at'', JInt (ag_session_expires_at agent))]))))"

definition denied_powers :: "string list" where
  "denied_powers =
     [''view_credentials'', ''change_policies'', ''change_limits'', ''add_cards'',
      ''approve_exceptions'', ''record_deposits'', ''reconcile_transactions'',
      ''export_sensitive_data'', ''change_server_configuration'', ''disable_safeguards'']"

definition get_capabilities :: "actor \<Rightarrow> json top" where
  "get_capabilities a =
     bind get_state (\<lambda>s.
     bind (lift (require_agent_scope s a ''capabilities:read'')) (\<lambda>agent_id.
     bind (lift (agent_of s agent_id)) (\<lambda>agent.
     ret (JObj [(''agent_id'', JStr (ag_id agent)), (''scopes'', j_set_of (ag_scopes agent)),
       (''cannot'', j_strs denied_powers)]))))"

record remaining_budget =
  rem_session :: money
  rem_rolling :: money
  rem_lifetime :: money

definition remaining_of :: "policy \<Rightarrow> budget_usage \<Rightarrow> remaining_budget res" where
  "remaining_of p usage =
     rbind (remaining_money (max_per_session p) (session_amount usage)) (\<lambda>session.
     rbind (remaining_money (max_rolling_24h p) (rolling_24h_amount usage)) (\<lambda>rolling.
     rbind (remaining_money (max_lifetime p) (lifetime_amount usage)) (\<lambda>lifetime.
     Inr \<lparr>rem_session = session, rem_rolling = rolling, rem_lifetime = lifetime\<rparr>)))"

definition get_budget :: "actor \<Rightarrow> json top" where
  "get_budget a =
     bind get_state (\<lambda>s.
     bind (lift (require_agent_scope s a ''budget:read'')) (\<lambda>agent_id.
     bind (lift (agent_of s agent_id)) (\<lambda>agent.
     bind (lift (policy_of s (ag_policy_id agent))) (\<lambda>p.
     bind (usage_of agent_id (primary_currency p)) (\<lambda>usage.
     bind (lift (provider_reported_balance s)) (\<lambda>balance.
     bind (lift (ledger_snapshot s (primary_currency p))) (\<lambda>l.
     bind (lift (remaining_of p usage)) (\<lambda>r.
     bind provider_balance_evidence (\<lambda>evidence.
     ret (JObj
       [(''currency'', JStr (primary_currency p)),
        (''policy_version'', JInt (int (pl_version p))),
        (''mode'', JStr (mode_name (ag_mode agent))),
        (''policy_budget'', JObj
          [(''max_per_transaction'', money_json (max_per_transaction p)),
           (''max_per_session'', money_json (max_per_session p)),
           (''max_rolling_24h'', money_json (max_rolling_24h p)),
           (''max_lifetime'', money_json (max_lifetime p))]),
        (''used'', usage_json usage),
        (''remaining'', JObj
          [(''per_transaction'', money_json (max_per_transaction p)),
           (''session'', money_json (rem_session r)),
           (''rolling_24h'', money_json (rem_rolling r)),
           (''lifetime'', money_json (rem_lifetime r))]),
        (''provider_balance'', JObj
          [(''amount'', money_json balance),
           (''status'', JStr (provider_balance_status s)), (''evidence'', evidence)]),
        (''ledger'', ledger_snap_json l),
        (''estimated_balance_is_not_provider_verified'', JBool True)]))))))))))"

definition get_receive_instructions :: "actor \<Rightarrow> json top" where
  "get_receive_instructions a =
     bind get_state (\<lambda>s.
     bind (lift (require_agent_scope s a ''receive:read'')) (\<lambda>_.
     bind (lift (ok_or (NotFound ''public receiving instructions'')
       (case receive_instructions s of
          None \<Rightarrow> None | Some r \<Rightarrow> if ri_public r then Some r else None))) (\<lambda>r.
     ret (JObj
       [(''method'', JStr (ri_method r)), (''address'', JStr (ri_address r)),
        (''memo_template'', JStr (ri_memo_template r)), (''verified'', JBool False),
        (''warning'', JStr ''A notification or screenshot is not evidence of received funds.''),
        (''outgoing_transfers_supported'', JBool False)]))))"

section \<open>The dashboard\<close>

text \<open>A stable sort, greatest key first (\<open>sort_by_key\<close> with \<open>Reverse\<close>).\<close>

definition sort_desc :: "('x \<Rightarrow> 'k::linorder) \<Rightarrow> 'x list \<Rightarrow> 'x list" where
  "sort_desc key xs = rev (sort_key key (rev xs))"

definition dashboard_agent :: "agent_record \<Rightarrow> json top" where
  "dashboard_agent agent =
     bind get_state (\<lambda>s.
     bind (lift (policy_of s (ag_policy_id agent))) (\<lambda>p.
     bind (usage_of (ag_id agent) (primary_currency p)) (\<lambda>usage.
     bind (lift (rbind (remaining_money (max_rolling_24h p) (rolling_24h_amount usage)) (\<lambda>rolling.
       rbind (remaining_money (max_per_session p) (session_amount usage)) (\<lambda>session.
       rbind (remaining_money (max_lifetime p) (lifetime_amount usage)) (\<lambda>lifetime.
       Inr (rolling, session, lifetime)))))) (\<lambda>(rolling, session, lifetime).
     ret (JObj
       [(''id'', JStr (ag_id agent)), (''name'', JStr (ag_name agent)),
        (''policy_id'', JStr (ag_policy_id agent)), (''mode'', JStr (mode_name (ag_mode agent))),
        (''created_at'', JInt (ag_created_at agent)), (''expires_at'', JInt (ag_expires_at agent)),
        (''revoked'', JBool (ag_revoked agent)),
        (''broker_session_expires_at'', JInt (ag_session_expires_at agent)),
        (''approved_merchants'', j_set_of (ag_approved_merchants agent)),
        (''transaction_count'', JInt (int (length (agent_intents s (ag_id agent))))),
        (''budget'', JObj
          [(''usage'', usage_json usage), (''remaining_rolling_24h'', money_json rolling),
           (''remaining_session'', money_json session),
           (''remaining_lifetime'', money_json lifetime)])])))))"

definition recent_first :: "treasury_state \<Rightarrow> purchase_intent list" where
  "recent_first s = sort_desc (\<lambda>i. (in_updated_at i, in_created_at i)) (bvals (intents s))"

definition unsafe_modes :: "treasury_state \<Rightarrow> string list" where
  "unsafe_modes s =
     (if provider_mode s = ManualPrepaidCard
      then
        if (case manual_provider s of None \<Rightarrow> False | Some p \<Rightarrow> mp_outgoing_supported p)
        then [''controlled card checkout is enabled; every submitted payment ''
          @ ''requires independent owner reconciliation'']
        else [''manual prepaid-card checkout requires owner handoff and reconciliation'']
      else [])"

definition manual_card_json :: "manual_provider \<Rightarrow> json" where
  "manual_card_json p = JObj
     [(''provider_kind'', JStr (sr_provider_kind (mp_card p))),
      (''last_four'', j_opt_str (sr_last_four (mp_card p))),
      (''credential_reference_configured'', JBool (sr_reference (mp_card p) \<noteq> [])),
      (''autonomous_checkout'', JBool (mp_outgoing_supported p))]"

definition reported_json :: "treasury_state \<Rightarrow> json" where
  "reported_json s = (case provider_reported_balance s of Inl e \<Rightarrow> JNull | Inr m \<Rightarrow> money_json m)"

definition authority_currency :: "treasury_state \<Rightarrow> string" where
  "authority_currency s =
     (case provider_reported_balance s of
        Inl e \<Rightarrow> currency (sp_balance (provider s)) | Inr m \<Rightarrow> currency m)"

definition first_rows :: "purchase_intent list \<Rightarrow> json" where
  "first_rows is = JArr (map owner_intent (take dashboard_history_limit is))"

definition dashboard_json ::
  "treasury_state \<Rightarrow> json list \<Rightarrow> ledger_snap \<Rightarrow> json \<Rightarrow> json" where
  "dashboard_json s rows l evidence =
     (let recent = recent_first s;
          pending = filter (\<lambda>i. in_state i = ApprovalRequired) recent;
          open_outcomes = filter (\<lambda>i. uncertain (in_state i)) recent in
      JObj
       [(''emergency_stop'', JBool (emergency_stop s)),
        (''provider'', JObj
          [(''id'', JStr (provider_id s)), (''mode'', JStr (provider_mode_name (provider_mode s))),
           (''balance'', reported_json s), (''balance_status'', JStr (provider_balance_status s)),
           (''balance_evidence'', evidence),
           (''manual_card'', j_option manual_card_json (manual_provider s))]),
        (''available_authority'', money_json (available_authority l)),
        (''ledger'', ledger_snap_json l),
        (''agents'', JArr rows),
        (''policies'', j_map policy_json (policies s)),
        (''transactions'', first_rows recent),
        (''transactions_total'', JInt (int (length recent))),
        (''transactions_truncated'', JBool (dashboard_history_limit < length recent)),
        (''pending_approvals'', first_rows pending),
        (''pending_approvals_total'', JInt (int (length pending))),
        (''pending_approvals_truncated'', JBool (dashboard_history_limit < length pending)),
        (''reconciliation_required'', first_rows open_outcomes),
        (''reconciliation_required_total'', JInt (int (length open_outcomes))),
        (''reconciliation_required_truncated'',
          JBool (dashboard_history_limit < length open_outcomes)),
        (''receive_instructions'', j_option receive_json (receive_instructions s)),
        (''audit_entry_count'', JInt (int (length (audit_log s)))),
        (''unsafe_modes'', j_strs (unsafe_modes s)),
        (''sanitized'', JBool True)])"

definition owner_get_dashboard :: "actor \<Rightarrow> json top" where
  "owner_get_dashboard a =
     bind get_state (\<lambda>s.
     bind (lift (require_owner a)) (\<lambda>_.
     bind (collect dashboard_agent (bvals (agents s))) (\<lambda>rows.
     bind (lift (ledger_snapshot s (authority_currency s))) (\<lambda>l.
     bind provider_balance_evidence (\<lambda>evidence.
     ret (dashboard_json s rows l evidence))))))"

section \<open>Intents and pages\<close>

definition view_intent :: "actor \<Rightarrow> purchase_intent \<Rightarrow> json" where
  "view_intent a i = (case a of OwnerActor \<Rightarrow> owner_intent i | AgentActor _ \<Rightarrow> sanitized_intent i)"

definition scope_for_agent :: "treasury_state \<Rightarrow> actor \<Rightarrow> string \<Rightarrow> unit res" where
  "scope_for_agent s a scope =
     (case a of
        OwnerActor \<Rightarrow> Inr ()
      | AgentActor _ \<Rightarrow> rbind (require_agent_scope s a scope) (\<lambda>_. Inr ()))"

definition owned_by :: "actor \<Rightarrow> purchase_intent \<Rightarrow> bool" where
  "owned_by a i = (case a of OwnerActor \<Rightarrow> True | AgentActor k \<Rightarrow> in_agent_id i = k)"

definition visible_intent :: "treasury_state \<Rightarrow> actor \<Rightarrow> string \<Rightarrow> string \<Rightarrow> purchase_intent res" where
  "visible_intent s a scope intent_id =
     rbind (scope_for_agent s a scope) (\<lambda>_.
     rbind (stored_intent s intent_id) (\<lambda>i.
     if \<not> owned_by a i then Inl (Forbidden ''intent belongs to another agent'') else Inr i))"

definition get_intent :: "actor \<Rightarrow> string \<Rightarrow> json top" where
  "get_intent a intent_id =
     bind get_state (\<lambda>s.
     bind (lift (visible_intent s a ''purchase_intents:read'' intent_id)) (\<lambda>i.
     ret (view_intent a i)))"

definition page_limit_error :: treasury_error where
  "page_limit_error = Invalid (''page limit must be between 1 and '' @ show_nat owner_page_limit)"

definition newest_first :: "purchase_intent list \<Rightarrow> purchase_intent list" where
  "newest_first is = sort_desc (\<lambda>i. (in_created_at i, in_id i)) is"

fun position :: "('x \<Rightarrow> bool) \<Rightarrow> 'x list \<Rightarrow> nat option" where
  "position P [] = None"
| "position P (x # xs) = (if P x then Some 0 else map_option Suc (position P xs))"

definition page_start :: "purchase_intent list \<Rightarrow> string option \<Rightarrow> nat res" where
  "page_start is cursor =
     (case cursor of
        None \<Rightarrow> Inr 0
      | Some value \<Rightarrow> ok_or (Invalid ''transaction cursor is invalid'')
          (map_option Suc (position (\<lambda>i. in_id i = value) is)))"

record intent_page =
  pg_rows :: "purchase_intent list"
  pg_total :: nat
  pg_next :: "string option"
  pg_has_more :: bool

text \<open>The page: the rows after the cursor, and the cursor for the rest when there is one.\<close>

definition intent_page_of ::
  "purchase_intent list \<Rightarrow> string option \<Rightarrow> nat \<Rightarrow> intent_page res" where
  "intent_page_of is cursor limit =
     (if limit = 0 \<or> owner_page_limit < limit then Inl page_limit_error
      else
        rbind (page_start is cursor) (\<lambda>start.
        let rows = take limit (drop start is);
            has_more = start + length rows < length is in
        Inr \<lparr>pg_rows = rows, pg_total = length is,
             pg_next = (if has_more \<and> rows \<noteq> [] then Some (in_id (last rows)) else None),
             pg_has_more = has_more\<rparr>))"

definition page_json :: "actor \<Rightarrow> intent_page \<Rightarrow> json" where
  "page_json a pg = JObj
     [(''transactions'', JArr (map (view_intent a) (pg_rows pg))),
      (''transactions_total'', JInt (int (pg_total pg))),
      (''next_cursor'', j_opt_str (pg_next pg)),
      (''has_more'', JBool (pg_has_more pg))]"

definition list_transactions_page :: "actor \<Rightarrow> string option \<Rightarrow> nat \<Rightarrow> json top" where
  "list_transactions_page a cursor limit =
     bind get_state (\<lambda>s.
     bind (lift (scope_for_agent s a ''transactions:read'')) (\<lambda>_.
     bind (lift (intent_page_of (newest_first (filter (owned_by a) (bvals (intents s)))) cursor limit))
       (\<lambda>pg.
     ret (page_json a pg))))"

definition list_transactions :: "actor \<Rightarrow> json top" where
  "list_transactions a = list_transactions_page a None 25"

definition owner_list_transactions_page :: "actor \<Rightarrow> string option \<Rightarrow> nat \<Rightarrow> json top" where
  "owner_list_transactions_page a cursor limit =
     bind get_state (\<lambda>s.
     bind (lift (require_owner a)) (\<lambda>_.
     bind (lift (intent_page_of (newest_first (bvals (intents s))) cursor limit)) (\<lambda>pg.
     ret (page_json OwnerActor pg))))"

definition get_receipt :: "env \<Rightarrow> actor \<Rightarrow> string \<Rightarrow> json top" where
  "get_receipt E a intent_id =
     bind get_state (\<lambda>s.
     bind (lift (visible_intent s a ''receipts:read'' intent_id)) (\<lambda>i.
     bind (lift (ok_or (Conflict ''receipt is unavailable until settlement'') (in_receipt i))) (\<lambda>r.
     if in_receipt_hash i \<noteq> Some (receipt_hash E r)
     then fail (Invalid ''persisted receipt integrity check failed'')
     else ret (receipt_json r))))"

section \<open>Audit pages\<close>

definition chain_valid :: "env \<Rightarrow> treasury_state \<Rightarrow> json top" where
  "chain_valid E s = bind (gets w_key) (\<lambda>key. ret (JBool (is_ok (verify_audit_chain E key s))))"

definition owner_list_audit :: "env \<Rightarrow> actor \<Rightarrow> json top" where
  "owner_list_audit E a =
     bind get_state (\<lambda>s.
     bind (lift (require_owner a)) (\<lambda>_.
     bind (chain_valid E s) (\<lambda>valid.
     ret (JObj [(''entries'', JArr (map audit_entry_json (audit_log s))),
       (''entries_total'', JInt (int (length (audit_log s)))),
       (''truncated'', JBool False), (''chain_valid'', valid)]))))"

definition owner_list_audit_recent :: "env \<Rightarrow> actor \<Rightarrow> json top" where
  "owner_list_audit_recent E a =
     bind get_state (\<lambda>s.
     bind (lift (require_owner a)) (\<lambda>_.
     let total = length (audit_log s); start = total - dashboard_audit_limit in
     bind (chain_valid E s) (\<lambda>valid.
     ret (JObj [(''entries'', JArr (map audit_entry_json (drop start (audit_log s)))),
       (''entries_total'', JInt (int total)),
       (''truncated'', JBool (0 < start)), (''chain_valid'', valid)]))))"

record audit_page =
  ap_entries :: "audit_entry list"
  ap_next :: "nat option"
  ap_has_more :: bool

definition audit_page_of :: "audit_entry list \<Rightarrow> nat option \<Rightarrow> nat \<Rightarrow> audit_page res" where
  "audit_page_of es cursor limit =
     (if limit = 0 \<or> owner_page_limit < limit then Inl page_limit_error
      else
        let entries = take limit (filter (\<lambda>e. case cursor of None \<Rightarrow> True
              | Some sequence \<Rightarrow> au_sequence e < sequence) (rev es));
            has_more = (entries \<noteq> [] \<and> 1 < au_sequence (last entries)) in
        Inr \<lparr>ap_entries = entries,
             ap_next = (if has_more then Some (au_sequence (last entries)) else None),
             ap_has_more = has_more\<rparr>)"

definition owner_list_audit_page :: "env \<Rightarrow> actor \<Rightarrow> nat option \<Rightarrow> nat \<Rightarrow> json top" where
  "owner_list_audit_page E a cursor limit =
     bind get_state (\<lambda>s.
     bind (lift (require_owner a)) (\<lambda>_.
     bind (lift (audit_page_of (audit_log s) cursor limit)) (\<lambda>pg.
     bind (chain_valid E s) (\<lambda>valid.
     ret (JObj [(''entries'', JArr (map audit_entry_json (ap_entries pg))),
       (''entries_total'', JInt (int (length (audit_log s)))),
       (''next_cursor'', j_opt_nat (ap_next pg)), (''has_more'', JBool (ap_has_more pg)),
       (''chain_valid'', valid)])))))"

section \<open>Queries leave the state as it is\<close>

lemma keeps_same_evidence: "keeps same_state provider_balance_evidence"
  unfolding provider_balance_evidence_def by (intro keeps_same keeps_cases)

lemma keeps_same_dashboard_agent: "keeps same_state (dashboard_agent agent)"
  unfolding dashboard_agent_def by (intro keeps_same keeps_cases keeps_same_usage)

lemma keeps_same_chain_valid: "keeps same_state (chain_valid E s)"
  unfolding chain_valid_def by (intro keeps_same)

lemmas keeps_query = keeps_same keeps_cases keeps_same_usage keeps_same_evidence
  keeps_same_dashboard_agent keeps_same_chain_valid keeps_same_available

lemma keeps_same_views:
  "keeps same_state (get_status a)"
  "keeps same_state (get_capabilities a)"
  "keeps same_state (get_budget a)"
  "keeps same_state (get_receive_instructions a)"
  "keeps same_state (owner_get_dashboard a)"
  "keeps same_state (get_intent a k)"
  "keeps same_state (list_transactions_page a cursor limit)"
  "keeps same_state (list_transactions a)"
  "keeps same_state (owner_list_transactions_page a cursor limit)"
  "keeps same_state (get_receipt E a k)"
  "keeps same_state (owner_list_audit E a)"
  "keeps same_state (owner_list_audit_recent E a)"
  "keeps same_state (owner_list_audit_page E a acursor limit)"
  unfolding get_status_def get_capabilities_def get_budget_def get_receive_instructions_def
    owner_get_dashboard_def get_intent_def list_transactions_def list_transactions_page_def
    owner_list_transactions_page_def get_receipt_def owner_list_audit_def
    owner_list_audit_recent_def owner_list_audit_page_def Let_def
  by (intro keeps_query)+

end
