(* ===== verification/Files.thy ===== *)
theory Files
  imports Base
begin

text \<open>
  The private files of the data directory: \<open>ensure_private_directory\<close>,
  \<open>verify_private_file\<close>, \<open>read_private_file\<close>, \<open>write_new_private_file\<close>,
  \<open>write_atomic_private_file\<close> and \<open>sync_directory\<close>, over a directory of named nodes. Every
  system call consults the oracle, so each may fail, a write after part of its bytes.
\<close>

section \<open>System calls\<close>

definition io_call :: "('s, unit) op" where
  "io_call = (\<lambda>w. let v = w\<lparr>w_ios := Suc (w_ios w)\<rparr> in
     case w_io w (w_ios w) of None \<Rightarrow> (Inr (), v) | Some (e, n) \<Rightarrow> (Inl (Io e), v))"

definition file_at :: "'s world \<Rightarrow> string \<Rightarrow> file_node option" where
  "file_at w name = bget (d_files (w_disk w)) name"

definition put_file :: "string \<Rightarrow> file_node \<Rightarrow> ('s, unit) op" where
  "put_file name f = modify (\<lambda>w. w\<lparr>w_disk := (w_disk w)\<lparr>d_files :=
     bput name f (d_files (w_disk w))\<rparr>\<rparr>)"

definition drop_file :: "string \<Rightarrow> ('s, unit) op" where
  "drop_file name = modify (\<lambda>w. w\<lparr>w_disk := (w_disk w)\<lparr>d_files :=
     bdel name (d_files (w_disk w))\<rparr>\<rparr>)"

definition not_found :: treasury_error where
  "not_found = Io ''No such file or directory (os error 2)''"

definition file_exists_error :: treasury_error where
  "file_exists_error = Io ''File exists (os error 17)''"

definition display_path :: "'s world \<Rightarrow> string \<Rightarrow> string" where
  "display_path w name = d_path (w_disk w) @ ''/'' @ name"

text \<open>\<open>symlink_metadata\<close>; \<open>exists\<close> turns any error into false.\<close>

definition metadata_of :: "string \<Rightarrow> ('s, file_node) op" where
  "metadata_of name = bind io_call (\<lambda>_. bind (gets (\<lambda>w. file_at w name)) (\<lambda>f.
     lift (ok_or not_found f)))"

definition path_exists :: "string \<Rightarrow> ('s, bool) op" where
  "path_exists name = bind (attempt (metadata_of name)) (\<lambda>r. ret (is_ok r))"

text \<open>A write that fails leaves the bytes transferred before the failure. Modes are decimal.\<close>

definition write_all :: "string \<Rightarrow> file_node \<Rightarrow> string \<Rightarrow> ('s, unit) op" where
  "write_all name f bytes = (\<lambda>w.
     let v = w\<lparr>w_ios := Suc (w_ios w)\<rparr> in
     case w_io w (w_ios w) of
       None \<Rightarrow> put_file name (f\<lparr>fn_bytes := bytes\<rparr>) v
     | Some (e, n) \<Rightarrow> (Inl (Io e), snd (put_file name (f\<lparr>fn_bytes := take n bytes\<rparr>) v)))"

section \<open>Private files\<close>

definition group_or_other :: "nat \<Rightarrow> bool" where
  "group_or_other mode \<longleftrightarrow> Bit_Operations.and mode 63 \<noteq> 0"

definition ensure_private_directory :: "('s, unit) op" where
  "ensure_private_directory =
     bind io_call (\<lambda>_.
     bind (gets (\<lambda>w. d_dir (w_disk w))) (\<lambda>dir.
     bind (case dir of
             None \<Rightarrow> modify (\<lambda>w. w\<lparr>w_disk := (w_disk w)\<lparr>d_dir :=
               Some \<lparr>fn_kind = DirectoryNode, fn_mode = 493, fn_bytes = []\<rparr>\<rparr>\<rparr>)
           | Some f \<Rightarrow> guard (fn_kind f \<noteq> RegularFile) file_exists_error) (\<lambda>_.
     bind io_call (\<lambda>_.
     bind (gets (\<lambda>w. d_dir (w_disk w))) (\<lambda>dir.
     bind (lift (ok_or not_found dir)) (\<lambda>f.
     if fn_kind f \<noteq> DirectoryNode
     then fail (Invalid ''treasury data directory must be a real directory'')
     else
     bind io_call (\<lambda>_.
     modify (\<lambda>w. w\<lparr>w_disk := (w_disk w)\<lparr>d_dir := Some (f\<lparr>fn_mode := 448\<rparr>)\<rparr>\<rparr>))))))))"

definition verify_private_file :: "string \<Rightarrow> ('s, unit) op" where
  "verify_private_file name =
     bind (metadata_of name) (\<lambda>f.
     bind (gets (\<lambda>w. display_path w name)) (\<lambda>shown.
     if fn_kind f \<noteq> RegularFile
     then fail (Invalid (shown @ '' must be a regular file and not a symlink''))
     else if group_or_other (fn_mode f)
     then fail (Invalid (shown @ '' permissions must deny group and other access''))
     else ret ()))"

definition read_private_file :: "string \<Rightarrow> ('s, string) op" where
  "read_private_file name =
     bind (verify_private_file name) (\<lambda>_.
     bind (metadata_of name) (\<lambda>f.
     bind io_call (\<lambda>_. ret (fn_bytes f))))"

definition write_new_private_file :: "string \<Rightarrow> string \<Rightarrow> ('s, unit) op" where
  "write_new_private_file name bytes =
     bind io_call (\<lambda>_.
     bind (gets (\<lambda>w. file_at w name)) (\<lambda>existing.
     if existing \<noteq> None then fail file_exists_error
     else
     let f = \<lparr>fn_kind = RegularFile, fn_mode = 384, fn_bytes = []\<rparr> in
     bind (put_file name f) (\<lambda>_.
     bind (write_all name f bytes) (\<lambda>_.
     bind io_call (\<lambda>_.
     verify_private_file name)))))"

definition rename_file :: "string \<Rightarrow> string \<Rightarrow> ('s, unit) op" where
  "rename_file old new =
     bind io_call (\<lambda>_.
     bind (gets (\<lambda>w. file_at w old)) (\<lambda>f.
     bind (lift (ok_or not_found f)) (\<lambda>f.
     bind (gets (\<lambda>w. file_at w new)) (\<lambda>target.
     if (case target of None \<Rightarrow> False | Some t \<Rightarrow> fn_kind t = DirectoryNode)
     then fail (Io ''Is a directory (os error 21)'')
     else bind (drop_file old) (\<lambda>_. put_file new f)))))"

definition remove_file :: "string \<Rightarrow> ('s, unit) op" where
  "remove_file name = bind io_call (\<lambda>_. drop_file name)"

definition temp_name :: "string \<Rightarrow> string" where
  "temp_name r = ''.state-'' @ r @ ''.tmp''"

definition write_atomic_private_file :: "env \<Rightarrow> string \<Rightarrow> string \<Rightarrow> ('s, unit) op" where
  "write_atomic_private_file E name bytes =
     bind (random_hex E 12) (\<lambda>r.
     bind (write_new_private_file (temp_name r) bytes) (\<lambda>_.
     bind (attempt (rename_file (temp_name r) name)) (\<lambda>renamed.
     case renamed of
       Inl e \<Rightarrow> bind (attempt (remove_file (temp_name r))) (\<lambda>_. fail e)
     | Inr _ \<Rightarrow> verify_private_file name)))"

definition sync_directory :: "('s, unit) op" where
  "sync_directory = bind io_call (\<lambda>_. io_call)"

section \<open>Lemmas\<close>

text \<open>
  File operations read and write the disk only: the state, the key and the oracles stay. An
  atomic write leaves every file but its target and temporary as it is.
\<close>

definition same_memory :: "'s world \<Rightarrow> 's world \<Rightarrow> bool" where
  "same_memory v w \<longleftrightarrow> w_state w = w_state v \<and> w_key w = w_key v \<and> w_clock w = w_clock v
     \<and> w_rand w = w_rand v \<and> w_io w = w_io v \<and> w_draws v \<le> w_draws w"

lemma same_state_memory: "same_state v w \<Longrightarrow> same_memory v w"
  by (simp add: same_state_def same_memory_def)

interpretation mem: step_relation "same_memory :: 's world \<Rightarrow> 's world \<Rightarrow> bool"
  by unfold_locales (simp_all add: same_memory_def)

lemma wp_io [wp_simps]:
  "wp io_call Q R w = (case w_io w (w_ios w) of
       None \<Rightarrow> Q () (w\<lparr>w_ios := Suc (w_ios w)\<rparr>)
     | Some (e, n) \<Rightarrow> R (Io e) (w\<lparr>w_ios := Suc (w_ios w)\<rparr>))"
  by (simp add: wp_def io_call_def Let_def split: option.split prod.split)

lemma keeps_mem_basic:
  "keeps same_memory io_call"
  "keeps same_memory (put_file name f)"
  "keeps same_memory (drop_file name)"
  "keeps same_memory (write_all name f bytes)"
  "keeps same_memory (random_hex E n)"
  by (simp_all add: keeps_def same_memory_def io_call_def put_file_def drop_file_def write_all_def
      Let_def modify_def split: option.split)

lemma keeps_mem_disk: "(\<And>w. same_memory w (g w)) \<Longrightarrow> keeps same_memory (modify g)"
  by (rule mem.keeps_modify)

lemma keeps_mem_ensure: "keeps same_memory ensure_private_directory"
  unfolding ensure_private_directory_def
  by (intro mem.keeps_rules keeps_mem_basic mem.keeps_modify) (simp_all add: same_memory_def)

lemma keeps_mem_files:
  "keeps same_memory (metadata_of name)"
  "keeps same_memory (path_exists name)"
  "keeps same_memory (verify_private_file name)"
  "keeps same_memory (read_private_file name)"
  "keeps same_memory (write_new_private_file name bytes)"
  "keeps same_memory (rename_file name new)"
  "keeps same_memory (remove_file name)"
  "keeps same_memory (write_atomic_private_file E name bytes)"
  "keeps same_memory sync_directory"
  unfolding metadata_of_def path_exists_def verify_private_file_def read_private_file_def
    write_new_private_file_def rename_file_def remove_file_def write_atomic_private_file_def
    sync_directory_def Let_def
  by (intro mem.keeps_rules keeps_mem_basic)+

end
