(* ===== verification/Store.thy ===== *)
theory Store
  imports Views Files
begin

text \<open>
  The durable treasury: \<open>validate_state\<close>, \<open>bootstrap\<close>, \<open>save_to\<close> and \<open>load_from\<close>.
  The state file holds the state and its authentication code under the audit key.
\<close>

definition state_file :: string where "state_file = ''state.json''"
definition audit_key_file :: string where "audit_key_file = ''audit.key''"

text \<open>Third-party text forms of the persisted envelope: the pretty printer and the parser.\<close>

record codec =
  pretty_text :: "json \<Rightarrow> string"
  parse_envelope :: "string \<Rightarrow> (treasury_state \<times> string) option"

section \<open>Validation of a state\<close>

definition require_that :: "bool \<Rightarrow> string \<Rightarrow> unit res" where
  "require_that b message = ensure b (Invalid message)"

definition validate_quota :: "treasury_state \<Rightarrow> unit res" where
  "validate_quota s =
     (let emergency = emergency_count (audit_log s);
          non_emergency = length (audit_log s) - emergency;
          overflow = (max_audit_entries < non_emergency
            \<or> emergency_audit_reserve + 1 < emergency) in
      require_that (\<not> (max_intents < bsize (intents s) \<or> max_agents < bsize (agents s) \<or> overflow))
        ''persisted treasury exceeds its durable record quota'')"

definition validate_stored_policy :: "env \<Rightarrow> string \<times> policy \<Rightarrow> unit res" where
  "validate_stored_policy E e =
     rbind (require_that (fst e = pl_id (snd e)) ''policy map key does not match policy id'') (\<lambda>_.
     policy_validate E (snd e))"

definition validate_stored_agent :: "env \<Rightarrow> treasury_state \<Rightarrow> string \<times> agent_record \<Rightarrow> unit res" where
  "validate_stored_agent E s e =
     (let k = fst e; agent = snd e in
     rbind (require_that (\<not> (k \<noteq> ag_id agent
          \<or> length (ag_token_hash agent) \<noteq> 64
          \<or> bget (policies s) (ag_policy_id agent) = None
          \<or> ag_session_id agent = []
          \<or> ag_expires_at agent < ag_session_expires_at agent))
        ''persisted agent invariant failed'') (\<lambda>_.
     rbind (require_that (bsize (ag_approved_merchants agent) \<le> max_agent_approved_merchants)
        ''agent merchant approvals exceed the durable limit'') (\<lambda>_.
     rall (\<lambda>merchant. rbind (canonicalize_domain E merchant) (\<lambda>canonical.
        require_that (canonical = merchant) ''persisted approved merchant is not canonical''))
       (bkeys (ag_approved_merchants agent)))))"

definition validate_stored_receipt :: "env \<Rightarrow> purchase_intent \<Rightarrow> unit res" where
  "validate_stored_receipt E i =
     (case (in_receipt i, in_receipt_hash i) of
        (Some r, Some h) \<Rightarrow>
          require_that (rc_intent_id r = in_id i \<and> receipt_hash E r = h)
            ''persisted receipt integrity check failed''
      | (None, None) \<Rightarrow>
          require_that (in_state i \<noteq> Settled \<and> in_state i \<noteq> Refunded)
            ''settled intent is missing its immutable receipt''
      | _ \<Rightarrow> Inl (Invalid ''persisted receipt and hash must be present together''))"

definition validate_stored_intent :: "env \<Rightarrow> treasury_state \<Rightarrow> string \<times> purchase_intent \<Rightarrow> unit res" where
  "validate_stored_intent E s e =
     (let k = fst e; i = snd e in
     rbind (require_that (\<not> (k \<noteq> in_id i \<or> bget (agents s) (in_agent_id i) = None
          \<or> in_broker_session_id i = [])) ''persisted intent invariant failed'') (\<lambda>_.
     rbind (money_positive (minor (rq_amount (in_request i))) (currency (rq_amount (in_request i)))) (\<lambda>_.
     rbind (money_positive (minor (final_total (in_request i))) (currency (final_total (in_request i))))
       (\<lambda>_.
     validate_stored_receipt E i))))"

definition validate_stored_event :: "treasury_state \<Rightarrow> ledger_event \<Rightarrow> unit res" where
  "validate_stored_event s e =
     rbind (money_new (minor (le_amount e)) (currency (le_amount e))) (\<lambda>_.
     require_that (case le_intent_id e of None \<Rightarrow> True | Some k \<Rightarrow> bget (intents s) k \<noteq> None)
       ''ledger event refers to an unknown intent'')"

definition validate_provider :: "env \<Rightarrow> treasury_state \<Rightarrow> unit res" where
  "validate_provider E s =
     (case provider_mode s of
        Simulated \<Rightarrow> require_that (\<not> minor (sp_balance (provider s)) < 0)
          ''simulated provider balance cannot be negative''
      | ManualPrepaidCard \<Rightarrow>
          rbind (ok_or (Invalid ''manual provider mode requires manual provider configuration'')
            (manual_provider s)) (\<lambda>p.
          rbind (require_that (\<not> (sr_persisted_secret (mp_card p) \<or> sr_reference (mp_card p) = []))
            ''manual provider must persist only a non-secret credential reference'') (\<lambda>_.
          validate_secret_reference E (sr_reference (mp_card p)) (sr_provider_kind (mp_card p)))))"

definition validate_state :: "env \<Rightarrow> treasury_state \<Rightarrow> unit res" where
  "validate_state E s =
     rbind (require_that (schema_version s = 2) ''unsupported persisted state schema'') (\<lambda>_.
     rbind (validate_quota s) (\<lambda>_.
     rbind (require_that (length (ow_token_hash (owner s)) = 64) ''owner token hash is invalid'') (\<lambda>_.
     rbind (rall (validate_stored_policy E) (items (policies s))) (\<lambda>_.
     rbind (rall (validate_stored_agent E s) (items (agents s))) (\<lambda>_.
     rbind (rall (validate_stored_intent E s) (items (intents s))) (\<lambda>_.
     rbind (rall (validate_stored_event s) (ledger s)) (\<lambda>_.
     rbind (validate_provider E s) (\<lambda>_.
     rall (\<lambda>reference. bounded reference ''external_reference'' 160)
       (bkeys (processed_deposits s))))))))))"

section \<open>Bootstrap\<close>

definition initial_state :: "owner_record \<Rightarrow> policy \<Rightarrow> money \<Rightarrow> treasury_state" where
  "initial_state own p balance =
     \<lparr>schema_version = 2, generation = 0, owner = own, agents = bempty,
      policies = bput (pl_id p) p bempty, intents = bempty, ledger = [], audit_log = [],
      receive_instructions = None, emergency_stop = False, provider = simulated_new balance,
      provider_mode = Simulated, manual_provider = None, processed_deposits = bempty\<rparr>"

text \<open>
  \<open>bootstrap\<close> starts from nothing: the operation installs the new state and key in the
  world and returns the owner token. The key is the raw bytes whose hexadecimal text was drawn.
\<close>

definition bootstrap :: "env \<Rightarrow> string \<Rightarrow> money \<Rightarrow> string top" where
  "bootstrap E owner_name initial_balance =
     bind (lift (bounded owner_name ''owner_name'' 128)) (\<lambda>_.
     bind (new_token E) (\<lambda>owner_token.
     bind (lift conservative_demo) (\<lambda>p.
     if currency initial_balance \<noteq> primary_currency p \<or> minor initial_balance \<le> 0
        \<or> minor (max_treasury_size p) < minor initial_balance
     then fail (Invalid ''initial balance exceeds the conservative treasury policy'')
     else
     bind (new_id E ''owner'') (\<lambda>k.
     bind now (\<lambda>at.
     let own = \<lparr>ow_id = k, ow_name = owner_name, ow_token_hash = token_hash E owner_token,
           ow_created_at = at\<rparr> in
     bind (\<lambda>w. (Inr (), w\<lparr>w_state := initial_state own p initial_balance,
        w_key := w_rand w (w_draws w) 32, w_draws := Suc (w_draws w)\<rparr>)) (\<lambda>_.
     bind (append_ledger E OwnerCapital initial_balance None ''bootstrap'' True) (\<lambda>_.
     bind (audit E ''owner'' ''bootstrap'' None None (Some ''allowed'')
       (JObj [(''provider'', JStr ''simulated-local'')])) (\<lambda>_.
     ret owner_token))))))))"

section \<open>Saving and loading\<close>

definition state_mac :: "env \<Rightarrow> string \<Rightarrow> treasury_state \<Rightarrow> string" where
  "state_mac E key s = hmac_bytes E key (json_text E (state_json s))"

definition envelope_text :: "codec \<Rightarrow> treasury_state \<Rightarrow> string \<Rightarrow> string" where
  "envelope_text C s mac =
     pretty_text C (JObj [(''state'', state_json s), (''state_mac'', JStr mac)])"

definition check_key_file :: "unit top" where
  "check_key_file =
     bind (gets w_key) (\<lambda>key.
     bind (path_exists audit_key_file) (\<lambda>present.
     if present
     then bind (read_private_file audit_key_file) (\<lambda>persisted.
       if \<not> constant_time_eq persisted key
       then fail (Conflict ''audit key does not match the in-memory treasury'')
       else ret ())
     else bind (write_new_private_file audit_key_file key) (\<lambda>_. sync_directory)))"

definition save_to :: "env \<Rightarrow> codec \<Rightarrow> unit top" where
  "save_to E C =
     bind ensure_private_directory (\<lambda>_.
     bind check_key_file (\<lambda>_.
     bind get_state (\<lambda>s.
     bind (gets w_key) (\<lambda>key.
     bind (lift (validate_state E s)) (\<lambda>_.
     bind (lift (verify_audit_chain E key s)) (\<lambda>_.
     bind (write_atomic_private_file E state_file (envelope_text C s (state_mac E key s))) (\<lambda>_.
     sync_directory)))))))"

definition load_from :: "env \<Rightarrow> codec \<Rightarrow> (treasury_state \<times> string) top" where
  "load_from E C =
     bind (read_private_file audit_key_file) (\<lambda>key.
     if length key < 32 then fail (Invalid ''audit key is too short'')
     else
     bind (read_private_file state_file) (\<lambda>encoded.
     bind (lift (ok_or (Serialization ''invalid persisted envelope'') (parse_envelope C encoded)))
       (\<lambda>(s, mac).
     if \<not> constant_time_eq (state_mac E key s) mac
     then fail (Conflict ''persisted treasury state failed integrity verification'')
     else
     bind (lift (validate_state E s)) (\<lambda>_.
     bind (lift (verify_audit_chain E key s)) (\<lambda>_.
     ret (s, key))))))"

end
