(* ===== verification/Rpc.thy ===== *)
theory Rpc
  imports Store
begin

text \<open>
  The RPC surface: the \<open>Request\<close> enum with its access and read-only tables, strict
  decoding, dispatch (\<open>handle\<close>), and the persisted handlers that save after every change
  and roll back in memory when they cannot.
\<close>

definition api_version_v1 :: string where "api_version_v1 = ''v1''"

section \<open>Requests\<close>

datatype request =
    GetStatus
  | GetCapabilities
  | GetBudget
  | GetReceiveInstructions
  | OwnerGetDashboard
  | CreatePurchaseIntent purchase_request
  | GetPurchaseIntent string
  | ExecutePurchaseIntent string
  | CancelPurchaseIntent string
  | ListTransactions
  | ListTransactionsPage "string option" nat
  | OwnerListTransactionsPage "string option" nat
  | GetReceipt string
  | OwnerCreateAgent string policy autonomy_mode int
  | OwnerCreateAgentPrepared string policy autonomy_mode int string
  | OwnerUpdatePolicy string policy
  | OwnerSetAgentMode string autonomy_mode
  | OwnerRevokeAgent string
  | OwnerRotateAgentCapability string int string
  | OwnerSetEmergencyStop bool
  | OwnerApproveIntent string
  | OwnerDenyIntent string
  | OwnerBeginManualHandoff string
  | OwnerCompleteManualHandoff string
  | OwnerApproveMerchant string string
  | OwnerReconcile string reconciliation_outcome "string option"
  | OwnerRecordDeposit money string bool "string option" string
  | OwnerArmAgentSession string int
  | OwnerConfigureManualProvider manual_configuration
  | OwnerConfigureReceiveInstructions string string string
  | OwnerListAudit
  | OwnerListAuditRecent
  | OwnerListAuditPage "nat option" nat

definition requires_owner :: "request \<Rightarrow> bool" where
  "requires_owner r =
     (case r of
        OwnerCreateAgent _ _ _ _ \<Rightarrow> True
      | OwnerUpdatePolicy _ _ \<Rightarrow> True
      | OwnerCreateAgentPrepared _ _ _ _ _ \<Rightarrow> True
      | OwnerSetAgentMode _ _ \<Rightarrow> True
      | OwnerRevokeAgent _ \<Rightarrow> True
      | OwnerRotateAgentCapability _ _ _ \<Rightarrow> True
      | OwnerSetEmergencyStop _ \<Rightarrow> True
      | OwnerApproveIntent _ \<Rightarrow> True
      | OwnerDenyIntent _ \<Rightarrow> True
      | OwnerBeginManualHandoff _ \<Rightarrow> True
      | OwnerCompleteManualHandoff _ \<Rightarrow> True
      | OwnerApproveMerchant _ _ \<Rightarrow> True
      | OwnerReconcile _ _ _ \<Rightarrow> True
      | OwnerRecordDeposit _ _ _ _ _ \<Rightarrow> True
      | OwnerArmAgentSession _ _ \<Rightarrow> True
      | OwnerConfigureManualProvider _ \<Rightarrow> True
      | OwnerConfigureReceiveInstructions _ _ _ \<Rightarrow> True
      | OwnerListAudit \<Rightarrow> True
      | OwnerListAuditRecent \<Rightarrow> True
      | OwnerListAuditPage _ _ \<Rightarrow> True
      | OwnerListTransactionsPage _ _ \<Rightarrow> True
      | OwnerGetDashboard \<Rightarrow> True
      | _ \<Rightarrow> False)"

definition is_read_only :: "request \<Rightarrow> bool" where
  "is_read_only r =
     (case r of
        GetStatus \<Rightarrow> True
      | GetCapabilities \<Rightarrow> True
      | GetBudget \<Rightarrow> True
      | GetReceiveInstructions \<Rightarrow> True
      | OwnerGetDashboard \<Rightarrow> True
      | GetPurchaseIntent _ \<Rightarrow> True
      | ListTransactions \<Rightarrow> True
      | ListTransactionsPage _ _ \<Rightarrow> True
      | OwnerListTransactionsPage _ _ \<Rightarrow> True
      | GetReceipt _ \<Rightarrow> True
      | OwnerListAudit \<Rightarrow> True
      | OwnerListAuditRecent \<Rightarrow> True
      | OwnerListAuditPage _ _ \<Rightarrow> True
      | _ \<Rightarrow> False)"

section \<open>Strict decoding\<close>

text \<open>The permitted fields of each operation; any other kind has none.\<close>

definition operation_fields :: "(string \<times> string list) list" where
  "operation_fields =
     [(''get_status'', []), (''get_capabilities'', []), (''get_budget'', []),
      (''get_receive_instructions'', []), (''list_transactions'', []), (''owner_list_audit'', []),
      (''owner_list_audit_recent'', []), (''owner_get_dashboard'', []),
      (''list_transactions_page'', [''cursor'', ''limit'']),
      (''owner_list_transactions_page'', [''cursor'', ''limit'']),
      (''owner_list_audit_page'', [''cursor'', ''limit'']),
      (''create_purchase_intent'', [''request'']),
      (''get_purchase_intent'', [''intent_id'']),
      (''execute_purchase_intent'', [''intent_id'']),
      (''cancel_purchase_intent'', [''intent_id'']),
      (''get_receipt'', [''intent_id'']),
      (''owner_approve_intent'', [''intent_id'']),
      (''owner_deny_intent'', [''intent_id'']),
      (''owner_begin_manual_handoff'', [''intent_id'']),
      (''owner_complete_manual_handoff'', [''intent_id'']),
      (''owner_create_agent'', [''name'', ''policy'', ''mode'', ''ttl_secs'']),
      (''owner_create_agent_prepared'',
        [''name'', ''policy'', ''mode'', ''ttl_secs'', ''capability_token'']),
      (''owner_update_policy'', [''agent_id'', ''policy'']),
      (''owner_set_agent_mode'', [''agent_id'', ''mode'']),
      (''owner_revoke_agent'', [''agent_id'']),
      (''owner_rotate_agent_capability'', [''agent_id'', ''ttl_secs'', ''capability_token'']),
      (''owner_set_emergency_stop'', [''stopped'']),
      (''owner_approve_merchant'', [''agent_id'', ''merchant_domain'']),
      (''owner_reconcile'', [''intent_id'', ''outcome'', ''provider_reference'']),
      (''owner_record_deposit'',
        [''amount'', ''source'', ''verified'', ''agent_id'', ''external_reference'']),
      (''owner_arm_agent_session'', [''agent_id'', ''ttl_secs'']),
      (''owner_configure_manual_provider'',
        [''credential_reference'', ''provider_kind'', ''last_four'', ''balance'',
         ''balance_status'', ''balance_ttl_secs'', ''autonomous_checkout'']),
      (''owner_configure_receive_instructions'', [''method'', ''address'', ''memo_template''])]"

definition fields_of :: "string \<Rightarrow> string list" where
  "fields_of kind = (case map_of operation_fields kind of None \<Rightarrow> [] | Some fs \<Rightarrow> fs)"

text \<open>
  The decoder of the derived \<open>Deserialize\<close> instance is a parameter. A JSON object
  iterates over its keys in order.
\<close>

definition deserialize_request_strict ::
  "(json \<Rightarrow> string + request) \<Rightarrow> json \<Rightarrow> string + request" where
  "deserialize_request_strict from_value v =
     (case v of
        JObj fs \<Rightarrow>
          (case map_of fs ''type'' of
             Some (JStr kind) \<Rightarrow>
               (case find (\<lambda>f. f \<noteq> ''type'' \<and> f \<notin> set (fields_of kind)) (sort (map fst fs)) of
                  Some f \<Rightarrow> Inl (''unknown field '' @ f @ '' for operation '' @ kind)
                | None \<Rightarrow> from_value v)
           | _ \<Rightarrow> Inl ''operation must contain a string type field'')
      | _ \<Rightarrow> Inl ''operation must be an object with a type field'')"

section \<open>Dispatch\<close>

primrec dispatch :: "env \<Rightarrow> actor \<Rightarrow> request \<Rightarrow> json top" where
  "dispatch E a GetStatus = get_status a"
| "dispatch E a GetCapabilities = get_capabilities a"
| "dispatch E a GetBudget = get_budget a"
| "dispatch E a GetReceiveInstructions = get_receive_instructions a"
| "dispatch E a OwnerGetDashboard = owner_get_dashboard a"
| "dispatch E a (CreatePurchaseIntent r) = create_intent E a r"
| "dispatch E a (GetPurchaseIntent k) = get_intent a k"
| "dispatch E a (ExecutePurchaseIntent k) = execute_intent E a k"
| "dispatch E a (CancelPurchaseIntent k) = cancel_intent E a k"
| "dispatch E a ListTransactions = list_transactions a"
| "dispatch E a (ListTransactionsPage cursor limit) = list_transactions_page a cursor limit"
| "dispatch E a (OwnerListTransactionsPage cursor limit) =
     owner_list_transactions_page a cursor limit"
| "dispatch E a (GetReceipt k) = get_receipt E a k"
| "dispatch E a (OwnerCreateAgent name p mode ttl) = owner_create_agent E a name p mode ttl None"
| "dispatch E a (OwnerCreateAgentPrepared name p mode ttl token) =
     owner_create_agent E a name p mode ttl (Some token)"
| "dispatch E a (OwnerUpdatePolicy k p) = owner_update_policy E a k p"
| "dispatch E a (OwnerSetAgentMode k mode) = owner_set_agent_mode E a k mode"
| "dispatch E a (OwnerRevokeAgent k) = owner_revoke_agent E a k"
| "dispatch E a (OwnerRotateAgentCapability k ttl token) =
     owner_rotate_agent_capability E a k ttl token"
| "dispatch E a (OwnerSetEmergencyStop stopped) = owner_emergency_stop E a stopped"
| "dispatch E a (OwnerApproveIntent k) = owner_approve E a k"
| "dispatch E a (OwnerDenyIntent k) = owner_deny E a k"
| "dispatch E a (OwnerBeginManualHandoff k) = owner_begin_manual_handoff E a k"
| "dispatch E a (OwnerCompleteManualHandoff k) = owner_complete_manual_handoff E a k"
| "dispatch E a (OwnerApproveMerchant k domain) = owner_approve_merchant E a k domain"
| "dispatch E a (OwnerReconcile k outcome reference) = owner_reconcile E a k outcome reference"
| "dispatch E a (OwnerRecordDeposit amount source verified agent_id reference) =
     owner_record_deposit E a amount source verified agent_id reference"
| "dispatch E a (OwnerArmAgentSession k ttl) = owner_arm_agent_session E a k ttl"
| "dispatch E a (OwnerConfigureManualProvider c) = owner_configure_manual_provider E a c"
| "dispatch E a (OwnerConfigureReceiveInstructions mtd address memo) =
     owner_configure_receive E a mtd address memo"
| "dispatch E a OwnerListAudit = owner_list_audit E a"
| "dispatch E a OwnerListAuditRecent = owner_list_audit_recent E a"
| "dispatch E a (OwnerListAuditPage cursor limit) = owner_list_audit_page E a cursor limit"

definition handle :: "env \<Rightarrow> string \<Rightarrow> request \<Rightarrow> json top" where
  "handle E token r = bind (authenticate E token) (\<lambda>a. dispatch E a r)"

section \<open>Persisted handling\<close>

text \<open>\<open>rollback s m\<close>: on an error of \<open>m\<close> the state becomes \<open>s\<close> again.\<close>

definition rollback :: "treasury_state \<Rightarrow> 'a top \<Rightarrow> 'a top" where
  "rollback s m =
     bind (attempt m) (\<lambda>r. case r of Inr v \<Rightarrow> ret v | Inl e \<Rightarrow> bind (put_state s) (\<lambda>_. fail e))"

definition rate_limit_message :: string where
  "rate_limit_message = ''transaction rate limit exceeded''"

definition execute_persisted :: "env \<Rightarrow> codec \<Rightarrow> string \<Rightarrow> string \<Rightarrow> json top" where
  "execute_persisted E C token intent_id =
     bind get_state (\<lambda>s.
     if provider_mode s = ManualPrepaidCard
     then fail (Forbidden
       ''manual prepaid-card execution requires the owner begin-handoff workflow'')
     else
     bind (authenticate E token) (\<lambda>a.
     bind (rollback s (prepare_intent_execution E a intent_id)) (\<lambda>_.
     bind (rollback s (save_to E C)) (\<lambda>_.
     bind (attempt (complete_intent_execution E a intent_id)) (\<lambda>completed.
     case completed of
       Inr v \<Rightarrow> bind (save_to E C) (\<lambda>_. ret v)
     | Inl e \<Rightarrow>
         bind (quarantine_execution E intent_id (error_text e)) (\<lambda>_.
         bind (save_to E C) (\<lambda>_. fail e)))))))"

definition change_persisted :: "env \<Rightarrow> codec \<Rightarrow> string \<Rightarrow> request \<Rightarrow> json top" where
  "change_persisted E C token r =
     bind get_state (\<lambda>snapshot.
     bind (attempt (handle E token r)) (\<lambda>result.
     bind get_state (\<lambda>s.
     case result of
       Inr v \<Rightarrow>
         if is_read_only r then ret v
         else bind (rollback snapshot (save_to E C)) (\<lambda>_. ret v)
     | Inl e \<Rightarrow>
         if e = Forbidden rate_limit_message \<and> generation snapshot < generation s
         then bind (rollback snapshot (save_to E C)) (\<lambda>_. fail e)
         else bind (put_state snapshot) (\<lambda>_. fail e))))"

definition handle_persisted :: "env \<Rightarrow> codec \<Rightarrow> string \<Rightarrow> request \<Rightarrow> json top" where
  "handle_persisted E C token r =
     (case r of
        OwnerCreateAgent _ _ _ _ \<Rightarrow> fail (Forbidden
          ''persisted agent creation requires a caller-prepared capability'')
      | ExecutePurchaseIntent intent_id \<Rightarrow> execute_persisted E C token intent_id
      | _ \<Rightarrow> change_persisted E C token r)"

record rpc_request =
  rr_api_version :: string
  rr_request_id :: string
  rr_token :: string
  rr_operation :: request

record rpc_response =
  rs_api_version :: string
  rs_request_id :: string
  rs_ok :: bool
  rs_data :: "json option"
  rs_error :: "string option"

definition rpc_ok :: "string \<Rightarrow> json \<Rightarrow> rpc_response" where
  "rpc_ok k v = \<lparr>rs_api_version = api_version_v1, rs_request_id = k, rs_ok = True,
     rs_data = Some v, rs_error = None\<rparr>"

definition rpc_error :: "string \<Rightarrow> string \<Rightarrow> rpc_response" where
  "rpc_error k message = \<lparr>rs_api_version = api_version_v1, rs_request_id = k, rs_ok = False,
     rs_data = None, rs_error = Some message\<rparr>"

definition respond ::
  "env \<Rightarrow> rpc_request \<Rightarrow> (string \<Rightarrow> request \<Rightarrow> json top) \<Rightarrow> rpc_response top" where
  "respond E q handler =
     (if rr_api_version q \<noteq> api_version_v1
      then ret (rpc_error (rr_request_id q) ''unsupported api version'')
      else
        bind (attempt (handler (rr_token q) (rr_operation q))) (\<lambda>r.
        case r of
          Inr v \<Rightarrow> ret (rpc_ok (rr_request_id q) v)
        | Inl e \<Rightarrow> ret (rpc_error (rr_request_id q) (redact_sensitive E (error_text e)))))"

definition handle_rpc :: "env \<Rightarrow> rpc_request \<Rightarrow> rpc_response top" where
  "handle_rpc E q = respond E q (handle E)"

definition handle_rpc_persisted :: "env \<Rightarrow> codec \<Rightarrow> rpc_request \<Rightarrow> rpc_response top" where
  "handle_rpc_persisted E C q = respond E q (handle_persisted E C)"

text \<open>Requests as lines of text; the parser of one line is the derived decoder of \<open>RpcRequest\<close>.\<close>

definition read_rpc_lines ::
  "(string \<Rightarrow> rpc_request res) \<Rightarrow> string res list \<Rightarrow> rpc_request res list" where
  "read_rpc_lines decode = map (\<lambda>line. rbind line decode)"

end
