(* ===== verification/Relations.thy ===== *)
theory Relations
  imports Rpc
begin

text \<open>
  Relations between the state before and after an operation, proved once for every
  operation: a locale \<open>treasury_relation\<close> for relations that ignore agents, policies and the
  other records of no monetary effect, with the owner's administrative operations and all
  queries as its clients, and \<open>history_relation\<close> for relations that also follow the intents.
\<close>

section \<open>Quiet parts of an operation\<close>

text \<open>
  A part of an operation that leaves the state alone: what follows may assume a world with
  the same state, and so may its errors.
\<close>

lemma wp_quiet:
  assumes "keeps same_state m" and "\<And>x v. same_state w v \<Longrightarrow> Q x v"
    and "\<And>e v. same_state w v \<Longrightarrow> R e v"
  shows "wp m Q R w"
proof (rule wpI)
  fix x t
  assume "m w = (Inr x, t)"
  with assms(1) have "same_state w t" by (rule keeps_run)
  then show "Q x t" by (rule assms(2))
next
  fix e t
  assume "m w = (Inl e, t)"
  with assms(1) have "same_state w t" by (rule keeps_run)
  then show "R e t" by (rule assms(3))
qed

lemma wp_memory:
  assumes "keeps same_memory m" and "\<And>x v. same_memory w v \<Longrightarrow> Q x v"
    and "\<And>e v. same_memory w v \<Longrightarrow> R e v"
  shows "wp m Q R w"
  using assms(1) by (auto intro!: wpI assms(2,3) dest: keeps_run)

lemma keeps_of_wp: "(\<And>w. wp m (\<lambda>_. R w) (\<lambda>_. R w) w) \<Longrightarrow> keeps R m"
  by (simp add: keeps_wp)

section \<open>Relations that ignore administration\<close>

text \<open>The books: what money and the audit log depend on.\<close>

definition same_books :: "treasury_state \<Rightarrow> treasury_state \<Rightarrow> bool" where
  "same_books s t \<longleftrightarrow> intents t = intents s \<and> ledger t = ledger s \<and> audit_log t = audit_log s
     \<and> provider t = provider s \<and> generation t = generation s"

locale treasury_relation = step_relation R
  for R :: "treasury_state world \<Rightarrow> treasury_state world \<Rightarrow> bool" +
  fixes E :: env
  assumes quiet: "same_state v w \<Longrightarrow> R v w"
    and audit_rel: "R w (w\<lparr>w_state := audited (w_state w) (new_entry E (w_key w)
      (audit_log (w_state w)) at who action iid pv dec det)\<rparr>)"
    and books_rel: "same_books (w_state w) s \<Longrightarrow> R w (w\<lparr>w_state := s\<rparr>)"
begin

lemma keeps_quiet: "keeps same_state m \<Longrightarrow> keeps R m"
  by (auto simp: keeps_def intro: quiet)

lemma keeps_audit: "keeps R (audit E who action iid pv dec det)"
proof (rule keepsI)
  fix w :: "treasury_state world"
  let ?v = "w\<lparr>w_reads := Suc (w_reads w)\<rparr>"
  have "R w ?v" by (rule quiet) (simp add: same_state_def)
  moreover have "R ?v (?v\<lparr>w_state := audited (w_state ?v) (new_entry E (w_key ?v)
      (audit_log (w_state ?v)) (w_clock w (w_reads w)) who action iid pv dec det)\<rparr>)"
    by (rule audit_rel)
  ultimately show "R w (snd (audit E who action iid pv dec det w))"
    using rel_refl by (auto simp: run_audit intro: rel_trans)
qed

lemma keeps_update: "(\<And>s. same_books s (f s)) \<Longrightarrow> keeps R (update_state f)"
  unfolding update_state_def by (rule keeps_modify) (rule books_rel)

lemma keeps_put_entries: "keeps R (put_agent k a)" "keeps R (put_policy k p)"
  unfolding put_agent_def put_policy_def by (rule keeps_update; simp add: same_books_def)+

lemma keeps_stop_agent: "keeps R (stop_agent E k)"
  unfolding stop_agent_def
  by (intro keeps_bind keeps_quiet keeps_same_basic keeps_update) (simp add: same_books_def)

lemmas keeps_basic = keeps_rules keeps_cases keeps_audit keeps_put_entries keeps_stop_agent
  keeps_quiet [OF keeps_same_basic(1)] keeps_quiet [OF keeps_same_basic(2)]
  keeps_quiet [OF keeps_same_basic(3)] keeps_quiet [OF keeps_same_basic(4)]
  keeps_quiet [OF keeps_same_basic(5)]

lemma keeps_admin:
  "keeps R (owner_create_agent E a name p mode ttl token)"
  "keeps R (owner_arm_agent_session E a k ttl)"
  "keeps R (owner_update_policy E a k p)"
  "keeps R (owner_emergency_stop E a stopped)"
  "keeps R (owner_set_agent_mode E a k mode)"
  "keeps R (owner_revoke_agent E a k)"
  "keeps R (owner_rotate_agent_capability E a k ttl tok)"
  "keeps R (owner_approve_merchant E a k domain)"
  "keeps R (owner_configure_receive E a mtd address memo)"
  "keeps R (owner_configure_manual_provider E a c)"
  "keeps R (rate_limited E k p)"
  unfolding owner_create_agent_def enroll_agent_def owner_arm_agent_session_def
    owner_update_policy_def owner_emergency_stop_def owner_set_agent_mode_def
    owner_revoke_agent_def owner_rotate_agent_capability_def owner_approve_merchant_def
    owner_configure_receive_def owner_configure_manual_provider_def rate_limited_def Let_def
  by (intro keeps_basic keeps_update; simp add: same_books_def)+

lemma keeps_views:
  "keeps R (authenticate E token)"
  "keeps R (usage_of k cur)"
  "keeps R (enforce_authority d r u p)"
  "keeps R (get_status a)" "keeps R (get_capabilities a)" "keeps R (get_budget a)"
  "keeps R (get_receive_instructions a)" "keeps R (owner_get_dashboard a)"
  "keeps R (get_intent a k)" "keeps R (list_transactions_page a cursor limit)"
  "keeps R (list_transactions a)" "keeps R (owner_list_transactions_page a cursor limit)"
  "keeps R (get_receipt E a k)" "keeps R (owner_list_audit E a)"
  "keeps R (owner_list_audit_recent E a)" "keeps R (owner_list_audit_page E a acursor limit)"
  by (intro keeps_quiet keeps_same_auth keeps_same_usage keeps_same_authority keeps_same_views)+

end

lemma keeps_memory_save: "keeps same_memory (save_to E C)"
proof -
  have k: "keeps same_memory check_key_file"
    unfolding check_key_file_def by (intro mem.keeps_rules keeps_mem_files)
  have g: "keeps same_memory (get_state :: treasury_state top)"
    by (simp add: get_state_def mem.keeps_gets)
  show ?thesis
    unfolding save_to_def by (intro mem.keeps_rules keeps_mem_ensure keeps_mem_files k g)
qed

lemma save_keeps: "(\<And>v w. same_memory v w \<Longrightarrow> R v w) \<Longrightarrow> keeps R (save_to E C)"
  using keeps_memory_save [of E C] by (auto simp: keeps_def)

section \<open>History\<close>

text \<open>
  What an operation does to an intent it rewrites: only the lifecycle moves, along permitted
  transitions, and a receipt once issued stays.
\<close>

definition successor :: "purchase_intent \<Rightarrow> purchase_intent \<Rightarrow> bool" where
  "successor i j \<longleftrightarrow> in_id j = in_id i \<and> in_agent_id j = in_agent_id i
     \<and> in_broker_session_id j = in_broker_session_id i \<and> in_request j = in_request i
     \<and> in_decision j = in_decision i \<and> in_policy_version j = in_policy_version i
     \<and> in_created_at j = in_created_at i \<and> reaches (in_state i) (in_state j)
     \<and> (in_receipt i \<noteq> None \<longrightarrow> in_receipt j = in_receipt i \<and> in_receipt_hash j = in_receipt_hash i)"

text \<open>
  An agent's idempotency key names one intent, and the store grows up to its quota only.
\<close>

definition intent_slot :: "purchase_intent \<Rightarrow> string \<times> string" where
  "intent_slot i = (in_agent_id i, idempotency_key (in_request i))"

definition one_per_slot :: "treasury_state \<Rightarrow> bool" where
  "one_per_slot s \<longleftrightarrow> (\<forall>k l i j. bget (intents s) k = Some i \<longrightarrow> bget (intents s) l = Some j \<longrightarrow>
     intent_slot i = intent_slot j \<longrightarrow> k = l)"

definition orderly :: "treasury_state \<Rightarrow> treasury_state \<Rightarrow> bool" where
  "orderly s t \<longleftrightarrow> (one_per_slot s \<longrightarrow> one_per_slot t)
     \<and> bsize (intents t) \<le> max max_intents (bsize (intents s))"

definition evolves :: "treasury_state \<Rightarrow> treasury_state \<Rightarrow> bool" where
  "evolves s t \<longleftrightarrow> bm.well_keyed in_id (intents t) \<and> orderly s t
     \<and> (\<forall>k i. bget (intents s) k = Some i \<longrightarrow> (\<exists>j. bget (intents t) k = Some j \<and> successor i j))
     \<and> (\<forall>k j. bget (intents s) k = None \<longrightarrow> bget (intents t) k = Some j \<longrightarrow>
          reaches Proposed (in_state j))"

definition log_extends :: "env \<Rightarrow> string \<Rightarrow> treasury_state \<Rightarrow> treasury_state \<Rightarrow> bool" where
  "log_extends E key s t \<longleftrightarrow>
     (\<exists>es. audit_log t = audit_log s @ es \<and> generation t = generation s + length es)
     \<and> (verify_audit_chain E key s = Inr () \<longrightarrow> verify_audit_chain E key t = Inr ())"

text \<open>
  The identifiers still to be drawn for intents are new and differ from each other. Random
  identifiers have 96 bits; the program does not check for a collision.
\<close>

definition intent_key :: "env \<Rightarrow> treasury_state world \<Rightarrow> nat \<Rightarrow> string" where
  "intent_key E w n = ''intent'' @ ''_'' @ hex_encode E (w_rand w n 12)"

definition fresh_ids :: "env \<Rightarrow> treasury_state world \<Rightarrow> bool" where
  "fresh_ids E w \<longleftrightarrow>
     (\<forall>n \<ge> w_draws w. bget (intents (w_state w)) (intent_key E w n) = None)
     \<and> (\<forall>m n. w_draws w \<le> m \<longrightarrow> m < n \<longrightarrow> intent_key E w m \<noteq> intent_key E w n)"

definition sound_ids :: "env \<Rightarrow> treasury_state world \<Rightarrow> bool" where
  "sound_ids E w \<longleftrightarrow> fresh_ids E w \<and> bm.well_keyed in_id (intents (w_state w))"

definition same_oracles :: "treasury_state world \<Rightarrow> treasury_state world \<Rightarrow> bool" where
  "same_oracles v w \<longleftrightarrow> w_key w = w_key v \<and> w_clock w = w_clock v \<and> w_rand w = w_rand v
     \<and> w_io w = w_io v \<and> w_draws v \<le> w_draws w"

definition history :: "env \<Rightarrow> treasury_state world \<Rightarrow> treasury_state world \<Rightarrow> bool" where
  "history E v w \<longleftrightarrow> same_oracles v w \<and> log_extends E (w_key v) (w_state v) (w_state w)
     \<and> (sound_ids E v \<longrightarrow> sound_ids E w \<and> evolves (w_state v) (w_state w))"

lemma successor_refl: "successor i i"
  by (simp add: successor_def reaches.here)

lemma successor_trans: "successor i j \<Longrightarrow> successor j k \<Longrightarrow> successor i k"
  by (auto simp: successor_def intro: reaches_trans)

lemma successor_step:
  "can_transition (in_state i) n \<Longrightarrow> successor i (i\<lparr>in_state := n, in_updated_at := at\<rparr>)"
  by (simp add: successor_def reaches_one)

lemma orderly_same: "intents t = intents s \<Longrightarrow> orderly s t"
  by (simp add: orderly_def one_per_slot_def)

lemma orderly_trans: "orderly s t \<Longrightarrow> orderly t u \<Longrightarrow> orderly s u"
  by (auto simp: orderly_def)

lemma orderly_put:
  assumes "bget (intents s) k = Some i" and "successor i j"
  shows "orderly s (s\<lparr>intents := bput k j (intents s)\<rparr>)"
  using assms
  by (auto simp: orderly_def one_per_slot_def bsize_bput intent_slot_def successor_def split: if_splits)

lemma orderly_file:
  assumes "\<And>l i. bget (intents s) l = Some i \<Longrightarrow> intent_slot i \<noteq> intent_slot j"
    and "bsize (intents s) < max_intents"
  shows "orderly s (s\<lparr>intents := bput k j (intents s)\<rparr>)"
  using assms(2)
  by (auto simp: orderly_def one_per_slot_def bsize_bput dest: assms(1) split: if_splits)

lemma evolves_same: "bm.well_keyed in_id (intents s) \<Longrightarrow> intents t = intents s \<Longrightarrow> evolves s t"
  by (auto simp: evolves_def successor_refl orderly_same)

lemma evolves_trans: "evolves s t \<Longrightarrow> evolves t u \<Longrightarrow> evolves s u"
proof -
  assume st: "evolves s t" and tu: "evolves t u"
  show ?thesis
    unfolding evolves_def
  proof (intro conjI allI impI)
    show "bm.well_keyed in_id (intents u)" using tu by (simp add: evolves_def)
    show "orderly s u" using st tu by (auto simp: evolves_def intro: orderly_trans)
  next
    fix k i
    assume "bget (intents s) k = Some i"
    with st obtain j where "bget (intents t) k = Some j" and "successor i j"
      unfolding evolves_def by blast
    with tu obtain l where "bget (intents u) k = Some l" and "successor j l"
      unfolding evolves_def by blast
    with \<open>successor i j\<close> show "\<exists>l. bget (intents u) k = Some l \<and> successor i l"
      by (blast intro: successor_trans)
  next
    fix k l
    assume n: "bget (intents s) k = None" and u: "bget (intents u) k = Some l"
    show "reaches Proposed (in_state l)"
    proof (cases "bget (intents t) k")
      case None
      with tu u show ?thesis by (simp add: evolves_def)
    next
      case (Some j)
      with st n have "reaches Proposed (in_state j)" by (simp add: evolves_def)
      moreover from Some tu u have "reaches (in_state j) (in_state l)"
        unfolding evolves_def successor_def by force
      ultimately show ?thesis by (rule reaches_trans [rotated])
    qed
  qed
qed

lemma log_extends_refl:
  "audit_log t = audit_log s \<Longrightarrow> generation t = generation s \<Longrightarrow> log_extends E key s t"
  by (simp add: log_extends_def verify_audit_chain_def)

lemma log_extends_trans: "log_extends E key s t \<Longrightarrow> log_extends E key t u \<Longrightarrow> log_extends E key s u"
  by (auto simp: log_extends_def)

lemma log_extends_entry:
  "audit_log t = audit_log s @ [new_entry E key (audit_log s) at who action iid pv dec det] \<Longrightarrow>
     generation t = Suc (generation s) \<Longrightarrow> log_extends E key s t"
  by (auto simp: log_extends_def verify_audit_chain_def intro: chain_extended)

lemma sound_ids_same:
  "same_oracles v w \<Longrightarrow> intents (w_state w) = intents (w_state v) \<Longrightarrow> sound_ids E v \<Longrightarrow> sound_ids E w"
  by (auto simp: sound_ids_def fresh_ids_def intent_key_def same_oracles_def)

lemma history_same:
  assumes "same_oracles v w" and "intents (w_state w) = intents (w_state v)"
    and "log_extends E (w_key v) (w_state v) (w_state w)"
  shows "history E v w"
  using assms sound_ids_same [OF assms(1,2)] evolves_same
  by (auto simp: history_def sound_ids_def)

lemma history_trans: "history E u v \<Longrightarrow> history E v w \<Longrightarrow> history E u w"
  unfolding history_def
  by (auto simp: same_oracles_def intro: evolves_trans log_extends_trans)

text \<open>Replacing an intent by a successor of it under its own key.\<close>

lemma history_put:
  assumes "bget (intents (w_state w)) k = Some i" and "successor i j"
  shows "history E w (w\<lparr>w_state := (w_state w)\<lparr>intents := bput (in_id j) j (intents (w_state w))\<rparr>\<rparr>)"
    and "history E w (w\<lparr>w_state := (w_state w)\<lparr>intents := bput k j (intents (w_state w))\<rparr>\<rparr>)"
proof -
  let ?w = "\<lambda>k. w\<lparr>w_state := (w_state w)\<lparr>intents := bput k j (intents (w_state w))\<rparr>\<rparr>"
  have ids: "sound_ids E (?w k) \<and> evolves (w_state w) (w_state (?w k)) \<and> in_id j = k"
    if "sound_ids E w"
  proof -
    have wk: "bm.well_keyed in_id (intents (w_state w))" using that by (simp add: sound_ids_def)
    then have key: "in_id j = k" using assms by (auto simp: successor_def dest: bm.well_keyedD)
    have "bget (intents (w_state w)) (intent_key E w n) \<noteq> Some i" if "w_draws w \<le> n" for n
      using that \<open>sound_ids E w\<close> by (simp add: sound_ids_def fresh_ids_def)
    then have "sound_ids E (?w k)"
      using that key assms(1) bm.well_keyed_put [OF wk key]
      by (auto simp: sound_ids_def fresh_ids_def intent_key_def)
    moreover have "evolves (w_state w) (w_state (?w k))"
      using bm.well_keyed_put [OF wk key] assms orderly_put [OF assms]
      by (auto simp: evolves_def successor_refl)
    ultimately show ?thesis using key by simp
  qed
  show "history E w (?w k)"
    using ids by (auto simp: history_def same_oracles_def intro: log_extends_refl)
  show "history E w (?w (in_id j))"
    using ids by (auto simp: history_def same_oracles_def intro: log_extends_refl)
qed

interpretation hist: treasury_relation "history E" E for E
proof
  fix v w :: "treasury_state world"
  assume "same_state v w"
  then show "history E v w"
    by (intro history_same log_extends_refl) (simp_all add: same_state_def same_oracles_def)
next
  fix w :: "treasury_state world" and s
  assume "same_books (w_state w) s"
  then show "history E w (w\<lparr>w_state := s\<rparr>)"
    by (intro history_same log_extends_refl) (simp_all add: same_oracles_def same_books_def)
next
  fix w :: "treasury_state world" and at who action iid pv dec det
  show "history E w (w\<lparr>w_state := audited (w_state w) (new_entry E (w_key w)
      (audit_log (w_state w)) at who action iid pv dec det)\<rparr>)"
    by (rule history_same) (auto simp: same_oracles_def intro: log_extends_entry)
next
  show "history E w w" for w
    by (rule history_same) (auto simp: same_oracles_def intro: log_extends_refl)
next
  show "history E u v \<Longrightarrow> history E v w \<Longrightarrow> history E u w" for u v w
    by (rule history_trans)
qed

end
