(* ===== verification/Preparation.thy ===== *)
theory Preparation
  imports Relations
begin

text \<open>
  What \<open>prepare_intent_execution\<close> checks before it reserves funds, as sums over the ledger
  and the intents: the budget usage of an agent, the limits of its policy and the authority.
  \<open>prepare_rule\<close> is the proof rule every property of an execution starts from.
\<close>

section \<open>Budget usage as sums\<close>

definition settled_amount :: "treasury_state \<Rightarrow> string \<Rightarrow> string \<Rightarrow> ledger_event \<Rightarrow> int" where
  "settled_amount s aid cur e =
     (if currency (le_amount e) = cur \<and> event_belongs s aid e \<and> le_kind e = SpendingSettled
      then minor (le_amount e) else 0)"

definition of_session :: "treasury_state \<Rightarrow> string \<Rightarrow> ledger_event \<Rightarrow> bool" where
  "of_session s sid e \<longleftrightarrow> (case Option.bind (le_intent_id e) (bget (intents s)) of
     Some i \<Rightarrow> in_broker_session_id i = sid | None \<Rightarrow> False)"

definition agent_held :: "string \<Rightarrow> purchase_intent \<Rightarrow> int" where
  "agent_held aid i =
     (if in_agent_id i = aid \<and> holds_funds (in_state i)
      then minor (final_total (in_request i)) else 0)"

definition spent_by :: "treasury_state \<Rightarrow> string \<Rightarrow> string \<Rightarrow> int" where
  "spent_by s aid cur = sum_list (map (settled_amount s aid cur) (ledger s))"

definition spent_since :: "treasury_state \<Rightarrow> string \<Rightarrow> string \<Rightarrow> int \<Rightarrow> int" where
  "spent_since s aid cur start =
     sum_list (map (\<lambda>e. if start \<le> le_at e then settled_amount s aid cur e else 0) (ledger s))"

definition spent_in_session :: "treasury_state \<Rightarrow> string \<Rightarrow> string \<Rightarrow> string \<Rightarrow> int" where
  "spent_in_session s aid cur sid =
     sum_list (map (\<lambda>e. if of_session s sid e then settled_amount s aid cur e else 0) (ledger s))"

definition held_by :: "treasury_state \<Rightarrow> string \<Rightarrow> int" where
  "held_by s aid = sum_list (map (agent_held aid) (bvals (intents s)))"

definition held_in_session :: "treasury_state \<Rightarrow> string \<Rightarrow> string \<Rightarrow> int" where
  "held_in_session s aid sid = sum_list (map
     (\<lambda>i. if in_broker_session_id i = sid then agent_held aid i else 0) (bvals (intents s)))"

lemma usage_event_sums:
  assumes "usage_event s aid sid cur at u e = Inr u'"
  shows "minor (lifetime_amount u') = minor (lifetime_amount u) + settled_amount s aid cur e
    \<and> minor (rolling_24h_amount u') = minor (rolling_24h_amount u)
        + (if i64_sub at (24 * 60 * 60) \<le> le_at e then settled_amount s aid cur e else 0)
    \<and> minor (session_amount u') = minor (session_amount u)
        + (if of_session s sid e then settled_amount s aid cur e else 0)
    \<and> us_reserved_amount u' = us_reserved_amount u
    \<and> recent_transaction_count u' = recent_transaction_count u"
  using assms
  by (auto simp: usage_event_def settled_amount_def of_session_def rbind_Inr_iff checked_Inr
      split: if_splits option.splits)

lemma usage_hold_sums:
  assumes "usage_hold aid sid u i = Inr u'"
  shows "minor (lifetime_amount u') = minor (lifetime_amount u) + agent_held aid i
    \<and> minor (rolling_24h_amount u') = minor (rolling_24h_amount u) + agent_held aid i
    \<and> minor (session_amount u') = minor (session_amount u)
        + (if in_broker_session_id i = sid then agent_held aid i else 0)
    \<and> minor (us_reserved_amount u') = minor (us_reserved_amount u) + agent_held aid i
    \<and> recent_transaction_count u' = recent_transaction_count u"
  using assms
  by (auto simp: usage_hold_def agent_held_def Let_def rbind_Inr_iff checked_Inr split: if_splits)

lemma rfold_usage_events:
  assumes "rfold (usage_event s aid sid cur at) u es = Inr u'"
  shows "minor (lifetime_amount u') = minor (lifetime_amount u) + sum_list (map (settled_amount s aid cur) es)
    \<and> minor (rolling_24h_amount u') = minor (rolling_24h_amount u) + sum_list (map (\<lambda>e.
        if i64_sub at (24 * 60 * 60) \<le> le_at e then settled_amount s aid cur e else 0) es)
    \<and> minor (session_amount u') = minor (session_amount u) + sum_list (map (\<lambda>e.
        if of_session s sid e then settled_amount s aid cur e else 0) es)
    \<and> us_reserved_amount u' = us_reserved_amount u
    \<and> recent_transaction_count u' = recent_transaction_count u"
  using assms
proof (induction es arbitrary: u)
  case (Cons e es)
  then obtain v where "usage_event s aid sid cur at u e = Inr v"
    and "rfold (usage_event s aid sid cur at) v es = Inr u'"
    by (auto simp: rbind_Inr_iff)
  with usage_event_sums [of s aid sid cur at u e v] Cons.IH [of v] show ?case by simp
qed simp

lemma rfold_usage_holds:
  assumes "rfold (usage_hold aid sid) u is = Inr u'"
  shows "minor (lifetime_amount u') = minor (lifetime_amount u) + sum_list (map (agent_held aid) is)
    \<and> minor (rolling_24h_amount u') = minor (rolling_24h_amount u) + sum_list (map (agent_held aid) is)
    \<and> minor (session_amount u') = minor (session_amount u) + sum_list (map (\<lambda>i.
        if in_broker_session_id i = sid then agent_held aid i else 0) is)
    \<and> minor (us_reserved_amount u') = minor (us_reserved_amount u) + sum_list (map (agent_held aid) is)
    \<and> recent_transaction_count u' = recent_transaction_count u"
  using assms
proof (induction "is" arbitrary: u)
  case (Cons i "is")
  then obtain v where "usage_hold aid sid u i = Inr v" and "rfold (usage_hold aid sid) v is = Inr u'"
    by (auto simp: rbind_Inr_iff)
  with usage_hold_sums [of aid sid u i v] Cons.IH [of v] show ?case by simp
qed simp

text \<open>The usage the treasury computes is the agent's spending and its holds.\<close>

definition usage_is :: "treasury_state \<Rightarrow> string \<Rightarrow> string \<Rightarrow> string \<Rightarrow> int \<Rightarrow> budget_usage \<Rightarrow> bool" where
  "usage_is s aid cur sid at u \<longleftrightarrow>
     minor (lifetime_amount u) = spent_by s aid cur + held_by s aid
     \<and> minor (rolling_24h_amount u) = spent_since s aid cur (i64_sub at (24 * 60 * 60)) + held_by s aid
     \<and> minor (session_amount u) = spent_in_session s aid cur sid + held_in_session s aid sid
     \<and> minor (us_reserved_amount u) = held_by s aid
     \<and> recent_transaction_count u = recent_count s aid at"

lemma usage_at_is:
  assumes "usage_at s aid cur at zero = Inr u" and "usage_zero c = Inr zero"
    and "bget (agents s) aid = Some agent"
  shows "usage_is s aid cur (ag_session_id agent) at u"
proof -
  let ?u0 = "zero\<lparr>recent_transaction_count := recent_count s aid at\<rparr>"
  from assms(1,3) obtain v where
    e: "rfold (usage_event s aid (ag_session_id agent) cur at) ?u0 (ledger s) = Inr v" and
    h: "rfold (usage_hold aid (ag_session_id agent)) v (bvals (intents s)) = Inr u"
    by (auto simp: usage_at_def rbind_Inr_iff Let_def)
  from assms(2) have "minor (lifetime_amount zero) = 0" "minor (rolling_24h_amount zero) = 0"
    "minor (session_amount zero) = 0" "minor (us_reserved_amount zero) = 0"
    by (auto simp: usage_zero_def rbind_Inr_iff)
  with rfold_usage_events [OF e] rfold_usage_holds [OF h] show ?thesis
    by (simp add: usage_is_def spent_by_def spent_since_def spent_in_session_def held_by_def
        held_in_session_def)
qed

lemma usage_of_is:
  assumes "usage_of aid cur w = (Inr u, v)" and "bget (agents (w_state w)) aid = Some agent"
  shows "usage_is (w_state w) aid cur (ag_session_id agent) (w_clock w (w_reads w)) u"
proof -
  from assms(1) obtain zero where "usage_zero cur = Inr zero"
    and "usage_at (w_state w) aid cur (w_clock w (w_reads w)) zero = Inr u"
    by (auto simp: usage_of_def bind_Inr_iff)
  from usage_at_is [OF this(2,1) assms(2)] show ?thesis .
qed

section \<open>What a permission means\<close>

text \<open>
  The policy's conditions on a request, as a predicate: what a decision that allows the
  request, or allows it with the owner's approval, implies.
\<close>

definition within_limits :: "policy \<Rightarrow> purchase_request \<Rightarrow> budget_usage \<Rightarrow> bool" where
  "within_limits p r u \<longleftrightarrow>
     currency (final_total r) = primary_currency p
     \<and> bs_mem (primary_currency p) (allowed_currencies p)
     \<and> 0 < minor (final_total r)
     \<and> minor (final_total r) \<le> minor (max_per_transaction p)
     \<and> minor (session_amount u) + minor (final_total r) \<le> minor (max_per_session p)
     \<and> minor (rolling_24h_amount u) + minor (final_total r) \<le> minor (max_rolling_24h p)
     \<and> minor (lifetime_amount u) + minor (final_total r) \<le> minor (max_lifetime p)
     \<and> recent_transaction_count u < max_transactions_per_minute p"

definition within_consent :: "policy \<Rightarrow> purchase_request \<Rightarrow> bool" where
  "within_consent p r \<longleftrightarrow>
     bs_mem (fulfillment_profile r) (approved_fulfillment_profiles p)
     \<and> (recurring r \<longrightarrow> allow_recurring p)
     \<and> (trial_auto_renew r \<longrightarrow> allow_recurring p \<and> allow_trials p)
     \<and> (stored_card r \<longrightarrow> allow_stored_card p)
     \<and> (0 < tip_minor r \<longrightarrow> allow_tips p)
     \<and> (preauthorization r \<longrightarrow> allow_preauthorization p)
     \<and> (installments r \<longrightarrow> allow_installments p)
     \<and> \<not> bs_mem (category r) (denied_categories p)
     \<and> length (redirect_chain r) \<le> max_redirects p"

definition trusted_hosts :: "env \<Rightarrow> policy \<Rightarrow> string \<Rightarrow> purchase_request \<Rightarrow> bool" where
  "trusted_hosts E p merchant r \<longleftrightarrow>
     \<not> bs_mem merchant (denied_merchants p)
     \<and> (bsize (allowed_merchants p) \<noteq> 0 \<and> \<not> require_approval_for_new_merchants p \<longrightarrow>
          bs_mem merchant (allowed_merchants p))
     \<and> (\<forall>url \<in> set (redirect_chain r). \<exists>host. validate_https_url E url = Inr host
          \<and> (host = merchant \<or> bs_mem host (approved_redirect_domains p)))"

definition permits ::
  "env \<Rightarrow> policy \<Rightarrow> purchase_request \<Rightarrow> budget_usage \<Rightarrow> autonomy_mode \<Rightarrow> bool \<Rightarrow> bool" where
  "permits E p r u mode stopped \<longleftrightarrow>
     \<not> stopped \<and> mode \<noteq> Observe \<and> mode \<noteq> Disabled
     \<and> within_limits p r u \<and> within_consent p r
     \<and> (\<exists>merchant. canonicalize_domain E (merchant_domain r) = Inr merchant
          \<and> trusted_hosts E p merchant r)"

text \<open>
  Whether a permitted purchase needs nobody: the agent may act on its own, the payment form and the
  page are none of the suspicious kinds, and the merchant is not a new one that needs the owner.
\<close>

definition unattended ::
  "env \<Rightarrow> policy \<Rightarrow> purchase_request \<Rightarrow> autonomy_mode \<Rightarrow> bool \<Rightarrow> bool" where
  "unattended E p r mode known \<longleftrightarrow>
     mode = BoundedAutonomous
     \<and> payment_form r \<in> {HostedFields, OwnerApprovedMerchant}
     \<and> scenario r \<in> {Normal, Decline, DelayedSettlement, TimeoutBeforeSubmit, TimeoutAfterSubmit,
          DuplicateFormSubmission, MisleadingSuccessPage, MerchantControlledForm,
          RedirectToOtherDomain, BrowserCrash}
     \<and> (require_approval_for_new_merchants p \<longrightarrow>
          (\<exists>merchant. canonicalize_domain E (merchant_domain r) = Inr merchant
             \<and> (bs_mem merchant (allowed_merchants p) \<or> bsize (allowed_merchants p) = 0 \<and> known)))"

lemma reason_if_Nil [simp]: "reason_if b r = [] \<longleftrightarrow> \<not> b"
  by (simp add: reason_if_def)

lemma decide_flags:
  "allowed (decide p rs approval) \<longleftrightarrow> rs = [] \<and> \<not> approval"
  "requires_approval (decide p rs approval) \<longleftrightarrow> rs = [] \<and> approval"
  by (auto simp: decide_def)

lemma redirect_reasons_Nil:
  assumes "redirect_reasons E p merchant chain = Inr []" and "url \<in> set chain"
  shows "\<exists>host. validate_https_url E url = Inr host
    \<and> (host = merchant \<or> bs_mem host (approved_redirect_domains p))"
  using assms
  by (induction chain) (auto simp: redirect_reasons_def rbind_Inr_iff reason_if_def split: if_splits)

lemma request_total_positive: "request_validate E r p at = Inr u \<Longrightarrow> 0 < minor (final_total r)"
  by (auto simp: request_validate_def rbind_Inr_iff split: if_splits)

lemma budget_reasons_Nil:
  assumes "budget_reasons p r u = Inr []" and "currency (final_total r) = primary_currency p"
    and "bs_mem (primary_currency p) (allowed_currencies p)" and "0 < minor (final_total r)"
  shows "within_limits p r u"
  using assms by (auto simp: budget_reasons_def within_limits_def rbind_Inr_iff checked_Inr not_less not_le)

lemma evaluate_permits:
  assumes "evaluate E p r u mode known stopped at = Inr d" and "allowed d \<or> requires_approval d"
  shows "permits E p r u mode stopped"
proof -
  from assms obtain budget merchant redirects where
    v: "request_validate E r p at = Inr ()" and b: "budget_reasons p r u = Inr budget" and
    m: "canonicalize_domain E (merchant_domain r) = Inr merchant" and
    rd: "redirect_reasons E p merchant (redirect_chain r) = Inr redirects" and
    none: "mode_reasons p r mode stopped @ budget @ merchant_reasons p merchant
      @ consent_reasons p r @ redirects = []"
    by (auto simp: evaluate_def rbind_Inr_iff decide_flags)
  then have "budget = []" and "redirects = []" and mr: "mode_reasons p r mode stopped = []"
    and "merchant_reasons p merchant = []" and "consent_reasons p r = []"
    by simp_all
  moreover from mr have "currency (final_total r) = primary_currency p"
    and "bs_mem (primary_currency p) (allowed_currencies p)"
    by (auto simp: mode_reasons_def)
  ultimately show ?thesis
    using b m rd v budget_reasons_Nil [of p r u] redirect_reasons_Nil [of E p merchant]
      request_total_positive [of E r p at]
    by (auto simp: permits_def trusted_hosts_def within_consent_def mode_reasons_def
        merchant_reasons_def consent_reasons_def)
qed

lemma redirects_trusted:
  assumes "redirect_reasons E p merchant chain = Inr rs"
    and "\<forall>url \<in> set chain. \<exists>host. validate_https_url E url = Inr host
      \<and> (host = merchant \<or> bs_mem host (approved_redirect_domains p))"
  shows "rs = []"
  using assms
  by (induction chain arbitrary: rs) (fastforce simp: redirect_reasons_def rbind_Inr_iff reason_if_def)+

lemma permits_evaluates:
  assumes "evaluate E p r u mode known stopped at = Inr d" and pm: "permits E p r u mode stopped"
  shows "\<exists>merchant. canonicalize_domain E (merchant_domain r) = Inr merchant
    \<and> d = decide p [] (needs_approval p r mode known merchant)"
proof -
  from assms obtain budget merchant redirects where
    b: "budget_reasons p r u = Inr budget" and
    m: "canonicalize_domain E (merchant_domain r) = Inr merchant" and
    rd: "redirect_reasons E p merchant (redirect_chain r) = Inr redirects" and
    d: "d = decide p (mode_reasons p r mode stopped @ budget @ merchant_reasons p merchant
      @ consent_reasons p r @ redirects) (needs_approval p r mode known merchant)"
    by (auto simp: evaluate_def rbind_Inr_iff)
  from pm m have l: "within_limits p r u" and c: "within_consent p r"
    and t: "trusted_hosts E p merchant r" and mode: "\<not> stopped" "mode \<noteq> Observe" "mode \<noteq> Disabled"
    by (auto simp: permits_def)
  have "mode_reasons p r mode stopped = []"
    using l mode by (simp add: mode_reasons_def within_limits_def)
  moreover have "budget = []"
    using b l by (auto simp: budget_reasons_def within_limits_def rbind_Inr_iff checked_Inr)
  moreover have "merchant_reasons p merchant = []"
    using t by (auto simp: merchant_reasons_def trusted_hosts_def)
  moreover have "consent_reasons p r = []" using c by (auto simp: consent_reasons_def within_consent_def)
  moreover have "redirects = []" using redirects_trusted [OF rd] t by (simp add: trusted_hosts_def)
  ultimately show ?thesis using m d by simp
qed

lemma unattended_iff:
  assumes "mode \<noteq> Observe" and "mode \<noteq> Disabled"
    and "canonicalize_domain E (merchant_domain r) = Inr merchant"
  shows "unattended E p r mode known \<longleftrightarrow> \<not> needs_approval p r mode known merchant"
  using assms
  by (cases mode; cases "payment_form r"; cases "scenario r")
    (auto simp: unattended_def needs_approval_def)

lemma evaluate_decides:
  assumes "evaluate E p r u mode known stopped at = Inr d"
  shows "allowed d \<longleftrightarrow> permits E p r u mode stopped \<and> unattended E p r mode known"
    and "requires_approval d \<longleftrightarrow> permits E p r u mode stopped \<and> \<not> unattended E p r mode known"
proof -
  show "allowed d \<longleftrightarrow> permits E p r u mode stopped \<and> unattended E p r mode known"
    and "requires_approval d \<longleftrightarrow> permits E p r u mode stopped \<and> \<not> unattended E p r mode known"
  proof (atomize (full), cases "permits E p r u mode stopped")
    case True
    from permits_evaluates [OF assms this] obtain merchant where
      "canonicalize_domain E (merchant_domain r) = Inr merchant"
      "d = decide p [] (needs_approval p r mode known merchant)" by blast
    with True unattended_iff [of mode E r merchant p known]
    show "(allowed d \<longleftrightarrow> permits E p r u mode stopped \<and> unattended E p r mode known)
      \<and> (requires_approval d \<longleftrightarrow> permits E p r u mode stopped \<and> \<not> unattended E p r mode known)"
      by (simp add: decide_flags permits_def)
  qed (use evaluate_permits [OF assms] in blast)
qed

text \<open>The money behind a permission: authority, the provider's funds, the exposure ceiling.\<close>

definition provider_covers :: "treasury_state \<Rightarrow> int \<Rightarrow> bool" where
  "provider_covers s t \<longleftrightarrow> (case provider_mode s of
     Simulated \<Rightarrow> t \<le> spendable (provider s)
   | ManualPrepaidCard \<Rightarrow> (\<exists>b. manual_snapshot s = Some b \<and> bs_status b \<noteq> Estimated
       \<and> t \<le> minor (bs_amount b) - held_total (currency (bs_amount b)) s))"

definition backed :: "treasury_state \<Rightarrow> policy \<Rightarrow> purchase_request \<Rightarrow> budget_usage \<Rightarrow> bool" where
  "backed s p r u \<longleftrightarrow>
     minor (final_total r) \<le> authority (primary_currency p) s
     \<and> provider_covers s (minor (final_total r))
     \<and> (\<exists>m. configured_balance s = Inr m \<and> minor m \<le> minor (max_treasury_size p))
     \<and> minor (lifetime_amount u) + minor (final_total r) \<le> minor (absolute_exposure_ceiling p)"

lemma deny_if_flags [simp]:
  "allowed (deny_if b r d) \<longleftrightarrow> allowed d \<and> \<not> b"
  "requires_approval (deny_if b r d) \<longleftrightarrow> requires_approval d \<and> \<not> b"
  by (simp_all add: deny_if_def deny_with_def)

lemma available_covers:
  "wp provider_available_balance (\<lambda>m v. minor m \<ge> t \<longrightarrow> provider_covers (w_state w) t) (\<lambda>_ _. True) w"
  by (auto simp: provider_available_balance_def manual_available_balance_def wp_simps
      provider_covers_def manual_snapshot_def checked_Inr dest!: simulated_available_Inr
      dest: snapshot_sums(3))

lemma enforce_authority_backed:
  assumes e: "enforce_authority d0 r u p w = (Inr d, v)" and d: "allowed d \<or> requires_approval d"
    and cur: "currency (final_total r) = primary_currency p"
  shows "(allowed d \<longrightarrow> allowed d0) \<and> (requires_approval d \<longrightarrow> requires_approval d0)
    \<and> backed (w_state w) p r u"
proof -
  from e cur obtain l balance v' configured exposure where
    l: "ledger_snapshot (w_state w) (primary_currency p) = Inr l" and
    b: "provider_available_balance w = (Inr balance, v')" and
    c: "configured_balance (w_state w) = Inr configured" and
    x: "checked_add (lifetime_amount u) (final_total r) = Inr exposure" and
    dd: "d = deny_if (minor (absolute_exposure_ceiling p) < minor exposure)
        ''absolute exposure ceiling exceeded''
      (deny_if (minor (max_treasury_size p) < minor configured)
        ''provider balance exceeds maximum treasury size''
      (deny_if (minor balance < minor (final_total r)) ''provider balance is insufficient''
      (deny_if (minor (available_authority l) < minor (final_total r))
        ''available policy authority is insufficient'' d0)))"
    by (auto simp: enforce_authority_def bind_Inr_iff Let_def)
  from wp_OkD [OF available_covers b, of "minor (final_total r)"] snapshot_sums(1) [OF l] c x d dd
  show ?thesis by (auto simp: backed_def checked_Inr not_less)
qed

section \<open>The preparation\<close>

text \<open>
  \<open>calm w v Q R m\<close>: \<open>m\<close>, started in \<open>v\<close> where the state is still that of \<open>w\<close>, ends in \<open>Q\<close>
  or fails in \<open>R\<close>, for an \<open>R\<close> that holds as long as the state is that of \<open>w\<close>. The rules
  walk through an operation's queries and guards.
\<close>

definition calm ::
  "treasury_state world \<Rightarrow> treasury_state world \<Rightarrow> ('a \<Rightarrow> treasury_state world \<Rightarrow> bool)
     \<Rightarrow> (treasury_state world \<Rightarrow> bool) \<Rightarrow> 'a top \<Rightarrow> bool" where
  "calm w v Q R m \<longleftrightarrow>
     ((\<forall>u. same_state w u \<longrightarrow> R u) \<longrightarrow> same_state w v \<longrightarrow> wp m Q (\<lambda>_. R) v)"

lemma calmD: "calm w w Q R m \<Longrightarrow> (\<And>u. same_state w u \<Longrightarrow> R u) \<Longrightarrow> wp m Q (\<lambda>_. R) w"
  by (simp add: calm_def same.rel_refl)

lemma calm_fail: "calm w v Q R (fail e)"
  by (simp add: calm_def wp_basic)

lemma calm_get: "calm w v Q R (f (w_state w)) \<Longrightarrow> calm w v Q R (bind get_state f)"
  by (simp add: calm_def wp_bind wp_get_state same_state_def)

lemma calm_lift: "(\<And>x. r = Inr x \<Longrightarrow> calm w v Q R (f x)) \<Longrightarrow> calm w v Q R (bind (lift r) f)"
  by (simp add: calm_def wp_bind wp_lift)

lemma calm_if: "(b \<Longrightarrow> calm w v Q R m) \<Longrightarrow> (\<not> b \<Longrightarrow> calm w v Q R n) \<Longrightarrow> calm w v Q R (if b then m else n)"
  by simp

lemma calm_bind:
  assumes "keeps same_state m" and "\<And>x u. calm w u Q R (f x)"
  shows "calm w v Q R (bind m f)"
  unfolding calm_def wp_bind
proof (intro impI wp_quiet [OF assms(1)])
  fix x u
  assume "\<forall>u. same_state w u \<longrightarrow> R u" and "same_state w v" and "same_state v u"
  moreover from this(2,3) have "same_state w u" by (rule same.rel_trans)
  ultimately show "wp (f x) Q (\<lambda>_. R) u" using assms(2) by (simp add: calm_def)
next
  fix u
  assume "\<forall>u. same_state w u \<longrightarrow> R u" and "same_state w v" and "same_state v u"
  then show "R u" by (blast intro: same.rel_trans)
qed

lemma keeps_same_expired: "keeps same_state (intent_expired i p)"
  unfolding intent_expired_def by (intro keeps_same)

lemmas calm_rules = calm_fail calm_get calm_lift calm_if

lemmas quiet_queries = keeps_same_expired keeps_same_usage keeps_same_authority keeps_same_basic

text \<open>The proof rule: only the reservation at the end changes the state.\<close>

lemma prepare_rule:
  assumes "\<And>u. same_state w u \<Longrightarrow> R u"
    and "\<And>aid p i u. same_state w u \<Longrightarrow> bget (intents (w_state w)) k = Some i \<Longrightarrow>
      wp (reserve_and_start E aid k p i) Q (\<lambda>_. R) u"
  shows "wp (prepare_intent_execution E a k) Q (\<lambda>_. R) w"
proof (rule calmD [OF _ assms(1)])
  have "calm w v Q R (reserve_and_start E aid k p i)"
    if "ok_or e (bget (intents (w_state w)) k) = Inr i" for v aid p i e
    using that assms(2) by (auto simp: calm_def)
  then show "calm w w Q R (prepare_intent_execution E a k)"
    unfolding prepare_intent_execution_def
    by (intro calm_rules calm_bind quiet_queries) assumption
qed

text \<open>Everything a successful preparation has checked.\<close>

definition cleared ::
  "env \<Rightarrow> actor \<Rightarrow> string \<Rightarrow> treasury_state world \<Rightarrow> purchase_intent \<Rightarrow> agent_record \<Rightarrow> policy
     \<Rightarrow> budget_usage \<Rightarrow> bool" where
  "cleared E a k w i agent p u \<longleftrightarrow>
     require_money_workflow_audit_capacity (w_state w) 4 = Inr ()
     \<and> bget (intents (w_state w)) k = Some i
     \<and> in_state i \<in> {PolicyValidated, Approved}
     \<and> a = AgentActor (in_agent_id i)
     \<and> bget (agents (w_state w)) (in_agent_id i) = Some agent
     \<and> bs_mem ''purchase_intents:execute'' (ag_scopes agent)
     \<and> bget (policies (w_state w)) (ag_policy_id agent) = Some p
     \<and> w_clock w (w_reads w) < ag_session_expires_at agent
     \<and> in_broker_session_id i = ag_session_id agent
     \<and> w_clock w (w_reads w + 1) \<le> i64_add (in_created_at i) (intent_ttl_secs p)
     \<and> w_clock w (w_reads w + 2) \<le> i64_add (in_created_at i) (card_session_ttl_secs p)
     \<and> (\<exists>n. usage_is (w_state w) (in_agent_id i) (primary_currency p) (ag_session_id agent)
          (w_clock w n) u)
     \<and> permits E p (in_request i) u (ag_mode agent) (emergency_stop (w_state w))
     \<and> (\<exists>merchant. canonicalize_domain E (merchant_domain (in_request i)) = Inr merchant
          \<and> (in_state i = PolicyValidated \<longrightarrow>
               unattended E p (in_request i) (ag_mode agent) (known_merchant_for p agent merchant)))
     \<and> backed (w_state w) p (in_request i) u"

lemma executable_Inr [simp]:
  "executable_state s = Inr x \<longleftrightarrow> s = PolicyValidated \<or> s = Approved"
  by (cases s) (simp_all add: executable_state_def)

lemma intent_not_expired:
  "intent_expired i p w = (Inr False, v) \<Longrightarrow>
     w_clock w (w_reads w) \<le> i64_add (in_created_at i) (intent_ttl_secs p)
     \<and> w_clock w (Suc (w_reads w)) \<le> i64_add (in_created_at i) (card_session_ttl_secs p)"
  by (auto simp: intent_expired_def bind_Inr_iff not_less split: if_splits)

lemma same_state_usage:
  "same_state w v \<Longrightarrow> usage_of aid cur v = (Inr u, v') \<Longrightarrow>
     bget (agents (w_state w)) aid = Some agent \<Longrightarrow>
     \<exists>n. usage_is (w_state w) aid cur (ag_session_id agent) (w_clock w n) u"
  using usage_of_is [of aid cur v u v' agent] by (auto simp: same_state_def)

lemma prepare_Inr:
  assumes "prepare_intent_execution E a k w = (Inr (), w')"
  shows "\<exists>i agent p u v. cleared E a k w i agent p u \<and> same_state w v
    \<and> reserve_and_start E (in_agent_id i) k p i v = (Inr (), w')"
proof -
  let ?s = "w_state w"
  from assms obtain i agent p merchant v1 u v2 at d0 d v3 where
    q: "require_money_workflow_audit_capacity ?s 4 = Inr ()"
      "a = AgentActor (in_agent_id i)" "bget (intents ?s) k = Some i"
      "in_state i = PolicyValidated \<or> in_state i = Approved"
      "bget (agents ?s) (in_agent_id i) = Some agent"
      "bs_mem ''purchase_intents:execute'' (ag_scopes agent)"
      "bget (policies ?s) (ag_policy_id agent) = Some p"
      "w_clock w (w_reads w) < ag_session_expires_at agent"
      "in_broker_session_id i = ag_session_id agent" and
    x: "intent_expired i p (w\<lparr>w_reads := Suc (w_reads w)\<rparr>) = (Inr False, v1)" and
    u: "usage_of (in_agent_id i) (primary_currency p) v1 = (Inr u, v2)" and
    ev: "evaluate E p (in_request i) u (ag_mode agent)
      (known_merchant_for p agent merchant) (emergency_stop ?s) at = Inr d0" and
    mt: "canonicalize_domain E (merchant_domain (in_request i)) = Inr merchant" and
    en: "enforce_authority d0 (in_request i) u p (v2\<lparr>w_reads := Suc (w_reads v2)\<rparr>) = (Inr d, v3)" and
    d: "allowed d \<or> in_state i = Approved \<and> requires_approval d" and
    r: "reserve_and_start E (in_agent_id i) k p i v3 = (Inr (), w')"
    by (auto simp: prepare_intent_execution_def bind_Inr_iff not_le split: if_splits)
  have s1: "same_state w v1"
    using keeps_run [OF keeps_same_expired x] by (simp add: same_state_def)
  have s2: "same_state w v2"
    by (rule same.rel_trans [OF s1 keeps_run [OF keeps_same_usage u]])
  then have tick: "same_state w (v2\<lparr>w_reads := Suc (w_reads v2)\<rparr>)" by (simp add: same_state_def)
  have s3: "same_state w v3"
    by (rule same.rel_trans [OF tick keeps_run [OF keeps_same_authority en]])
  from s2 have st: "w_state (v2\<lparr>w_reads := Suc (w_reads v2)\<rparr>) = ?s" by (simp add: same_state_def)
  have "currency (final_total (in_request i)) = primary_currency p"
  proof (rule ccontr)
    assume "currency (final_total (in_request i)) \<noteq> primary_currency p"
    with en have "d = d0" by (simp add: enforce_authority_def)
    with evaluate_permits [OF ev] d \<open>currency _ \<noteq> _\<close> show False
      by (auto simp: permits_def within_limits_def)
  qed
  from enforce_authority_backed [OF en _ this] d st
  have b: "backed ?s p (in_request i) u" "allowed d0 \<or> requires_approval d0"
    "in_state i = PolicyValidated \<longrightarrow> allowed d0"
    using q(4) by auto
  have pm: "permits E p (in_request i) u (ag_mode agent) (emergency_stop ?s)"
    by (rule evaluate_permits [OF ev b(2)])
  have "in_state i = PolicyValidated \<longrightarrow>
      unattended E p (in_request i) (ag_mode agent) (known_merchant_for p agent merchant)"
    using b(3) evaluate_decides(1) [OF ev] by blast
  with q b pm mt same_state_usage [OF s1 u q(5)] intent_not_expired [OF x]
  have "cleared E a k w i agent p u" by (auto simp: cleared_def)
  with s3 r show ?thesis by blast
qed

end
