(* ===== verification/Lifecycle.thy ===== *)
theory Lifecycle
  imports Preparation
begin

text \<open>
  Every operation of the treasury keeps the \<open>history\<close> relation: the audit chain is only
  extended, and each intent moves along permitted transitions with its request fixed.
\<close>

section \<open>Writing one intent\<close>

lemma history_write:
  assumes "bget (intents (w_state w)) k = Some i" and "successor i j"
    and "intents (w_state v) = bput (in_id j) j (intents (w_state w))
      \<or> intents (w_state v) = bput k j (intents (w_state w))"
    and "same_oracles w v" and "log_extends E (w_key w) (w_state w) (w_state v)"
  shows "history E w v"
proof -
  let ?u = "\<lambda>k. w\<lparr>w_state := (w_state w)\<lparr>intents := bput k j (intents (w_state w))\<rparr>\<rparr>"
  have log: "log_extends E (w_key (?u l)) (w_state (?u l)) (w_state v)" for l
    using assms(5) by (simp add: log_extends_def verify_audit_chain_def)
  have orc: "same_oracles (?u l) v" for l
    using assms(4) by (simp add: same_oracles_def)
  from assms(3) show ?thesis
  proof
    assume "intents (w_state v) = bput (in_id j) j (intents (w_state w))"
    then have "history E (?u (in_id j)) v" by (intro history_same orc log) simp
    with history_put(1) [OF assms(1,2)] show ?thesis by (rule history_trans)
  next
    assume "intents (w_state v) = bput k j (intents (w_state w))"
    then have "history E (?u k) v" by (intro history_same orc log) simp
    with history_put(2) [OF assms(1,2)] show ?thesis by (rule history_trans)
  qed
qed

lemma history_books:
  assumes "same_oracles w v" and "intents (w_state v) = intents (w_state w)"
    and "audit_log (w_state v) = audit_log (w_state w)"
    and "generation (w_state v) = generation (w_state w)"
  shows "history E w v"
  using assms by (intro history_same log_extends_refl)

text \<open>
  Rules that run the head of an operation (lookups, guards, transitions) and stop at its
  first write.
\<close>

lemma wp_head_state: "wp (bind get_state f) Q R w = wp (f (w_state w)) Q R w"
  by (simp add: wp_simps)

lemma wp_head_lift:
  "wp (bind (lift r) f) Q R w =
     ((\<forall>e. r = Inl e \<longrightarrow> R e w) \<and> (\<forall>x. r = Inr x \<longrightarrow> wp (f x) Q R w))"
  by (simp add: wp_bind wp_lift)

lemma wp_head_transition:
  "wp (bind (transition i n) f) Q R w =
     (if can_transition (in_state i) n
      then wp (f (i\<lparr>in_state := n, in_updated_at := w_clock w (w_reads w)\<rparr>)) Q R
             (w\<lparr>w_reads := Suc (w_reads w)\<rparr>)
      else R (transition_error (in_state i) n) w)"
  by (simp add: wp_bind wp_transition)

lemma wp_head_ret: "wp (bind (ret i) f) Q R w = wp (f i) Q R w"
  by (simp add: wp_bind wp_basic)

lemma wp_head_if:
  "wp (bind (if b then m else m') f) Q R w =
     ((b \<longrightarrow> wp (bind m f) Q R w) \<and> (\<not> b \<longrightarrow> wp (bind m' f) Q R w))"
  by simp

lemmas wp_head = wp_head_state wp_head_lift wp_head_transition wp_head_ret wp_head_if

lemma wp_tail_if:
  "wp (if b then m else m') Q R w = ((b \<longrightarrow> wp m Q R w) \<and> (\<not> b \<longrightarrow> wp m' Q R w))"
  by simp

lemmas wp_tail = wp_basic wp_tail_if

section \<open>Rewriting one intent\<close>

text \<open>
  A relation \<open>R\<close> that also allows rewriting one stored intent along \<open>P\<close>, where \<open>P\<close> allows
  every transition but the one that reserves funds. The operations that only rewrite an
  intent and audit it are its clients.
\<close>

definition with_intent :: "string \<Rightarrow> purchase_intent \<Rightarrow> treasury_state world \<Rightarrow> treasury_state world" where
  "with_intent l j w = w\<lparr>w_state := (w_state w)\<lparr>intents := bput l j (intents (w_state w))\<rparr>\<rparr>"

lemma wp_head_put: "wp (bind (put_intent l j) f) Q R w = wp (f ()) Q R (with_intent l j w)"
  by (simp add: wp_simps with_intent_def)

locale intent_relation = treasury_relation R E
  for R :: "treasury_state world \<Rightarrow> treasury_state world \<Rightarrow> bool" and E :: env +
  fixes P :: "purchase_intent \<Rightarrow> purchase_intent \<Rightarrow> bool"
  assumes put_rel: "bget (intents (w_state w)) k = Some i \<Longrightarrow> P i j \<Longrightarrow> l = in_id j \<or> l = k \<Longrightarrow>
      R w (with_intent l j w)"
    and step_P: "can_transition (in_state i) n \<Longrightarrow> n \<noteq> FundsReserved \<Longrightarrow>
      P i (i\<lparr>in_state := n, in_updated_at := at\<rparr>)"
    and note_P: "P i j \<Longrightarrow> P i (j\<lparr>in_last_error := e\<rparr>)"
    and refl_P: "P i i"
begin

lemma keeps_after:
  assumes "R w v" and "keeps R m"
  shows "wp m (\<lambda>_. R w) (\<lambda>_. R w) v"
proof (rule wpI)
  fix x t
  assume "m v = (Inr x, t)"
  with assms(2) have "R v t" by (rule keeps_run)
  with assms(1) show "R w t" by (rule rel_trans)
next
  fix e t
  assume "m v = (Inl e, t)"
  with assms(2) have "R v t" by (rule keeps_run)
  with assms(1) show "R w t" by (rule rel_trans)
qed

lemma write_and_tail:
  assumes i: "bget (intents (w_state w)) k = Some i" and ij: "P i j"
    and l: "l = in_id j \<or> l = k"
    and u: "intents (w_state u) = intents (w_state w)" "R w u"
    and tail: "\<And>x. keeps R (m x)"
  shows "wp (bind (put_intent l j) m) (\<lambda>_. R w) (\<lambda>_. R w) u"
proof -
  have "R u (with_intent l j u)" using put_rel [of u k i j l] i ij l u(1) by simp
  with u(2) have "R w (with_intent l j u)" by (rule rel_trans)
  from keeps_after [OF this tail] show ?thesis by (simp add: wp_head_put)
qed

lemma ticked: "R w (w\<lparr>w_reads := n\<rparr>)"
  by (rule quiet) (simp add: same_state_def)

lemmas leaves = ticked rel_refl

lemma keeps_cancel: "keeps R (cancel_intent E a k)"
  unfolding cancel_intent_def
  by (rule keeps_of_wp)
    (auto simp: wp_head wp_tail intro!: leaves write_and_tail [where k = k] keeps_basic step_P)

lemma keeps_approve: "keeps R (owner_approve E a k)"
  unfolding owner_approve_def stored_intent_def
  by (rule keeps_of_wp)
    (auto simp: wp_head wp_tail intro!: leaves write_and_tail [where k = k] keeps_basic
      note_P step_P)

lemma keeps_deny: "keeps R (owner_deny E a k)"
  unfolding owner_deny_def stored_intent_def Let_def
  by (rule keeps_of_wp)
    (auto simp: wp_head wp_tail intro!: leaves write_and_tail [where k = k] keeps_basic
      note_P step_P)

lemma keeps_complete_handoff: "keeps R (owner_complete_manual_handoff E a k)"
  unfolding owner_complete_manual_handoff_def stored_intent_def Let_def
  by (rule keeps_of_wp)
    (auto simp: wp_head wp_tail intro!: leaves write_and_tail [where k = k] keeps_basic
      note_P step_P)

lemmas keeps_decisions = keeps_approve keeps_deny keeps_complete_handoff

lemma keeps_quarantine: "keeps R (quarantine_execution E k reason)"
  unfolding quarantine_execution_def Let_def
  by (rule keeps_of_wp)
    (auto simp: wp_head wp_tail intro!: leaves write_and_tail [where k = k] keeps_basic
      note_P step_P refl_P)

lemma keeps_recover_one: "keeps R (recover_one E k)"
  unfolding recover_one_def Let_def
  by (rule keeps_of_wp)
    (auto simp: wp_head wp_tail intro!: leaves write_and_tail [where k = k] keeps_basic
      note_P step_P)

lemma keeps_recover: "keeps R (recover_interrupted_executions E)"
  unfolding recover_interrupted_executions_def Let_def
  by (intro keeps_basic keeps_recover_one)

end

interpretation hist: intent_relation "history E" E successor for E
proof
  show "history E w (with_intent l j w)"
    if "bget (intents (w_state w)) k = Some i" "successor i j" "l = in_id j \<or> l = k" for w k i j l
    using that(3) history_put [OF that(1,2)] by (auto simp: with_intent_def)
  show "can_transition (in_state i) n \<Longrightarrow> n \<noteq> FundsReserved \<Longrightarrow>
      successor i (i\<lparr>in_state := n, in_updated_at := at\<rparr>)" for i n at
    by (simp add: successor_step)
  show "successor i j \<Longrightarrow> successor i (j\<lparr>in_last_error := e\<rparr>)" for i j e
    by (simp add: successor_def)
qed (rule successor_refl)

lemmas history_then = hist.keeps_after

lemma history_tick: "history E w (w\<lparr>w_reads := n\<rparr>)"
  by (rule hist.ticked)

lemma history_refl: "history E w w"
  by (rule hist.rel_refl)

section \<open>Filing a new intent\<close>

lemma history_file:
  assumes new: "in_id j = intent_key E w (w_draws w)" and "reaches Proposed (in_state j)"
    and ints: "intents (w_state v) = bput (in_id j) j (intents (w_state w))"
    and orc: "same_oracles w v" and d: "w_draws w < w_draws v"
    and log: "log_extends E (w_key w) (w_state w) (w_state v)"
    and slot: "orderly (w_state w) ((w_state w)\<lparr>intents := bput (in_id j) j (intents (w_state w))\<rparr>)"
  shows "history E w v"
proof -
  have "sound_ids E v \<and> evolves (w_state w) (w_state v)" if s: "sound_ids E w"
  proof -
    have wk: "bm.well_keyed in_id (intents (w_state v))"
      unfolding ints using s by (intro bm.well_keyed_put) (simp_all add: sound_ids_def)
    have key: "intent_key E v n = intent_key E w n" for n
      using orc by (simp add: intent_key_def same_oracles_def)
    have none: "bget (intents (w_state w)) (in_id j) = None"
      using s new by (simp add: sound_ids_def fresh_ids_def)
    have "fresh_ids E v"
      unfolding fresh_ids_def key
    proof (intro conjI allI impI)
      fix n assume n: "w_draws v \<le> n"
      with d s new have "intent_key E w n \<noteq> in_id j"
        unfolding sound_ids_def fresh_ids_def by (metis le_refl less_le_trans)
      with n d s show "bget (intents (w_state v)) (intent_key E w n) = None"
        unfolding ints by (simp add: sound_ids_def fresh_ids_def)
    next
      fix m n assume "w_draws v \<le> m" and "m < n"
      with d s show "intent_key E w m \<noteq> intent_key E w n"
        by (simp add: sound_ids_def fresh_ids_def)
    qed
    moreover have "orderly (w_state w) (w_state v)"
      using slot by (rule orderly_trans) (rule orderly_same, simp add: ints)
    then have "evolves (w_state w) (w_state v)"
      using wk none assms(2) by (auto simp: evolves_def ints successor_refl)
    ultimately show ?thesis using wk by (simp add: sound_ids_def)
  qed
  with orc log show ?thesis by (simp add: history_def)
qed

lemma wp_new_intent_id:
  "wp (new_id E ''intent'') Q R w =
     Q (intent_key E w (w_draws w)) (w\<lparr>w_draws := Suc (w_draws w)\<rparr>)"
  by (simp add: wp_random intent_key_def)

text \<open>The state has room for an intent of this agent under this key.\<close>

definition vacant :: "treasury_state \<Rightarrow> string \<Rightarrow> string \<Rightarrow> bool" where
  "vacant s aid key \<longleftrightarrow> bsize (intents s) < max_intents
     \<and> (\<forall>l i. bget (intents s) l = Some i \<longrightarrow> intent_slot i \<noteq> (aid, key))"

lemma file_tail:
  assumes "in_id j = intent_key E w (w_draws w)" and "reaches Proposed (in_state j)"
    and room: "vacant (w_state w) (in_agent_id j) (idempotency_key (in_request j))"
    and u: "same_oracles w u" "w_draws w < w_draws u" "w_state u = w_state w" "w_key u = w_key w"
  shows "wp (bind (audit E who act iid pv dec det) (\<lambda>_. bind (put_intent (in_id j) j) (\<lambda>_. ret x)))
    (\<lambda>_. history E w) (\<lambda>_. history E w) u"
proof -
  have err: "history E w u" using u by (intro history_books) simp_all
  have ok: "history E w (u\<lparr>w_reads := n, w_state := audited (w_state w)
       (new_entry E (w_key w) (audit_log (w_state w)) at who act iid pv dec det)
       \<lparr>intents := bput (in_id j) j (intents (w_state w))\<rparr>\<rparr>)" for n at
  proof (rule history_file [OF assms(1,2)])
    show "log_extends E (w_key w) (w_state w) (w_state (u\<lparr>w_reads := n, w_state :=
        audited (w_state w) (new_entry E (w_key w) (audit_log (w_state w)) at who act iid pv dec det)
        \<lparr>intents := bput (in_id j) j (intents (w_state w))\<rparr>\<rparr>))"
      by (rule log_extends_entry) simp_all
    show "orderly (w_state w) ((w_state w)\<lparr>intents := bput (in_id j) j (intents (w_state w))\<rparr>)"
      using room by (intro orderly_file) (simp_all add: vacant_def intent_slot_def)
  qed (use u in \<open>simp_all add: same_oracles_def\<close>)
  show ?thesis using err ok by (simp add: wp_simps u)
qed

lemma file_history:
  assumes room: "vacant (w_state w) aid (idempotency_key r)"
  shows "wp (file_intent E aid agent p r d) (\<lambda>_. history E w) (\<lambda>_. history E w) w"
proof -
  have chk: "can_transition Draft Proposed" "can_transition Proposed Failed"
    "can_transition Proposed ApprovalRequired" "can_transition Proposed PolicyValidated"
    by (simp_all add: can_transition_into)
  let ?k = "intent_key E w (w_draws w)"
  let ?u = "w\<lparr>w_draws := Suc (w_draws w), w_reads := Suc (Suc (Suc (w_reads w)))\<rparr>"
  have tail: "wp (bind (audit E who act iid pv dec det) (\<lambda>_. bind (put_intent ?k j) (\<lambda>_. ret x)))
      (\<lambda>_. history E w) (\<lambda>_. history E w) ?u"
    if "in_id j = ?k" and "in_state j \<in> {Failed, ApprovalRequired, PolicyValidated}"
      and "in_agent_id j = aid" and "in_request j = r"
    for j :: purchase_intent and who act iid pv dec det and x :: json
  proof -
    have "reaches Proposed (in_state j)" using that(2) chk by (auto intro: reaches_one)
    from file_tail [OF that(1) this, of ?u] that room show ?thesis by (simp add: same_oracles_def)
  qed
  show ?thesis
    unfolding file_intent_def draft_intent_def
    by (simp add: wp_bind [of "new_id _ _"] wp_bind [of now] wp_new_intent_id wp_now wp_head
        wp_head_if chk tail)
qed

section \<open>Preparing and completing an execution\<close>

lemma executing_successor:
  assumes "can_transition (in_state i) FundsReserved"
  shows "successor i (i\<lparr>in_state := Executing, in_updated_at := at\<rparr>)"
  using assms reaches.step [OF reaches_one [OF assms], of Executing]
  by (simp add: successor_def can_transition_into)

lemma keeps_history_reserve:
  assumes "bget (intents (w_state w)) k = Some i"
  shows "wp (reserve_and_start E aid iid p i) (\<lambda>_. history E w) (\<lambda>_. history E w) w"
  unfolding reserve_and_start_def append_ledger_def
  by (simp add: wp_simps; intro conjI impI;
      ((rule history_books; simp add: same_oracles_def; fail)
       | (rule history_same; auto simp: same_oracles_def intro!: log_extends_entry; fail)
       | (rule history_write [OF assms executing_successor];
          auto simp: same_oracles_def intro!: log_extends_entry; fail)))

lemma history_calm: "same_state w v \<Longrightarrow> history E w v"
  by (rule hist.quiet)

lemma keeps_history_prepare: "keeps (history E) (prepare_intent_execution E a k)"
proof (rule keeps_of_wp, rule prepare_rule [OF history_calm])
  fix w u :: "treasury_state world" and aid p i
  assume u: "same_state w u" and "bget (intents (w_state w)) k = Some i"
  then have "bget (intents (w_state u)) k = Some i" by (simp add: same_state_def)
  from keeps_history_reserve [OF this]
  show "wp (reserve_and_start E aid k p i) (\<lambda>_. history E w) (\<lambda>_. history E w) u"
    by (rule wp_mono) (blast intro: history_trans history_calm [OF u])+
qed

lemma calm_case_option:
  "(x = None \<Longrightarrow> calm w v Q R m) \<Longrightarrow> (\<And>y. x = Some y \<Longrightarrow> calm w v Q R (f y)) \<Longrightarrow>
     calm w v Q R (case x of None \<Rightarrow> m | Some y \<Rightarrow> f y)"
  by (cases x) auto

lemma calm_ret: "(\<And>u. same_state w u \<Longrightarrow> Q x u) \<Longrightarrow> calm w v Q R (ret x)"
  by (simp add: calm_def wp_basic)

lemma calm_history:
  "(\<And>u. same_state w u \<Longrightarrow> wp m (\<lambda>_. history E u) (\<lambda>_. history E u) u) \<Longrightarrow>
     calm w v (\<lambda>_. history E w) (history E w) m"
  unfolding calm_def
proof (intro impI)
  assume m: "\<And>u. same_state w u \<Longrightarrow> wp m (\<lambda>_. history E u) (\<lambda>_. history E u) u" and v: "same_state w v"
  show "wp m (\<lambda>_. history E w) (\<lambda>_. history E w) v"
    by (rule wp_mono [OF m [OF v]]) (blast intro: history_trans history_calm [OF v])+
qed

lemma free_slot:
  assumes "find (\<lambda>i. in_agent_id i = aid \<and> idempotency_key (in_request i) = key) (bvals (intents s)) = None"
    and "\<not> max_intents \<le> bsize (intents s)"
  shows "vacant s aid key"
  using assms by (auto simp: vacant_def intent_slot_def find_None_iff set_bvals)

lemma keeps_history_create: "keeps (history E) (create_intent E a r)"
proof (rule keeps_of_wp, rule calmD [OF _ history_calm])
  fix w :: "treasury_state world"
  have limited: "calm w v (\<lambda>_. history E w) (history E w) (rate_limited E aid p)" for v aid p
    using hist.keeps_admin(11) [of E aid p] unfolding keeps_wp by (intro calm_history) blast
  have filed: "calm w v (\<lambda>_. history E w) (history E w) (decide_and_file E aid agent p req usage)"
    if "vacant (w_state w) aid (idempotency_key req)" for v aid agent p req usage
    unfolding decide_and_file_def
    by (intro calm_rules calm_bind quiet_queries calm_history file_history)
      (use that in \<open>simp add: same_state_def\<close>)
  have expired: "keeps same_state (if stop then ret False else bind now (\<lambda>at. ret (limit \<le> at)))" for stop limit
    by (intro keeps_same)
  show "calm w w (\<lambda>_. history E w) (history E w) (create_intent E a r)"
    unfolding create_intent_def
    by (intro calm_rules calm_case_option calm_ret history_calm calm_bind quiet_queries expired limited filed
        free_slot)
qed

section \<open>Money and the ledger\<close>

text \<open>Writes that touch neither the intents nor the audit log.\<close>

lemma keeps_history_update:
  "(\<And>s. intents (f s) = intents s \<and> audit_log (f s) = audit_log s
      \<and> generation (f s) = generation s) \<Longrightarrow>
     keeps (history E) (update_state f)"
  unfolding update_state_def
  by (rule hist.keeps_modify) (rule history_books; simp add: same_oracles_def)

lemma keeps_history_ledger:
  "keeps (history E) (append_ledger E kind amount iid source verified)"
  unfolding append_ledger_def by (intro hist.keeps_basic keeps_history_update) simp

lemma keeps_history_settled: "keeps (history E) (record_settled E i)"
  unfolding record_settled_def by (intro hist.keeps_basic keeps_history_ledger)

lemma keeps_history_providers:
  "keeps (history E) (put_provider p)"
  "keeps (history E) (put_manual_balance m b)"
  "keeps (history E) manual_entry"
  "keeps (history E) (credit_provider amount)"
proof -
  show put: "keeps (history E) (put_provider p)" for p
    unfolding put_provider_def by (rule keeps_history_update) simp
  show man: "keeps (history E) (put_manual_balance m b)" for m b
    unfolding put_manual_balance_def by (rule keeps_history_update) simp
  show entry: "keeps (history E) manual_entry"
    unfolding manual_entry_def by (intro hist.keeps_basic)
  show "keeps (history E) (credit_provider amount)"
    unfolding credit_provider_def by (intro hist.keeps_basic put man entry)
qed

lemma keeps_same_manual_authorize: "keeps same_state (manual_authorize p i)"
  unfolding manual_authorize_def by (rule same.keeps_ret)

lemma keeps_history_authorize: "keeps (history E) (provider_authorize E i)"
  unfolding provider_authorize_def
  by (intro hist.keeps_basic hist.keeps_quiet [OF keeps_same_authorize]
      hist.keeps_quiet [OF keeps_same_manual_authorize] keeps_history_update) simp_all

lemma keeps_history_file_deposit:
  "keeps (history E) (file_deposit E amount source verified aid reference fp reinvested)"
  unfolding file_deposit_def
  by (intro hist.keeps_basic keeps_history_providers keeps_history_ledger keeps_history_update) simp

lemma keeps_history_deposit:
  "keeps (history E) (owner_record_deposit E a amount source verified aid reference)"
  unfolding owner_record_deposit_def Let_def
  by (intro hist.keeps_basic keeps_history_file_deposit)

section \<open>Outcomes\<close>

text \<open>
  Steps that leave the intents alone: what they return is related to the intent they were
  given, and the store still holds that intent.
\<close>

definition unput :: "env \<Rightarrow> treasury_state world \<Rightarrow> treasury_state world \<Rightarrow> bool" where
  "unput E v w \<longleftrightarrow> history E v w \<and> intents (w_state w) = intents (w_state v)"

lemma unput_books:
  "same_oracles w v \<Longrightarrow> intents (w_state v) = intents (w_state w) \<Longrightarrow>
     audit_log (w_state v) = audit_log (w_state w) \<Longrightarrow>
     generation (w_state v) = generation (w_state w) \<Longrightarrow> unput E w v"
  by (simp add: unput_def history_books)

interpretation un: treasury_relation "unput E" E for E
proof
  show "same_state v w \<Longrightarrow> unput E v w" for v w
    by (rule unput_books) (simp_all add: same_state_def same_oracles_def)
  show "unput E w (w\<lparr>w_state := audited (w_state w) (new_entry E (w_key w)
      (audit_log (w_state w)) at who action iid pv dec det)\<rparr>)" for w at who action iid pv dec det
    using hist.audit_rel by (simp add: unput_def)
  show "same_books (w_state w) s \<Longrightarrow> unput E w (w\<lparr>w_state := s\<rparr>)" for w s
    by (rule unput_books) (simp_all add: same_books_def same_oracles_def)
  show "unput E w w" for w
    by (rule unput_books) (simp_all add: same_oracles_def)
  show "unput E u v \<Longrightarrow> unput E v w \<Longrightarrow> unput E u w" for u v w
    by (auto simp: unput_def intro: history_trans)
qed

lemma keeps_unput_update:
  "(\<And>s. intents (f s) = intents s \<and> audit_log (f s) = audit_log s
      \<and> generation (f s) = generation s) \<Longrightarrow>
     keeps (unput E) (update_state f)"
  unfolding update_state_def by (rule un.keeps_modify) (rule unput_books; simp add: same_oracles_def)

lemma keeps_unput_ledger: "keeps (unput E) (append_ledger E kind amount iid source verified)"
  unfolding append_ledger_def by (intro un.keeps_basic keeps_unput_update) simp

lemma keeps_unput_settled: "keeps (unput E) (record_settled E i)"
  unfolding record_settled_def by (intro un.keeps_basic keeps_unput_ledger)

text \<open>\<open>follows E w i m\<close>: from \<open>w\<close> on, \<open>m\<close> writes no intent and returns a successor of \<open>i\<close>.\<close>

definition follows ::
  "env \<Rightarrow> treasury_state world \<Rightarrow> purchase_intent \<Rightarrow> ('a \<Rightarrow> purchase_intent) \<Rightarrow> 'a top \<Rightarrow> bool" where
  "follows E w i f m \<longleftrightarrow> (\<forall>v. unput E w v \<longrightarrow>
     wp m (\<lambda>x u. unput E w u \<and> successor i (f x)) (\<lambda>_ u. unput E w u) v)"

lemma follows_ret: "successor i (f x) \<Longrightarrow> follows E w i f (ret x)"
  by (simp add: follows_def wp_basic)

lemma follows_fail: "follows E w i f (fail e)"
  by (simp add: follows_def wp_basic)

lemma follows_bind:
  assumes "keeps (unput E) m" and "\<And>x. follows E w i f (g x)"
  shows "follows E w i f (bind m g)"
  unfolding follows_def wp_bind
proof (intro allI impI, rule wpI)
  fix v x t
  assume "unput E w v" and "m v = (Inr x, t)"
  with keeps_run [OF assms(1)] have "unput E w t" by (blast intro: un.rel_trans)
  with assms(2) show "wp (g x) (\<lambda>x u. unput E w u \<and> successor i (f x)) (\<lambda>_ u. unput E w u) t"
    by (simp add: follows_def)
next
  fix v e t
  assume "unput E w v" and "m v = (Inl e, t)"
  with keeps_run [OF assms(1)] show "unput E w t" by (blast intro: un.rel_trans)
qed

lemma follows_then:
  assumes "follows E w i h m" and "\<And>x. successor i (h x) \<Longrightarrow> follows E w i f (g x)"
  shows "follows E w i f (bind m g)"
  using assms unfolding follows_def wp_bind by (blast intro: wp_mono)

lemma follows_get: "(\<And>s. follows E w i f (g s)) \<Longrightarrow> follows E w i f (bind get_state g)"
  by (rule follows_bind) (intro un.keeps_basic)

lemma unput_tick: "unput E w v \<Longrightarrow> unput E w (v\<lparr>w_reads := n\<rparr>)"
  by (erule un.rel_trans, rule unput_books) (simp_all add: same_oracles_def)

lemma follows_transition:
  assumes "successor i j"
  shows "follows E w i (\<lambda>x. x) (transition j n)"
  unfolding follows_def wp_transition
  using successor_trans [OF assms successor_step] by (simp add: unput_tick)

lemma follows_receipt:
  assumes "successor i j"
  shows "follows E w i (\<lambda>x. x) (issue_receipt E j)"
proof (cases "in_receipt j")
  case None
  then have "in_receipt i = None" using assms by (auto simp: successor_def)
  with assms have "successor i (j\<lparr>in_receipt_hash := h, in_receipt := r\<rparr>)" for r h
    by (simp add: successor_def)
  then show ?thesis by (simp add: follows_def wp_issue_receipt None Let_def unput_tick)
next
  case Some
  with assms show ?thesis by (simp add: follows_def wp_issue_receipt)
qed

lemma follows_if:
  "(b \<Longrightarrow> follows E w i f m) \<Longrightarrow> (\<not> b \<Longrightarrow> follows E w i f n) \<Longrightarrow> follows E w i f (if b then m else n)"
  by simp

lemma successor_fields:
  "successor i j \<Longrightarrow> successor i (j\<lparr>in_provider_reference := r\<rparr>)"
  "successor i j \<Longrightarrow> successor i (j\<lparr>in_last_error := e\<rparr>)"
  by (simp_all add: successor_def)

text \<open>Storing what such a step returned, then auditing, in either order.\<close>

lemma follows_put:
  assumes m: "follows E w i f m" and i: "bget (intents (w_state w)) k = Some i"
    and tail: "\<And>x. keeps (history E) (t x)" and mid: "\<And>x. keeps (unput E) (a x)"
    and w: "unput E w v"
  shows "wp (bind m (\<lambda>x. bind (a x) (\<lambda>_. bind (put_intent (in_id (f x)) (f x)) (\<lambda>_. t x))))
    (\<lambda>_. history E w) (\<lambda>_. history E w) v"
proof -
  have "wp (bind (a x) (\<lambda>_. bind (put_intent (in_id (f x)) (f x)) (\<lambda>_. t x)))
      (\<lambda>_. history E w) (\<lambda>_. history E w) u" if "unput E w u" and "successor i (f x)" for x u
    unfolding wp_bind [of "a x"]
  proof (rule wpI)
    fix y u'
    assume "a x u = (Inr y, u')"
    with keeps_run [OF mid] that(1) have "unput E w u'" by (blast intro: un.rel_trans)
    then show "wp (bind (put_intent (in_id (f x)) (f x)) (\<lambda>_. t x)) (\<lambda>_. history E w) (\<lambda>_. history E w) u'"
      by (intro hist.write_and_tail [OF i that(2)] tail) (simp_all add: unput_def)
  next
    fix e u'
    assume "a x u = (Inl e, u')"
    with keeps_run [OF mid] that(1) have "unput E w u'" by (blast intro: un.rel_trans)
    then show "history E w u'" by (simp add: unput_def)
  qed
  moreover have "wp m (\<lambda>x u. unput E w u \<and> successor i (f x)) (\<lambda>_ u. unput E w u) v"
    using m w by (simp add: follows_def)
  ultimately show ?thesis
    unfolding wp_bind [of m] by (elim wp_mono) (simp_all add: unput_def)
qed

end
