(* ===== verification/Outcomes.thy ===== *)
theory Outcomes
  imports Lifecycle
begin

text \<open>
  The operations that end a payment keep the \<open>history\<close> relation: provider outcomes,
  execution with its rollback, reconciliation, the handoffs, the dispatch of every request
  and the persisted handlers.
\<close>

section \<open>Completion\<close>

lemma follows_settle: "follows E w i fst (settle_outcome E i out)"
proof -
  have j: "successor i (i\<lparr>in_provider_reference := r\<rparr>)" "successor i (i\<lparr>in_last_error := r\<rparr>)" for r
    by (rule successor_fields [OF successor_refl])+
  show ?thesis
  proof (cases out)
    case (OutApproved r)
    show ?thesis
      unfolding settle_outcome_def OutApproved provider_outcome.case
      by (intro follows_then [OF follows_transition [OF j(1)]]
          follows_then [OF follows_receipt] follows_bind [OF keeps_unput_settled] follows_ret)
        simp_all
  next
    case (OutDeclined r)
    show ?thesis
      unfolding settle_outcome_def OutDeclined provider_outcome.case
      by (intro follows_then [OF follows_transition [OF j(2)]]
          follows_bind [OF keeps_unput_ledger] follows_ret) simp_all
  next
    case (OutPending r)
    show ?thesis
      unfolding settle_outcome_def OutPending provider_outcome.case
      by (intro follows_then [OF follows_transition [OF j(1)]] follows_ret) simp_all
  next
    case (OutUnknown r)
    show ?thesis
      unfolding settle_outcome_def OutUnknown provider_outcome.case
      by (intro follows_then [OF follows_transition [OF j(2)]] follows_ret) simp_all
  qed
qed

lemma unput_refl: "unput E w w"
  by (rule un.rel_refl)

lemma executing_agent_Inr: "intent_for_agent s aid k = Inr i \<Longrightarrow> bget (intents s) k = Some i"
  by (auto simp: intent_for_agent_def rbind_Inr_iff ok_or_def split: option.splits if_splits)

lemma stored_intent_Inr: "stored_intent s k = Inr i \<Longrightarrow> bget (intents s) k = Some i"
  by (auto simp: stored_intent_def ok_or_def split: option.splits)

text \<open>An outcome takes the executing intent to one of four states.\<close>

lemma settle_outcome_states:
  "in_state i = Executing \<Longrightarrow> wp (settle_outcome E i out)
     (\<lambda>x v. in_state (fst x) \<in> {Settled, Declined, ProviderPending, Unknown}
        \<and> in_id (fst x) = in_id i) (\<lambda>_ _. True) w"
  by (cases out) (auto simp: settle_outcome_def wp_simps record_settled_def append_ledger_def Let_def)

lemma keeps_unput_authorize: "keeps (unput E) (provider_authorize E i)"
  unfolding provider_authorize_def
  by (intro un.keeps_basic un.keeps_quiet [OF keeps_same_authorize]
      un.keeps_quiet [OF keeps_same_manual_authorize] keeps_unput_update) simp_all

lemma keeps_history_outcome: "keeps (history E) (apply_provider_outcome E aid k out)"
  unfolding apply_provider_outcome_def case_prod_unfold
proof (rule keeps_of_wp, simp only: wp_head wp_tail, intro conjI allI impI history_refl)
  fix w :: "treasury_state world" and i
  assume "intent_for_agent (w_state w) aid k = Inr i"
  from executing_agent_Inr [OF this]
  show "wp (bind (settle_outcome E i out) (\<lambda>p. bind (audit E aid ''provider_outcome'' (Some k)
      (Some (in_policy_version i)) (Some (outcome_label (in_state (fst p)))) (outcome_details (fst p)))
      (\<lambda>_. bind (put_intent (in_id (fst p)) (fst p)) (\<lambda>_. ret (snd p)))))
    (\<lambda>_. history E w) (\<lambda>_. history E w) w"
    by (intro follows_put [OF follows_settle] hist.keeps_basic un.keeps_audit unput_refl)
qed

lemma keeps_history_complete: "keeps (history E) (complete_intent_execution E a k)"
  unfolding complete_intent_execution_def
  by (intro hist.keeps_basic keeps_history_authorize keeps_history_outcome)

section \<open>Rolling back\<close>

lemma wp_reset: "wp (bind (put_state s) (\<lambda>_. fail e)) Q R w = R e (w\<lparr>w_state := s\<rparr>)"
  by (simp add: wp_simps)

text \<open>
  Relations that hold again once the state is put back to where an operation started: of an
  operation that rolls back, an error needs only the weaker \<open>U\<close>. Nothing is asked of the
  operations' own steps, so the relation may be one that only holds between requests.
\<close>

locale restored_relation = step_relation R
  for R :: "treasury_state world \<Rightarrow> treasury_state world \<Rightarrow> bool" +
  fixes E :: env and C :: codec and U :: "treasury_state world \<Rightarrow> treasury_state world \<Rightarrow> bool"
  assumes calm: "same_state w v \<Longrightarrow> R w v"
    and restore: "U w v \<Longrightarrow> R w (v\<lparr>w_state := w_state w\<rparr>)"
    and relax: "R w v \<Longrightarrow> U w v"
    and saves: "keeps R (save_to E C)"
begin

lemma undo:
  assumes "wp m Q (\<lambda>_. U w) v"
    and "\<And>x u. Q x u \<Longrightarrow> wp (f x) (\<lambda>_. R w) (\<lambda>_. R w) u"
  shows "wp (bind (attempt m) (\<lambda>r. case r of
        Inl e \<Rightarrow> bind (put_state (w_state w)) (\<lambda>_. fail e) | Inr x \<Rightarrow> f x))
      (\<lambda>_. R w) (\<lambda>_. R w) v"
  using assms(1) unfolding wp_bind wp_attempt
  by (elim wp_mono) (simp_all add: wp_simps assms(2) restore)

lemma rolled_back:
  "wp m Q (\<lambda>_. U w) v \<Longrightarrow> wp (rollback (w_state w) m) Q (\<lambda>_. R w) v"
  unfolding rollback_def wp_bind wp_attempt
  by (elim wp_mono) (simp_all add: wp_simps restore)

lemma rollback_then:
  assumes "wp m Q (\<lambda>_. U w) v" and "\<And>x u. Q x u \<Longrightarrow> wp (f x) (\<lambda>_. R w) (\<lambda>_. R w) u"
  shows "wp (bind (rollback (w_state w) m) f) (\<lambda>_. R w) (\<lambda>_. R w) v"
  unfolding wp_bind by (rule wp_mono [OF rolled_back [OF assms(1)]]) (simp_all add: assms(2))

lemma after:
  assumes "R w v" and "keeps R m"
  shows "wp m (\<lambda>_. R w) (\<lambda>_. R w) v"
proof (rule wpI)
  fix x t
  assume "m v = (Inr x, t)"
  with assms(2) have "R v t" by (rule keeps_run)
  with assms(1) show "R w t" by (rule rel_trans)
next
  fix e t
  assume "m v = (Inl e, t)"
  with assms(2) have "R v t" by (rule keeps_run)
  with assms(1) show "R w t" by (rule rel_trans)
qed

lemma weak: "wp m Q (\<lambda>_. R w) v \<Longrightarrow> wp m Q (\<lambda>_. U w) v"
  by (erule wp_mono) (simp_all add: relax)

lemma keeps_reconcile:
  "(\<And>w. wp (owner_reconcile_inner E k outcome r) (\<lambda>_. R w) (\<lambda>_. U w) w) \<Longrightarrow>
     keeps R (owner_reconcile E a k outcome r)"
  unfolding owner_reconcile_def
  by (rule keeps_of_wp, simp only: wp_head_state wp_head_lift wp_head_ret wp_basic,
      intro conjI allI impI rel_refl undo) (simp_all add: wp_basic)

text \<open>The persisted change of one request: saved, or put back.\<close>

lemma change_rule:
  assumes "wp (handle E token r) (\<lambda>_. R w) (\<lambda>_. R w) w"
  shows "wp (change_persisted E C token r) (\<lambda>_. R w) (\<lambda>_. R w) w"
proof -
  have undone: "wp (bind (rollback (w_state w) (save_to E C)) (\<lambda>_. m)) (\<lambda>_. R w) (\<lambda>_. R w) u"
    if "R w u" and "keeps R m" for u :: "treasury_state world" and m :: "json top"
    by (rule rollback_then [OF weak [OF after [OF that(1) saves]]]) (blast intro: after that(2))
  show ?thesis
    unfolding change_persisted_def wp_head_state wp_bind [of "attempt _"] wp_attempt
  proof (rule wp_mono [OF assms], goal_cases)
    case (1 x u)
    then show ?case
      unfolding wp_head_state sum.case by (auto simp: wp_basic intro!: undone keeps_rules)
  next
    case (2 e u)
    then show ?case
      unfolding wp_head_state sum.case
      by (auto simp: wp_reset intro!: undone keeps_rules restore relax)
  qed
qed

lemma keeps_change: "keeps R (handle E token r) \<Longrightarrow> keeps R (change_persisted E C token r)"
  by (rule keeps_of_wp) (rule change_rule [OF after [OF rel_refl]])

text \<open>
  Execution: \<open>Q\<close> is what a successful preparation establishes, and what completing the
  payment and quarantining a failed completion start from.
\<close>

lemma execute_rule:
  assumes "\<And>a. wp (prepare_intent_execution E a k) (\<lambda>_. Q) (\<lambda>_. U w) w"
    and "\<And>a u. Q u \<Longrightarrow> wp (complete_intent_execution E a k) (\<lambda>_. R w) (\<lambda>_. R w) u"
    and "\<And>reason. keeps R (quarantine_execution E k reason)"
  shows "wp (execute_intent E a k) (\<lambda>_. R w) (\<lambda>_. R w) w"
proof -
  have finish: "wp (bind (attempt (complete_intent_execution E a k)) (\<lambda>completed.
      case completed of Inl e \<Rightarrow> bind (quarantine_execution E k (error_text e)) (\<lambda>_. fail e)
      | Inr v \<Rightarrow> ret v)) (\<lambda>_. R w) (\<lambda>_. R w) u" if "Q u" for a u
    unfolding wp_bind [of "attempt _"] wp_attempt
    by (rule wp_mono [OF assms(2) [OF that]])
      (simp_all add: wp_basic after keeps_bind [OF assms(3)] keeps_fail)
  show ?thesis
    unfolding execute_intent_def wp_head_state
    by (auto simp: wp_basic rel_refl intro!: undo [OF assms(1)] finish)
qed

lemma execute_persisted_rule:
  assumes "\<And>a u. same_state w u \<Longrightarrow>
      wp (prepare_intent_execution E a k) (\<lambda>_. Q) (\<lambda>_. U w) u"
    and "\<And>a u. Q u \<Longrightarrow> wp (complete_intent_execution E a k) (\<lambda>_. R w) (\<lambda>_. R w) u"
    and "\<And>reason. keeps R (quarantine_execution E k reason)"
    and saved: "\<And>u. Q u \<Longrightarrow> wp (save_to E C) (\<lambda>_. Q) (\<lambda>_. R w) u"
  shows "wp (execute_persisted E C token k) (\<lambda>_. R w) (\<lambda>_. R w) w"
proof -
  have finish: "wp (bind (attempt (complete_intent_execution E a k)) (\<lambda>completed. case completed of
        Inl e \<Rightarrow> bind (quarantine_execution E k (error_text e)) (\<lambda>_. bind (save_to E C) (\<lambda>_. fail e))
      | Inr v \<Rightarrow> bind (save_to E C) (\<lambda>_. ret v))) (\<lambda>_. R w) (\<lambda>_. R w) u" if "Q u" for a u
    unfolding wp_bind [of "attempt _"] wp_attempt
    by (rule wp_mono [OF assms(2) [OF that]])
      (auto intro!: after keeps_bind [OF saves] keeps_bind [OF assms(3)] keeps_fail keeps_ret)
  have quiet_auth: "R w u" if "same_state w u" for u
    by (rule calm [OF that])
  show ?thesis
    unfolding execute_persisted_def wp_head_state wp_tail_if wp_bind [of "authenticate E token"]
    by (intro conjI impI wp_quiet [OF keeps_same_auth(1)] quiet_auth
        rollback_then [OF assms(1)] rollback_then [OF weak [OF saved]] finish)
      (simp_all add: wp_basic rel_refl)
qed

end

text \<open>A relation that every step of the operations keeps is one of them.\<close>

locale rollback_relation = treasury_relation R E
  for R :: "treasury_state world \<Rightarrow> treasury_state world \<Rightarrow> bool" and E :: env +
  fixes C :: codec and U :: "treasury_state world \<Rightarrow> treasury_state world \<Rightarrow> bool"
  assumes reset_rel: "U w v \<Longrightarrow> R w (v\<lparr>w_state := w_state w\<rparr>)"
    and weaker: "R w v \<Longrightarrow> U w v"
    and keeps_save: "keeps R (save_to E C)"
begin

lemma restored: "restored_relation R E C U"
  by unfold_locales (simp_all add: quiet reset_rel weaker keeps_save)

end

sublocale rollback_relation \<subseteq> restored_relation R E C U
  by (rule restored)

lemma history_memory: "same_memory v w \<Longrightarrow> history E v w"
  by (rule history_books) (simp_all add: same_memory_def same_oracles_def)

interpretation hist: rollback_relation "history E" E C "history E" for E C
proof
  show "keeps (history E) (save_to E C)"
    by (rule save_keeps) (rule history_memory)
  show "history E w (v\<lparr>w_state := w_state w\<rparr>)" if "history E w v" for w v
    using that by (intro history_books) (simp_all add: history_def same_oracles_def)
qed simp

lemma keeps_history_execute: "keeps (history E) (execute_intent E a k)"
  by (rule keeps_of_wp)
    (rule hist.execute_rule [OF hist.after [OF history_refl keeps_history_prepare]
        hist.after [OF _ keeps_history_complete] hist.keeps_quarantine])

lemma keeps_history_handoff: "keeps (history E) (owner_begin_manual_handoff E a k)"
  unfolding owner_begin_manual_handoff_def by (intro hist.keeps_basic keeps_history_prepare)

section \<open>Reconciliation\<close>

lemma follows_end:
  assumes "follows E w i f m" and "unput E w v"
    and "\<And>x u. unput E w u \<Longrightarrow> successor i (f x) \<Longrightarrow> wp (t x) (\<lambda>_. history E w) (\<lambda>_. history E w) u"
  shows "wp (bind m t) (\<lambda>_. history E w) (\<lambda>_. history E w) v"
proof -
  have "wp m (\<lambda>x u. unput E w u \<and> successor i (f x)) (\<lambda>_ u. unput E w u) v"
    using assms(1,2) by (simp add: follows_def)
  then show ?thesis
    unfolding wp_bind by (elim wp_mono) (simp_all add: assms(3) unput_def)
qed

lemma keeps_same_reconcile: "keeps same_state (reconcile_settled E p i reference)"
  unfolding reconcile_settled_def settle_pending_def Let_def by (intro keeps_same)

lemma keeps_unput_provider: "keeps (unput E) (put_provider p)"
  unfolding put_provider_def by (intro keeps_unput_update) simp

lemma keeps_unput_manual_balance: "keeps (unput E) (put_manual_balance m b)"
  unfolding put_manual_balance_def by (intro keeps_unput_update) simp

lemma keeps_unput_manual_entry: "keeps (unput E) manual_entry"
  unfolding manual_entry_def by (intro un.keeps_basic)

lemmas keeps_unput_parts = un.keeps_basic keeps_unput_provider keeps_unput_manual_balance
  keeps_unput_manual_entry keeps_unput_ledger keeps_unput_settled
  un.keeps_quiet [OF keeps_same_reconcile]

lemma keeps_unput_settle: "keeps (unput E) (settle_simulated E i r)"
  unfolding settle_simulated_def by (intro keeps_unput_parts)

lemma keeps_unput_settle_manual: "keeps (unput E) (settle_manual i r)"
  unfolding settle_manual_def by (intro keeps_unput_parts)

lemma keeps_unput_refund: "keeps (unput E) (refund_simulated i)"
  unfolding refund_simulated_def Let_def by (intro keeps_unput_parts)

lemma keeps_unput_refund_manual: "keeps (unput E) (refund_manual i b)"
  unfolding refund_manual_def by (intro keeps_unput_parts)

lemma follows_mark_settled:
  assumes "successor i j"
  shows "follows E w i (\<lambda>x. x) (mark_settled E j r)"
  unfolding mark_settled_def
  by (intro follows_then [OF follows_transition [OF successor_fields(1) [OF assms]]]
      follows_then [OF follows_receipt] follows_bind [OF keeps_unput_settled] follows_ret)

lemma follows_case_mode:
  "follows E w i f m \<Longrightarrow> follows E w i f n \<Longrightarrow>
     follows E w i f (case md of Simulated \<Rightarrow> m | ManualPrepaidCard \<Rightarrow> n)"
  by (cases md) auto

lemma follows_reconcile:
  assumes "successor i j"
  shows "follows E w i (\<lambda>x. x) (case outcome of
      RecSettled \<Rightarrow> reconcile_as_settled E j r
    | RecDeclined \<Rightarrow> reconcile_as_declined E j
    | RecRefunded \<Rightarrow> reconcile_as_refunded E j was r)"
proof (cases outcome)
  case RecSettled
  show ?thesis
    unfolding RecSettled reconciliation_outcome.case reconcile_as_settled_def
    by (intro follows_get follows_bind follows_mark_settled [OF assms] un.keeps_basic
        keeps_unput_settle keeps_unput_settle_manual)
next
  case RecDeclined
  show ?thesis
    unfolding RecDeclined reconciliation_outcome.case reconcile_as_declined_def
    by (intro follows_get follows_if follows_fail follows_then [OF follows_transition [OF assms]]
        follows_bind [OF keeps_unput_ledger] follows_ret follows_bind [OF un.keeps_if]
        keeps_unput_parts)
next
  case RecRefunded
  have paid: "follows E w i (\<lambda>x. x) (if in_state j \<noteq> Settled
      then bind (lift r) (\<lambda>x. mark_settled E j x) else ret j)" for r
    by (intro follows_if follows_bind [OF un.keeps_lift] follows_mark_settled [OF assms]
        follows_ret assms)
  have refund: "keeps (unput E) (case md of Simulated \<Rightarrow> refund_simulated x
      | ManualPrepaidCard \<Rightarrow> refund_manual x b)" for md x b
    by (intro un.keeps_basic keeps_unput_refund keeps_unput_refund_manual)
  show ?thesis
    unfolding RecRefunded reconciliation_outcome.case reconcile_as_refunded_def
    by (intro follows_then [OF paid] follows_get follows_bind [OF refund]
        follows_then [OF follows_transition] follows_bind [OF keeps_unput_ledger] follows_ret)
qed

lemma keeps_history_reconcile_inner: "keeps (history E) (owner_reconcile_inner E k outcome r)"
proof -
  have stored: "keeps (history E) (bind get_state (\<lambda>s. bind (lift (stored_intent s k)) (\<lambda>i0.
      if b i0 then fail (e i0) else
      bind (if c i0 then transition i0 ReconciliationRequired else ret i0) (\<lambda>i1.
      bind (case outcome of
          RecSettled \<Rightarrow> reconcile_as_settled E i1 r
        | RecDeclined \<Rightarrow> reconcile_as_declined E i1
        | RecRefunded \<Rightarrow> reconcile_as_refunded E i1 (d i0) r) (\<lambda>i.
      bind (put_intent (in_id i) i) (\<lambda>_. bind (audit E who act iid (pv i) dec (det i)) (\<lambda>_.
      ret (g i))))))))"
    for b c d who act iid pv dec det r and e :: "purchase_intent \<Rightarrow> treasury_error"
      and g :: "purchase_intent \<Rightarrow> json"
  proof (rule keeps_of_wp, simp only: wp_head_state wp_head_lift wp_tail,
      intro conjI allI impI history_refl)
    fix w :: "treasury_state world" and i0
    assume "stored_intent (w_state w) k = Inr i0"
    from stored_intent_Inr [OF this] have i: "bget (intents (w_state w)) k = Some i0" .
    have start: "follows E w i0 (\<lambda>x. x)
        (if c i0 then transition i0 ReconciliationRequired else ret i0)"
      by (intro follows_if follows_transition follows_ret successor_refl)
    have finish: "wp (bind (put_intent (in_id j) j) (\<lambda>_. bind (audit E who act iid (pv j) dec (det j))
        (\<lambda>_. ret (g j)))) (\<lambda>_. history E w) (\<lambda>_. history E w) u"
      if "unput E w u" and "successor i0 j" for u j
      using that(1) by (intro hist.write_and_tail [OF i that(2)] hist.keeps_basic) (simp_all add: unput_def)
    show "wp (bind (if c i0 then transition i0 ReconciliationRequired else ret i0) (\<lambda>i1.
        bind (case outcome of
            RecSettled \<Rightarrow> reconcile_as_settled E i1 r
          | RecDeclined \<Rightarrow> reconcile_as_declined E i1
          | RecRefunded \<Rightarrow> reconcile_as_refunded E i1 (d i0) r) (\<lambda>i.
        bind (put_intent (in_id i) i) (\<lambda>_. bind (audit E who act iid (pv i) dec (det i)) (\<lambda>_.
        ret (g i)))))) (\<lambda>_. history E w) (\<lambda>_. history E w) w"
      by (intro follows_end [OF start unput_refl] follows_end [OF follows_reconcile] finish)
  qed
  show ?thesis
    unfolding owner_reconcile_inner_def Let_def
    by (intro hist.keeps_basic stored)
qed

lemma keeps_history_reconcile: "keeps (history E) (owner_reconcile E a k outcome r)"
  by (rule hist.keeps_reconcile) (rule hist.after [OF history_refl keeps_history_reconcile_inner])

section \<open>Every request\<close>

text \<open>Owner requests under an agent's capability stop at their first check.\<close>

lemma dispatch_refused:
  "requires_owner r \<Longrightarrow> dispatch E (AgentActor k) r w =
    (Inl (Forbidden ''this operation is owner-only and is never exposed to agents''), w)"
  by (cases r) (simp_all add: requires_owner_def require_owner_def run_bind
      owner_create_agent_def owner_update_policy_def owner_set_agent_mode_def owner_revoke_agent_def
      owner_rotate_agent_capability_def owner_emergency_stop_def owner_approve_def owner_deny_def
      owner_begin_manual_handoff_def owner_complete_manual_handoff_def owner_approve_merchant_def
      owner_reconcile_def owner_record_deposit_def owner_arm_agent_session_def
      owner_configure_manual_provider_def owner_configure_receive_def owner_list_audit_def
      owner_list_audit_recent_def owner_list_audit_page_def owner_list_transactions_page_def
      owner_get_dashboard_def)

lemma keeps_history_dispatch: "keeps (history E) (dispatch E a r)"
  by (cases r; simp only: dispatch.simps;
      intro hist.keeps_views hist.keeps_admin keeps_history_create keeps_history_execute
        hist.keeps_cancel hist.keeps_decisions keeps_history_handoff
        keeps_history_reconcile keeps_history_deposit)

lemma keeps_history_handle: "keeps (history E) (handle E token r)"
  unfolding handle_def by (intro hist.keeps_basic hist.keeps_views keeps_history_dispatch)

lemma keeps_history_execute_persisted: "keeps (history E) (execute_persisted E C token k)"
proof (rule keeps_of_wp)
  fix w :: "treasury_state world"
  have start: "history E w u" if "same_state w u" for u
    by (rule history_calm [OF that])
  show "wp (execute_persisted E C token k) (\<lambda>_. history E w) (\<lambda>_. history E w) w"
    by (rule hist.execute_persisted_rule [where Q = "history E w"])
      (blast intro: hist.after start keeps_history_prepare keeps_history_complete
        hist.keeps_quarantine hist.keeps_save)+
qed

lemma keeps_history_persisted: "keeps (history E) (handle_persisted E C token r)"
  by (cases r; simp only: handle_persisted_def request.case;
      intro hist.keeps_fail keeps_history_execute_persisted
        hist.keeps_change keeps_history_handle)

text \<open>The broker serving one persisted request after the other.\<close>

fun serve :: "env \<Rightarrow> codec \<Rightarrow> (string \<times> request) list \<Rightarrow> treasury_state world \<Rightarrow> treasury_state world" where
  "serve E C [] w = w"
| "serve E C ((token, r) # rs) w = serve E C rs (snd (handle_persisted E C token r w))"

lemma serve_history: "history E w (serve E C rs w)"
proof (induction rs arbitrary: w)
  case (Cons q rs)
  obtain token r where q: "q = (token, r)" by (cases q)
  from keepsD [OF keeps_history_persisted] Cons.IH show ?case
    unfolding q serve.simps by (rule history_trans)
qed (simp add: history_refl)

text \<open>A read-only request touches neither the state nor the files.\<close>

lemma keeps_same_read:
  assumes "is_read_only r"
  shows "keeps same_state (handle E token r)"
proof -
  have "keeps same_state (dispatch E a r)" for a
    using assms by (cases r) (simp_all add: is_read_only_def keeps_same_views)
  then show ?thesis unfolding handle_def by (intro same.keeps_bind keeps_same_auth)
qed

end
