(* ===== verification/Solvency.thy ===== *)
theory Solvency
  imports Outcomes
begin

text \<open>
  No operation makes the treasury's authority negative: what the owner granted, plus
  top-ups and refunds, always covers what is spent and what is held.
\<close>

section \<open>The invariant\<close>

definition solvent :: "treasury_state \<Rightarrow> bool" where
  "solvent s \<longleftrightarrow> (\<forall>cur. 0 \<le> authority cur s)
     \<and> bm.well_keyed in_id (intents s)
     \<and> (\<forall>k i. bget (intents s) k = Some i \<longrightarrow> 0 \<le> minor (final_total (in_request i)))
     \<and> (\<forall>k c. bget (sp_charges (provider s)) k = Some c \<longrightarrow> 0 \<le> minor (ch_amount c))
     \<and> (\<forall>k m. bget (sp_holds (provider s)) k = Some m \<longrightarrow> 0 \<le> minor m)"

definition keeps_solvent :: "treasury_state world \<Rightarrow> treasury_state world \<Rightarrow> bool" where
  "keeps_solvent v w \<longleftrightarrow> (solvent (w_state v) \<longrightarrow> solvent (w_state w))"

text \<open>The next state of an intent that holds no more than before.\<close>

definition lighter :: "purchase_intent \<Rightarrow> purchase_intent \<Rightarrow> bool" where
  "lighter i j \<longleftrightarrow> in_id j = in_id i \<and> in_request j = in_request i
     \<and> (holds_funds (in_state j) \<longrightarrow> holds_funds (in_state i))"

lemma solvent_cong:
  "intents t = intents s \<Longrightarrow> ledger t = ledger s \<Longrightarrow> provider t = provider s \<Longrightarrow>
     solvent t = solvent s"
  by (simp add: solvent_def authority_def held_total_def)

lemma held_amount_lighter:
  "lighter i j \<Longrightarrow> 0 \<le> minor (final_total (in_request i)) \<Longrightarrow> held_amount cur j \<le> held_amount cur i"
  by (auto simp: lighter_def held_amount_def)

lemma authority_put:
  "authority cur (s\<lparr>intents := bput k j (intents s)\<rparr>) =
     authority cur s + (case bget (intents s) k of None \<Rightarrow> 0 | Some i \<Rightarrow> held_amount cur i)
     - held_amount cur j"
  by (simp add: authority_def held_total_put)

lemma solvent_put:
  assumes s: "solvent s" and i: "bget (intents s) k = Some i" and ij: "lighter i j"
    and l: "l = in_id j \<or> l = k"
  shows "solvent (s\<lparr>intents := bput l j (intents s)\<rparr>)"
proof -
  have "in_id i = k" using s i by (auto simp: solvent_def dest: bm.well_keyedD)
  with ij l have lk: "l = k" "in_id j = k" by (auto simp: lighter_def)
  have "0 \<le> minor (final_total (in_request i))" using s i by (simp add: solvent_def)
  from held_amount_lighter [OF ij this] i s
  have "0 \<le> authority cur (s\<lparr>intents := bput k j (intents s)\<rparr>)" for cur
    unfolding solvent_def authority_put by (auto intro: add_increasing)
  with i s ij lk show ?thesis
    by (auto simp: solvent_def lighter_def bm.well_keyed_put)
qed

interpretation sol: treasury_relation keeps_solvent E for E
proof
  show "same_state v w \<Longrightarrow> keeps_solvent v w" for v w
    by (simp add: keeps_solvent_def same_state_def)
  show "keeps_solvent w (w\<lparr>w_state := audited (w_state w) (new_entry E (w_key w)
      (audit_log (w_state w)) at who action iid pv dec det)\<rparr>)" for w at who action iid pv dec det
    using solvent_cong [of "audited (w_state w) e" "w_state w" for e] by (simp add: keeps_solvent_def)
  show "same_books (w_state w) s \<Longrightarrow> keeps_solvent w (w\<lparr>w_state := s\<rparr>)" for w s
    using solvent_cong [of s "w_state w"] by (simp add: keeps_solvent_def same_books_def)
qed (auto simp: keeps_solvent_def)

interpretation sol: rollback_relation keeps_solvent E C "\<lambda>_ _. True" for E C
  by unfold_locales (auto simp: keeps_solvent_def same_memory_def intro: save_keeps)

interpretation sol: intent_relation keeps_solvent E lighter for E
proof
  show "bget (intents (w_state w)) k = Some i \<Longrightarrow> lighter i j \<Longrightarrow> l = in_id j \<or> l = k \<Longrightarrow>
      keeps_solvent w (with_intent l j w)" for w k i j l
    using solvent_put by (auto simp: keeps_solvent_def with_intent_def)
  show "can_transition (in_state i) n \<Longrightarrow> n \<noteq> FundsReserved \<Longrightarrow>
      lighter i (i\<lparr>in_state := n, in_updated_at := at\<rparr>)" for i n at
    using into_holding by (auto simp: lighter_def)
qed (simp_all add: lighter_def)

section \<open>Filing and preparing\<close>

lemma solvent_file:
  assumes "solvent s" and "\<not> holds_funds (in_state j)" and "0 \<le> minor (final_total (in_request j))"
  shows "solvent (s\<lparr>intents := bput (in_id j) j (intents s)\<rparr>)"
proof -
  have "0 \<le> (case bget (intents s) (in_id j) of None \<Rightarrow> 0 | Some i \<Rightarrow> held_amount cur i)" for cur
    using assms(1) by (auto simp: solvent_def held_amount_def split: option.split)
  then have "0 \<le> authority cur (s\<lparr>intents := bput (in_id j) j (intents s)\<rparr>)" for cur
    using assms by (auto simp: authority_put solvent_def held_amount_def)
  with assms show ?thesis by (auto simp: solvent_def bm.well_keyed_put)
qed

lemma keeps_put_unheld:
  "\<not> holds_funds (in_state j) \<Longrightarrow> 0 \<le> minor (final_total (in_request j)) \<Longrightarrow>
     keeps keeps_solvent (put_intent (in_id j) j)"
  unfolding put_intent_def update_state_def
  by (rule sol.keeps_modify) (simp add: keeps_solvent_def solvent_file)

lemma keeps_solvent_file:
  assumes "0 \<le> minor (final_total r)"
  shows "keeps keeps_solvent (file_intent E aid agent p r d)"
proof (rule keeps_of_wp)
  fix w
  have chk: "can_transition Draft Proposed" "can_transition Proposed Failed"
    "can_transition Proposed ApprovalRequired" "can_transition Proposed PolicyValidated"
    by (simp_all add: can_transition_into)
  have tail: "wp (bind (audit E who act iid pv dec det) (\<lambda>_. bind (put_intent k j) (\<lambda>_. ret x)))
      (\<lambda>_. keeps_solvent w) (\<lambda>_. keeps_solvent w) u"
    if "w_state u = w_state w" and "in_id j = k" "\<not> holds_funds (in_state j)" "in_request j = r"
    for j :: purchase_intent and k who act iid pv dec det u and x :: json
  proof -
    have "keeps keeps_solvent (put_intent k j)"
      using keeps_put_unheld [of j] that assms by simp
    then have "keeps keeps_solvent (bind (audit E who act iid pv dec det) (\<lambda>_. bind (put_intent k j) (\<lambda>_. ret x)))"
      by (intro sol.keeps_basic)
    from sol.after [OF _ this] that(1) show ?thesis by (simp add: keeps_solvent_def)
  qed
  show "wp (file_intent E aid agent p r d) (\<lambda>_. keeps_solvent w) (\<lambda>_. keeps_solvent w) w"
    unfolding file_intent_def draft_intent_def
    by (simp add: wp_bind [of "new_id _ _"] wp_bind [of now] wp_new_intent_id wp_now wp_head
        wp_head_if chk) (simp add: tail holds_funds_def)
qed

lemma keeps_solvent_lift:
  assumes "\<And>x. r = Inr x \<Longrightarrow> keeps keeps_solvent (f x)"
  shows "keeps keeps_solvent (bind (lift r) f)"
proof (cases r)
  case (Inl e)
  then have "bind (lift r) f = fail e" by (simp add: fun_eq_iff run_bind)
  then show ?thesis by (simp only: sol.keeps_fail)
next
  case (Inr x)
  then have "bind (lift r) f = f x" by (simp add: fun_eq_iff run_bind)
  with assms Inr show ?thesis by simp
qed

lemma evaluate_positive:
  "evaluate E p r u mode known stopped at = Inr d \<Longrightarrow> 0 \<le> minor (final_total r)"
  using request_total_positive by (auto simp: evaluate_def rbind_Inr_iff intro: less_imp_le)

lemma keeps_solvent_create: "keeps keeps_solvent (create_intent E a r)"
proof -
  have d: "keeps keeps_solvent (decide_and_file E aid agent p req usage)" for aid agent p req usage
    unfolding decide_and_file_def
    by (intro keeps_solvent_lift sol.keeps_basic sol.keeps_views keeps_solvent_file)
      (erule evaluate_positive)
  show ?thesis
    unfolding create_intent_def by (intro sol.keeps_basic sol.keeps_views sol.keeps_admin d)
qed

section \<open>Reserving\<close>

text \<open>The state after a reservation: the hold in the ledger, the audit entry, the intent executing.\<close>

definition reserved_state ::
  "treasury_state \<Rightarrow> purchase_intent \<Rightarrow> ledger_event \<Rightarrow> audit_entry \<Rightarrow> int \<Rightarrow> treasury_state" where
  "reserved_state s i e entry at =
     (audited (s\<lparr>ledger := ledger s @ [e]\<rparr>) entry)
       \<lparr>intents := bput (in_id i) (i\<lparr>in_state := Executing, in_updated_at := at\<rparr>) (intents s)\<rparr>"

definition hold_event :: "purchase_intent \<Rightarrow> ledger_event \<Rightarrow> bool" where
  "hold_event i e \<longleftrightarrow> le_kind e = HoldReserved \<and> le_amount e = final_total (in_request i)
     \<and> le_intent_id e = Some (in_id i)"

definition reserved_from ::
  "treasury_state world \<Rightarrow> purchase_intent \<Rightarrow> treasury_state world \<Rightarrow> bool" where
  "reserved_from w i v \<longleftrightarrow> (\<exists>e entry at.
     w_state v = reserved_state (w_state w) i e entry at
     \<and> hold_event i e \<and> au_action entry = ''reserve_funds'')"

lemma reserved_fromI:
  "w_state v = (audited (s\<lparr>ledger := ledger s @ [e]\<rparr>) entry)
     \<lparr>intents := bput (in_id i) (i\<lparr>in_state := Executing, in_updated_at := at\<rparr>) (intents s)\<rparr> \<Longrightarrow>
   s = w_state w \<Longrightarrow> hold_event i e \<Longrightarrow> au_action entry = ''reserve_funds'' \<Longrightarrow> reserved_from w i v"
  unfolding reserved_from_def reserved_state_def by blast

lemma reserve_wp:
  "wp (reserve_and_start E aid k p i) (\<lambda>_. reserved_from w i)
     (\<lambda>_ v. intents (w_state v) = intents (w_state w) \<and> provider (w_state v) = provider (w_state w)
        \<and> (\<forall>cur. authority cur (w_state v) = authority cur (w_state w))) w"
proof -
  have "wp (reserve_and_start E aid k p i) (\<lambda>_. reserved_from w i) (\<lambda>_ _. True) w"
    unfolding reserve_and_start_def append_ledger_def
    by (simp add: wp_simps) (intro impI, rule reserved_fromI, simp, rule refl, simp_all add: hold_event_def)
  moreover have "wp (reserve_and_start E aid k p i) (\<lambda>_ _. True)
     (\<lambda>_ v. intents (w_state v) = intents (w_state w) \<and> provider (w_state v) = provider (w_state w)
        \<and> (\<forall>cur. authority cur (w_state v) = authority cur (w_state w))) w"
    unfolding reserve_and_start_def append_ledger_def
    by (simp add: wp_simps authority_def held_total_def)
  ultimately show ?thesis by (rule wp_mono [OF wp_conj]) simp_all
qed

lemma executing_authority:
  assumes "bget (intents s) (in_id i) = Some i" and "\<not> holds_funds (in_state i)" and "hold_event i e"
  shows "authority cur (reserved_state s i e entry at) =
    authority cur s
      - (if currency (final_total (in_request i)) = cur then minor (final_total (in_request i)) else 0)"
  using assms
  by (simp add: reserved_state_def authority_def held_total_def sum_bvals_bput held_amount_def
      holds_funds_def hold_event_def)

lemma solvent_reserved:
  assumes "solvent s" and i: "bget (intents s) k = Some i" and "\<not> holds_funds (in_state i)"
    and "hold_event i e"
    and "minor (final_total (in_request i)) \<le> authority (currency (final_total (in_request i))) s"
  shows "solvent (reserved_state s i e entry at)"
proof -
  have "in_id i = k" using assms(1) i by (auto simp: solvent_def dest: bm.well_keyedD)
  with i have "0 \<le> authority cur (reserved_state s i e entry at)" for cur
    using assms executing_authority [of s i e cur entry at] by (auto simp: solvent_def)
  then show ?thesis
    using assms by (auto simp: solvent_def reserved_state_def bm.well_keyed_put)
qed

section \<open>Settling\<close>

text \<open>
  \<open>balanced w i v j\<close>: on the way from \<open>w\<close> to \<open>v\<close> the ledger has lost no more than what
  replacing the stored intent \<open>i\<close> by \<open>j\<close> will release.
\<close>

definition amounts_nonneg :: "simulated_provider \<Rightarrow> bool" where
  "amounts_nonneg p \<longleftrightarrow> (\<forall>k c. bget (sp_charges p) k = Some c \<longrightarrow> 0 \<le> minor (ch_amount c))
     \<and> (\<forall>k m. bget (sp_holds p) k = Some m \<longrightarrow> 0 \<le> minor m)"

definition balanced ::
  "treasury_state \<Rightarrow> purchase_intent \<Rightarrow> treasury_state \<Rightarrow> purchase_intent \<Rightarrow> bool" where
  "balanced s i t j \<longleftrightarrow> intents t = intents s \<and> audit_log t = audit_log s
     \<and> generation t = generation s
     \<and> amounts_nonneg (provider t) \<and> in_id j = in_id i \<and> in_request j = in_request i
     \<and> (\<forall>cur. authority cur s - held_amount cur i \<le> authority cur t - held_amount cur j)"

lemma held_amount_fields [simp]:
  "held_amount cur (j\<lparr>in_provider_reference := r\<rparr>) = held_amount cur j"
  "held_amount cur (j\<lparr>in_last_error := e\<rparr>) = held_amount cur j"
  by (simp_all add: held_amount_def)

lemma balanced_refl: "amounts_nonneg (provider s) \<Longrightarrow> balanced s i s i"
  by (simp add: balanced_def)

lemma solvent_amounts: "solvent s \<Longrightarrow> amounts_nonneg (provider s)"
  by (simp add: solvent_def amounts_nonneg_def)

lemma balanced_put:
  assumes s: "solvent s" and i: "bget (intents s) k = Some i" and b: "balanced s i t j"
  shows "solvent (t\<lparr>intents := bput (in_id j) j (intents t)\<rparr>)"
proof -
  have k: "in_id i = k" using s i by (auto simp: solvent_def dest: bm.well_keyedD)
  have "0 \<le> authority cur (t\<lparr>intents := bput (in_id j) j (intents t)\<rparr>)" for cur
  proof -
    have "0 \<le> authority cur s" using s by (simp add: solvent_def)
    moreover have "authority cur s - held_amount cur i \<le> authority cur t - held_amount cur j"
      using b by (simp add: balanced_def)
    moreover have "bget (intents t) (in_id j) = Some i" using b i k by (simp add: balanced_def)
    ultimately show ?thesis unfolding authority_put by simp
  qed
  with s i b k show ?thesis
    by (auto simp: solvent_def balanced_def amounts_nonneg_def bm.well_keyed_put)
qed

lemma authority_ledger:
  "authority cur (s\<lparr>ledger := ledger s @ [e]\<rparr>) = authority cur s
     + (if currency (le_amount e) = cur
        then (case le_kind e of
            OwnerCapital \<Rightarrow> minor (le_amount e) | OperatorTopUp \<Rightarrow> minor (le_amount e)
          | Refund \<Rightarrow> minor (le_amount e) | SpendingSettled \<Rightarrow> - minor (le_amount e) | _ \<Rightarrow> 0)
        else 0)"
  by (cases "le_kind e") (simp_all add: authority_def held_total_def)

lemma append_ledger_wp:
  "wp (append_ledger E kind amount iid source verified)
     (\<lambda>_ v. \<exists>e. w_state v = (w_state w)\<lparr>ledger := ledger (w_state w) @ [e]\<rparr>
        \<and> le_kind e = kind \<and> le_amount e = amount) (\<lambda>_ _. False) w"
  unfolding append_ledger_def by (auto simp: wp_simps)

text \<open>What appending an event of a harmless kind does to a balance.\<close>

definition gains :: "ledger_event_kind \<Rightarrow> bool" where
  "gains k \<longleftrightarrow> k \<noteq> SpendingSettled"

lemma balanced_gain:
  assumes "balanced s i (w_state w) j" and "gains kind" and "0 \<le> minor amount"
  shows "wp (append_ledger E kind amount iid source verified)
    (\<lambda>_ v. balanced s i (w_state v) j) (\<lambda>_ _. False) w"
proof (rule wp_mono [OF append_ledger_wp], elim exE conjE)
  fix v e
  assume v: "w_state v = (w_state w)\<lparr>ledger := ledger (w_state w) @ [e]\<rparr>"
    and e: "le_kind e = kind" "le_amount e = amount"
  have "authority cur (w_state w) \<le> authority cur (w_state v)" for cur
    unfolding v authority_ledger using e assms(2,3) by (cases kind) (auto simp: gains_def)
  with assms(1) v show "balanced s i (w_state v) j"
    unfolding balanced_def by (fastforce intro: order_trans diff_right_mono)
qed

lemma balanced_transition:
  assumes "balanced s i (w_state w) j" and "holds_funds n \<longrightarrow> holds_funds (in_state j)"
    and "0 \<le> minor (final_total (in_request i))"
  shows "wp (transition j n) (\<lambda>x v. balanced s i (w_state v) x \<and> in_state x = n) (\<lambda>_ v. w_state v = w_state w) w"
proof -
  have "held_amount cur (j\<lparr>in_state := n, in_updated_at := at\<rparr>) \<le> held_amount cur j" for cur at
    using assms by (auto simp: held_amount_def balanced_def)
  then have "balanced s i (w_state w) (j\<lparr>in_state := n, in_updated_at := at\<rparr>)" for at
    using assms(1) unfolding balanced_def by (fastforce intro: order_trans diff_left_mono)
  then show ?thesis by (simp add: wp_transition)
qed

text \<open>
  Recording a settlement takes the total once; before it, the intent held that total.
  \<open>slack\<close> is the balance in between, with the total still to be taken.
\<close>

definition due :: "string \<Rightarrow> purchase_intent \<Rightarrow> int" where
  "due cur i = (if currency (final_total (in_request i)) = cur
     then minor (final_total (in_request i)) else 0)"

definition slack :: "treasury_state \<Rightarrow> purchase_intent \<Rightarrow> treasury_state \<Rightarrow> purchase_intent \<Rightarrow> bool" where
  "slack s i t j \<longleftrightarrow> intents t = intents s \<and> audit_log t = audit_log s
     \<and> generation t = generation s
     \<and> amounts_nonneg (provider t) \<and> in_id j = in_id i \<and> in_request j = in_request i
     \<and> in_state j = Settled
     \<and> (\<forall>cur. authority cur s - held_amount cur i \<le> authority cur t - due cur i)"

lemma held_amount_due: "held_amount cur i = (if holds_funds (in_state i) then due cur i else 0)"
  by (simp add: held_amount_def due_def)

lemma due_cong: "in_request j = in_request i \<Longrightarrow> due cur j = due cur i"
  by (simp add: due_def)

lemma due_nonneg: "0 \<le> minor (final_total (in_request i)) \<Longrightarrow> 0 \<le> due cur i"
  by (simp add: due_def)

lemma settled_holds [simp]: "holds_funds Settled = False"
  by (simp add: holds_funds_def)

lemma slack_settle:
  assumes "balanced s i t j" and "holds_funds (in_state j)"
  shows "slack s i t (j\<lparr>in_state := Settled, in_updated_at := at\<rparr>)"
  using assms due_cong [of j i] by (simp add: slack_def balanced_def held_amount_due)

lemma slack_balanced:
  assumes "slack s i t j" and "0 \<le> minor (final_total (in_request i))"
  shows "balanced s i t j"
  using assms(1) due_nonneg [OF assms(2)] unfolding slack_def balanced_def
  by (auto simp: held_amount_due [of _ j] intro: order_trans)

lemma wp_seq:
  "wp m P R' w \<Longrightarrow> (\<And>x u. P x u \<Longrightarrow> wp (f x) Q R u) \<Longrightarrow> (\<And>e u. R' e u \<Longrightarrow> R e u) \<Longrightarrow>
     wp (bind m f) Q R w"
  unfolding wp_bind by (erule wp_mono)

lemma slack_receipt:
  "slack s i (w_state w) j \<Longrightarrow>
     wp (issue_receipt E j) (\<lambda>x v. slack s i (w_state v) x) (\<lambda>_ v. w_state v = w_state w) w"
  by (simp add: wp_issue_receipt Let_def slack_def)

lemma slack_spend:
  assumes "slack s i (w_state w) j"
  shows "wp (append_ledger E SpendingSettled (final_total (in_request j)) iid source verified)
    (\<lambda>_ v. balanced s i (w_state v) j) (\<lambda>_ _. False) w"
proof (rule wp_mono [OF append_ledger_wp], elim exE conjE)
  fix v e
  assume v: "w_state v = (w_state w)\<lparr>ledger := ledger (w_state w) @ [e]\<rparr>"
    and e: "le_kind e = SpendingSettled" "le_amount e = final_total (in_request j)"
  have "authority cur (w_state v) = authority cur (w_state w) - due cur i" for cur
    unfolding v authority_ledger using e assms by (simp add: slack_def due_def)
  with assms v show "balanced s i (w_state v) j"
    by (simp add: slack_def balanced_def held_amount_due [of _ j])
qed

lemma slack_release:
  assumes "slack s i (w_state w) j"
  shows "wp (append_ledger E HoldReleased amount iid source verified)
    (\<lambda>_ v. slack s i (w_state v) j) (\<lambda>_ _. False) w"
proof (rule wp_mono [OF append_ledger_wp], elim exE conjE)
  fix v e
  assume v: "w_state v = (w_state w)\<lparr>ledger := ledger (w_state w) @ [e]\<rparr>" and e: "le_kind e = HoldReleased"
  have "authority cur (w_state v) = authority cur (w_state w)" for cur
    unfolding v authority_ledger using e by simp
  with assms v show "slack s i (w_state v) j"
    by (simp add: slack_def)
qed

lemma settled_balanced:
  assumes sl: "slack s i (w_state w) j" and pos: "0 \<le> minor (final_total (in_request i))"
  shows "wp (record_settled E j) (\<lambda>_ v. balanced s i (w_state v) j) (\<lambda>_ _. False) w"
proof -
  have spend: "wp (bind get_state (\<lambda>s. if has_event s (in_id j) SpendingSettled then ret ()
      else append_ledger E SpendingSettled (final_total (in_request j)) (Some (in_id j))
        (provider_id s) True)) (\<lambda>_ v. balanced s i (w_state v) j) (\<lambda>_ _. False) u"
    if "slack s i (w_state u) j" for u
    using slack_spend [OF that] slack_balanced [OF that pos] by (simp add: wp_head wp_basic)
  show ?thesis
    unfolding record_settled_def wp_head_state wp_head_if wp_head_ret
    using wp_seq [OF slack_release [OF sl] spend] spend [OF sl] by (simp add: wp_head_state)
qed

lemma receipt_and_record:
  assumes "slack s i (w_state w) j" and "0 \<le> minor (final_total (in_request i))"
    and "\<And>x. in_state x = Settled \<Longrightarrow> in_id x = in_id i \<Longrightarrow> in_request x = in_request i \<Longrightarrow> Q x (g x)"
  shows "wp (bind (issue_receipt E j) (\<lambda>x. bind (record_settled E x) (\<lambda>_. ret (g x))))
    (\<lambda>y v. \<exists>x. balanced s i (w_state v) x \<and> Q x y) (\<lambda>_ v. w_state v = w_state w) w"
proof (rule wp_seq [OF slack_receipt [OF assms(1)]])
  fix x and u :: "treasury_state world"
  assume x: "slack s i (w_state u) x"
  then have "Q x (g x)" by (intro assms(3)) (simp_all add: slack_def)
  then show "wp (bind (record_settled E x) (\<lambda>_. ret (g x)))
      (\<lambda>y v. \<exists>x. balanced s i (w_state v) x \<and> Q x y) (\<lambda>_ v. w_state v = w_state w) u"
    by (intro wp_seq [OF settled_balanced [OF x assms(2)]]) (auto simp: wp_basic)
qed

lemma mark_settled_balanced:
  assumes b: "balanced s i (w_state w) j" and h: "holds_funds (in_state j)"
    and pos: "0 \<le> minor (final_total (in_request i))"
  shows "wp (mark_settled E j r) (\<lambda>x v. balanced s i (w_state v) x \<and> in_state x = Settled) (\<lambda>_ _. True) w"
proof -
  have "balanced s i (w_state w) (j\<lparr>in_provider_reference := Some r\<rparr>)"
    using b by (simp add: balanced_def)
  from slack_settle [OF this] h
  have "slack s i (w_state (w\<lparr>w_reads := n\<rparr>))
      (j\<lparr>in_provider_reference := Some r, in_state := Settled, in_updated_at := at\<rparr>)" for n at
    by simp
  then show ?thesis
    unfolding mark_settled_def wp_head_transition
    by (auto intro!: wp_mono [OF receipt_and_record [where Q = "\<lambda>x y. y = x \<and> in_state x = Settled"]] pos)
qed

text \<open>\<open>settle_outcome\<close> from an executing intent; its errors leave the state alone.\<close>

lemma settle_outcome_balanced:
  assumes a: "amounts_nonneg (provider (w_state w))" and i: "in_state i = Executing"
    and pos: "0 \<le> minor (final_total (in_request i))"
  shows "wp (settle_outcome E i out) (\<lambda>x v. balanced (w_state w) i (w_state v) (fst x))
    (\<lambda>_ v. w_state v = w_state w) w"
proof -
  have ct: "can_transition Executing Settled" "can_transition Executing Declined"
    "can_transition Executing ProviderPending" "can_transition Executing Unknown"
    by (simp_all add: can_transition_into)
  have b: "balanced (w_state w) i (w_state w) (i\<lparr>in_provider_reference := r\<rparr>)"
    "balanced (w_state w) i (w_state w) (i\<lparr>in_last_error := r\<rparr>)" for r
    using a by (simp_all add: balanced_def)
  show ?thesis
  proof (cases out)
    case (OutApproved r)
    have "slack (w_state w) i (w_state (w\<lparr>w_reads := n\<rparr>))
        (i\<lparr>in_provider_reference := Some q, in_state := Settled, in_updated_at := at\<rparr>)" for n at q
      using slack_settle [OF b(1)] i by (simp add: holds_funds_def)
    with OutApproved show ?thesis
      by (auto simp: settle_outcome_def wp_head_transition i ct
          intro!: wp_mono [OF receipt_and_record [where Q = "\<lambda>x y. fst y = x"]] pos)
  next
    case (OutDeclined r)
    have "balanced (w_state w) i (w_state (w\<lparr>w_reads := n\<rparr>))
        (i\<lparr>in_last_error := q, in_state := Declined, in_updated_at := at\<rparr>)" for n at q
      using b(2) i due_nonneg [OF pos] by (simp add: balanced_def held_amount_due holds_funds_def due_def)
    with OutDeclined show ?thesis
      by (auto simp: settle_outcome_def wp_head_transition i ct gains_def wp_basic pos
          intro!: wp_seq [OF balanced_gain])
  next
    case (OutPending r)
    then show ?thesis
      using b(1) by (simp add: settle_outcome_def wp_head i ct wp_basic balanced_def held_amount_def holds_funds_def)
  next
    case (OutUnknown r)
    then show ?thesis
      using b(2) by (simp add: settle_outcome_def wp_head i ct wp_basic balanced_def held_amount_def holds_funds_def)
  qed
qed

section \<open>Completing and executing\<close>

text \<open>Room for the audit entry of the outcome: a preparation guarantees it.\<close>

definition ready :: "treasury_state world \<Rightarrow> bool" where
  "ready w \<longleftrightarrow> solvent (w_state w) \<and> \<not> audit_refused (w_state w) ''provider_outcome''
     \<and> generation (w_state w) < u64_max"

lemma authorize_amounts:
  assumes "amounts_nonneg p" and "0 \<le> minor (final_total (in_request i))"
  shows "wp (simulated_authorize E p i) (\<lambda>r v. amounts_nonneg (snd r) \<and> w_state v = w_state w)
    (\<lambda>_ v. w_state v = w_state w) w"
  using assms unfolding simulated_authorize_def Let_def
  by (auto simp: wp_simps amounts_nonneg_def)

lemma solvent_provider:
  "solvent s \<Longrightarrow> amounts_nonneg p \<Longrightarrow> solvent (s\<lparr>provider := p\<rparr>)"
  by (simp add: solvent_def amounts_nonneg_def authority_def held_total_def)

lemma solvent_other [simp]:
  "solvent (s\<lparr>manual_provider := m\<rparr>) = solvent s"
  "solvent (s\<lparr>processed_deposits := d\<rparr>) = solvent s"
  by (rule solvent_cong; simp)+

lemma provider_authorize_ready:
  assumes "ready w" and "0 \<le> minor (final_total (in_request i))"
  shows "wp (provider_authorize E i) (\<lambda>_. ready) (\<lambda>_ v. ready v) w"
proof -
  have sim: "wp (bind (simulated_authorize E (provider (w_state w)) i)
      (\<lambda>(out, p). bind (update_state (\<lambda>s. s\<lparr>provider := p\<rparr>)) (\<lambda>_. ret out))) (\<lambda>_. ready) (\<lambda>_ v. ready v) w"
    using assms solvent_amounts
    by (intro wp_seq [OF authorize_amounts])
      (auto simp: wp_simps ready_def audit_refused_def solvent_provider)
  show ?thesis
    unfolding provider_authorize_def wp_head_state wp_case_mode
  proof (intro conjI impI sim)
    show "wp (bind (lift (ok_or e (manual_provider (w_state w)))) (\<lambda>p. bind (manual_authorize p i)
        (\<lambda>(out, p). bind (update_state (\<lambda>s. s\<lparr>manual_provider := Some p\<rparr>)) (\<lambda>_. ret out))))
      (\<lambda>_. ready) (\<lambda>_ v. ready v) w" for e
      using assms(1) by (auto simp: wp_simps manual_authorize_def ready_def audit_refused_def)
  qed
qed

lemma outcome_solvent:
  assumes "ready w"
  shows "wp (apply_provider_outcome E aid k out) (\<lambda>_ v. solvent (w_state v)) (\<lambda>_ v. solvent (w_state v)) w"
proof -
  have r: "solvent (w_state w)" using assms by (simp add: ready_def)
  have "wp (bind (settle_outcome E i out) (\<lambda>p. bind (audit E aid ''provider_outcome'' (Some k)
      (Some (in_policy_version i)) (Some (outcome_label (in_state (fst p)))) (outcome_details (fst p)))
      (\<lambda>_. bind (put_intent (in_id (fst p)) (fst p)) (\<lambda>_. ret (snd p)))))
    (\<lambda>_ v. solvent (w_state v)) (\<lambda>_ v. solvent (w_state v)) w"
    if "bget (intents (w_state w)) k = Some i" and "in_state i = Executing" for i
  proof (rule wp_seq [OF settle_outcome_balanced])
    show "amounts_nonneg (provider (w_state w))" by (rule solvent_amounts [OF r])
    show "in_state i = Executing" by fact
    show "0 \<le> minor (final_total (in_request i))" using r that(1) by (simp add: solvent_def)
    show "solvent (w_state v)" if "w_state v = w_state w" for v using r that by simp
  next
    fix x and u :: "treasury_state world"
    assume b: "balanced (w_state w) i (w_state u) (fst x)"
    with assms have "\<not> audit_refused (w_state u) ''provider_outcome''" "\<not> u64_max \<le> generation (w_state u)"
      by (simp_all add: ready_def balanced_def audit_refused_def)
    moreover have "solvent ((audited (w_state u) e)\<lparr>intents := bput (in_id (fst x)) (fst x) (intents (w_state u))\<rparr>)"
      for e
      using balanced_put [OF r that(1) b] solvent_cong [of "(audited (w_state u) e)
          \<lparr>intents := bput (in_id (fst x)) (fst x) (intents (w_state u))\<rparr>"
          "(w_state u)\<lparr>intents := bput (in_id (fst x)) (fst x) (intents (w_state u))\<rparr>"]
      by simp
    ultimately show "wp (bind (audit E aid ''provider_outcome'' (Some k)
        (Some (in_policy_version i)) (Some (outcome_label (in_state (fst x)))) (outcome_details (fst x)))
        (\<lambda>_. bind (put_intent (in_id (fst x)) (fst x)) (\<lambda>_. ret (snd x))))
      (\<lambda>_ v. solvent (w_state v)) (\<lambda>_ v. solvent (w_state v)) u"
      by (simp add: wp_simps)
  qed
  then show ?thesis
    unfolding apply_provider_outcome_def case_prod_unfold wp_head_state wp_head_lift
    using r by (simp add: wp_basic wp_tail_if)
qed

lemma complete_solvent:
  assumes "ready w"
  shows "wp (complete_intent_execution E a k) (\<lambda>_ v. solvent (w_state v)) (\<lambda>_ v. solvent (w_state v)) w"
proof -
  have r: "solvent (w_state w)" using assms by (simp add: ready_def)
  have "wp (bind (provider_authorize E i) (apply_provider_outcome E aid k))
      (\<lambda>_ v. solvent (w_state v)) (\<lambda>_ v. solvent (w_state v)) w"
    if "bget (intents (w_state w)) k = Some i" for i aid
  proof (rule wp_seq [OF provider_authorize_ready [OF assms]])
    show "0 \<le> minor (final_total (in_request i))" using r that by (simp add: solvent_def)
  qed (simp_all add: outcome_solvent, simp add: ready_def)
  then show ?thesis
    unfolding complete_intent_execution_def wp_head_state wp_head_lift wp_tail_if
    using r by (simp add: wp_basic)
qed

text \<open>A preparation leaves the treasury solvent and ready for the outcome.\<close>

lemma capacity_ready:
  assumes "require_money_workflow_audit_capacity s 4 = Inr u" and "au_action entry = ''reserve_funds''"
  shows "\<not> audit_refused (reserved_state s i e entry at) ''provider_outcome''"
  using assms
  by (simp add: require_money_workflow_audit_capacity_def money_workflow_capacity_allows_def
      usize_saturating_add_def audit_refused_def audit_capacity_allows_def reserved_state_def
      is_emergency_audit_def is_money_safety_audit_def max_audit_entries_def u64_max_def
      split: if_splits)

lemma cleared_covers:
  "cleared E a k w i agent p u \<Longrightarrow>
     minor (final_total (in_request i)) \<le> authority (currency (final_total (in_request i))) (w_state w)
     \<and> \<not> holds_funds (in_state i) \<and> bget (intents (w_state w)) k = Some i"
  by (auto simp: cleared_def backed_def permits_def within_limits_def holds_funds_def)

lemma prepare_effect:
  assumes s: "solvent (w_state w)"
  shows "wp (prepare_intent_execution E a k)
    (\<lambda>_ v. solvent (w_state v) \<and> \<not> audit_refused (w_state v) ''provider_outcome''
       \<and> generation (w_state v) = generation (w_state w) + 1)
    (\<lambda>_ v. solvent (w_state v)) w"
proof (rule wpI)
  fix x v
  assume "prepare_intent_execution E a k w = (Inr x, v)"
  then have "prepare_intent_execution E a k w = (Inr (), v)" by simp
  from prepare_Inr [OF this] obtain i agent p u t where
    c: "cleared E a k w i agent p u" and t: "same_state w t"
    and r: "reserve_and_start E (in_agent_id i) k p i t = (Inr (), v)" by blast
  from wp_OkD [OF reserve_wp r] t obtain e entry at where
    v: "w_state v = reserved_state (w_state w) i e entry at" and
    e: "hold_event i e" "au_action entry = ''reserve_funds''"
    by (auto simp: reserved_from_def same_state_def)
  have "solvent (w_state v)"
    unfolding v using cleared_covers [OF c] by (intro solvent_reserved [OF s, of k] e(1)) simp_all
  moreover have "\<not> audit_refused (w_state v) ''provider_outcome''"
    unfolding v using c e(2) by (intro capacity_ready) (auto simp: cleared_def)
  ultimately show "solvent (w_state v) \<and> \<not> audit_refused (w_state v) ''provider_outcome''
      \<and> generation (w_state v) = generation (w_state w) + 1"
    by (simp add: v reserved_state_def)
next
  fix e v
  assume m: "prepare_intent_execution E a k w = (Inl e, v)"
  have "wp (prepare_intent_execution E a k) (\<lambda>_ _. True) (\<lambda>_ v. solvent (w_state v)) w"
  proof (rule prepare_rule)
    show "solvent (w_state u)" if "same_state w u" for u
      using that s by (simp add: same_state_def)
    show "wp (reserve_and_start E aid k p i) (\<lambda>_ _. True) (\<lambda>_ v. solvent (w_state v)) u"
      if "same_state w u" for aid p i u
      using that s by (intro wp_mono [OF reserve_wp]) (simp_all add: same_state_def solvent_def)
  qed
  from wp_ErrD [OF this m] show "solvent (w_state v)" .
qed

lemma prepare_ready:
  assumes "solvent (w_state w)" and "generation (w_state w) + 1 < u64_max"
  shows "wp (prepare_intent_execution E a k) (\<lambda>_. ready) (\<lambda>_ v. solvent (w_state v)) w"
  by (rule wp_mono [OF prepare_effect [OF assms(1)]]) (use assms(2) in \<open>simp_all add: ready_def\<close>)

lemma keeps_solvent_prepare: "keeps keeps_solvent (prepare_intent_execution E a k)"
proof (rule keeps_of_wp)
  fix w
  show "wp (prepare_intent_execution E a k) (\<lambda>_. keeps_solvent w) (\<lambda>_. keeps_solvent w) w"
  proof (cases "solvent (w_state w)")
    case True
    show ?thesis by (rule wp_mono [OF prepare_effect [OF True]]) (simp_all add: keeps_solvent_def)
  next
    case False
    then show ?thesis by (intro wpI) (simp_all add: keeps_solvent_def)
  qed
qed

lemma execute_solvent:
  assumes "generation (w_state w) + 1 < u64_max"
  shows "wp (execute_intent E a k) (\<lambda>_. keeps_solvent w) (\<lambda>_. keeps_solvent w) w"
proof (cases "solvent (w_state w)")
  case True
  show ?thesis
    by (rule sol.execute_rule [where Q = ready])
      (auto intro: wp_mono [OF prepare_ready [OF True assms]] wp_mono [OF complete_solvent]
        sol.keeps_quarantine simp: keeps_solvent_def True)
next
  case False
  then show ?thesis by (intro wpI) (simp_all add: keeps_solvent_def)
qed

lemma execute_persisted_solvent:
  assumes "generation (w_state w) + 1 < u64_max"
  shows "wp (execute_persisted E C token k) (\<lambda>_. keeps_solvent w) (\<lambda>_. keeps_solvent w) w"
proof (cases "solvent (w_state w)")
  case True
  have same: "solvent (w_state u) \<and> generation (w_state u) + 1 < u64_max" if "same_state w u" for u
    using that True assms by (simp add: same_state_def)
  show ?thesis
  proof (rule sol.execute_persisted_rule [where Q = ready])
    show "wp (prepare_intent_execution E a k) (\<lambda>_. ready) (\<lambda>_ _. True) u" if "same_state w u" for a u
      using same [OF that] by (intro wp_mono [OF prepare_ready]) simp_all
    show "wp (complete_intent_execution E a k) (\<lambda>_. keeps_solvent w) (\<lambda>_. keeps_solvent w) u"
      if "ready u" for a u
      by (rule wp_mono [OF complete_solvent [OF that]]) (simp_all add: keeps_solvent_def)
    show "wp (save_to E C) (\<lambda>_. ready) (\<lambda>_. keeps_solvent w) u" if "ready u" for u
      by (rule wp_memory [OF keeps_memory_save])
        (use that in \<open>simp_all add: ready_def same_memory_def keeps_solvent_def\<close>)
  qed (rule sol.keeps_quarantine)
next
  case False
  then show ?thesis by (intro wpI) (simp_all add: keeps_solvent_def)
qed

section \<open>Deposits and the handoff\<close>

lemma keeps_solvent_gain:
  assumes "gains kind" and "0 \<le> minor amount"
  shows "keeps keeps_solvent (append_ledger E kind amount iid source verified)"
proof (rule keeps_of_wp, rule wp_mono [OF append_ledger_wp], elim exE conjE)
  fix w v :: "treasury_state world" and e
  assume v: "w_state v = (w_state w)\<lparr>ledger := ledger (w_state w) @ [e]\<rparr>"
    and e: "le_kind e = kind" "le_amount e = amount"
  have "authority cur (w_state w) \<le> authority cur (w_state v)" for cur
    unfolding v authority_ledger using e assms by (cases kind) (auto simp: gains_def)
  with v show "keeps_solvent w v"
    by (auto simp: keeps_solvent_def solvent_def intro: order_trans)
qed simp

lemma keeps_solvent_update:
  "(\<And>s. solvent s \<Longrightarrow> solvent (f s)) \<Longrightarrow> keeps keeps_solvent (update_state f)"
  unfolding update_state_def by (rule sol.keeps_modify) (simp add: keeps_solvent_def)

lemma keeps_solvent_credit: "keeps keeps_solvent (credit_provider amount)"
proof -
  have put: "keeps keeps_solvent (bind get_state (\<lambda>s. case provider_mode s of
        Simulated \<Rightarrow> bind (lift (checked_add (sp_balance (provider s)) amount)) (\<lambda>m.
          put_provider ((provider s)\<lparr>sp_balance := m,
            sp_incoming_deposits := sp_incoming_deposits (provider s) @ [amount]\<rparr>))
      | ManualPrepaidCard \<Rightarrow> f s))"
    if "\<And>s. keeps keeps_solvent (f s)" for f :: "treasury_state \<Rightarrow> unit top"
  proof (rule keeps_of_wp)
    fix w :: "treasury_state world"
    have m: "wp (f (w_state w)) (\<lambda>_. keeps_solvent w) (\<lambda>_. keeps_solvent w) w"
      by (rule sol.after [OF sol.rel_refl that])
    have p: "solvent (w_state w) \<longrightarrow> solvent ((w_state w)\<lparr>provider := (provider (w_state w))
        \<lparr>sp_balance := b, sp_incoming_deposits := ds\<rparr>\<rparr>)" for b ds
      by (auto intro!: solvent_provider dest: solvent_amounts simp: amounts_nonneg_def)
    show "wp (bind get_state (\<lambda>s. case provider_mode s of
          Simulated \<Rightarrow> bind (lift (checked_add (sp_balance (provider s)) amount)) (\<lambda>m.
            put_provider ((provider s)\<lparr>sp_balance := m,
              sp_incoming_deposits := sp_incoming_deposits (provider s) @ [amount]\<rparr>))
        | ManualPrepaidCard \<Rightarrow> f s)) (\<lambda>_. keeps_solvent w) (\<lambda>_. keeps_solvent w) w"
      using m p by (simp add: wp_simps put_provider_def keeps_solvent_def)
  qed
  show ?thesis
    unfolding credit_provider_def
    by (rule put) (auto simp: manual_entry_def put_manual_balance_def
        intro!: sol.keeps_basic keeps_solvent_update)
qed

lemma keeps_solvent_deposit:
  "keeps keeps_solvent (owner_record_deposit E a amount source verified aid reference)"
proof -
  have "keeps keeps_solvent (file_deposit E amount source verified aid ref fp reinvested)"
    if "0 \<le> minor amount" for source ref fp reinvested
    unfolding file_deposit_def
    by (intro sol.keeps_basic keeps_solvent_credit keeps_solvent_gain keeps_solvent_update)
      (simp_all add: gains_def that)
  then show ?thesis
    unfolding owner_record_deposit_def Let_def
    by (auto intro!: sol.keeps_basic)
qed

lemma keeps_solvent_handoff: "keeps keeps_solvent (owner_begin_manual_handoff E a k)"
  unfolding owner_begin_manual_handoff_def by (intro sol.keeps_basic keeps_solvent_prepare)

section \<open>Reconciliation\<close>

text \<open>What the provider side of a reconciliation may change: the provider's own books.\<close>

definition provider_only :: "treasury_state \<Rightarrow> treasury_state \<Rightarrow> bool" where
  "provider_only s t \<longleftrightarrow> intents t = intents s \<and> ledger t = ledger s \<and> audit_log t = audit_log s
     \<and> generation t = generation s
     \<and> (amounts_nonneg (provider s) \<longrightarrow> amounts_nonneg (provider t))"

lemma authority_provider_only: "provider_only t u \<Longrightarrow> authority cur u = authority cur t"
  by (simp add: provider_only_def authority_def held_total_def)

lemma balanced_provider:
  "balanced s i t j \<Longrightarrow> provider_only t u \<Longrightarrow> balanced s i u j"
  using authority_provider_only [of t u] by (simp add: balanced_def provider_only_def)

lemma wp_put_provider:
  "wp (put_provider p) Q R w = Q () (w\<lparr>w_state := (w_state w)\<lparr>provider := p\<rparr>\<rparr>)"
  by (simp add: put_provider_def wp_simps)

lemma reconcile_settled_amounts:
  assumes "0 \<le> minor (final_total (in_request i))"
  shows "wp (reconcile_settled E p i r) (\<lambda>x v. w_state v = w_state w
      \<and> (amounts_nonneg p \<longrightarrow> amounts_nonneg (snd x))) (\<lambda>_ _. True) w"
  using assms unfolding reconcile_settled_def settle_pending_def Let_def
  by (auto simp: wp_simps amounts_nonneg_def)

lemma settle_simulated_only:
  assumes "0 \<le> minor (final_total (in_request i))"
  shows "wp (settle_simulated E i r) (\<lambda>_ v. provider_only (w_state w) (w_state v)) (\<lambda>_ _. True) w"
proof -
  have rest: "wp (bind get_state (\<lambda>s. bind (reconcile_settled E (provider s) i ref)
      (\<lambda>(r, p). bind (put_provider p) (\<lambda>_. lift r)))) (\<lambda>_ v. provider_only (w_state w) (w_state v))
      (\<lambda>_ _. True) u" if "w_state u = w_state w" for u ref
    unfolding wp_head_state
    by (rule wp_seq [OF reconcile_settled_amounts [OF assms]])
      (auto simp: wp_bind wp_put_provider wp_lift wp_case_pair provider_only_def that)
  show ?thesis
    unfolding settle_simulated_def
    by (cases r; cases "in_provider_reference i")
      (simp_all add: wp_bind [of "ret _"] wp_bind [of "new_id _ _"] wp_basic wp_random rest)
qed

lemma wp_manual_entry:
  "wp manual_entry (\<lambda>_ v. v = w) (\<lambda>_ _. True) w"
  by (simp add: manual_entry_def wp_simps)

lemma settle_manual_only:
  "wp (settle_manual i r) (\<lambda>_ v. provider_only (w_state w) (w_state v)) (\<lambda>_ _. True) w"
  unfolding settle_manual_def manual_entry_def put_manual_balance_def
  by (auto simp: wp_simps provider_only_def)

lemma refund_manual_only:
  "wp (refund_manual i b) (\<lambda>m v. provider_only (w_state w) (w_state v)
     \<and> m = final_total (in_request i)) (\<lambda>_ _. True) w"
  unfolding refund_manual_def manual_entry_def put_manual_balance_def
  by (auto simp: wp_simps provider_only_def)

lemma refund_simulated_only:
  "wp (refund_simulated i) (\<lambda>m v. provider_only (w_state w) (w_state v)
     \<and> (amounts_nonneg (provider (w_state w)) \<longrightarrow> 0 \<le> minor m)) (\<lambda>_ _. True) w"
  unfolding refund_simulated_def simulated_refund_def Let_def
  by (auto simp: wp_simps provider_only_def amounts_nonneg_def wp_put_provider
      split: option.splits if_splits sum.splits)

lemma case_mode_only:
  "wp m Q R w \<Longrightarrow> wp n Q R w \<Longrightarrow> wp (case md of Simulated \<Rightarrow> m | ManualPrepaidCard \<Rightarrow> n) Q R w"
  by (cases md) auto

lemma reconcile_settled_balanced:
  assumes b: "balanced s i (w_state w) j" and h: "holds_funds (in_state j)"
    and pos: "0 \<le> minor (final_total (in_request i))"
  shows "wp (reconcile_as_settled E j r) (\<lambda>x v. balanced s i (w_state v) x) (\<lambda>_ _. True) w"
proof -
  have "0 \<le> minor (final_total (in_request j))" using b pos by (simp add: balanced_def)
  then show ?thesis
    unfolding reconcile_as_settled_def wp_head_state
    by (intro wp_seq [OF case_mode_only [OF settle_simulated_only settle_manual_only]])
      (auto intro!: wp_mono [OF mark_settled_balanced [OF balanced_provider [OF b]]] h pos)
qed

lemma reconcile_declined_balanced:
  assumes b: "balanced s i (w_state w) j" and pos: "0 \<le> minor (final_total (in_request i))"
  shows "wp (reconcile_as_declined E j) (\<lambda>x v. balanced s i (w_state v) x) (\<lambda>_ _. True) w"
proof -
  have tail: "wp (bind (transition j Declined) (\<lambda>x. bind (append_ledger E HoldReleased
      (final_total (in_request x)) (Some (in_id x)) src ver) (\<lambda>_. ret x)))
      (\<lambda>x v. balanced s i (w_state v) x) (\<lambda>_ _. True) u" if "balanced s i (w_state u) j" for u src ver
  proof (rule wp_seq [OF balanced_transition [OF that]])
    fix x and v :: "treasury_state world"
    assume "balanced s i (w_state v) x \<and> in_state x = Declined"
    then show "wp (bind (append_ledger E HoldReleased (final_total (in_request x)) (Some (in_id x))
        src ver) (\<lambda>_. ret x)) (\<lambda>x v. balanced s i (w_state v) x) (\<lambda>_ _. True) v"
      using pos by (intro wp_seq [OF balanced_gain]) (auto simp: wp_basic gains_def balanced_def)
  qed (simp_all add: holds_funds_def pos)
  have "balanced s i ((w_state w)\<lparr>provider := release_hold (provider (w_state w)) (in_id j)\<rparr>) j"
    by (rule balanced_provider [OF b]) (auto simp: provider_only_def release_hold_def amounts_nonneg_def)
  then show ?thesis
    unfolding reconcile_as_declined_def wp_head_state wp_tail_if wp_head_if
    using tail b by (simp add: wp_basic wp_bind [of "put_provider _"] wp_bind [of "ret _"] wp_put_provider)
qed

lemma reconcile_refunded_balanced:
  assumes b: "balanced s i (w_state w) j" and h: "in_state j \<noteq> Settled \<longrightarrow> holds_funds (in_state j)"
    and pos: "0 \<le> minor (final_total (in_request i))"
  shows "wp (reconcile_as_refunded E j was r) (\<lambda>x v. balanced s i (w_state v) x) (\<lambda>_ _. True) w"
proof -
  have paid: "wp (if in_state j \<noteq> Settled
      then bind (lift q) (\<lambda>reference. mark_settled E j reference) else ret j)
    (\<lambda>x v. balanced s i (w_state v) x) (\<lambda>_ _. True) w" for q
    using b h by (auto simp: wp_tail_if wp_head_lift wp_basic
        intro!: wp_mono [OF mark_settled_balanced [OF b _ pos]])
  have repaid: "wp (case md of Simulated \<Rightarrow> refund_simulated x | ManualPrepaidCard \<Rightarrow> refund_manual x was)
      (\<lambda>m u. balanced s i (w_state u) x \<and> 0 \<le> minor m) (\<lambda>_ _. True) v"
    if "balanced s i (w_state v) x" for md x v
  proof (rule case_mode_only)
    have a: "amounts_nonneg (provider (w_state v))" and x: "0 \<le> minor (final_total (in_request x))"
      using that pos by (simp_all add: balanced_def)
    show "wp (refund_simulated x) (\<lambda>m u. balanced s i (w_state u) x \<and> 0 \<le> minor m) (\<lambda>_ _. True) v"
      using a by (intro wp_mono [OF refund_simulated_only]) (simp_all add: balanced_provider [OF that])
    show "wp (refund_manual x was) (\<lambda>m u. balanced s i (w_state u) x \<and> 0 \<le> minor m) (\<lambda>_ _. True) v"
      using x by (intro wp_mono [OF refund_manual_only]) (simp_all add: balanced_provider [OF that])
  qed
  have last: "wp (bind (transition x Refunded) (\<lambda>x. bind (append_ledger E Refund m (Some (in_id x)) src ver)
      (\<lambda>_. ret x))) (\<lambda>x v. balanced s i (w_state v) x) (\<lambda>_ _. True) v"
    if "balanced s i (w_state v) x" and "0 \<le> minor m" for x m src ver v
    using that(2) by (intro wp_seq [OF balanced_transition [OF that(1) _ pos]] wp_seq [OF balanced_gain])
      (auto simp: wp_basic gains_def holds_funds_def)
  show ?thesis
    unfolding reconcile_as_refunded_def
  proof (rule wp_seq [OF paid])
    fix x and v :: "treasury_state world"
    assume "balanced s i (w_state v) x"
    then show "wp (bind get_state (\<lambda>s. bind (case provider_mode s of
          Simulated \<Rightarrow> refund_simulated x | ManualPrepaidCard \<Rightarrow> refund_manual x was) (\<lambda>refund.
        bind (transition x Refunded) (\<lambda>i. bind (append_ledger E Refund refund (Some (in_id i))
          ''owner_reconciliation'' True) (\<lambda>_. ret i)))))
        (\<lambda>x v. balanced s i (w_state v) x) (\<lambda>_ _. True) v"
      unfolding wp_head_state by (intro wp_seq [OF repaid]) (auto intro: last)
  qed simp
qed

lemma reconcile_solvent:
  fixes w :: "treasury_state world"
  assumes i: "bget (intents (w_state w)) k = Some i" and s: "solvent (w_state w)"
    and b: "balanced (w_state w) i (w_state v) j"
    and el: "holds_funds (in_state j) \<or> outcome = RecRefunded \<and> in_state j = Settled"
  shows "wp (bind (case outcome of
        RecSettled \<Rightarrow> reconcile_as_settled E j r
      | RecDeclined \<Rightarrow> reconcile_as_declined E j
      | RecRefunded \<Rightarrow> reconcile_as_refunded E j was r) (\<lambda>i.
      bind (put_intent (in_id i) i) (\<lambda>_. bind (audit E who act iid (pv i) dec (det i)) (\<lambda>_.
      ret (g i))))) (\<lambda>_. keeps_solvent w) (\<lambda>_ _. True) v"
proof (rule wp_seq [where P = "\<lambda>x u. balanced (w_state w) i (w_state u) x" and R' = "\<lambda>_ _. True"])
  have pos: "0 \<le> minor (final_total (in_request i))" using s i by (simp add: solvent_def)
  show "wp (case outcome of
        RecSettled \<Rightarrow> reconcile_as_settled E j r
      | RecDeclined \<Rightarrow> reconcile_as_declined E j
      | RecRefunded \<Rightarrow> reconcile_as_refunded E j was r)
      (\<lambda>x u. balanced (w_state w) i (w_state u) x) (\<lambda>_ _. True) v"
    using el by (cases outcome) (auto intro: reconcile_settled_balanced [OF b _ pos]
        reconcile_declined_balanced [OF b pos] reconcile_refunded_balanced [OF b _ pos])
next
  fix x and u :: "treasury_state world"
  assume "balanced (w_state w) i (w_state u) x"
  from balanced_put [OF s i this]
  have "keeps_solvent w (with_intent (in_id x) x u)" by (simp add: keeps_solvent_def with_intent_def)
  moreover have "keeps keeps_solvent (bind (audit E who act iid (pv x) dec (det x)) (\<lambda>_. ret (g x)))"
    by (intro sol.keeps_basic)
  ultimately have "wp (bind (audit E who act iid (pv x) dec (det x)) (\<lambda>_. ret (g x)))
      (\<lambda>_. keeps_solvent w) (\<lambda>_. keeps_solvent w) (with_intent (in_id x) x u)"
    by (rule sol.after)
  then show "wp (bind (put_intent (in_id x) x) (\<lambda>_. bind (audit E who act iid (pv x) dec (det x))
      (\<lambda>_. ret (g x)))) (\<lambda>_. keeps_solvent w) (\<lambda>_ _. True) u"
    unfolding wp_head_put by (rule wp_mono) simp_all
qed simp

lemma keeps_solvent_reconcile: "keeps keeps_solvent (owner_reconcile E a k outcome r)"
proof (rule sol.keeps_reconcile)
  fix w :: "treasury_state world"
  show "wp (owner_reconcile_inner E k outcome r) (\<lambda>_. keeps_solvent w) (\<lambda>_ _. True) w"
  proof (cases "solvent (w_state w)")
    case True
    have body: "wp (bind get_state (\<lambda>s. bind (lift (stored_intent s k)) (\<lambda>i0.
        let was_settled = (in_state i0 = Settled) in
        if \<not> (uncertain (in_state i0) \<or> outcome = RecRefunded \<and> in_state i0 = Settled)
        then fail e else
        bind (if uncertain (in_state i0) \<and> (in_state i0 = Unknown \<or> in_state i0 = ProviderPending)
              then transition i0 ReconciliationRequired else ret i0) (\<lambda>i1.
        bind (case outcome of
            RecSettled \<Rightarrow> reconcile_as_settled E i1 q
          | RecDeclined \<Rightarrow> reconcile_as_declined E i1
          | RecRefunded \<Rightarrow> reconcile_as_refunded E i1 was_settled q) (\<lambda>i.
        bind (put_intent (in_id i) i) (\<lambda>_. bind (audit E who act iid (pv i) dec (det i)) (\<lambda>_.
        ret (g i)))))))) (\<lambda>_. keeps_solvent w) (\<lambda>_ _. True) w"
      for q who act iid pv dec det and e :: treasury_error and g :: "purchase_intent \<Rightarrow> json"
    proof (simp only: wp_head_state wp_head_lift Let_def wp_tail_if wp_basic, intro conjI allI impI TrueI)
      fix i
      assume "stored_intent (w_state w) k = Inr i"
        and el: "\<not> \<not> (uncertain (in_state i) \<or> outcome = RecRefunded \<and> in_state i = Settled)"
      then have i: "bget (intents (w_state w)) k = Some i" by (intro stored_intent_Inr)
      have pos: "0 \<le> minor (final_total (in_request i))" using True i by (simp add: solvent_def)
      have "wp (if uncertain (in_state i) \<and> (in_state i = Unknown \<or> in_state i = ProviderPending)
            then transition i ReconciliationRequired else ret i)
          (\<lambda>j v. balanced (w_state w) i (w_state v) j
             \<and> (holds_funds (in_state j) \<or> outcome = RecRefunded \<and> in_state j = Settled)) (\<lambda>_ _. True) w"
        using el by (auto simp: wp_basic uncertain_def holds_funds_def solvent_amounts [OF True]
            intro!: balanced_refl wp_mono [OF balanced_transition [OF balanced_refl _ pos]])
      then show "wp (bind (if uncertain (in_state i) \<and> (in_state i = Unknown \<or> in_state i = ProviderPending)
            then transition i ReconciliationRequired else ret i) (\<lambda>i1.
          bind (case outcome of
              RecSettled \<Rightarrow> reconcile_as_settled E i1 q
            | RecDeclined \<Rightarrow> reconcile_as_declined E i1
            | RecRefunded \<Rightarrow> reconcile_as_refunded E i1 (in_state i = Settled) q) (\<lambda>i.
          bind (put_intent (in_id i) i) (\<lambda>_. bind (audit E who act iid (pv i) dec (det i)) (\<lambda>_.
          ret (g i)))))) (\<lambda>_. keeps_solvent w) (\<lambda>_ _. True) w"
        by (rule wp_seq) (auto intro!: reconcile_solvent [OF i True])
    qed
    have "wp (case r of None \<Rightarrow> ret None
        | Some x \<Rightarrow> bind (lift (validate_provider_reference E x)) (\<lambda>x. ret (Some x)))
      (\<lambda>_ v. v = w) (\<lambda>_ _. True) w"
      by (cases r) (simp_all add: wp_simps)
    then show ?thesis
      unfolding owner_reconcile_inner_def by (rule wp_seq) (simp_all only: body)
  next
    case False
    then show ?thesis by (intro wpI) (simp_all add: keeps_solvent_def)
  qed
qed

section \<open>Every request\<close>

lemma keeps_solvent_dispatch:
  "\<nexists>k. r = ExecutePurchaseIntent k \<Longrightarrow> keeps keeps_solvent (dispatch E a r)"
  by (cases r; simp only: dispatch.simps;
      ((simp; fail) | (intro sol.keeps_views sol.keeps_admin keeps_solvent_create sol.keeps_cancel
        sol.keeps_decisions keeps_solvent_handoff keeps_solvent_reconcile keeps_solvent_deposit)))

lemma handle_solvent:
  assumes "solvent (w_state w)" and "generation (w_state w) + 1 < u64_max"
  shows "wp (handle E token r) (\<lambda>_ v. solvent (w_state v)) (\<lambda>_ v. solvent (w_state v)) w"
proof -
  have "wp (dispatch E a r) (\<lambda>_. keeps_solvent v) (\<lambda>_. keeps_solvent v) v"
    if "same_state w v" for a v
  proof (cases "\<exists>k. r = ExecutePurchaseIntent k")
    case True
    then show ?thesis using that assms(2)
      by (auto simp: same_state_def intro!: execute_solvent)
  next
    case False
    then show ?thesis by (intro sol.after [OF sol.rel_refl] keeps_solvent_dispatch)
  qed
  then have "wp (dispatch E a r) (\<lambda>_ v. solvent (w_state v)) (\<lambda>_ v. solvent (w_state v)) v"
    if "same_state w v" for a v
    by (rule wp_mono) (use that assms(1) in \<open>simp_all add: keeps_solvent_def same_state_def\<close>)
  with assms(1) show ?thesis
    unfolding handle_def wp_bind
    by (intro wp_quiet [OF keeps_same_auth(1)]) (simp_all add: same_state_def)
qed

lemma handle_persisted_solvent:
  assumes "generation (w_state w) + 1 < u64_max"
  shows "wp (handle_persisted E C token r) (\<lambda>_. keeps_solvent w) (\<lambda>_. keeps_solvent w) w"
proof (cases "\<exists>k. r = ExecutePurchaseIntent k")
  case True
  with execute_persisted_solvent [OF assms] show ?thesis by (auto simp: handle_persisted_def)
next
  case False
  then have "keeps keeps_solvent (handle E token r)"
    unfolding handle_def by (intro sol.keeps_basic sol.keeps_views keeps_solvent_dispatch)
  from sol.after [OF sol.rel_refl sol.keeps_change [OF this]] False sol.rel_refl
  show ?thesis by (cases r) (auto simp: handle_persisted_def wp_basic)
qed

end
