(* ===== verification/Example.thy ===== *)
theory Example
  imports Solvency
begin

text \<open>
  A small concrete treasury: one owner, one autonomous agent, one intent that is ready to be
  executed. The witnesses of the properties run on it.
\<close>

definition plain_env :: env where
  "plain_env = \<lparr>hex_encode = (\<lambda>s. s), sha256 = (\<lambda>s. s), hmac_sha256 = (\<lambda>k s. k @ s),
     json_text = (\<lambda>_. []), url_parse = (\<lambda>_. None), url_set_host = (\<lambda>_ _. None),
     url_text = (\<lambda>_. []), domain_to_ascii = (\<lambda>s. Some s), replace_all = (\<lambda>_ _ s. s)\<rparr>"

definition plain_codec :: codec where
  "plain_codec = \<lparr>pretty_text = (\<lambda>_. []), parse_envelope = (\<lambda>_. None)\<rparr>"

definition cad :: "int \<Rightarrow> money" where
  "cad m = \<lparr>minor = m, currency = ''CAD''\<rparr>"

definition small_policy :: policy where
  "small_policy = \<lparr>pl_id = ''policy'', pl_version = 1, primary_currency = ''CAD'',
     max_per_transaction = cad 2500, max_per_session = cad 5000, max_rolling_24h = cad 10000,
     max_lifetime = cad 25000, absolute_exposure_ceiling = cad 100000,
     max_treasury_size = cad 100000, reinvestment_ratio_bps = 0,
     allowed_currencies = bs_insert ''CAD'' bempty, allowed_merchants = bs_insert ''shop.test'' bempty,
     denied_merchants = bempty, approved_redirect_domains = bempty,
     require_approval_for_new_merchants = True,
     approved_fulfillment_profiles = bs_insert ''email'' bempty,
     allow_recurring = False, allow_trials = False, allow_stored_card = False,
     allow_tips = False, allow_preauthorization = False, allow_installments = False,
     denied_categories = bs_insert ''gambling'' bempty, max_order_total_drift_minor = 0,
     max_attempts = 1, max_transactions_per_minute = 10, max_redirects = 2,
     intent_ttl_secs = 900, card_session_ttl_secs = 600\<rparr>"

definition book_request :: purchase_request where
  "book_request = \<lparr>idempotency_key = ''key'', rq_amount = cad 500, final_total = cad 500,
     merchant_domain = ''shop.test'', category = ''books'',
     rq_items = [\<lparr>item_label = ''book'', quantity = 1, unit_price_minor = 500\<rparr>],
     recurring = False, trial_auto_renew = False, stored_card = False, tip_minor = 0,
     preauthorization = False, installments = False, fulfillment_profile = ''email'',
     payment_form = HostedFields, redirect_chain = [], attempts = 1, session_id = ''session'',
     scenario = Normal\<rparr>"

definition buyer :: agent_record where
  "buyer = \<lparr>ag_id = ''buyer'', ag_name = ''buyer'', ag_token_hash = ''hash'',
     ag_scopes = bs_insert ''purchase_intents:execute'' (bs_insert ''purchase_intents:create'' bempty),
     ag_policy_id = ''policy'', ag_approved_merchants = bempty, ag_session_id = ''s1'',
     ag_session_expires_at = 1000, ag_mode = BoundedAutonomous, ag_created_at = 0,
     ag_expires_at = 1000, ag_revoked = False\<rparr>"

definition book_intent :: "transaction_state \<Rightarrow> purchase_intent" where
  "book_intent st = \<lparr>in_id = ''i1'', in_agent_id = ''buyer'', in_broker_session_id = ''s1'',
     in_request = book_request, in_state = st,
     in_decision = \<lparr>allowed = True, requires_approval = False, reasons = [], decision_version = 1\<rparr>,
     in_policy_version = 1, in_created_at = 10, in_updated_at = 10, in_provider_reference = None,
     in_receipt_hash = None, in_receipt = None, in_last_error = None\<rparr>"

definition head_owner :: owner_record where
  "head_owner = \<lparr>ow_id = ''owner'', ow_name = ''owner'', ow_token_hash = ''owner-hash'',
     ow_created_at = 0\<rparr>"

definition capital :: ledger_event where
  "capital = \<lparr>le_id = ''l1'', le_at = 0, le_kind = OwnerCapital, le_amount = cad 1000,
     le_intent_id = None, le_source = ''bootstrap'', le_verified = True\<rparr>"

definition small_state :: "transaction_state \<Rightarrow> treasury_state" where
  "small_state st = (initial_state head_owner small_policy (cad 1000))
     \<lparr>agents := bput ''buyer'' buyer bempty, intents := bput ''i1'' (book_intent st) bempty,
      ledger := [capital]\<rparr>"

definition small_world :: "transaction_state \<Rightarrow> treasury_state world" where
  "small_world st = \<lparr>w_state = small_state st, w_key = ''key'', w_clock = (\<lambda>_. 100), w_reads = 0,
     w_rand = (\<lambda>n _. replicate n CHR ''r''), w_draws = 0,
     w_disk = \<lparr>d_path = ''/data'', d_dir = None, d_files = bempty\<rparr>, w_io = (\<lambda>_. None), w_ios = 0\<rparr>"

lemmas example_defs = plain_env_def cad_def small_policy_def book_request_def buyer_def
  book_intent_def head_owner_def capital_def small_state_def small_world_def initial_state_def
  simulated_new_def

text \<open>The store's contents, and the invariants of the example.\<close>

lemma small_state_sel [simp]:
  "bget (intents (small_state st)) k = (if k = ''i1'' then Some (book_intent st) else None)"
  "in_id (book_intent st) = ''i1''" "in_state (book_intent st) = st"
  "final_total (in_request (book_intent st)) = cad 500"
  "generation (small_state st) = 0" "w_state (small_world st) = small_state st"
  "audit_log (small_state st) = []"
  by (simp_all add: example_defs)

lemma small_authority:
  "authority cur (small_state st) =
     (if cur = ''CAD'' then 1000 - (if holds_funds st then 500 else 0) else 0)"
  by (simp add: authority_def held_total_def kind_sum_def held_amount_def sum_bvals_bput)
    (simp add: example_defs held_amount_def sum_bvals_bput)

lemma small_solvent: "solvent (small_state st)"
  by (simp add: solvent_def small_authority bm.well_keyed_def) (simp add: example_defs)

lemma small_sound: "sound_ids plain_env (small_world st)"
  by (auto simp: sound_ids_def fresh_ids_def intent_key_def bm.well_keyed_def)
    (auto simp: example_defs)

section \<open>The example's values\<close>

lemma example_chars [simp]:
  "\<not> is_ascii_digit CHR ''s''" "\<not> is_ascii_hexdigit CHR ''s''"
  "is_ascii_uppercase CHR ''C''" "is_ascii_uppercase CHR ''A''" "is_ascii_uppercase CHR ''D''"
  by (simp_all add: is_ascii_digit_def is_ascii_hexdigit_def is_ascii_uppercase_def byte_def)

lemma shop_no_ip [simp]: "parse_ip ''shop.test'' = None"
  by (simp add: parse_ip_def read_ipv4_addr_def read_separator_def read_octet_def read_number_def
      read_ipv6_addr_def read_groups.simps [of 8] read_given_char_def)

lemma shop_domain [simp]: "canonicalize_domain plain_env ''shop.test'' = Inr ''shop.test''"
  by (simp add: canonicalize_domain_def plain_env_def candidate_host_def trim_end_matches_def
      bounded_def chars_def byte_def is_control_def to_ascii_lowercase_def lower_char_def
      is_ascii_uppercase_def ends_with_def bad_label_def starts_with_def)

lemma singleton_set [simp]:
  "bkeys (bs_insert x bempty) = [x]" "bkeys bempty = []" "bsize (bs_insert x bempty) = 1"
  by (simp_all add: bkeys_def bsize_def bs_insert_def)

lemma example_i64 [simp]: "in_i64 0" "in_i64 500" "in_i64 1000"
  by (simp_all add: in_i64_def i64_min_def i64_max_def)

lemma cad_simps [simp]:
  "minor (cad m) = m" "currency (cad m) = ''CAD''" "checked_add (cad 0) (cad 500) = Inr (cad 500)"
  "checked_sub (cad 1000) (cad 0) = Inr (cad 1000)" "money_zero ''CAD'' = Inr (cad 0)"
  by (simp_all add: cad_def checked_add_def checked_sub_def same_currency_def i64_checked_add_def
      i64_checked_sub_def money_zero_def money_new_def)

lemma small_policy_valid: "policy_validate plain_env small_policy = Inr ()"
  by (simp add: policy_validate_def small_policy_def max_policy_bytes_def policy_amounts_def)
    (simp add: plain_env_def)

lemma book_request_valid: "request_validate plain_env book_request small_policy at = Inr ()"
  by (simp add: request_validate_def small_policy_def book_request_def bounded_def chars_def
      byte_def is_control_def add_item_def bounded_bytes_def i64_checked_mul_def
      i64_checked_add_def max_purchase_request_bytes_def)
    (simp add: plain_env_def)

definition no_usage :: budget_usage where
  "no_usage = \<lparr>session_amount = cad 0, rolling_24h_amount = cad 0, lifetime_amount = cad 0,
     us_reserved_amount = cad 0, recent_transaction_count = 0\<rparr>"

definition go_ahead :: policy_decision where
  "go_ahead = \<lparr>allowed = True, requires_approval = False, reasons = [], decision_version = 1\<rparr>"

lemma book_request_sel [simp]:
  "final_total book_request = cad 500" "merchant_domain book_request = ''shop.test''"
  by (simp_all add: book_request_def)

lemma small_policy_sel [simp]:
  "primary_currency small_policy = ''CAD''" "max_treasury_size small_policy = cad 100000"
  "absolute_exposure_ceiling small_policy = cad 100000" "intent_ttl_secs small_policy = 900"
  "card_session_ttl_secs small_policy = 600"
  by (simp_all add: small_policy_def)

lemma book_evaluates:
  "evaluate plain_env small_policy book_request no_usage BoundedAutonomous True False at = Inr go_ahead"
  by (simp add: evaluate_def small_policy_valid book_request_valid budget_reasons_def no_usage_def)
    (simp add: small_policy_def book_request_def redirect_reasons_def mode_reasons_def
      merchant_reasons_def consent_reasons_def decide_def needs_approval_def reason_if_def go_ahead_def)

lemma small_state_parts [simp]:
  "bget (agents (small_state st)) k = (if k = ''buyer'' then Some buyer else None)"
  "bget (policies (small_state st)) k = (if k = ''policy'' then Some small_policy else None)"
  "ag_policy_id buyer = ''policy''" "ag_mode buyer = BoundedAutonomous" "ag_session_id buyer = ''s1''"
  "ag_session_expires_at buyer = 1000" "bs_mem ''purchase_intents:execute'' (ag_scopes buyer)"
  "emergency_stop (small_state st) = False" "known_merchant_for small_policy buyer ''shop.test''"
  "in_agent_id (book_intent st) = ''buyer''" "in_broker_session_id (book_intent st) = ''s1''"
  "in_created_at (book_intent st) = 10" "in_request (book_intent st) = book_request"
  "ledger (small_state st) = [capital]" "intents (small_state st) = bput ''i1'' (book_intent st) bempty"
  "provider_mode (small_state st) = Simulated" "provider (small_state st) = simulated_new (cad 1000)"
  by (simp_all add: example_defs known_merchant_for_def)

lemma small_lookups [simp]:
  "agent_of (small_state st) ''buyer'' = Inr buyer"
  "policy_of (small_state st) ''policy'' = Inr small_policy"
  "require_agent_scope (small_state st) (AgentActor ''buyer'') ''purchase_intents:execute'' = Inr ''buyer''"
  "executable_state PolicyValidated = Inr ()"
  by simp_all

lemma small_snapshot:
  "ledger_snapshot (small_state PolicyValidated) ''CAD'' = Inr \<lparr>ls_currency = ''CAD'',
     owner_capital = cad 1000, verified_income = cad 0, unverified_income = cad 0,
     operator_topups = cad 0, settled_spending = cad 0, refunds = cad 0,
     ls_reserved_amount = cad 0, available_authority = cad 1000\<rparr>"
  by (simp add: ledger_snapshot_def capital_def apply_event_def apply_hold_def bvals_def
      holds_funds_def)
    (simp add: cad_def checked_add_def checked_sub_def same_currency_def i64_checked_add_def
      i64_checked_sub_def)

lemma small_usage:
  "w_state w = small_state PolicyValidated \<Longrightarrow> w_clock w = (\<lambda>_. 100) \<Longrightarrow>
     wp (usage_of ''buyer'' ''CAD'') Q R w = Q no_usage (w\<lparr>w_reads := Suc (w_reads w)\<rparr>)"
  by (simp add: usage_of_def wp_simps usage_zero_def usage_at_def Let_def recent_count_def
      bvals_def u32_max_def usage_event_def capital_def usage_hold_def holds_funds_def i64_sub_def
      i64_add_def no_usage_def)

lemma simulated_new_available [simp]:
  "simulated_available_balance (simulated_new (cad 1000)) = Inr (cad 1000)"
  "sp_balance (simulated_new m) = m"
  by (simp_all add: simulated_available_balance_def simulated_new_def)

lemma small_enforces:
  "w_state w = small_state PolicyValidated \<Longrightarrow>
     wp (enforce_authority go_ahead book_request no_usage small_policy) Q R w = Q go_ahead w"
  by (simp add: enforce_authority_def wp_simps provider_available_balance_def small_snapshot
      deny_if_def configured_balance_def no_usage_def)

lemma small_capacity [simp]:
  "require_money_workflow_audit_capacity (small_state PolicyValidated) 4 = Inr ()"
  by (simp add: require_money_workflow_audit_capacity_def money_workflow_capacity_allows_def
      usize_saturating_add_def ordinary_count_def total_reserved_def bvals_def reserved_slots_def
      max_audit_entries_def u64_max_def)

lemma small_reserves:
  assumes "w_state w = small_state PolicyValidated"
  shows "wp (reserve_and_start E aid k p (book_intent PolicyValidated))
    (\<lambda>_. reserved_from w (book_intent PolicyValidated)) (\<lambda>_ _. False) w"
proof -
  have "wp (reserve_and_start E aid k p (book_intent PolicyValidated)) (\<lambda>_ _. True) (\<lambda>_ _. False) w"
    unfolding reserve_and_start_def append_ledger_def
    by (simp add: assms wp_simps can_transition_into audit_refused_def ordinary_count_def
        audit_capacity_allows_def u64_max_def is_money_safety_audit_def max_audit_entries_def)
  from wp_conj [OF reserve_wp this] show ?thesis by (rule wp_mono) simp_all
qed

text \<open>The preparation of the example's intent succeeds and starts the execution.\<close>

definition started :: "treasury_state \<Rightarrow> bool" where
  "started s \<longleftrightarrow> (\<exists>e entry at.
     s = reserved_state (small_state PolicyValidated) (book_intent PolicyValidated) e entry at)"

lemma small_prepares:
  "wp (prepare_intent_execution plain_env (AgentActor ''buyer'') ''i1'')
     (\<lambda>_ v. started (w_state v)) (\<lambda>_ _. False) (small_world PolicyValidated)"
proof -
  have c [simp]: "w_clock (small_world PolicyValidated) = (\<lambda>_. 100)" by (simp add: small_world_def)
  have r: "wp (reserve_and_start E aid k p (book_intent PolicyValidated))
      (\<lambda>_ v. started (w_state v)) (\<lambda>_ _. False) w" if "w_state w = small_state PolicyValidated" for E aid k p w
    by (rule wp_mono [OF small_reserves [OF that]]) (auto simp: reserved_from_def started_def that)
  have x: "wp (intent_expired (book_intent st) small_policy) Q R w = Q False (w\<lparr>w_reads := Suc (Suc (w_reads w))\<rparr>)"
    if "w_clock w = (\<lambda>_. 100)" for Q R st and w :: "treasury_state world"
    using that by (simp add: intent_expired_def wp_simps i64_add_def)
  show ?thesis
    unfolding prepare_intent_execution_def
    by (simp add: wp_head_state wp_head_lift)
      (simp add: wp_bind wp_basic wp_now wp_lift wp_if x small_usage book_evaluates small_enforces,
       simp add: go_ahead_def r)
qed

end
