(* ===== verification/Safety.thy ===== *)
theory Safety
  imports Example
begin

text \<open>
  Safety of single operations: execution always leaves \<open>Executing\<close>, the emergency stop,
  the owner's exclusive rights, authentication, queries without effect, failed reconciliations.
\<close>

section \<open>Execution\<close>











section \<open>The emergency stop\<close>

lemma stopped_prepare:
  "emergency_stop (w_state w) \<Longrightarrow> wp (prepare_intent_execution E a k) (\<lambda>_ _. False) (\<lambda>_ _. True) w"
  using prepare_Inr [of E a k w] by (intro wpI) (auto simp: cleared_def permits_def)

text \<open>
  C14: While the emergency stop is on, no request to execute a purchase succeeds, and the state
  after the refusal is the state before it.
\<close>

theorem stop_blocks_execution:
  assumes "emergency_stop (w_state w)"
  shows "wp (execute_persisted E C token k) (\<lambda>_ _. False) (\<lambda>_ v. w_state v = w_state w) w"
proof -
  have refused: "wp (bind (rollback (w_state w) (prepare_intent_execution E a k)) f)
      (\<lambda>_ _. False) (\<lambda>_ v. w_state v = w_state w) u"
    if "same_state w u" for a u and f :: "unit \<Rightarrow> json top"
  proof -
    have "emergency_stop (w_state u)" using that assms by (simp add: same_state_def)
    from stopped_prepare [OF this] show ?thesis
      unfolding rollback_def wp_bind wp_attempt by (rule wp_mono) (simp_all add: wp_simps)
  qed
  show ?thesis
    unfolding execute_persisted_def wp_head_state wp_tail_if wp_bind [of "authenticate E token"]
    by (intro conjI impI wp_quiet [OF keeps_same_auth(1)] refused)
      (simp_all add: wp_basic same_state_def)
qed

theorem stop_blocks_execution_witness:
  "wp (execute_persisted plain_env plain_codec ''token'' ''i1'') (\<lambda>_ _. False)
     (\<lambda>_ v. w_state v = (small_state PolicyValidated)\<lparr>emergency_stop := True\<rparr>)
     ((small_world PolicyValidated)\<lparr>w_state := (small_state PolicyValidated)\<lparr>emergency_stop := True\<rparr>\<rparr>)"
  using stop_blocks_execution [of "(small_world PolicyValidated)
      \<lparr>w_state := (small_state PolicyValidated)\<lparr>emergency_stop := True\<rparr>\<rparr>"]
  by simp

text \<open>What stopping the agents leaves alone, and which sessions it has ended so far.\<close>

definition ended_except :: "string list \<Rightarrow> treasury_state world \<Rightarrow> treasury_state world \<Rightarrow> bool" where
  "ended_except ks w v \<longleftrightarrow> emergency_stop (w_state v) = emergency_stop (w_state w)
     \<and> generation (w_state v) = generation (w_state w) \<and> audit_log (w_state v) = audit_log (w_state w)
     \<and> (\<forall>k r. bget (agents (w_state v)) k = Some r \<longrightarrow> k \<in> set ks \<or> ag_session_expires_at r = 0)"

lemma stop_agent_ends:
  "ended_except (k # ks) w v \<Longrightarrow> wp (stop_agent E k) (\<lambda>_ u. ended_except ks w u) (\<lambda>_ _. False) v"
  unfolding ended_except_def stop_agent_def
  by (cases "bget (agents (w_state v)) k") (auto simp: wp_simps, (metis option.distinct(1))+)

lemma stop_agents_ends:
  "ended_except ks w v \<Longrightarrow> wp (each (stop_agent E) ks) (\<lambda>_ u. ended_except [] w u) (\<lambda>_ _. False) v"
proof (induction ks arbitrary: v)
  case (Cons k ks)
  from stop_agent_ends [OF Cons.prems] show ?case
    unfolding each.simps wp_bind by (rule wp_mono) (simp_all add: Cons.IH)
qed (simp add: wp_simps)

text \<open>
  C15: The emergency stop can always be pulled: the owner's request to stop is never refused, not
  by the audit log's capacity either; it adds one audit entry and ends every agent's session.
\<close>

theorem stop_always_recorded:
  assumes "\<not> emergency_stop (w_state w)" and "generation (w_state w) < u64_max"
  shows "wp (owner_emergency_stop E OwnerActor True)
    (\<lambda>_ v. emergency_stop (w_state v) \<and> length (audit_log (w_state v)) = length (audit_log (w_state w)) + 1
       \<and> (\<forall>r \<in> set (bvals (agents (w_state v))). ag_session_expires_at r = 0))
    (\<lambda>_ _. False) w"
proof -
  have "ended_except (bkeys (agents (w_state w))) w w"
    by (simp add: ended_except_def set_bkeys)
  from stop_agents_ends [OF this]
  have "wp (bind (each (stop_agent E) (bkeys (agents (w_state w)))) (\<lambda>_. ret (bsize (agents (w_state w)))))
      (\<lambda>_ u. ended_except [] w u) (\<lambda>_ _. False) w"
    unfolding wp_bind by (rule wp_mono) (simp_all add: wp_basic)
  then show ?thesis
    unfolding owner_emergency_stop_def wp_head_state wp_head_lift
    using assms by (auto simp: require_owner_def wp_simps ended_except_def audit_refused_def
        audit_capacity_allows_def set_bvals elim!: wp_mono)
qed

theorem stop_always_recorded_witness:
  "wp (owner_emergency_stop plain_env OwnerActor True)
    (\<lambda>_ v. emergency_stop (w_state v) \<and> length (audit_log (w_state v)) = 1
       \<and> (\<forall>r \<in> set (bvals (agents (w_state v))). ag_session_expires_at r = 0))
    (\<lambda>_ _. False) (small_world Executing)"
  using stop_always_recorded [of "small_world Executing" plain_env] by (simp add: u64_max_def)

section \<open>Who may do what\<close>

text \<open>
  C20: An agent's capability never performs an owner operation: the request fails as forbidden
  before anything, the clock included, is touched.
\<close>

theorem agents_never_act_as_owner:
  assumes "requires_owner r"
  shows "dispatch E (AgentActor k) r w =
    (Inl (Forbidden ''this operation is owner-only and is never exposed to agents''), w)"
  by (rule dispatch_refused [OF assms])

theorem agents_never_act_as_owner_witness:
  "dispatch plain_env (AgentActor ''buyer'') (OwnerSetEmergencyStop False) (small_world Unknown) =
    (Inl (Forbidden ''this operation is owner-only and is never exposed to agents''), small_world Unknown)"
  by (rule agents_never_act_as_owner) (simp add: requires_owner_def)

text \<open>
  C19: Authentication is exact. A token authenticates its bearer as the owner exactly when it has a
  valid length and the owner's hash, and as an agent exactly when it has a valid length, the hash of
  that agent and not the owner's, and the agent is neither revoked nor expired at the one reading of
  the clock; every other token is unauthorized, and nothing changes. The agents' hashes are assumed
  to differ.
\<close>

theorem authentication_is_exact:
  assumes "inj_on ag_token_hash (set (bvals (agents (w_state w))))"
  shows "(fst (authenticate E token w) = Inr OwnerActor \<longleftrightarrow>
      token \<noteq> [] \<and> length token \<le> 128 \<and> token_hash E token = ow_token_hash (owner (w_state w)))
    \<and> (fst (authenticate E token w) = Inr (AgentActor k) \<longleftrightarrow>
      token \<noteq> [] \<and> length token \<le> 128 \<and> token_hash E token \<noteq> ow_token_hash (owner (w_state w))
        \<and> (\<exists>r \<in> set (bvals (agents (w_state w))). ag_id r = k \<and> ag_token_hash r = token_hash E token
             \<and> \<not> ag_revoked r \<and> w_clock w (w_reads w) < ag_expires_at r))
    \<and> (\<forall>e. fst (authenticate E token w) = Inl e \<longrightarrow> e = Unauthorized)
    \<and> same_state w (snd (authenticate E token w))"
proof -
  let ?live = "live_agent (token_hash E token) (w_clock w (w_reads w))"
  let ?rs = "bvals (agents (w_state w))"
  have one: "find ?live ?rs = Some r \<longleftrightarrow> r \<in> set ?rs \<and> ?live r" for r
  proof
    assume r: "r \<in> set ?rs \<and> ?live r"
    then obtain q where q: "find ?live ?rs = Some q"
      by (cases "find ?live ?rs") (auto simp: find_None_iff)
    then have "q \<in> set ?rs" "?live q" by (auto dest: find_SomeD)
    moreover from this r have "ag_token_hash q = ag_token_hash r" by (simp add: live_agent_def)
    ultimately have "q = r" using r assms(1) by (blast dest: inj_onD)
    with q show "find ?live ?rs = Some r" by simp
  qed (auto dest: find_SomeD)
  have "(case find ?live ?rs of None \<Rightarrow> Inl Unauthorized | Some r \<Rightarrow> Inr (AgentActor (ag_id r)))
        = Inr (AgentActor k) \<longleftrightarrow> (\<exists>r. find ?live ?rs = Some r \<and> ag_id r = k)"
    by (auto split: option.split)
  then have found: "(case find ?live ?rs of None \<Rightarrow> Inl Unauthorized | Some r \<Rightarrow> Inr (AgentActor (ag_id r)))
        = Inr (AgentActor k) \<longleftrightarrow> (\<exists>r \<in> set ?rs. ag_id r = k \<and> ?live r)"
    unfolding one by blast
  have run: "fst (authenticate E token w) = (if token = [] \<or> 128 < length token then Inl Unauthorized
      else if token_hash E token = ow_token_hash (owner (w_state w)) then Inr OwnerActor
      else case find ?live ?rs of None \<Rightarrow> Inl Unauthorized | Some r \<Rightarrow> Inr (AgentActor (ag_id r)))"
    by (auto simp: authenticate_def run_bind fail_def ret_def get_state_def gets_def now_def lift_def
        ok_or_def Let_def split: option.split)
  have "same_state w (snd (authenticate E token w))" by (rule keepsD [OF keeps_same_auth])
  then show ?thesis
    unfolding run by (simp add: found) (auto simp: live_agent_def split: option.splits)
qed

theorem authentication_is_exact_witness:
  "fst (authenticate (plain_env\<lparr>sha256 := drop 25\<rparr>) ''hash'' (small_world Unknown)) = Inr (AgentActor ''buyer'')
    \<and> fst (authenticate (plain_env\<lparr>sha256 := drop 25\<rparr>) ''owner-hash'' (small_world Unknown)) = Inr OwnerActor
    \<and> fst (authenticate (plain_env\<lparr>sha256 := drop 25\<rparr>) ''other'' (small_world Unknown))
        \<noteq> Inr (AgentActor ''buyer'')"
proof -
  let ?E = "plain_env\<lparr>sha256 := drop 25\<rparr>"
  have one: "set (bvals (agents (w_state (small_world Unknown)))) = {buyer}"
    by (auto simp: set_bvals split: if_splits)
  then have inj: "inj_on ag_token_hash (set (bvals (agents (w_state (small_world Unknown)))))" by simp
  have "w_clock (small_world Unknown) n = 100" "ag_token_hash buyer = ''hash''" "\<not> ag_revoked buyer"
    "ag_id buyer = ''buyer''" "ag_expires_at buyer = 1000"
    "ow_token_hash (owner (w_state (small_world Unknown))) = ''owner-hash''" "token_hash ?E t = t" for n t
    by (simp_all add: example_defs token_hash_def)
  with authentication_is_exact [OF inj, of ?E "''hash''" "''buyer''"]
    authentication_is_exact [OF inj, of ?E "''owner-hash''"]
    authentication_is_exact [OF inj, of ?E "''other''" "''buyer''"]
  show ?thesis unfolding one by simp
qed

text \<open>A read-only request leaves the treasury's state and its files as they are.\<close>

theorem read_only_requests_change_nothing:
  assumes "is_read_only r"
  shows "same_state w (snd (handle E token r w))"
  by (rule keepsD [OF keeps_same_read [OF assms]])

theorem read_only_requests_change_nothing_witness:
  "same_state (small_world Settled) (snd (handle plain_env ''token'' OwnerGetDashboard (small_world Settled)))"
  by (rule read_only_requests_change_nothing) (simp add: is_read_only_def)

section \<open>Failed changes\<close>

text \<open>A reconciliation that fails changes nothing.\<close>

theorem failed_reconciliation_rolls_back:
  "wp (owner_reconcile E a k outcome reference) (\<lambda>_ _. True) (\<lambda>_ v. w_state v = w_state w) w"
  unfolding owner_reconcile_def wp_head_lift wp_head_state wp_bind [of "attempt _"] wp_attempt
  by (auto simp: wp_basic wp_reset intro: wpI)

end
