(* ===== verification/Decisions.thy ===== *)
theory Decisions
  imports Example
begin

text \<open>
  What the pure parts decide: the policy's decision against its conditions, money arithmetic,
  merchant domains and addresses.
\<close>

section \<open>Policy decisions\<close>



section \<open>Money\<close>

lemma trunc_div_near:
  assumes "0 < b"
  shows "\<bar>a - trunc_div a b * b\<bar> < b" and "\<bar>trunc_div a b\<bar> * b \<le> \<bar>a\<bar>"
    and "0 \<le> a \<Longrightarrow> 0 \<le> trunc_div a b" and "a \<le> 0 \<Longrightarrow> trunc_div a b \<le> 0"
proof -
  obtain q r where qr: "\<bar>a\<bar> div b = q" "\<bar>a\<bar> = q * b + r" "0 \<le> r" "r < b" "0 \<le> q"
    using assms by (metis div_mult_mod_eq pos_mod_bound pos_mod_sign pos_imp_zdiv_nonneg_iff abs_ge_zero)
  have t: "trunc_div a b = (if a < 0 then - q else q)"
    using assms unfolding trunc_div_def qr(1) [symmetric] by simp
  have "\<bar>trunc_div a b\<bar> = q" using qr(5) by (simp add: t)
  with qr(2,3) show "\<bar>trunc_div a b\<bar> * b \<le> \<bar>a\<bar>" by simp
  have "a - trunc_div a b * b = (if a < 0 then - r else r)"
    unfolding t using qr(2) by (cases "a < 0") (auto simp: algebra_simps)
  with qr(3,4) show "\<bar>a - trunc_div a b * b\<bar> < b" by simp
  show "0 \<le> a \<Longrightarrow> 0 \<le> trunc_div a b" using qr(5) by (simp add: t)
  show "trunc_div a b \<le> 0" if "a \<le> 0"
    unfolding t using that qr(1,5) by (cases "a = 0") auto
qed

text \<open>
  Addition of money is exact or refused: a sum that is returned is undone by subtraction,
  does not depend on the order, and an addition is refused only for two currencies or when the
  exact sum does not fit in 64 bits.
\<close>

theorem money_sum_undone:
  assumes "money_ok a" and "checked_add a b = Inr c"
  shows "checked_sub c b = Inr a \<and> checked_add b a = Inr c \<and> minor c = minor a + minor b"
  using assms by (auto simp: checked_Inr money_ok_def add.commute)

theorem money_sum_undone_witness:
  "checked_sub (cad 700) (cad 200) = Inr (cad 500) \<and> checked_add (cad 200) (cad 500) = Inr (cad 700)
    \<and> minor (cad 700) = minor (cad 500) + minor (cad 200)"
  by (rule money_sum_undone)
    (simp_all add: money_ok_def checked_add_Inr cad_def in_i64_def i64_min_def i64_max_def)

text \<open>
  The share of an amount in basis points always exists for up to 10000 points: it never
  overflows, it rounds towards zero by less than one minor unit, and it never exceeds the amount.
\<close>

theorem basis_points_share:
  assumes "money_ok a" and "bps \<le> 10000"
  shows "\<exists>m. scaled_basis_points a bps = Inr m \<and> currency m = currency a
    \<and> \<bar>minor m\<bar> \<le> \<bar>minor a\<bar> \<and> \<bar>minor a * int bps - minor m * 10000\<bar> < 10000
    \<and> (0 \<le> minor a \<longrightarrow> 0 \<le> minor m \<and> minor m * 10000 \<le> minor a * int bps)"
proof -
  let ?x = "minor a * int bps" and ?q = "trunc_div (minor a * int bps) 10000"
  note near = trunc_div_near [of 10000 ?x]
  have "\<bar>?q\<bar> * 10000 \<le> \<bar>minor a\<bar> * int bps" using near(2) by (simp add: abs_mult)
  also have "\<dots> \<le> \<bar>minor a\<bar> * 10000" using assms(2) by (intro mult_left_mono) simp_all
  finally have q: "\<bar>?q\<bar> \<le> \<bar>minor a\<bar>" by simp
  have pos: "0 \<le> minor a \<Longrightarrow> 0 \<le> ?q" and neg: "minor a \<le> 0 \<Longrightarrow> ?q \<le> 0"
    using near(3,4) by (simp_all add: mult_nonpos_nonneg)
  have "in_i64 ?q"
    using q pos neg assms(1)
    by (cases "0 \<le> minor a") (auto simp: money_ok_def in_i64_def i64_min_def i64_max_def)
  moreover have "in_i128 ?x" using assms by (simp add: money_ok_def i128_product_fits)
  moreover have "?q * 10000 \<le> ?x" if "0 \<le> minor a" using near(2) that pos by simp
  ultimately show ?thesis using assms(2) near(1) q pos
    by (simp add: scaled_basis_points_def i128_checked_mul_def Let_def)
qed

theorem basis_points_share_witness:
  "\<exists>m. scaled_basis_points (cad 999) 2500 = Inr m \<and> 0 \<le> minor m \<and> minor m * 10000 \<le> 999 * 2500"
  using basis_points_share [of "cad 999" 2500]
  by (auto simp: money_ok_def in_i64_def i64_min_def i64_max_def)

section \<open>Domains and addresses\<close>

text \<open>
  A domain that is accepted is a public lower-case name without empty or hyphen-edged labels
  and without a private, loopback or link-local address literal; and a name that is already in
  this form and fixed by IDNA is returned as it is, so a stored canonical name stays canonical.
\<close>

theorem canonical_domains_are_public:
  "(\<forall>d c. canonicalize_domain E d = Inr c \<longrightarrow> public_name c)
    \<and> (\<forall>c. public_name c \<and> domain_to_ascii E c = Some c \<and> bounded c ''domain'' 320 = Inr ()
        \<longrightarrow> canonicalize_domain E c = Inr c)"
  by (blast intro: canonicalize_domain_Inr canonicalize_public_name)

theorem canonical_domains_are_public_witness:
  "public_name ''shop.test''"
  using canonical_domains_are_public [of plain_env] shop_domain by blast

text \<open>The blocked IPv4 networks in the usual notation: network address and prefix length.\<close>

definition ipv4_word :: "8 word \<Rightarrow> 8 word \<Rightarrow> 8 word \<Rightarrow> 8 word \<Rightarrow> 32 word" where
  "ipv4_word a b c d = word_of_nat (((unat a * 256 + unat b) * 256 + unat c) * 256 + unat d)"

definition in_network :: "32 word \<Rightarrow> (8 word \<times> 8 word \<times> 8 word) \<times> nat \<Rightarrow> bool" where
  "in_network x net = (case net of ((a, b, c), len) \<Rightarrow>
     drop_bit (32 - len) x = drop_bit (32 - len) (ipv4_word a b c 0))"

definition blocked_networks :: "((8 word \<times> 8 word \<times> 8 word) \<times> nat) list" where
  "blocked_networks =
     [((0, 0, 0), 8), ((10, 0, 0), 8), ((100, 64, 0), 10), ((127, 0, 0), 8), ((169, 254, 0), 16),
      ((172, 16, 0), 12), ((192, 0, 0), 24), ((192, 0, 2), 24), ((192, 168, 0), 16),
      ((198, 18, 0), 15), ((198, 51, 100), 24), ((203, 0, 113), 24), ((224, 0, 0), 3)]"

lemma octet_bound: "unat (x :: 8 word) < 256"
proof -
  have "unat x < 2 ^ LENGTH(8)" by (rule unsigned_less)
  then show ?thesis by simp
qed

lemma unat_ipv4_word:
  "unat (ipv4_word a b c d) = ((unat a * 256 + unat b) * 256 + unat c) * 256 + unat d"
  using octet_bound [of a] octet_bound [of b] octet_bound [of c] octet_bound [of d]
  unfolding ipv4_word_def unat_of_nat by simp

text \<open>The prefixes of an address, as numbers; two numbers agree when their digits do.\<close>

lemma digits_agree:
  fixes x y u v base :: nat
  assumes "x < base" and "y < base" and "n = v * base + y"
  shows "u * base + x = n \<longleftrightarrow> u = v \<and> x = y"
proof
  assume e: "u * base + x = n"
  have "(u * base + x) div base = u" "(v * base + y) div base = v" using assms(1,2) by simp_all
  with e assms(3) show "u = v \<and> x = y" by simp
qed (simp add: assms(3))

lemma prefixes:
  fixes a b c d :: nat
  assumes "b < 256" and "c < 256" and "d < 256"
  defines "v \<equiv> ((a * 256 + b) * 256 + c) * 256 + d"
  shows "v div 256 = (a * 256 + b) * 256 + c" and "v div 65536 = a * 256 + b"
    and "v div 131072 = a * 128 + b div 2" and "v div 1048576 = a * 16 + b div 16"
    and "v div 4194304 = a * 4 + b div 64" and "v div 16777216 = a" and "v div 536870912 = a div 32"
proof -
  have cut: "x < 256 \<Longrightarrow> (y * 256 + x) div 256 = y" for x y :: nat by simp
  show v8: "v div 256 = (a * 256 + b) * 256 + c" using cut [OF assms(3)] by (simp only: v_def)
  have "v div 65536 = v div 256 div 256" by (simp flip: div_mult2_eq)
  then show v16: "v div 65536 = a * 256 + b" using cut [OF assms(2)] by (simp only: v8)
  have "v div 131072 = v div 65536 div 2" "v div 1048576 = v div 65536 div 16"
    "v div 4194304 = v div 65536 div 64" "v div 16777216 = v div 65536 div 256"
    "v div 536870912 = v div 65536 div 8192"
    by (simp_all flip: div_mult2_eq)
  moreover have "(a * 256 + b) div 8192 = (a * 256 + b) div 256 div 32" by (simp flip: div_mult2_eq)
  moreover have "(a * 256 + b) div 2 = a * 128 + b div 2" "(a * 256 + b) div 16 = a * 16 + b div 16"
    "(a * 256 + b) div 64 = a * 4 + b div 64"
    by presburger+
  ultimately show "v div 131072 = a * 128 + b div 2" and "v div 1048576 = a * 16 + b div 16"
    and "v div 4194304 = a * 4 + b div 64" and "v div 16777216 = a" and "v div 536870912 = a div 32"
    using cut [OF assms(1), of a] by (simp_all only: v16)
qed

lemma network_conditions:
  fixes a b c :: nat
  assumes "a < 256" and "b < 256" and "c < 256"
  shows "a * 256 + b = 43518 \<longleftrightarrow> a = 169 \<and> b = 254" and "a * 256 + b = 49320 \<longleftrightarrow> a = 192 \<and> b = 168"
    and "65536 * a + b * 256 + c = 12582912 \<longleftrightarrow> a = 192 \<and> b = 0 \<and> c = 0"
    and "65536 * a + b * 256 + c = 12582914 \<longleftrightarrow> a = 192 \<and> b = 0 \<and> c = 2"
    and "65536 * a + b * 256 + c = 12989284 \<longleftrightarrow> a = 198 \<and> b = 51 \<and> c = 100"
    and "65536 * a + b * 256 + c = 13303921 \<longleftrightarrow> a = 203 \<and> b = 0 \<and> c = 113"
    and "a * 4 + b div 64 = 401 \<longleftrightarrow> a = 100 \<and> 64 \<le> b \<and> b \<le> 127"
    and "a * 16 + b div 16 = 2753 \<longleftrightarrow> a = 172 \<and> 16 \<le> b \<and> b \<le> 31"
    and "a * 128 + b div 2 = 25353 \<longleftrightarrow> a = 198 \<and> (b = 18 \<or> b = 19)"
    and "a div 32 = 7 \<longleftrightarrow> 224 \<le> a"
proof -
  have two: "a * 256 + b = 43518 \<longleftrightarrow> a = 169 \<and> b = 254" "a * 256 + b = 49320 \<longleftrightarrow> a = 192 \<and> b = 168"
    "a * 256 + b = 49152 \<longleftrightarrow> a = 192 \<and> b = 0" "a * 256 + b = 50739 \<longleftrightarrow> a = 198 \<and> b = 51"
    "a * 256 + b = 51968 \<longleftrightarrow> a = 203 \<and> b = 0"
    by (rule digits_agree [OF assms(2)]; simp)+
  have e: "65536 * a + b * 256 + c = (a * 256 + b) * 256 + c" by simp
  have three: "(a * 256 + b) * 256 + c = 12582912 \<longleftrightarrow> a * 256 + b = 49152 \<and> c = 0"
    "(a * 256 + b) * 256 + c = 12582914 \<longleftrightarrow> a * 256 + b = 49152 \<and> c = 2"
    "(a * 256 + b) * 256 + c = 12989284 \<longleftrightarrow> a * 256 + b = 50739 \<and> c = 100"
    "(a * 256 + b) * 256 + c = 13303921 \<longleftrightarrow> a * 256 + b = 51968 \<and> c = 113"
    by (rule digits_agree [OF assms(3)]; simp)+
  show "a * 256 + b = 43518 \<longleftrightarrow> a = 169 \<and> b = 254" and "a * 256 + b = 49320 \<longleftrightarrow> a = 192 \<and> b = 168"
    and "65536 * a + b * 256 + c = 12582912 \<longleftrightarrow> a = 192 \<and> b = 0 \<and> c = 0"
    and "65536 * a + b * 256 + c = 12582914 \<longleftrightarrow> a = 192 \<and> b = 0 \<and> c = 2"
    and "65536 * a + b * 256 + c = 12989284 \<longleftrightarrow> a = 198 \<and> b = 51 \<and> c = 100"
    and "65536 * a + b * 256 + c = 13303921 \<longleftrightarrow> a = 203 \<and> b = 0 \<and> c = 113"
    unfolding e by (simp_all only: three two conj_assoc)
  have quotients: "b div 64 < 4" "b div 16 < 16" "b div 2 < 128" using assms(2) by simp_all
  have quotient: "0 < n \<Longrightarrow> m div n = q \<longleftrightarrow> q * n \<le> m \<and> m < Suc q * n" for m n q :: nat
    using less_eq_div_iff_mult_less_eq [of n q m] div_less_iff_less_mult [of n m "Suc q"] by auto
  have ranges: "b div 64 = 1 \<longleftrightarrow> 64 \<le> b \<and> b \<le> 127" "b div 16 = 1 \<longleftrightarrow> 16 \<le> b \<and> b \<le> 31"
    "b div 2 = 9 \<longleftrightarrow> b = 18 \<or> b = 19" "a div 32 = 7 \<longleftrightarrow> 224 \<le> a"
    using quotient [of b 64 1] quotient [of b 16 1] quotient [of b 2 9] quotient [of a 32 7] assms(1)
    by auto
  have parts: "k < 4 \<Longrightarrow> a * 4 + k = 401 \<longleftrightarrow> a = 100 \<and> k = 1"
    "k < 16 \<Longrightarrow> a * 16 + k = 2753 \<longleftrightarrow> a = 172 \<and> k = 1"
    "k < 128 \<Longrightarrow> a * 128 + k = 25353 \<longleftrightarrow> a = 198 \<and> k = 9" for k
    by (rule digits_agree; simp)+
  show "a * 4 + b div 64 = 401 \<longleftrightarrow> a = 100 \<and> 64 \<le> b \<and> b \<le> 127"
    and "a * 16 + b div 16 = 2753 \<longleftrightarrow> a = 172 \<and> 16 \<le> b \<and> b \<le> 31"
    and "a * 128 + b div 2 = 25353 \<longleftrightarrow> a = 198 \<and> (b = 18 \<or> b = 19)"
    and "a div 32 = 7 \<longleftrightarrow> 224 \<le> a"
    by (simp_all only: parts quotients ranges)
qed

text \<open>Membership in a network as an equation between the prefixes.\<close>

lemma in_network_iff:
  "in_network (ipv4_word a b c d) ((a', b', c'), len) \<longleftrightarrow>
     (((unat a * 256 + unat b) * 256 + unat c) * 256 + unat d) div 2 ^ (32 - len)
     = (((unat a' * 256 + unat b') * 256 + unat c') * 256) div 2 ^ (32 - len)"
  unfolding in_network_def prod.case word_unat_eq_iff unat_drop_bit_eq unat_ipv4_word
  by (simp add: drop_bit_eq_div)

text \<open>
  An IPv4 address is refused exactly when it lies in one of the thirteen special-purpose
  networks, and an IPv4-mapped IPv6 address exactly when its IPv4 address is refused.
\<close>

theorem blocked_addresses:
  "is_non_public_ip (V4 a b c d) \<longleftrightarrow> list_ex (in_network (ipv4_word a b c d)) blocked_networks"
proof -
  note oct = octet_bound [of a] octet_bound [of b] octet_bound [of c] octet_bound [of d]
  have pw: "(2::nat) ^ (32 - 3) = 536870912" "(2::nat) ^ (32 - 8) = 16777216"
    "(2::nat) ^ (32 - 10) = 4194304" "(2::nat) ^ (32 - 12) = 1048576" "(2::nat) ^ (32 - 15) = 131072"
    "(2::nat) ^ (32 - 16) = 65536" "(2::nat) ^ (32 - 24) = 256"
    by simp_all
  note nc = network_conditions [OF oct(1-3)]
  have n: "x = y \<longleftrightarrow> unat x = unat y" "x \<le> y \<longleftrightarrow> unat x \<le> unat y" for x y :: "8 word"
    by (simp_all add: word_unat_eq_iff word_le_nat_alt)
  show ?thesis
    unfolding is_non_public_ip.simps non_public_v4_def n blocked_networks_def list_ex_iff
    by (simp only: list.set ball_simps bex_simps in_network_iff pw prefixes [OF oct(2-4)]) (simp add: nc)
qed

end
