(* ===== verification/Workflow.thy ===== *)
theory Workflow
  imports Example
begin

text \<open>
  The purchase workflow as a whole: the order of the intent store, repeated requests,
  cancellation, recovery after a restart, and what an agent can never bring about.
\<close>

section \<open>The store of intents\<close>

text \<open>
  C22: However many requests the broker serves, an agent's idempotency key names at most one
  stored intent, and the store never grows beyond its quota of \<open>max_intents\<close> entries.
\<close>

theorem store_stays_orderly:
  assumes "sound_ids E w" and "one_per_slot (w_state w)"
  shows "one_per_slot (w_state (serve E C rs w))
    \<and> bsize (intents (w_state (serve E C rs w))) \<le> max max_intents (bsize (intents (w_state w)))"
  using serve_history [of E w C rs] assms by (auto simp: history_def evolves_def orderly_def)

theorem store_stays_orderly_witness:
  "one_per_slot (w_state (serve plain_env plain_codec [(''token'', ExecutePurchaseIntent ''i1'')]
     (small_world PolicyValidated)))
   \<and> bsize (intents (w_state (serve plain_env plain_codec [(''token'', ExecutePurchaseIntent ''i1'')]
     (small_world PolicyValidated)))) \<le> max max_intents (bsize (intents (w_state (small_world PolicyValidated))))"
  by (rule store_stays_orderly [OF small_sound]) (simp add: one_per_slot_def)

section \<open>Repeating a request\<close>

lemma find_slot:
  assumes "one_per_slot s" and "bget (intents s) k = Some i" and "intent_slot i = (aid, key)"
  shows "find (\<lambda>i. in_agent_id i = aid \<and> idempotency_key (in_request i) = key) (bvals (intents s)) = Some i"
proof -
  let ?P = "\<lambda>i. in_agent_id i = aid \<and> idempotency_key (in_request i) = key"
  have "i \<in> set (bvals (intents s))" and "?P i"
    using assms by (auto simp: intent_slot_def intro: bget_in_bvals)
  then obtain j where f: "find ?P (bvals (intents s)) = Some j"
    by (cases "find ?P (bvals (intents s))") (auto simp: find_None_iff)
  then have "j \<in> set (bvals (intents s))" and "?P j" by (auto dest: find_SomeD)
  then obtain l where "bget (intents s) l = Some j" and "intent_slot j = intent_slot i"
    using assms(3) by (auto simp: set_bvals intent_slot_def)
  with assms(1,2) have "l = k" unfolding one_per_slot_def by metis
  with f \<open>bget (intents s) l = Some j\<close> assms(2) show ?thesis by simp
qed

lemma canonical_key: "canonical_request E r = Inr r' \<Longrightarrow> idempotency_key r' = idempotency_key r"
  by (auto simp: canonical_request_def rbind_Inr_iff)

text \<open>
  C23: Creating a purchase under an idempotency key that the agent has used before is harmless.
  The same request gets the stored intent back, another one is refused, and neither touches the
  treasury.
\<close>

theorem repeated_request_is_idempotent:
  assumes "one_per_slot (w_state w)" and "bget (intents (w_state w)) k = Some i"
    and "require_agent_scope (w_state w) (AgentActor (in_agent_id i)) ''purchase_intents:create'' = Inr aid"
    and "canonical_request E r = Inr r'"
    and "idempotency_key r = idempotency_key (in_request i)"
  shows "create_intent E (AgentActor (in_agent_id i)) r w =
    ((if in_request i = r' then Inr (sanitized_intent i)
      else Inl (Conflict ''idempotency key is already bound to another request'')), w)"
proof -
  from assms(3) obtain agent where a: "bget (agents (w_state w)) (in_agent_id i) = Some agent"
    "bs_mem ''purchase_intents:create'' (ag_scopes agent)"
    by auto
  have "intent_slot i = (in_agent_id i, idempotency_key r')"
    using assms(5) canonical_key [OF assms(4)] by (simp add: intent_slot_def)
  from find_slot [OF assms(1,2) this] a assms(4) show ?thesis
    by (simp add: create_intent_def run_bind get_state_def require_agent_scope_def require_agent_def
        agent_of_def ok_or_def)
qed

theorem repeated_request_is_idempotent_witness:
  "create_intent plain_env (AgentActor ''buyer'') (book_request\<lparr>category := ''food''\<rparr>) (small_world Settled) =
    (Inl (Conflict ''idempotency key is already bound to another request''), small_world Settled)"
  using repeated_request_is_idempotent [of "small_world Settled" "''i1''" "book_intent Settled" "''buyer''"
      plain_env "book_request\<lparr>category := ''food''\<rparr>" "book_request\<lparr>category := ''food''\<rparr>"]
  by (simp add: one_per_slot_def buyer_def canonical_request_def book_request_def)

section \<open>Cancelling\<close>

text \<open>
  An agent can cancel only its own intent, and only one that is proposed or waits for the
  owner's approval; a validated purchase cannot be cancelled. A successful cancellation changes
  nothing else but the audit log.
\<close>

theorem cancel_needs_unexecuted:
  "wp (cancel_intent E a k)
     (\<lambda>_ v. \<exists>i at entry. bget (intents (w_state w)) k = Some i \<and> a = AgentActor (in_agent_id i)
        \<and> in_state i \<in> {Proposed, ApprovalRequired}
        \<and> w_state v = audited ((w_state w)\<lparr>intents := bput (in_id i)
            (i\<lparr>in_state := Cancelled, in_updated_at := at\<rparr>) (intents (w_state w))\<rparr>) entry
        \<and> au_action entry = ''cancel_purchase_intent'')
     (\<lambda>_ _. True) w"
proof -
  have agent: "intent_for_agent s aid l = Inr i \<Longrightarrow> in_agent_id i = aid" for s aid l i
    by (auto simp: intent_for_agent_def rbind_Inr_iff split: if_splits)
  show ?thesis
    unfolding cancel_intent_def wp_head_state wp_head_lift wp_tail_if
  proof (intro conjI allI impI; (simp only: wp_basic)?)
    fix aid i
    assume "require_agent_scope (w_state w) a ''purchase_intents:cancel'' = Inr aid"
      and "intent_for_agent (w_state w) aid k = Inr i"
    then have "a = AgentActor (in_agent_id i)" and "bget (intents (w_state w)) k = Some i"
      by (auto dest: agent executing_agent_Inr)
    then show "wp (bind (transition i Cancelled) (\<lambda>j. bind (put_intent (in_id j) j) (\<lambda>_.
        bind (audit E aid ''cancel_purchase_intent'' (Some k) None (Some ''allowed'') (JObj [])) (\<lambda>_.
        ret (sanitized_intent j)))))
      (\<lambda>_ v. \<exists>i at entry. bget (intents (w_state w)) k = Some i \<and> a = AgentActor (in_agent_id i)
        \<and> in_state i \<in> {Proposed, ApprovalRequired}
        \<and> w_state v = audited ((w_state w)\<lparr>intents := bput (in_id i)
            (i\<lparr>in_state := Cancelled, in_updated_at := at\<rparr>) (intents (w_state w))\<rparr>) entry
        \<and> au_action entry = ''cancel_purchase_intent'') (\<lambda>_ _. True) w"
      unfolding wp_head_transition wp_head_put wp_bind [of "audit E aid _ _ _ _ _"] wp_audit wp_basic
      by (auto simp: with_intent_def can_transition_into) (blast intro: new_entry_action)+
  qed
qed

section \<open>Recovery after a restart\<close>

text \<open>An intent as the recovery leaves it.\<close>

definition recovered :: "int \<Rightarrow> purchase_intent \<Rightarrow> purchase_intent" where
  "recovered at i =
     (if in_state i = Executing
      then i\<lparr>in_state := Unknown, in_updated_at := at, in_last_error := Some recovered_error\<rparr>
      else i)"

definition recovering :: "treasury_state \<Rightarrow> string list \<Rightarrow> treasury_state world \<Rightarrow> bool" where
  "recovering s ks v \<longleftrightarrow>
     (\<forall>k i. bget (intents s) k = Some i \<longrightarrow>
        (if k \<in> set ks then in_state i = Executing \<and> bget (intents (w_state v)) k = Some i
         else \<exists>at. bget (intents (w_state v)) k = Some (recovered at i)))
     \<and> (\<forall>k \<in> set ks. bget (intents s) k \<noteq> None) \<and> distinct ks"

lemma recover_one_step:
  assumes "recovering s (k # ks) v"
  shows "wp (recover_one E k) (\<lambda>_ u. recovering s ks u) (\<lambda>e _. e \<in> {audit_full, generation_full}) v"
proof -
  from assms obtain i where i: "bget (intents s) k = Some i" "bget (intents (w_state v)) k = Some i"
    "in_state i = Executing" "k \<notin> set ks"
    by (auto simp: recovering_def)
  have "recovering s ks u"
    if "intents (w_state u) = bput k (recovered at i) (intents (w_state v))" for u at
    using assms i that unfolding recovering_def by (auto; metis)
  note next_one = this [of _ "w_clock v (w_reads v)"]
  show ?thesis
    unfolding recover_one_def Let_def wp_head_state wp_head_lift ok_or_def
    by (auto simp: i wp_head_transition wp_head_put wp_audit can_transition_into with_intent_def
        recovered_def intro!: next_one)
qed

lemma recover_all:
  "recovering s ks v \<Longrightarrow>
     wp (each (recover_one E) ks) (\<lambda>_ u. recovering s [] u) (\<lambda>e _. e \<in> {audit_full, generation_full}) v"
proof (induction ks arbitrary: v)
  case (Cons k ks)
  from recover_one_step [OF Cons.prems] show ?case
    unfolding each.simps wp_bind by (rule wp_mono) (erule Cons.IH, assumption)
qed (simp add: wp_basic)

lemma recovering_start:
  assumes "bm.well_keyed in_id (intents (w_state w))"
  shows "recovering (w_state w)
    (map in_id (filter (\<lambda>i. in_state i = Executing) (bvals (intents (w_state w))))) w"
proof -
  let ?m = "intents (w_state w)"
  have "in_id (snd e) = fst e" if "e \<in> set (items ?m)" for e
    using assms that bget_items [of ?m "fst e" "snd e"] by (simp add: bm.well_keyedD)
  then have "map in_id (bvals ?m) = map fst (items ?m)" by (simp add: bvals_def)
  then have "distinct (map in_id (bvals ?m))" by simp
  then have d: "distinct (map in_id (filter (\<lambda>i. in_state i = Executing) (bvals ?m)))"
    by (rule distinct_map_filter)
  have key: "k \<in> set (map in_id (filter (\<lambda>i. in_state i = Executing) (bvals ?m)))
      \<longleftrightarrow> (\<exists>j. bget ?m k = Some j \<and> in_state j = Executing)" for k
    using assms bm.well_keyedD [of in_id ?m] by (fastforce simp: set_bvals image_iff)
  show ?thesis
    unfolding recovering_def key using d by (auto simp: recovered_def dest: bm.well_keyed_vals [OF assms])
qed

text \<open>
  C24: Recovery after a restart finds every payment that was under way, whatever its number, and
  marks it as unknown, so that its money stays held and it is never retried; every other intent
  is left alone. It fails only when the audit log or the generation counter is exhausted.
\<close>

theorem recovery_quarantines_all:
  assumes "bm.well_keyed in_id (intents (w_state w))"
  shows "wp (recover_interrupted_executions E)
    (\<lambda>n v. n = length (filter (\<lambda>i. in_state i = Executing) (bvals (intents (w_state w))))
       \<and> (\<forall>k i. bget (intents (w_state w)) k = Some i \<longrightarrow>
            (\<exists>at. bget (intents (w_state v)) k = Some (recovered at i))))
    (\<lambda>e _. e \<in> {audit_full, generation_full}) w"
  unfolding recover_interrupted_executions_def Let_def wp_head_state
    wp_bind [of "each _ _"] wp_basic
  by (rule wp_mono [OF recover_all [OF recovering_start [OF assms]]]) (simp_all add: recovering_def)

theorem recovery_quarantines_all_witness:
  "wp (recover_interrupted_executions plain_env)
    (\<lambda>n v. n = length (filter (\<lambda>i. in_state i = Executing) (bvals (intents (w_state (small_world Executing)))))
       \<and> (\<forall>k i. bget (intents (w_state (small_world Executing))) k = Some i \<longrightarrow>
            (\<exists>at. bget (intents (w_state v)) k = Some (recovered at i))))
    (\<lambda>e _. e \<in> {audit_full, generation_full}) (small_world Executing)"
  by (rule recovery_quarantines_all) (simp add: bm.well_keyed_def)

section \<open>Keeping intents out of a set of states\<close>

text \<open>\<open>no_new P\<close>: every intent in a state of \<open>P\<close> was in a state of \<open>P\<close> before.\<close>

definition no_new ::
  "transaction_state set \<Rightarrow> treasury_state world \<Rightarrow> treasury_state world \<Rightarrow> bool" where
  "no_new P w v \<longleftrightarrow> (\<forall>k j. bget (intents (w_state v)) k = Some j \<longrightarrow> in_state j \<in> P \<longrightarrow>
     (\<exists>i. bget (intents (w_state w)) k = Some i \<and> in_state i \<in> P))"

lemma no_new_same: "intents (w_state v) = intents (w_state w) \<Longrightarrow> no_new P w v"
  by (simp add: no_new_def)

interpretation nn: rollback_relation "no_new P" E C "no_new P" for P E C
proof
  show "no_new P u v \<Longrightarrow> no_new P v w \<Longrightarrow> no_new P u w" for u v w
    by (simp add: no_new_def) metis
qed (auto simp: no_new_same same_memory_def same_state_def same_books_def intro: save_keeps)

lemma keeps_nn_put: "in_state j \<notin> P \<Longrightarrow> keeps (no_new P) (put_intent k j)"
  unfolding put_intent_def update_state_def by (rule nn.keeps_modify) (simp add: no_new_def)

lemma keeps_nn_bind:
  assumes "\<And>w. wp m (\<lambda>x v. no_new P w v \<and> Q x) (\<lambda>_. no_new P w) w"
    and "\<And>x. Q x \<Longrightarrow> keeps (no_new P) (f x)"
  shows "keeps (no_new P) (bind m f)"
proof (rule keeps_of_wp, unfold wp_bind)
  show "wp m (\<lambda>x. wp (f x) (\<lambda>_. no_new P w) (\<lambda>_. no_new P w)) (\<lambda>_. no_new P w) w" for w
    by (rule wp_mono [OF assms(1)]) (blast intro: nn.after assms(2))+
qed

lemma keeps_nn_if:
  "(b \<Longrightarrow> keeps (no_new P) (bind m f)) \<Longrightarrow> (\<not> b \<Longrightarrow> keeps (no_new P) (bind n f)) \<Longrightarrow>
     keeps (no_new P) (bind (if b then m else n) f)"
  by simp

lemma keeps_nn_move:
  assumes "n \<notin> P" and "\<And>j. in_state j \<notin> P \<Longrightarrow> keeps (no_new P) (f j)"
  shows "keeps (no_new P) (bind (transition i n) f)"
  by (rule keeps_nn_bind [of _ _ "\<lambda>j. in_state j \<notin> P"]) (simp_all add: wp_transition no_new_same assms)

lemma keeps_nn_start:
  assumes "in_state i \<notin> P" and "\<And>j. in_state j \<notin> P \<Longrightarrow> keeps (no_new P) (f j)"
  shows "keeps (no_new P) (bind (ret i) f)"
  by (rule keeps_nn_bind [of _ _ "\<lambda>j. in_state j \<notin> P"]) (simp_all add: wp_basic no_new_same assms)

lemma unput_no_new: "unput E w v \<Longrightarrow> no_new P w v"
  by (simp add: unput_def no_new_same)

lemma keeps_nn_unput: "keeps (unput E) m \<Longrightarrow> keeps (no_new P) m"
  by (auto simp: keeps_def intro: unput_no_new)

section \<open>What the agents' operations lead to\<close>

lemma keeps_nn_create:
  assumes "P \<inter> {Proposed, Failed, ApprovalRequired, PolicyValidated} = {}"
  shows "keeps (no_new P) (create_intent E a r)"
proof -
  have "keeps (no_new P) (file_intent E aid agent p req d)" for aid agent p req d
    unfolding file_intent_def
    by (intro nn.keeps_basic keeps_nn_if keeps_nn_move keeps_nn_put) (use assms in auto)
  then have "keeps (no_new P) (decide_and_file E aid agent p req usage)" for aid agent p req usage
    unfolding decide_and_file_def by (intro nn.keeps_basic nn.keeps_views)
  then show ?thesis
    unfolding create_intent_def by (intro nn.keeps_basic nn.keeps_views nn.keeps_admin)
qed

lemma keeps_nn_cancel: "Cancelled \<notin> P \<Longrightarrow> keeps (no_new P) (cancel_intent E a k)"
  unfolding cancel_intent_def by (intro nn.keeps_basic keeps_nn_move keeps_nn_put)

lemma keeps_nn_prepare:
  assumes "P \<inter> {FundsReserved, Executing} = {}"
  shows "keeps (no_new P) (prepare_intent_execution E a k)"
proof (rule keeps_of_wp, rule prepare_rule)
  have "keeps (no_new P) (reserve_and_start E aid iid p i)" for aid iid p i
    unfolding reserve_and_start_def
    by (intro nn.keeps_basic keeps_nn_move keeps_nn_put keeps_nn_unput [OF keeps_unput_ledger])
      (use assms in auto)
  then show "wp (reserve_and_start E aid k p i) (\<lambda>_. no_new P w) (\<lambda>_. no_new P w) u"
    if "same_state w u" for w u aid p i
    using that by (intro nn.after) (simp add: no_new_same same_state_def)
qed (simp add: no_new_same same_state_def)

text \<open>The states an outcome can lead to.\<close>

primrec outcome_state :: "provider_outcome \<Rightarrow> transaction_state" where
  "outcome_state (OutApproved _) = Settled"
| "outcome_state (OutDeclined _) = Declined"
| "outcome_state (OutPending _) = ProviderPending"
| "outcome_state (OutUnknown _) = Unknown"

lemma settle_outcome_state:
  "in_state i = Executing \<Longrightarrow> wp (settle_outcome E i out)
     (\<lambda>x v. in_state (fst x) = outcome_state out) (\<lambda>_ _. True) w"
  by (cases out) (auto simp: settle_outcome_def wp_simps record_settled_def append_ledger_def Let_def)

lemma keeps_nn_outcome:
  assumes "outcome_state out \<notin> P"
  shows "keeps (no_new P) (apply_provider_outcome E aid k out)"
proof -
  have "keeps (no_new P) (bind (settle_outcome E i out) (\<lambda>p. bind (audit E aid ''provider_outcome''
      (Some k) (Some (in_policy_version i)) (Some (outcome_label (in_state (fst p)))) (outcome_details (fst p)))
      (\<lambda>_. bind (put_intent (in_id (fst p)) (fst p)) (\<lambda>_. ret (snd p)))))"
    if "in_state i = Executing" for i
  proof (rule keeps_nn_bind [of _ _ "\<lambda>p. in_state (fst p) \<notin> P"])
    fix w :: "treasury_state world"
    have "wp (settle_outcome E i out) (\<lambda>_ u. unput E w u) (\<lambda>_ u. unput E w u) w"
      using follows_settle [of E w i out] unput_refl [of E w]
      unfolding follows_def by (blast intro: wp_mono)
    from wp_conj [OF this settle_outcome_state [OF that]]
    show "wp (settle_outcome E i out) (\<lambda>p v. no_new P w v \<and> in_state (fst p) \<notin> P) (\<lambda>_. no_new P w) w"
      by (rule wp_mono) (auto intro: unput_no_new simp: assms)
  qed (intro nn.keeps_basic keeps_nn_put)
  then show ?thesis
    unfolding apply_provider_outcome_def case_prod_unfold
    by (intro nn.keeps_bind [where m = get_state] nn.keeps_bind [where m = "lift _"] nn.keeps_if nn.keeps_basic(1-4)
        nn.keeps_quiet [OF keeps_same_basic(5)]) simp_all
qed

lemma keeps_nn_complete:
  "P \<inter> {Settled, Declined, ProviderPending, Unknown} = {} \<Longrightarrow>
     keeps (no_new P) (complete_intent_execution E a k)"
  unfolding complete_intent_execution_def
  by (intro nn.keeps_basic keeps_nn_unput [OF keeps_unput_authorize] keeps_nn_outcome)
    (rename_tac out, case_tac out, auto)

lemma keeps_nn_quarantine:
  "Unknown \<notin> P \<Longrightarrow> keeps (no_new P) (quarantine_execution E k reason)"
  unfolding quarantine_execution_def Let_def
  by (intro nn.keeps_basic keeps_nn_if keeps_nn_move keeps_nn_start keeps_nn_put) auto

section \<open>Approval is the owner's\<close>

lemma keeps_nn_execute:
  assumes "P \<inter> {FundsReserved, Executing, Settled, Declined, ProviderPending, Unknown} = {}"
  shows "keeps (no_new P) (execute_intent E a k)"
proof (rule keeps_of_wp)
  have "keeps (no_new P) (prepare_intent_execution E a k)" "keeps (no_new P) (complete_intent_execution E a k)"
    "keeps (no_new P) (quarantine_execution E k reason)" for a reason
    using assms by (auto intro!: keeps_nn_prepare keeps_nn_complete keeps_nn_quarantine)
  then show "wp (execute_intent E a k) (\<lambda>_. no_new P w) (\<lambda>_. no_new P w) w" for w
    by (intro nn.execute_rule [where Q = "no_new P w"] nn.after [OF nn.rel_refl] nn.after)
qed

lemma nn_execute_persisted:
  assumes "P \<inter> {FundsReserved, Executing, Settled, Declined, ProviderPending, Unknown} = {}"
  shows "wp (execute_persisted E C token k) (\<lambda>_. no_new P w) (\<lambda>_. no_new P w) w"
proof (rule nn.execute_persisted_rule [where Q = "no_new P w"])
  show "wp (prepare_intent_execution E a k) (\<lambda>_. no_new P w) (\<lambda>_. no_new P w) u"
    if "same_state w u" for a u
    using that assms by (intro nn.after keeps_nn_prepare) (auto simp: no_new_same same_state_def)
  show "wp (complete_intent_execution E a k) (\<lambda>_. no_new P w) (\<lambda>_. no_new P w) u"
    if "no_new P w u" for a u
    using assms by (intro nn.after [OF that] keeps_nn_complete) auto
qed (use assms in \<open>auto intro: keeps_nn_quarantine nn.after nn.keeps_save\<close>)

lemma keeps_nn_agent: "keeps (no_new {Approved}) (dispatch E (AgentActor k) r)"
proof (cases "requires_owner r")
  case True
  then show ?thesis by (auto simp: keeps_def dispatch_refused no_new_same)
next
  case False
  then show ?thesis
    by (cases r) (simp_all add: requires_owner_def keeps_nn_create keeps_nn_cancel keeps_nn_execute
        nn.keeps_views)
qed

text \<open>
  C9: Only the owner approves. A persisted request under any token but the owner's leaves no
  intent approved that was not approved before, whatever the request and however it ends.
\<close>

theorem approval_is_the_owners:
  assumes "token_hash E token \<noteq> ow_token_hash (owner (w_state w))"
    and "bget (intents (w_state (snd (handle_persisted E C token r w)))) k = Some j"
    and "in_state j = Approved"
  shows "\<exists>i. bget (intents (w_state w)) k = Some i \<and> in_state i = Approved"
proof -
  have "wp (handle E token r) (\<lambda>_. no_new {Approved} w) (\<lambda>_. no_new {Approved} w) w"
    unfolding handle_def wp_bind
  proof (rule wp_mono [OF wp_authenticate])
    fix a v
    assume "same_state w v \<and> (case a of OwnerActor \<Rightarrow> token_hash E token = ow_token_hash (owner (w_state w))
        | AgentActor k \<Rightarrow> token_hash E token \<noteq> ow_token_hash (owner (w_state w))
            \<and> (\<exists>r \<in> set (bvals (agents (w_state w))). ag_id r = k
               \<and> live_agent (token_hash E token) (w_clock w (w_reads w)) r))"
    with assms(1) obtain l where "a = AgentActor l" and "no_new {Approved} w v"
      by (cases a) (auto simp: same_state_def no_new_same)
    then show "wp (dispatch E a r) (\<lambda>_. no_new {Approved} w) (\<lambda>_. no_new {Approved} w) v"
      using nn.after keeps_nn_agent by blast
  qed (simp add: same_state_def no_new_same)
  from nn.change_rule [OF this] have "wp (handle_persisted E C token r) (\<lambda>_. no_new {Approved} w) (\<lambda>_. no_new {Approved} w) w"
    by (cases r) (simp_all add: handle_persisted_def wp_basic nn.rel_refl nn_execute_persisted)
  then have "no_new {Approved} w (snd (handle_persisted E C token r w))"
    by (auto simp: wp_def split: prod.splits sum.splits)
  with assms(2,3) show ?thesis by (simp add: no_new_def)
qed

theorem approval_is_the_owners_witness:
  "\<not> (\<exists>j. bget (intents (w_state (snd (handle_persisted plain_env plain_codec ''token''
      (OwnerApproveIntent ''i1'') (small_world ApprovalRequired))))) ''i1'' = Some j
    \<and> in_state j = Approved)"
  using approval_is_the_owners [of plain_env "''token''" "small_world ApprovalRequired" plain_codec
      "OwnerApproveIntent ''i1''" "''i1''"]
  by (auto simp: token_hash_def small_state_def initial_state_def plain_env_def head_owner_def)

end
