(* ===== verification/Deposits.thy ===== *)
theory Deposits
  imports Example
begin

text \<open>
  What a recorded deposit does to the treasury's authority: nothing when it is unverified or
  known already, exactly the reinvested share when it is verified.
\<close>

section \<open>The effect of filing a deposit\<close>

definition share_in :: "string \<Rightarrow> money \<Rightarrow> int" where
  "share_in cur m = (if currency m = cur \<and> 0 < minor m then minor m else 0)"

definition deposited :: "bool \<Rightarrow> money \<Rightarrow> treasury_state \<Rightarrow> treasury_state \<Rightarrow> bool" where
  "deposited verified reinvested s t \<longleftrightarrow> intents t = intents s
     \<and> (\<forall>cur. authority cur t = authority cur s + share_in cur reinvested)
     \<and> (\<not> verified \<longrightarrow> provider t = provider s \<and> manual_provider t = manual_provider s)"

lemma deposited_books:
  "ledger t = ledger s \<Longrightarrow> intents t = intents s \<Longrightarrow> minor z \<le> 0 \<Longrightarrow>
     provider t = provider s \<and> manual_provider t = manual_provider s \<or> verified \<Longrightarrow> deposited verified z s t"
  by (auto simp: deposited_def authority_def held_total_def share_in_def)

lemma deposited_trans:
  "deposited v z s t \<Longrightarrow> minor z \<le> 0 \<Longrightarrow> deposited v m t u \<Longrightarrow> deposited v m s u"
  "deposited v m s t \<Longrightarrow> deposited v z t u \<Longrightarrow> minor z \<le> 0 \<Longrightarrow> deposited v m s u"
  by (auto simp: deposited_def share_in_def)

lemma deposited_event:
  assumes "le_kind e \<in> {IncomeVerified, IncomeUnverified}" and "minor z \<le> 0"
  shows "deposited verified z s (s\<lparr>ledger := ledger s @ [e]\<rparr>)"
  using assms by (cases "le_kind e") (simp_all add: deposited_def authority_ledger share_in_def)

lemma deposited_topup:
  assumes "le_kind e = OperatorTopUp" and "0 < minor (le_amount e)"
  shows "deposited verified (le_amount e) s (s\<lparr>ledger := ledger s @ [e]\<rparr>)"
  using assms by (simp add: deposited_def authority_ledger share_in_def)

text \<open>A step of \<open>file_deposit\<close> that brings no authority, and the step that brings the share.\<close>

definition none :: money where "none = \<lparr>minor = 0, currency = []\<rparr>"

lemma credit_deposited:
  "wp (credit_provider amount) (\<lambda>_ v. deposited True none (w_state w) (w_state v)) (\<lambda>_ _. True) w"
  unfolding credit_provider_def manual_entry_def put_provider_def put_manual_balance_def
  by (cases "provider_mode (w_state w)") (auto simp: wp_simps none_def intro!: deposited_books)

lemma income_deposited:
  "kind \<in> {IncomeVerified, IncomeUnverified} \<Longrightarrow>
     wp (append_ledger E kind amount iid source v) (\<lambda>_ u. deposited verified none (w_state w) (w_state u))
       (\<lambda>_ _. True) w"
  by (rule wp_mono [OF append_ledger_wp]) (auto simp: none_def intro!: deposited_event)

lemma topup_deposited:
  "wp (if 0 < minor m then append_ledger E OperatorTopUp m iid source v else ret ())
     (\<lambda>_ u. deposited verified m (w_state w) (w_state u)) (\<lambda>_ _. True) w"
proof (cases "0 < minor m")
  case True
  then have "wp (append_ledger E OperatorTopUp m iid source v)
      (\<lambda>_ u. deposited verified m (w_state w) (w_state u)) (\<lambda>_ _. True) w"
    by (intro wp_mono [OF append_ledger_wp]) (auto intro: deposited_topup)
  with True show ?thesis by simp
qed (simp add: wp_basic deposited_books)

lemma file_deposit_effect:
  "wp (file_deposit E amount source verified aid ref fp reinvested)
     (\<lambda>_ v. deposited verified reinvested (w_state w) (w_state v)) (\<lambda>_ _. True) w"
proof -
  have first: "wp (if verified then credit_provider amount else ret ())
      (\<lambda>_ u. deposited verified none (w_state w) (w_state u)) (\<lambda>_ _. True) w"
    using credit_deposited [of amount w] by (simp add: wp_basic deposited_books none_def)
  have kind: "(if verified then IncomeVerified else IncomeUnverified) \<in> {IncomeVerified, IncomeUnverified}"
    by simp
  have zero: "minor none \<le> 0" by (simp add: none_def)
  have last: "wp (bind (update_state (\<lambda>s. s\<lparr>processed_deposits := d s\<rparr>)) (\<lambda>_.
      bind (audit E who act iid pv dec det) (\<lambda>_. ret (x :: json))))
      (\<lambda>_ v. deposited verified reinvested (w_state w) (w_state v)) (\<lambda>_ _. True) u"
    if "deposited verified reinvested (w_state w) (w_state u)" for u :: "treasury_state world" and d who act iid pv dec det x
    by (auto simp: wp_simps none_def intro!: deposited_trans(2) [OF that deposited_books [where z = none]])
  show ?thesis
    unfolding file_deposit_def
  proof (rule wp_seq [OF first], goal_cases)
    case (1 x u)
    then have u: "deposited verified none (w_state w) (w_state u)" .
    show ?case
    proof (rule wp_seq [OF income_deposited [OF kind, where verified = verified]], goal_cases)
      case (1 y v)
      have v: "deposited verified none (w_state w) (w_state v)" by (rule deposited_trans(1) [OF u zero 1])
      show ?case
      proof (rule wp_seq [OF topup_deposited [where verified = verified]], goal_cases)
        case (1 z t)
        from deposited_trans(1) [OF v zero this] show ?case by (rule last)
      qed simp
    qed simp
  qed simp
qed

section \<open>Recording a deposit\<close>

text \<open>
  An unverified deposit is only noted: it gives no authority in any currency, and neither the
  provider's books nor the intents change.
\<close>

theorem unverified_deposit_is_only_noted:
  "wp (owner_record_deposit E a amount source False aid reference)
     (\<lambda>_ v. (\<forall>cur. authority cur (w_state v) = authority cur (w_state w))
        \<and> intents (w_state v) = intents (w_state w) \<and> provider (w_state v) = provider (w_state w)
        \<and> manual_provider (w_state v) = manual_provider (w_state w))
     (\<lambda>_ _. True) w"
proof -
  have "wp (file_deposit E amount source' False aid ref fp z)
      (\<lambda>_ v. (\<forall>cur. authority cur (w_state v) = authority cur (w_state w))
        \<and> intents (w_state v) = intents (w_state w) \<and> provider (w_state v) = provider (w_state w)
        \<and> manual_provider (w_state v) = manual_provider (w_state w)) (\<lambda>_ _. True) w"
    if "minor z = 0" for source' ref fp z
    using that by (intro wp_mono [OF file_deposit_effect]) (simp_all add: deposited_def share_in_def)
  then show ?thesis
    unfolding owner_record_deposit_def Let_def wp_head_state wp_head_lift wp_case_option wp_tail_if
    by (simp add: wp_basic)
qed

text \<open>
  A deposit reference counts once: recording it again changes nothing, with the same details
  or with others.
\<close>

theorem deposit_counts_once:
  assumes "bget (processed_deposits (w_state w)) (opaque_reference E ''deposit'' reference) = Some fp"
  shows "snd (owner_record_deposit E a amount source verified aid reference w) = w"
proof -
  have "wp (owner_record_deposit E a amount source verified aid reference) (\<lambda>_ v. v = w) (\<lambda>_ v. v = w) w"
    unfolding owner_record_deposit_def Let_def wp_head_state wp_head_lift wp_case_option wp_tail_if
    by (simp add: wp_basic assms)
  then show ?thesis by (auto simp: wp_def split: prod.splits sum.splits)
qed

text \<open>
  C32: A verified deposit that is recorded as new adds to the authority exactly the share that the
  target agent's policy reinvests, in that policy's currency only, and the authority stays under
  the policy's exposure ceiling.
\<close>

theorem verified_deposit_adds_the_share:
  "wp (owner_record_deposit E a amount source True aid reference)
     (\<lambda>_ v. (\<exists>fp. bget (processed_deposits (w_state w)) (opaque_reference E ''deposit'' reference) = Some fp)
        \<or> (\<exists>k agent p. aid = Some k \<and> bget (agents (w_state w)) k = Some agent
          \<and> bget (policies (w_state w)) (ag_policy_id agent) = Some p
          \<and> currency amount = primary_currency p
          \<and> (\<forall>cur. authority cur (w_state v) = authority cur (w_state w)
               + (if cur = primary_currency p
                  then minor amount * int (reinvestment_ratio_bps p) div 10000 else 0))
          \<and> authority (primary_currency p) (w_state v) \<le> minor (absolute_exposure_ceiling p)))
     (\<lambda>_ _. True) w"
proof -
  let ?s = "w_state w"
  have "wp (file_deposit E amount source' True aid ref fp m)
      (\<lambda>_ v. \<exists>k agent p. aid = Some k \<and> bget (agents ?s) k = Some agent
          \<and> bget (policies ?s) (ag_policy_id agent) = Some p \<and> currency amount = primary_currency p
          \<and> (\<forall>cur. authority cur (w_state v) = authority cur ?s
               + (if cur = primary_currency p
                  then minor amount * int (reinvestment_ratio_bps p) div 10000 else 0))
          \<and> authority (primary_currency p) (w_state v) \<le> minor (absolute_exposure_ceiling p))
      (\<lambda>_ _. True) w"
    if m: "verified_reinvestment ?s amount aid = Inr m" and pos: "0 < minor amount" for source' ref fp m
  proof -
    from m obtain k agent p l exposure where
      q: "aid = Some k" "bget (agents ?s) k = Some agent" "bget (policies ?s) (ag_policy_id agent) = Some p"
        "currency amount = primary_currency p" and
      sc: "scaled_basis_points amount (reinvestment_ratio_bps p) = Inr m" and
      l: "ledger_snapshot ?s (primary_currency p) = Inr l" and
      x: "checked_add (available_authority l) m = Inr exposure"
        "minor exposure \<le> minor (absolute_exposure_ceiling p)"
      by (auto simp: verified_reinvestment_def rbind_Inr_iff not_less split: if_splits)
    let ?share = "minor amount * int (reinvestment_ratio_bps p) div 10000"
    from sc pos have mm: "minor m = ?share" "currency m = primary_currency p" "0 \<le> ?share"
      using q(4) by (auto simp: scaled_basis_points_def rbind_Inr_iff Let_def trunc_div_nonneg
          i128_checked_mul_def pos_imp_zdiv_nonneg_iff split: if_splits)
    have "share_in cur m = (if cur = primary_currency p then ?share else 0)" for cur
      using mm by (simp add: share_in_def)
    moreover have "authority (primary_currency p) ?s + ?share \<le> minor (absolute_exposure_ceiling p)"
      using x snapshot_sums(1) [OF l] mm by (simp add: checked_Inr)
    ultimately show ?thesis
      using q by (intro wp_mono [OF file_deposit_effect]) (auto simp: deposited_def)
  qed
  then show ?thesis
    unfolding owner_record_deposit_def Let_def wp_head_state wp_head_lift wp_case_option wp_tail_if
    by (simp add: wp_basic)
qed

theorem deposit_counts_once_witness:
  "snd (owner_record_deposit plain_env OwnerActor (cad 5) ''gift'' True (Some ''buyer'') ''r1''
     ((small_world Settled)\<lparr>w_state := (small_state Settled)
        \<lparr>processed_deposits := bput (opaque_reference plain_env ''deposit'' ''r1'') ''fp'' bempty\<rparr>\<rparr>))
   = (small_world Settled)\<lparr>w_state := (small_state Settled)
        \<lparr>processed_deposits := bput (opaque_reference plain_env ''deposit'' ''r1'') ''fp'' bempty\<rparr>\<rparr>"
  by (rule deposit_counts_once) simp

end
