(* ===== verification/Durability.thy ===== *)
theory Durability
  imports Example
begin

text \<open>
  What survives on disk: a write of the state file is all or nothing, a saved treasury is read
  back as it was, a file that was not written with the audit key is refused, and a bootstrapped
  treasury satisfies the invariants.
\<close>

section \<open>File operations and the files they leave alone\<close>

text \<open>\<open>leaves names w v\<close>: the memory and all files but those named are as before.\<close>

definition leaves :: "string set \<Rightarrow> 's world \<Rightarrow> 's world \<Rightarrow> bool" where
  "leaves names w v \<longleftrightarrow> w_state v = w_state w \<and> w_key v = w_key w
     \<and> (\<forall>n. n \<notin> names \<longrightarrow> file_at v n = file_at w n)"

definition private_file :: "string \<Rightarrow> file_node \<Rightarrow> bool" where
  "private_file bytes f \<longleftrightarrow> fn_kind f = RegularFile \<and> \<not> group_or_other (fn_mode f) \<and> fn_bytes f = bytes"

definition new_file :: "string \<Rightarrow> file_node" where
  "new_file bytes = \<lparr>fn_kind = RegularFile, fn_mode = 384, fn_bytes = bytes\<rparr>"

lemma leaves_refl: "leaves names w w"
  by (simp add: leaves_def)

lemma leaves_trans: "leaves m u v \<Longrightarrow> leaves n v w \<Longrightarrow> leaves (m \<union> n) u w"
  by (simp add: leaves_def)

lemma leaves_mono: "leaves m u v \<Longrightarrow> m \<subseteq> n \<Longrightarrow> leaves n u v"
  by (auto simp: leaves_def)

interpretation intact: step_relation "leaves {} :: 's world \<Rightarrow> 's world \<Rightarrow> bool"
  by unfold_locales (simp_all add: leaves_def)

lemma file_at_ios [simp]: "file_at (w\<lparr>w_ios := n\<rparr>) name = file_at w name"
  by (simp add: file_at_def)

lemma keeps_intact_basic:
  "keeps (leaves {}) io_call" "keeps (leaves {}) (random_hex E n)"
  by (simp_all add: keeps_def leaves_def io_call_def Let_def file_at_def split: option.split)

lemma keeps_intact_reads:
  "keeps (leaves {}) (metadata_of name)" "keeps (leaves {}) (path_exists name)"
  "keeps (leaves {}) (verify_private_file name)" "keeps (leaves {}) (read_private_file name)"
  "keeps (leaves {}) sync_directory"
  unfolding metadata_of_def path_exists_def verify_private_file_def read_private_file_def
    sync_directory_def
  by (intro intact.keeps_rules keeps_intact_basic)+

lemma keeps_intact_ensure: "keeps (leaves {}) ensure_private_directory"
  unfolding ensure_private_directory_def
  by (intro intact.keeps_rules keeps_intact_basic; rule intact.keeps_modify; simp add: leaves_def file_at_def)

lemma wp_put_file:
  "wp (put_file name f) Q R w = Q () (w\<lparr>w_disk := (w_disk w)\<lparr>d_files := bput name f (d_files (w_disk w))\<rparr>\<rparr>)"
  "wp (drop_file name) Q R w = Q () (w\<lparr>w_disk := (w_disk w)\<lparr>d_files := bdel name (d_files (w_disk w))\<rparr>\<rparr>)"
  by (simp_all add: put_file_def drop_file_def wp_simps)

lemma wp_write_all:
  "wp (write_all name f bytes) Q R w = (case w_io w (w_ios w) of
     None \<Rightarrow> Q () (w\<lparr>w_ios := Suc (w_ios w), w_disk := (w_disk w)\<lparr>d_files :=
       bput name (f\<lparr>fn_bytes := bytes\<rparr>) (d_files (w_disk w))\<rparr>\<rparr>)
   | Some (e, n) \<Rightarrow> R (Io e) (w\<lparr>w_ios := Suc (w_ios w), w_disk := (w_disk w)\<lparr>d_files :=
       bput name (f\<lparr>fn_bytes := take n bytes\<rparr>) (d_files (w_disk w))\<rparr>\<rparr>))"
  by (simp add: wp_def write_all_def put_file_def Let_def split: option.split prod.split)

text \<open>A query that succeeded, or failed, left the files alone.\<close>

lemma wp_intact:
  "keeps (leaves {}) m \<Longrightarrow> wp m (\<lambda>_. leaves {} w) (\<lambda>_. leaves {} w) w"
  by (simp add: keeps_wp)

lemma wp_then_intact:
  assumes "wp m Q (\<lambda>_. R) w" and "keeps (leaves {}) m'"
    and "\<And>x u v. Q x u \<Longrightarrow> leaves {} u v \<Longrightarrow> Q' v" and "\<And>u. Q' u \<Longrightarrow> R u"
  shows "wp (bind m (\<lambda>_. m')) (\<lambda>_. Q') (\<lambda>_. R) w"
  unfolding wp_bind
proof (rule wp_mono [OF assms(1)])
  show "wp m' (\<lambda>_. Q') (\<lambda>_. R) t" if "Q x t" for x t
    by (rule wp_mono [OF wp_intact [OF assms(2)]]) (blast intro: assms(3) [OF that] assms(4))+
qed

lemma write_new_wp:
  "wp (write_new_private_file name bytes)
     (\<lambda>_ v. leaves {name} w v \<and> file_at v name = Some (new_file bytes))
     (\<lambda>_ v. leaves {name} w v) w"
proof -
  have verified: "wp (verify_private_file name)
      (\<lambda>_ v. leaves {name} w v \<and> file_at v name = Some (new_file bytes)) (\<lambda>_ v. leaves {name} w v) u"
    if "leaves {name} w u" and "file_at u name = Some (new_file bytes)" for u
    by (rule wp_mono [OF wp_intact [OF keeps_intact_reads(3)]]) (use that in \<open>auto simp: leaves_def\<close>)
  show ?thesis
    unfolding write_new_private_file_def Let_def
    by (auto simp: wp_bind wp_basic wp_if wp_io wp_put_file wp_write_all split: option.splits
        intro!: verified) (auto simp: leaves_def file_at_def new_file_def)
qed

lemma rename_wp:
  assumes "old \<noteq> new"
  shows "wp (rename_file old new)
     (\<lambda>_ v. leaves {old, new} w v \<and> file_at v new = file_at w old \<and> file_at w old \<noteq> None)
     (\<lambda>_ v. leaves {} w v) w"
  using assms unfolding rename_file_def
  by (auto simp: wp_bind wp_basic wp_if wp_io wp_lift wp_put_file leaves_def file_at_def
      split: option.splits)

section \<open>The state file\<close>

lemma temp_name_neq [simp]:
  "temp_name r \<noteq> state_file" "temp_name r \<noteq> audit_key_file" "audit_key_file \<noteq> state_file"
  "state_file \<noteq> audit_key_file"
  by (simp_all add: temp_name_def state_file_def audit_key_file_def)

definition private_names :: "string set" where
  "private_names = range temp_name \<union> {audit_key_file}"

lemma state_file_public [simp]: "state_file \<notin> private_names"
  by (auto simp: private_names_def dest: sym)

text \<open>Either the old file or the whole new one, never a part.\<close>

definition old_or_new :: "string \<Rightarrow> 's world \<Rightarrow> 's world \<Rightarrow> bool" where
  "old_or_new bytes w v \<longleftrightarrow> file_at v state_file = file_at w state_file
     \<or> file_at v state_file = Some (new_file bytes)"

lemma write_atomic_wp:
  "wp (write_atomic_private_file E state_file bytes)
     (\<lambda>_ v. leaves (insert state_file (range temp_name)) w v \<and> file_at v state_file = Some (new_file bytes))
     (\<lambda>_ v. leaves (insert state_file (range temp_name)) w v \<and> old_or_new bytes w v) w"
  unfolding write_atomic_private_file_def wp_bind [of "random_hex E 12"] wp_random
proof (rule wp_seq [OF write_new_wp], goal_cases)
  case (1 x u)
  let ?t = "temp_name (hex_encode E (w_rand w (w_draws w) 12))"
  let ?N = "insert state_file (range temp_name)"
  from 1 have u: "leaves ?N w u" "file_at u ?t = Some (new_file bytes)"
    "file_at u state_file = file_at w state_file"
    using temp_name_neq(1) [symmetric] by (auto simp: leaves_def file_at_def)
  have drop: "wp (bind (attempt (remove_file ?t)) (\<lambda>_. fail e))
      (\<lambda>_ v. leaves ?N w v \<and> file_at v state_file = Some (new_file bytes))
      (\<lambda>_ v. leaves ?N w v \<and> old_or_new bytes w v) v" if "leaves {} u v" for v e
    using that u temp_name_neq(1) [symmetric] unfolding remove_file_def
    by (auto simp: wp_bind wp_basic wp_attempt wp_io wp_put_file old_or_new_def leaves_def file_at_def
        split: option.splits)
  have verified: "wp (verify_private_file state_file)
      (\<lambda>_ v. leaves ?N w v \<and> file_at v state_file = Some (new_file bytes))
      (\<lambda>_ v. leaves ?N w v \<and> old_or_new bytes w v) v"
    if "leaves {?t, state_file} u v" and "file_at v state_file = file_at u ?t" for v
  proof -
    have v: "leaves ?N w v" by (rule leaves_mono [OF leaves_trans [OF u(1) that(1)]]) auto
    show ?thesis
      by (rule wp_mono [OF wp_intact [OF keeps_intact_reads(3)]])
        (use that(2) u(2) v in \<open>auto simp: leaves_def old_or_new_def\<close>)
  qed
  show ?case
    unfolding wp_bind [of "attempt (rename_file _ _)"] wp_attempt
    by (rule wp_mono [OF rename_wp [OF temp_name_neq(1)]]) (simp_all add: drop verified)
next
  case (2 e u)
  then show ?case
    using temp_name_neq(1) [symmetric] by (auto simp: leaves_def file_at_def old_or_new_def)
qed

lemma read_private_wp:
  "wp (read_private_file name)
     (\<lambda>bytes v. leaves {} w v \<and> (\<exists>f. file_at w name = Some f \<and> private_file bytes f))
     (\<lambda>_. leaves {} w) w"
  unfolding read_private_file_def verify_private_file_def metadata_of_def
  by (auto simp: wp_bind wp_basic wp_if wp_io wp_lift private_file_def leaves_def ok_or_def
      split: option.splits)

lemma key_file_wp:
  "wp check_key_file
     (\<lambda>_ v. leaves {audit_key_file} w v
        \<and> (\<exists>f. file_at v audit_key_file = Some f \<and> private_file (w_key w) f))
     (\<lambda>_. leaves {audit_key_file} w) w"
proof -
  have made: "wp (bind (write_new_private_file audit_key_file (w_key w)) (\<lambda>_. sync_directory))
      (\<lambda>_ v. leaves {audit_key_file} w v
        \<and> (\<exists>f. file_at v audit_key_file = Some f \<and> private_file (w_key w) f))
      (\<lambda>_. leaves {audit_key_file} w) u" if "leaves {} w u" for u
  proof (rule wp_then_intact [OF wp_mono [OF write_new_wp] keeps_intact_reads(5)])
    have ok: "private_file bytes (new_file bytes)" for bytes
      by (simp add: private_file_def new_file_def group_or_other_def)
    show "leaves {audit_key_file} w v" if "leaves {audit_key_file} u v" for v
      using leaves_trans [OF \<open>leaves {} w u\<close> that] by simp
    show "leaves {audit_key_file} w s' \<and> (\<exists>f. file_at s' audit_key_file = Some f \<and> private_file (w_key w) f)"
      if "leaves {audit_key_file} u s \<and> file_at s audit_key_file = Some (new_file (w_key w))"
        and "leaves {} s s'" for s s' :: "treasury_state world"
      using that \<open>leaves {} w u\<close> ok by (auto simp: leaves_def)
  qed auto
  have found: "wp (bind (read_private_file audit_key_file) (\<lambda>persisted.
        if \<not> constant_time_eq persisted (w_key w)
        then fail (Conflict ''audit key does not match the in-memory treasury'') else ret ()))
      (\<lambda>_ v. leaves {audit_key_file} w v
        \<and> (\<exists>f. file_at v audit_key_file = Some f \<and> private_file (w_key w) f))
      (\<lambda>_. leaves {audit_key_file} w) u" if "leaves {} w u" for u
    unfolding wp_bind [of "read_private_file _"]
    by (rule wp_mono [OF read_private_wp])
      (use that in \<open>auto simp: wp_basic constant_time_eq_iff leaves_def\<close>)
  show ?thesis
    unfolding check_key_file_def wp_bind [of "gets w_key"] wp_basic
  proof (rule wp_seq [OF wp_intact [OF keeps_intact_reads(2)]])
    show "wp (if present then bind (read_private_file audit_key_file) (\<lambda>persisted.
          if \<not> constant_time_eq persisted (w_key w)
          then fail (Conflict ''audit key does not match the in-memory treasury'') else ret ())
        else bind (write_new_private_file audit_key_file (w_key w)) (\<lambda>_. sync_directory))
      (\<lambda>_ v. leaves {audit_key_file} w v
        \<and> (\<exists>f. file_at v audit_key_file = Some f \<and> private_file (w_key w) f))
      (\<lambda>_. leaves {audit_key_file} w) u" if "leaves {} w u" for present u
      using made [OF that] found [OF that] by simp
  qed (auto intro: leaves_mono)
qed

section \<open>Saving\<close>

definition saved_text :: "env \<Rightarrow> codec \<Rightarrow> treasury_state world \<Rightarrow> string" where
  "saved_text E C w = envelope_text C (w_state w) (state_mac E (w_key w) (w_state w))"

definition on_disk :: "env \<Rightarrow> codec \<Rightarrow> treasury_state world \<Rightarrow> treasury_state world \<Rightarrow> bool" where
  "on_disk E C w v \<longleftrightarrow> w_state v = w_state w \<and> w_key v = w_key w
     \<and> file_at v state_file = Some (new_file (saved_text E C w))
     \<and> (\<exists>f. file_at v audit_key_file = Some f \<and> private_file (w_key w) f)
     \<and> validate_state E (w_state w) = Inr () \<and> verify_audit_chain E (w_key w) (w_state w) = Inr ()"

lemma on_disk_intact: "on_disk E C w u \<Longrightarrow> leaves {} u v \<Longrightarrow> on_disk E C w v"
  by (simp add: on_disk_def leaves_def)

lemma on_disk_new: "on_disk E C w u \<Longrightarrow> old_or_new (saved_text E C w) w u"
  by (simp add: on_disk_def old_or_new_def)

lemma save_wp: "wp (save_to E C) (\<lambda>_. on_disk E C w) (\<lambda>_. old_or_new (saved_text E C w) w) w"
proof -
  have old: "old_or_new bytes w u" if "leaves m w u" and "state_file \<notin> m" for m u bytes
    using that by (simp add: leaves_def old_or_new_def)
  have final: "wp (bind (write_atomic_private_file E state_file (saved_text E C w)) (\<lambda>_. sync_directory))
      (\<lambda>_. on_disk E C w) (\<lambda>_. old_or_new (saved_text E C w) w) u"
    if u: "leaves {audit_key_file} w u" "\<exists>f. file_at u audit_key_file = Some f \<and> private_file (w_key w) f"
      and ok: "validate_state E (w_state w) = Inr ()" "verify_audit_chain E (w_key w) (w_state w) = Inr ()" for u
  proof (rule wp_then_intact [OF wp_mono [OF write_atomic_wp] keeps_intact_reads(5)])
    have key: "audit_key_file \<notin> insert state_file (range temp_name)" using temp_name_neq(2) [symmetric] by auto
    show "on_disk E C w v"
      if "leaves (insert state_file (range temp_name)) u t \<and> file_at t state_file = Some (new_file (saved_text E C w))"
        and "leaves {} t v" for t v
      using that u ok key by (auto simp: on_disk_def leaves_def)
    show "old_or_new (saved_text E C w) w t"
      if "leaves (insert state_file (range temp_name)) u t \<and> old_or_new (saved_text E C w) u t" for t
      using that u(1) temp_name_neq(3) [symmetric] by (auto simp: old_or_new_def leaves_def)
  qed (simp_all add: on_disk_new)
  show ?thesis
    unfolding save_to_def
  proof (rule wp_seq [OF wp_intact [OF keeps_intact_ensure]], goal_cases)
    case (1 x u)
    then have u: "leaves {} w u" .
    show ?case
    proof (rule wp_seq [OF key_file_wp], goal_cases)
      case (1 y v)
      with u have "leaves {audit_key_file} w v" and same: "w_state v = w_state w" "w_key v = w_key w"
        and "\<exists>f. file_at v audit_key_file = Some f \<and> private_file (w_key w) f"
        using leaves_trans [OF u, of "{audit_key_file}" v] by (auto simp: leaves_def)
      with final [of v] old [of "{audit_key_file}" v] temp_name_neq(3) [symmetric] show ?case
        unfolding wp_bind [of get_state] wp_bind [of "gets w_key"] wp_get_state wp_basic wp_bind [of "lift _"] wp_lift
        by (auto simp: saved_text_def)
    next
      case (2 e v)
      with leaves_trans [OF u] have "leaves ({} \<union> {audit_key_file}) w v" by blast
      then show ?case by (rule old) simp
    qed
  next
    case (2 e u)
    then show ?case by (rule old) simp
  qed
qed

text \<open>
  C25: Saving is atomic: whatever system call fails, and wherever a write stops, the state file
  afterwards is the old one or the whole new one.
\<close>

theorem save_is_atomic:
  "wp (save_to E C)
     (\<lambda>_ v. file_at v state_file = Some (new_file (saved_text E C w)))
     (\<lambda>_ v. file_at v state_file = file_at w state_file
        \<or> file_at v state_file = Some (new_file (saved_text E C w))) w"
  by (rule wp_mono [OF save_wp]) (simp_all add: on_disk_def old_or_new_def)

section \<open>Loading\<close>

lemma read_back:
  assumes "file_at u name = Some f" and "private_file bytes f" and "w_io u = (\<lambda>_. None)"
  shows "\<exists>n. read_private_file name u = (Inr bytes, u\<lparr>w_ios := n\<rparr>)"
  using assms
  by (auto simp: read_private_file_def verify_private_file_def metadata_of_def run_bind io_call_def
      Let_def private_file_def ok_or_def)

lemma load_saved:
  assumes v: "on_disk E C w v" and d: "w_disk u = w_disk v" and io: "w_io u = (\<lambda>_. None)"
    and parse: "parse_envelope C (saved_text E C w) = Some (w_state w, state_mac E (w_key w) (w_state w))"
    and len: "32 \<le> length (w_key w)"
  shows "fst (load_from E C u) = Inr (w_state w, w_key w)"
proof -
  have same: "file_at (u\<lparr>w_ios := n\<rparr>) name = file_at v name" for n name
    using d by (simp add: file_at_def)
  from v obtain f where f: "file_at u audit_key_file = Some f" "private_file (w_key w) f"
    using same [of "w_ios u"] by (auto simp: on_disk_def)
  obtain n where key: "read_private_file audit_key_file u = (Inr (w_key w), u\<lparr>w_ios := n\<rparr>)"
    using read_back [OF f io] by blast
  have "file_at (u\<lparr>w_ios := n\<rparr>) state_file = Some (new_file (saved_text E C w))"
    using v unfolding same by (simp add: on_disk_def)
  then obtain m where content: "read_private_file state_file (u\<lparr>w_ios := n\<rparr>)
      = (Inr (saved_text E C w), u\<lparr>w_ios := n\<rparr>\<lparr>w_ios := m\<rparr>)"
    using read_back [of "u\<lparr>w_ios := n\<rparr>" state_file "new_file (saved_text E C w)" "saved_text E C w"] io
    by (auto simp: private_file_def new_file_def group_or_other_def)
  show ?thesis
    using parse len v
    by (simp add: load_from_def run_bind key content ok_or_def constant_time_eq_iff on_disk_def)
qed

text \<open>
  C26: A save that succeeds can be read back: on the files it left, and with the system calls
  succeeding, \<open>load_from\<close> returns exactly the state and the key that were saved. The parser of
  the envelope is assumed to undo the printer on this one text.
\<close>

theorem save_then_load:
  assumes "parse_envelope C (saved_text E C w) = Some (w_state w, state_mac E (w_key w) (w_state w))"
    and "32 \<le> length (w_key w)"
  shows "wp (save_to E C) (\<lambda>_ v. \<forall>u. w_disk u = w_disk v \<and> w_io u = (\<lambda>_. None) \<longrightarrow>
      fst (load_from E C u) = Inr (w_state w, w_key w)) (\<lambda>_ _. True) w"
  by (rule wp_mono [OF save_wp]) (use load_saved assms in blast)+

text \<open>A concrete treasury whose first save succeeds.\<close>

definition vault :: "treasury_state world" where
  "vault = (small_world Settled)\<lparr>w_key := replicate 32 CHR ''k'', w_state :=
     initial_state (head_owner\<lparr>ow_token_hash := replicate 64 CHR ''0''\<rparr>) small_policy (cad 1000)\<rparr>"

definition vault_codec :: codec where
  "vault_codec = \<lparr>pretty_text = (\<lambda>_. ''envelope''), parse_envelope = (\<lambda>t. if t = ''envelope''
     then Some (w_state vault, state_mac plain_env (w_key vault) (w_state vault)) else None)\<rparr>"

lemma vault_valid: "validate_state plain_env (w_state vault) = Inr ()"
proof -
  have "items (policies (w_state vault)) = [(''policy'', small_policy)]"
    by (simp add: vault_def initial_state_def small_policy_def)
  moreover have "pl_id small_policy = ''policy''" by (simp add: small_policy_def)
  ultimately show ?thesis
    by (simp add: validate_state_def validate_quota_def require_that_def ensure_def vault_def
        initial_state_def validate_stored_policy_def small_policy_valid validate_provider_def
        simulated_new_def emergency_count_def bkeys_def Let_def)
qed

lemma vault_saves: "wp (save_to plain_env vault_codec) (\<lambda>_ _. True) (\<lambda>_ _. False) vault"
proof -
  have [simp]: "w_io vault = (\<lambda>_. None)" "d_dir (w_disk vault) = None" "d_files (w_disk vault) = bempty"
    by (simp_all add: vault_def small_world_def)
  have [simp]: "audit_log (w_state vault) = []" by (simp add: vault_def initial_state_def)
  show ?thesis
    unfolding save_to_def ensure_private_directory_def check_key_file_def path_exists_def
      write_new_private_file_def write_atomic_private_file_def rename_file_def verify_private_file_def
      metadata_of_def sync_directory_def
    by (simp add: wp_bind wp_basic wp_if wp_io wp_lift wp_attempt wp_random wp_put_file wp_write_all
        wp_modify wp_guard wp_get_state wp_case_sum file_at_def vault_valid verify_audit_chain_def
        ok_or_def group_or_other_def Let_def)
qed

theorem save_then_load_witness:
  "\<exists>v. save_to plain_env vault_codec vault = (Inr (), v) \<and>
     (\<forall>u. w_disk u = w_disk v \<and> w_io u = (\<lambda>_. None) \<longrightarrow>
       fst (load_from plain_env vault_codec u) = Inr (w_state vault, w_key vault))"
proof -
  have "wp (save_to plain_env vault_codec) (\<lambda>_ v. \<forall>u. w_disk u = w_disk v \<and> w_io u = (\<lambda>_. None) \<longrightarrow>
      fst (load_from plain_env vault_codec u) = Inr (w_state vault, w_key vault)) (\<lambda>_ _. True) vault"
    by (rule save_then_load) (simp_all add: saved_text_def envelope_text_def vault_codec_def vault_def)
  from wp_conj [OF this vault_saves] show ?thesis
    by (auto simp: wp_def split: prod.splits sum.splits)
qed

lemma load_wp:
  "wp (load_from E C)
     (\<lambda>(s, key) v. leaves {} w v \<and> 32 \<le> length key
        \<and> (\<exists>f. file_at w audit_key_file = Some f \<and> private_file key f)
        \<and> (\<exists>f encoded. file_at w state_file = Some f \<and> private_file encoded f
             \<and> parse_envelope C encoded = Some (s, state_mac E key s))
        \<and> validate_state E s = Inr () \<and> verify_audit_chain E key s = Inr ())
     (\<lambda>_ v. leaves {} w v) w"
  unfolding load_from_def
proof (rule wp_seq [OF read_private_wp], goal_cases)
  case (1 key u)
  then have u: "leaves {} w u" "\<exists>f. file_at w audit_key_file = Some f \<and> private_file key f" by auto
  have step: "wp (bind (read_private_file state_file) (\<lambda>encoded.
      bind (lift (ok_or (Serialization ''invalid persisted envelope'') (parse_envelope C encoded)))
       (\<lambda>(s, mac). if \<not> constant_time_eq (state_mac E key s) mac
         then fail (Conflict ''persisted treasury state failed integrity verification'')
         else bind (lift (validate_state E s)) (\<lambda>_. bind (lift (verify_audit_chain E key s)) (\<lambda>_.
           ret (s, key))))))
     (\<lambda>(s, key') v. key' = key \<and> leaves {} w v
        \<and> (\<exists>f encoded. file_at w state_file = Some f \<and> private_file encoded f
             \<and> parse_envelope C encoded = Some (s, state_mac E key s))
        \<and> validate_state E s = Inr () \<and> verify_audit_chain E key s = Inr ())
     (\<lambda>_ v. leaves {} w v) u"
    by (rule wp_seq [OF read_private_wp])
      (use u(1) in \<open>auto simp: wp_bind wp_lift wp_basic wp_if ok_or_def constant_time_eq_iff
        leaves_def split: option.splits prod.splits\<close>)
  show ?case
    unfolding wp_tail_if
    by (intro conjI impI; (simp add: wp_basic u)?; rule wp_mono [OF step]) (use u in auto)
qed simp

text \<open>
  C27: What is loaded is authentic: the file's code is the one computed with the key on disk, the
  key has at least 32 bytes, and the state passes validation and carries a verified audit chain.
  Anything else is refused, and loading never writes.
\<close>

theorem loading_is_authentic:
  "wp (load_from E C)
     (\<lambda>(s, key) v. leaves {} w v \<and> 32 \<le> length key
        \<and> (\<exists>f. file_at w audit_key_file = Some f \<and> private_file key f)
        \<and> (\<exists>f encoded. file_at w state_file = Some f \<and> private_file encoded f
             \<and> parse_envelope C encoded = Some (s, state_mac E key s))
        \<and> validate_state E s = Inr () \<and> verify_audit_chain E key s = Inr ())
     (\<lambda>_ v. leaves {} w v) w"
  by (rule load_wp)

section \<open>Bootstrap\<close>

lemma demo_parts:
  "conservative_demo = Inr p \<Longrightarrow> primary_currency p = ''CAD'' \<and> max_treasury_size p = cad 100000"
  by (auto simp: conservative_demo_def rbind_Inr_iff cad_def)

lemma wp_install: "wp (\<lambda>w. (Inr x, g w)) Q R w = Q x (g w)"
  by (simp add: wp_def)

lemma opened_books:
  assumes "le_kind e = OwnerCapital"
  shows "authority cur (initial_state own p m\<lparr>ledger := [e]\<rparr>)
    = (if cur = currency (le_amount e) then minor (le_amount e) else 0)"
  using assms by (simp add: authority_def held_total_def initial_state_def)

definition well_opened :: "env \<Rightarrow> money \<Rightarrow> string \<Rightarrow> treasury_state world \<Rightarrow> bool" where
  "well_opened E balance token v \<longleftrightarrow> (\<exists>own p e at.
     w_state v = audited (initial_state own p balance\<lparr>ledger := [e]\<rparr>)
       (new_entry E (w_key v) [] at ''owner'' ''bootstrap'' None None (Some ''allowed'')
         (JObj [(''provider'', JStr ''simulated-local'')]))
     \<and> le_kind e = OwnerCapital \<and> le_amount e = balance \<and> ow_token_hash own = token_hash E token
     \<and> currency balance = ''CAD'' \<and> 0 < minor balance \<and> minor balance \<le> 100000)"

lemma bootstrap_opens: "wp (bootstrap E name balance) (well_opened E balance) (\<lambda>_ _. True) w"
proof -
  have start: "ledger (initial_state own p m) = []" "audit_log (initial_state own p m) = []" for own p m
    by (simp_all add: initial_state_def)
  show ?thesis
    unfolding bootstrap_def append_ledger_def Let_def
    by (auto dest!: demo_parts simp: wp_bind wp_lift wp_random wp_now wp_basic wp_if wp_install wp_audit
        wp_put_state start well_opened_def not_le not_less) (force simp: not_less)+
qed

lemma opened_solvent:
  assumes "le_kind e = OwnerCapital" and "0 < minor (le_amount e)"
  shows "solvent (initial_state own p m\<lparr>ledger := [e]\<rparr>)"
  using assms
  by (simp add: solvent_def opened_books) (simp add: initial_state_def simulated_new_def bm.well_keyed_def)

lemma opened_well:
  assumes "well_opened E balance token v"
  shows "solvent (w_state v) \<and> one_per_slot (w_state v)
    \<and> (\<forall>cur. authority cur (w_state v) = (if cur = currency balance then minor balance else 0))
    \<and> currency balance = ''CAD'' \<and> 0 < minor balance \<and> minor balance \<le> 100000
    \<and> bvals (agents (w_state v)) = [] \<and> bvals (intents (w_state v)) = []
    \<and> chained E v \<and> length (audit_log (w_state v)) = 1
    \<and> is_owner_token E (w_state v) token"
  using assms
  unfolding well_opened_def
proof (elim exE conjE, intro conjI)
  fix own p e at
  let ?s = "initial_state own p balance\<lparr>ledger := [e]\<rparr>"
  assume v: "w_state v = audited ?s (new_entry E (w_key v) [] at ''owner'' ''bootstrap'' None None
      (Some ''allowed'') (JObj [(''provider'', JStr ''simulated-local'')]))"
    and e: "le_kind e = OwnerCapital" "le_amount e = balance" "0 < minor balance"
    and "ow_token_hash own = token_hash E token"
  then show "is_owner_token E (w_state v) token"
    by (simp add: is_owner_token_def initial_state_def)
  have "solvent ?s" using e by (simp add: opened_solvent)
  then show "solvent (w_state v)"
    unfolding v by (rule iffD1 [OF solvent_cong, rotated -1]) simp_all
  show "\<forall>cur. authority cur (w_state v) = (if cur = currency balance then minor balance else 0)"
    unfolding v using e by (simp add: opened_books)
  show "one_per_slot (w_state v)" "bvals (agents (w_state v)) = []" "bvals (intents (w_state v)) = []"
    "length (audit_log (w_state v)) = 1"
    unfolding v by (simp_all add: one_per_slot_def initial_state_def)
  show "chained E v"
    using chain_extended [of E "w_key v" "[]"]
    by (simp add: chained_def verify_audit_chain_def v initial_state_def)
qed

text \<open>
  C28: A bootstrapped treasury starts well: it is solvent with the initial balance as its whole
  authority, has no agents, intents or holds, its audit chain verifies, and the token it returns
  is the owner's. A balance outside the conservative policy is refused.
\<close>

theorem bootstrap_starts_well:
  "wp (bootstrap E name balance)
     (\<lambda>token v. solvent (w_state v) \<and> one_per_slot (w_state v)
        \<and> (\<forall>cur. authority cur (w_state v) = (if cur = currency balance then minor balance else 0))
        \<and> currency balance = ''CAD'' \<and> 0 < minor balance \<and> minor balance \<le> 100000
        \<and> bvals (agents (w_state v)) = [] \<and> bvals (intents (w_state v)) = []
        \<and> chained E v \<and> length (audit_log (w_state v)) = 1
        \<and> is_owner_token E (w_state v) token)
     (\<lambda>_ _. True) w"
  by (rule wp_mono [OF bootstrap_opens opened_well])

end
