(* ===== verification/Providers.thy ===== *)
theory Providers
  imports Example
begin

text \<open>
  The simulated provider over whole runs of its operations: it never owes more than it has, a
  payment is held or charged but not both, and a refund is never undone.
\<close>

section \<open>Runs\<close>

text \<open>
  The treasury never authorizes a payment again while the provider holds funds for it: the
  intent is pending then, and a pending intent is not executable.
\<close>

inductive provider_step :: "env \<Rightarrow> simulated_provider \<Rightarrow> simulated_provider \<Rightarrow> bool" for E :: env where
  authorized: "0 \<le> minor (final_total (in_request i)) \<Longrightarrow> bget (sp_holds p) (in_id i) = None \<Longrightarrow>
     simulated_authorize E p i (w :: treasury_state world) = (Inr (out, p'), w') \<Longrightarrow> provider_step E p p'"
| pending_settled: "settle_pending E p i (w :: treasury_state world) = (Inr (r, p'), w') \<Longrightarrow>
     provider_step E p p'"
| payment_refunded: "simulated_refund p k = (r, p') \<Longrightarrow> provider_step E p p'"
| hold_released: "provider_step E p (release_hold p k)"
| payment_reconciled: "0 \<le> minor (final_total (in_request i)) \<Longrightarrow>
     reconcile_settled E p i reference (w :: treasury_state world) = (Inr (r, p'), w') \<Longrightarrow>
     provider_step E p p'"

definition held_or_charged :: "simulated_provider \<Rightarrow> bool" where
  "held_or_charged p \<longleftrightarrow> (\<forall>k. bget (sp_holds p) k = None \<or> bget (sp_charges p) k = None)"

definition was_refunded :: "simulated_provider \<Rightarrow> string \<Rightarrow> bool" where
  "was_refunded p k \<longleftrightarrow> (\<exists>c. bget (sp_charges p) k = Some c \<and> ch_refunded c)"

definition provider_ok :: "simulated_provider \<Rightarrow> simulated_provider \<Rightarrow> bool" where
  "provider_ok p q \<longleftrightarrow> provider_sound q \<and> held_or_charged q
     \<and> (\<forall>k. was_refunded p k \<longrightarrow> was_refunded q k)"

lemma provider_ok_refl: "provider_sound p \<Longrightarrow> held_or_charged p \<Longrightarrow> provider_ok p p"
  by (simp add: provider_ok_def)

text \<open>A new hold or charge for a payment without a charge.\<close>

lemma hold_ok:
  assumes "provider_sound p" "held_or_charged p" "bget (sp_charges p) k = None"
    and "0 \<le> minor t" "minor t \<le> spendable p"
  shows "provider_ok p (p\<lparr>sp_holds := bput k t (sp_holds p)\<rparr>)"
  using assms simulated_hold_sound [OF assms(1,4,5), of k]
  by (auto simp: provider_ok_def held_or_charged_def was_refunded_def)

lemma charge_ok:
  assumes "provider_sound p" "held_or_charged p" "bget (sp_charges p) k = None" "bget (sp_holds p) k = None"
    and "0 \<le> minor t" "minor t \<le> spendable p" "checked_sub (sp_balance p) t = Inr b" "ch_amount c = t"
  shows "provider_ok p (p\<lparr>sp_balance := b, sp_charges := bput k c (sp_charges p)\<rparr>)"
  using assms simulated_charge_sound [OF assms(1,5,6,7,8), of k]
  by (auto simp: provider_ok_def held_or_charged_def was_refunded_def)

lemma hold_total_bdel:
  "hold_total (p\<lparr>sp_holds := bdel k (sp_holds p)\<rparr>) =
     hold_total p - (case bget (sp_holds p) k of None \<Rightarrow> 0 | Some m \<Rightarrow> minor m)"
  by (simp add: hold_total_def sum_bvals_bdel)

lemma release_ok:
  assumes "provider_sound p" "held_or_charged p"
  shows "provider_ok p (p\<lparr>sp_holds := bdel k (sp_holds p)\<rparr>)"
    and "spendable (p\<lparr>sp_holds := bdel k (sp_holds p)\<rparr>) =
      spendable p + (case bget (sp_holds p) k of None \<Rightarrow> 0 | Some m \<Rightarrow> minor m)"
proof -
  show s: "spendable (p\<lparr>sp_holds := bdel k (sp_holds p)\<rparr>) =
      spendable p + (case bget (sp_holds p) k of None \<Rightarrow> 0 | Some m \<Rightarrow> minor m)"
    using hold_total_bdel [where p = p and k = k] by (simp add: spendable_def)
  have "0 \<le> (case bget (sp_holds p) k of None \<Rightarrow> 0 | Some m \<Rightarrow> minor m)"
    using assms(1) by (auto simp: provider_sound_def dest: bget_in_bvals split: option.split)
  with s assms show "provider_ok p (p\<lparr>sp_holds := bdel k (sp_holds p)\<rparr>)"
    using bvals_bdel_subset [of k "sp_holds p"]
    by (auto simp: provider_ok_def held_or_charged_def was_refunded_def provider_sound_def)
qed

text \<open>Rewriting the marks of a charge.\<close>

lemma recharge_ok:
  assumes "provider_sound p" "held_or_charged p" "bget (sp_charges p) k = Some c"
    and "ch_amount c' = ch_amount c" "ch_refunded c \<longrightarrow> ch_refunded c'"
  shows "provider_ok p (p\<lparr>sp_charges := bput k c' (sp_charges p)\<rparr>)"
proof -
  have "0 \<le> minor (ch_amount c')"
    using assms(1,3,4) by (auto simp: provider_sound_def dest: bget_in_bvals)
  then have "\<forall>d \<in> set (bvals (bput k c' (sp_charges p))). 0 \<le> minor (ch_amount d)"
    using assms(1) by (auto simp: provider_sound_def set_bvals split: if_splits)
  with assms show ?thesis
    by (auto simp: provider_ok_def held_or_charged_def was_refunded_def provider_sound_def
        spendable_def hold_total_def)
qed

lemma provider_ok_trans:
  "provider_ok p q \<Longrightarrow> provider_ok q r \<Longrightarrow> provider_ok p r"
  by (simp add: provider_ok_def)

section \<open>Every operation keeps the books\<close>

lemma authorize_ok:
  assumes "provider_sound p" "held_or_charged p" and "0 \<le> minor (final_total (in_request i))"
    and "bget (sp_holds p) (in_id i) = None"
  shows "wp (simulated_authorize E p i) (\<lambda>r _. provider_ok p (snd r)) (\<lambda>_ _. True) w"
  using assms hold_ok [OF assms(1,2)] charge_ok [OF assms(1,2)] provider_ok_refl [OF assms(1,2)]
  by (auto simp: simulated_authorize_def Let_def wp_simps dest!: simulated_available_Inr)

lemma settle_pending_ok:
  assumes "provider_sound p" "held_or_charged p"
  shows "wp (settle_pending E p i) (\<lambda>r _. provider_ok p (snd r)) (\<lambda>_ _. True) w"
proof (cases "bget (sp_holds p) (in_id i)")
  case None
  then show ?thesis using provider_ok_refl [OF assms] by (simp add: settle_pending_def wp_simps)
next
  case (Some m)
  let ?p = "p\<lparr>sp_holds := bdel (in_id i) (sp_holds p)\<rparr>"
  note rel = release_ok [OF assms, of "in_id i"]
  from rel(1) have p: "provider_sound ?p" "held_or_charged ?p" by (simp_all add: provider_ok_def)
  have no: "bget (sp_charges ?p) (in_id i) = None"
    using assms(2) [unfolded held_or_charged_def, rule_format, of "in_id i"] Some by simp
  have m: "0 \<le> minor m" "minor m \<le> spendable ?p"
    using assms(1) Some rel(2) by (auto simp: provider_sound_def dest: bget_in_bvals)
  have "provider_ok p (?p\<lparr>sp_balance := b, sp_charges := bput (in_id i) c (sp_charges ?p)\<rparr>)"
    if "checked_sub (sp_balance ?p) m = Inr b" "ch_amount c = m" for b c
    by (rule provider_ok_trans [OF rel(1) charge_ok [OF p no _ m that]]) simp
  with Some rel(1) show ?thesis by (simp add: settle_pending_def Let_def wp_simps split: sum.split)
qed

lemma refund_ok:
  assumes "provider_sound p" "held_or_charged p"
  shows "provider_ok p (snd (simulated_refund p k))"
proof (cases "bget (sp_charges p) k")
  case None
  then show ?thesis using provider_ok_refl [OF assms] by (simp add: simulated_refund_def)
next
  case (Some c)
  let ?p = "p\<lparr>sp_charges := bput k (c\<lparr>ch_refunded := True\<rparr>) (sp_charges p)\<rparr>"
  have marked: "provider_ok p ?p" by (rule recharge_ok [OF assms Some]) simp_all
  have c: "0 \<le> minor (ch_amount c)" using assms(1) Some by (auto simp: provider_sound_def dest: bget_in_bvals)
  have "provider_ok p (?p\<lparr>sp_balance := b\<rparr>)" if "checked_add (sp_balance ?p) (ch_amount c) = Inr b" for b
    using marked c that
    by (auto simp: provider_ok_def held_or_charged_def was_refunded_def provider_sound_def
        spendable_def hold_total_def checked_Inr)
  with Some marked show ?thesis
    using provider_ok_refl [OF assms] by (simp add: simulated_refund_def Let_def split: sum.split)
qed

lemma reconcile_ok:
  assumes "provider_sound p" "held_or_charged p" and "0 \<le> minor (final_total (in_request i))"
  shows "wp (reconcile_settled E p i reference) (\<lambda>r _. provider_ok p (snd r)) (\<lambda>_ _. True) w"
  unfolding reconcile_settled_def wp_tail_if
  using settle_pending_ok [OF assms(1,2)] recharge_ok [OF assms(1,2)] charge_ok [OF assms(1,2)]
    provider_ok_refl [OF assms(1,2)] assms(3)
  by (auto simp: wp_basic not_less split: option.splits sum.splits dest!: simulated_available_Inr)

lemma step_ok:
  assumes "provider_step E p q" and "provider_sound p" "held_or_charged p"
  shows "provider_ok p q"
  using assms(1)
proof cases
  case (authorized i w out w')
  from wp_OkD [OF authorize_ok [OF assms(2,3) authorized(1,2)] authorized(3)] show ?thesis by simp
next
  case (pending_settled i w r w')
  from wp_OkD [OF settle_pending_ok [OF assms(2,3)] pending_settled] show ?thesis by simp
next
  case (payment_refunded k r)
  with refund_ok [OF assms(2,3), of k] show ?thesis by simp
next
  case (hold_released k)
  with release_ok(1) [OF assms(2,3), of k] show ?thesis by (simp add: release_hold_def)
next
  case (payment_reconciled i reference w r w')
  from wp_OkD [OF reconcile_ok [OF assms(2,3) payment_reconciled(1)] payment_reconciled(2)] show ?thesis by simp
qed

section \<open>The provider over time\<close>

text \<open>
  Over any run of its operations the simulated provider stays covered: what it holds never
  exceeds its balance, no payment is both held and charged, and a refunded payment stays refunded,
  so it is never refunded twice.
\<close>

theorem provider_stays_covered:
  assumes "(provider_step E)\<^sup>*\<^sup>* p q" and "provider_sound p" and "held_or_charged p"
  shows "hold_total q \<le> minor (sp_balance q) \<and> held_or_charged q
    \<and> (\<forall>k. was_refunded p k \<longrightarrow> was_refunded q k \<and> (\<exists>e. fst (simulated_refund q k) = Inl e))"
proof -
  have "provider_ok p q"
    using assms(1)
  proof (induction rule: rtranclp_induct)
    case base
    show ?case by (rule provider_ok_refl [OF assms(2,3)])
  next
    case (step r s)
    from step.IH have "provider_sound r" "held_or_charged r" by (simp_all add: provider_ok_def)
    from provider_ok_trans [OF step.IH step_ok [OF step.hyps(2) this]] show ?case .
  qed
  then show ?thesis
    by (auto simp: provider_ok_def provider_sound_def spendable_def was_refunded_def simulated_refund_def)
qed

theorem provider_stays_covered_witness:
  "let q = release_hold (simulated_new (cad 1000)) ''i1'' in hold_total q \<le> minor (sp_balance q)
    \<and> held_or_charged q \<and> (\<forall>k. was_refunded (simulated_new (cad 1000)) k \<longrightarrow> was_refunded q k
       \<and> (\<exists>e. fst (simulated_refund q k) = Inl e))"
  unfolding Let_def
  by (rule provider_stays_covered [where E = plain_env], rule r_into_rtranclp, rule hold_released)
    (simp_all add: simulated_new_def provider_sound_def spendable_def hold_total_def held_or_charged_def)

section \<open>The provider as a bank\<close>

text \<open>
  What the provider promises, without its holds, charges and checked arithmetic: each payment is
  at one point of its life, the funds available follow from the moves of the payments, and a move
  is made only if the funds suffice.
\<close>

datatype payment = NoPayment | Holding int | Charged int | Returned int

inductive pay_move :: "payment \<Rightarrow> int \<Rightarrow> payment \<Rightarrow> bool" where
  stay: "pay_move x 0 x"
| hold: "0 \<le> t \<Longrightarrow> pay_move NoPayment (- t) (Holding t)"
| charge: "0 \<le> t \<Longrightarrow> pay_move NoPayment (- t) (Charged t)"
| release: "pay_move (Holding t) t NoPayment"
| settle: "pay_move (Holding t) 0 (Charged t)"
| give_back: "pay_move (Charged t) t (Returned t)"

fun bank_step :: "int \<times> (string \<Rightarrow> payment) \<Rightarrow> int \<times> (string \<Rightarrow> payment) \<Rightarrow> bool" where
  "bank_step (funds, acc) (funds', acc') \<longleftrightarrow>
     (\<exists>k d x. pay_move (acc k) d x \<and> acc' = acc(k := x) \<and> funds' = funds + d \<and> 0 \<le> funds')"

definition charge_view :: "provider_charge \<Rightarrow> payment" where
  "charge_view c = (if ch_refunded c then Returned (minor (ch_amount c)) else Charged (minor (ch_amount c)))"

definition account :: "simulated_provider \<Rightarrow> string \<Rightarrow> payment" where
  "account p k =
     (case bget (sp_charges p) k of
        Some c \<Rightarrow> charge_view c
      | None \<Rightarrow> (case bget (sp_holds p) k of None \<Rightarrow> NoPayment | Some m \<Rightarrow> Holding (minor m)))"

definition bank :: "simulated_provider \<Rightarrow> int \<times> (string \<Rightarrow> payment)" where
  "bank p = (spendable p, account p)"

lemma bank_stepI:
  assumes "pay_move (account p k) d x" and "account q = (account p)(k := x)"
    and "spendable q = spendable p + d" and "provider_sound q"
  shows "bank_step (bank p) (bank q)"
proof -
  have "0 \<le> spendable q" using assms(4) by (simp add: provider_sound_def)
  with assms(1-3) show ?thesis unfolding bank_def bank_step.simps by blast
qed

lemma held_uncharged: "held_or_charged p \<Longrightarrow> bget (sp_holds p) k = Some m \<Longrightarrow> bget (sp_charges p) k = None"
  by (metis held_or_charged_def option.distinct(1))

lemma bank_stays: "provider_sound p \<Longrightarrow> bank_step (bank p) (bank p)"
  by (rule bank_stepI [where k = "[]", OF stay]) simp_all

lemma bank_hold:
  assumes "provider_sound p" and "bget (sp_charges p) k = None" "bget (sp_holds p) k = None"
    and "0 \<le> minor t" "minor t \<le> spendable p"
  shows "bank_step (bank p) (bank (p\<lparr>sp_holds := bput k t (sp_holds p)\<rparr>))"
proof (rule bank_stepI)
  show "pay_move (account p k) (- minor t) (Holding (minor t))"
    using assms(2-4) by (simp add: account_def hold)
  show "spendable (p\<lparr>sp_holds := bput k t (sp_holds p)\<rparr>) = spendable p + - minor t"
    using assms(3) hold_total_bput [of k t p] by (simp add: spendable_def)
qed (use assms simulated_hold_sound [OF assms(1,4,5), of k] in \<open>auto simp: account_def fun_eq_iff cong: option.case_cong\<close>)

lemma bank_charge:
  assumes "provider_sound p" and "bget (sp_charges p) k = None" "bget (sp_holds p) k = None"
    and "0 \<le> minor t" "minor t \<le> spendable p" "checked_sub (sp_balance p) t = Inr b"
    and "ch_amount c = t" "\<not> ch_refunded c"
  shows "bank_step (bank p) (bank (p\<lparr>sp_balance := b, sp_charges := bput k c (sp_charges p)\<rparr>))"
proof (rule bank_stepI)
  show "pay_move (account p k) (- minor t) (Charged (minor t))"
    using assms(2-4) by (simp add: account_def charge)
  show "spendable (p\<lparr>sp_balance := b, sp_charges := bput k c (sp_charges p)\<rparr>) = spendable p + - minor t"
    using assms(6) by (simp add: spendable_def hold_total_def checked_Inr)
qed (use assms simulated_charge_sound [OF assms(1,4,5,6,7), of k]
  in \<open>auto simp: account_def charge_view_def fun_eq_iff cong: option.case_cong\<close>)

text \<open>Releasing a hold, settling it and giving a charge back.\<close>

lemma bank_release:
  assumes "provider_sound p" "held_or_charged p"
  shows "bank_step (bank p) (bank (p\<lparr>sp_holds := bdel k (sp_holds p)\<rparr>))"
proof (cases "bget (sp_holds p) k")
  case None
  then have "bdel k (sp_holds p) = sp_holds p" by (intro bmap_eqI) simp
  with bank_stays [OF assms(1)] show ?thesis by simp
next
  case (Some m)
  then have no: "bget (sp_charges p) k = None" by (rule held_uncharged [OF assms(2)])
  note rel = release_ok [OF assms, of k]
  show ?thesis
  proof (rule bank_stepI)
    show "pay_move (account p k) (minor m) NoPayment"
      using Some no by (simp add: account_def release)
    show "spendable (p\<lparr>sp_holds := bdel k (sp_holds p)\<rparr>) = spendable p + minor m"
      using rel(2) Some by simp
    show "provider_sound (p\<lparr>sp_holds := bdel k (sp_holds p)\<rparr>)"
      using rel(1) by (simp add: provider_ok_def)
  qed (use no in \<open>auto simp: account_def fun_eq_iff cong: option.case_cong\<close>)
qed

lemma bank_settle:
  assumes "provider_sound p" "held_or_charged p" "bget (sp_holds p) k = Some m"
    and "checked_sub (sp_balance p) m = Inr b" "ch_amount c = m" "\<not> ch_refunded c"
  shows "bank_step (bank p) (bank (p\<lparr>sp_holds := bdel k (sp_holds p), sp_balance := b,
    sp_charges := bput k c (sp_charges p)\<rparr>))"
proof (rule bank_stepI)
  let ?p = "p\<lparr>sp_holds := bdel k (sp_holds p)\<rparr>"
  note rel = release_ok [OF assms(1,2), of k]
  have no: "bget (sp_charges p) k = None" by (rule held_uncharged [OF assms(2,3)])
  then show "pay_move (account p k) 0 (Charged (minor m))"
    using assms(3) by (simp add: account_def settle)
  have p: "provider_sound ?p" "0 \<le> minor m" "minor m \<le> spendable ?p"
    using rel assms(1,3) by (auto simp: provider_ok_def provider_sound_def dest: bget_in_bvals)
  have "checked_sub (sp_balance ?p) m = Inr b" using assms(4) by simp
  note charged = simulated_charge_sound [OF p this assms(5), of k]
  then show "provider_sound (p\<lparr>sp_holds := bdel k (sp_holds p), sp_balance := b,
      sp_charges := bput k c (sp_charges p)\<rparr>)" by simp
  show "spendable (p\<lparr>sp_holds := bdel k (sp_holds p), sp_balance := b,
      sp_charges := bput k c (sp_charges p)\<rparr>) = spendable p + 0"
    using charged rel(2) assms(3) by simp
qed (use assms(5,6) in \<open>auto simp: account_def charge_view_def fun_eq_iff cong: option.case_cong\<close>)

lemma bank_remark:
  assumes "provider_sound p" "held_or_charged p" "bget (sp_charges p) k = Some c"
    and "ch_amount c' = ch_amount c" "ch_refunded c' = ch_refunded c"
  shows "bank_step (bank p) (bank (p\<lparr>sp_charges := bput k c' (sp_charges p)\<rparr>))"
proof (rule bank_stepI)
  show "pay_move (account p k) 0 (account p k)" by (rule stay)
  show "provider_sound (p\<lparr>sp_charges := bput k c' (sp_charges p)\<rparr>)"
    using recharge_ok [OF assms(1-4)] assms(5) by (simp add: provider_ok_def)
qed (use assms in \<open>auto simp: account_def charge_view_def fun_eq_iff spendable_def hold_total_def cong: option.case_cong\<close>)

lemma bank_refund:
  assumes "provider_sound p" "held_or_charged p" "simulated_refund p k = (Inr m, q)"
  shows "bank_step (bank p) (bank q)"
proof -
  from assms(3) obtain c b where c: "bget (sp_charges p) k = Some c" "\<not> ch_refunded c"
    and b: "checked_add (sp_balance p) (ch_amount c) = Inr b"
    and q: "q = p\<lparr>sp_charges := bput k (c\<lparr>ch_refunded := True\<rparr>) (sp_charges p), sp_balance := b\<rparr>"
    by (auto simp: simulated_refund_def Let_def split: option.splits if_splits sum.splits)
  show ?thesis
  proof (rule bank_stepI)
    show "pay_move (account p k) (minor (ch_amount c)) (Returned (minor (ch_amount c)))"
      using c by (simp add: account_def charge_view_def give_back)
    show "provider_sound q" using refund_ok [OF assms(1,2), of k] assms(3) by (simp add: provider_ok_def)
  qed (use c b in \<open>auto simp: q account_def charge_view_def fun_eq_iff spendable_def hold_total_def checked_Inr cong: option.case_cong\<close>)
qed

section \<open>The refinement\<close>

text \<open>The calls whose effects the treasury keeps: it puts its state back when a refund fails.\<close>

inductive provider_call :: "env \<Rightarrow> simulated_provider \<Rightarrow> simulated_provider \<Rightarrow> bool" for E :: env where
  call_authorize: "0 \<le> minor (final_total (in_request i)) \<Longrightarrow> bget (sp_holds p) (in_id i) = None \<Longrightarrow>
     simulated_authorize E p i (w :: treasury_state world) = (Inr (out, p'), w') \<Longrightarrow> provider_call E p p'"
| call_settle: "settle_pending E p i (w :: treasury_state world) = (Inr (r, p'), w') \<Longrightarrow>
     provider_call E p p'"
| call_refund: "simulated_refund p k = (Inr m, p') \<Longrightarrow> provider_call E p p'"
| call_release: "provider_call E p (release_hold p k)"
| call_reconcile: "0 \<le> minor (final_total (in_request i)) \<Longrightarrow>
     reconcile_settled E p i reference (w :: treasury_state world) = (Inr (r, p'), w') \<Longrightarrow>
     provider_call E p p'"

lemma call_is_step: "provider_call E p q \<Longrightarrow> provider_step E p q"
  by (cases rule: provider_call.cases) (blast intro: provider_step.intros)+

lemma authorize_bank:
  assumes "provider_sound p" "held_or_charged p" and "0 \<le> minor (final_total (in_request i))"
    and "bget (sp_holds p) (in_id i) = None"
  shows "wp (simulated_authorize E p i) (\<lambda>r _. bank_step (bank p) (bank (snd r))) (\<lambda>_ _. True) w"
  using assms bank_hold [OF assms(1)] bank_charge [OF assms(1)] bank_stays [OF assms(1)]
  by (auto simp: simulated_authorize_def Let_def wp_simps dest!: simulated_available_Inr)

lemma settle_bank:
  assumes "provider_sound p" "held_or_charged p"
  shows "wp (settle_pending E p i) (\<lambda>r _. bank_step (bank p) (bank (snd r))) (\<lambda>_ _. True) w"
  using bank_release [OF assms] bank_settle [OF assms] bank_stays [OF assms(1)]
  by (auto simp: settle_pending_def Let_def wp_simps split: option.split sum.split)

lemma reconcile_bank:
  assumes "provider_sound p" "held_or_charged p" and "0 \<le> minor (final_total (in_request i))"
  shows "wp (reconcile_settled E p i reference) (\<lambda>r _. bank_step (bank p) (bank (snd r))) (\<lambda>_ _. True) w"
  unfolding reconcile_settled_def wp_tail_if
  using settle_bank [OF assms(1,2)] bank_remark [OF assms(1,2)] bank_charge [OF assms(1)]
    bank_stays [OF assms(1)] assms(3)
  by (auto simp: wp_basic not_less split: option.splits sum.splits dest!: simulated_available_Inr)

lemma call_bank:
  assumes "provider_call E p q" and "provider_sound p" "held_or_charged p"
  shows "bank_step (bank p) (bank q)"
  using assms(1)
proof cases
  case (call_authorize i w out w')
  from wp_OkD [OF authorize_bank [OF assms(2,3) call_authorize(1,2)] call_authorize(3)] show ?thesis by simp
next
  case (call_settle i w r w')
  from wp_OkD [OF settle_bank [OF assms(2,3)] call_settle] show ?thesis by simp
next
  case (call_refund k m)
  with bank_refund [OF assms(2,3)] show ?thesis by simp
next
  case (call_release k)
  with bank_release [OF assms(2,3), of k] show ?thesis by (simp add: release_hold_def)
next
  case (call_reconcile i reference w r w')
  from wp_OkD [OF reconcile_bank [OF assms(2,3) call_reconcile(1)] call_reconcile(2)] show ?thesis by simp
qed

text \<open>
  C33: The simulated provider refines a bank of payments. Seen through its funds and the point at
  which each payment is, every run of its operations is a run of the bank: a payment moves from
  none to held or charged only if the funds suffice, from held to charged or back, and from charged
  to returned, each time with exactly its amount added to or taken from the funds.
\<close>

theorem provider_refines_bank:
  assumes "(provider_call E)\<^sup>*\<^sup>* p q" and "provider_sound p" and "held_or_charged p"
  shows "bank_step\<^sup>*\<^sup>* (bank p) (bank q)"
proof -
  have "bank_step\<^sup>*\<^sup>* (bank p) (bank q) \<and> provider_ok p q"
    using assms(1)
  proof (induction rule: rtranclp_induct)
    case base
    show ?case using provider_ok_refl [OF assms(2,3)] by simp
  next
    case (step r s)
    then have r: "provider_sound r" "held_or_charged r" by (simp_all add: provider_ok_def)
    from step.IH call_bank [OF step.hyps(2) r] provider_ok_trans [OF _ step_ok [OF call_is_step [OF step.hyps(2)] r]]
    show ?case by (auto intro: rtranclp.rtrancl_into_rtrancl)
  qed
  then show ?thesis ..
qed

text \<open>A book bought and given back.\<close>

lemma book_charged:
  "\<exists>c v. simulated_authorize plain_env (simulated_new (cad 1000)) (book_intent Executing) (small_world Executing)
     = (Inr (OutApproved (ch_provider_reference c), (simulated_new (cad 1000))
         \<lparr>sp_balance := cad 500, sp_charges := bput ''i1'' c bempty\<rparr>), v)
     \<and> ch_amount c = cad 500 \<and> \<not> ch_refunded c"
proof -
  have "checked_sub (cad 1000) (cad 500) = Inr (cad 500)"
    by (simp add: checked_sub_def cad_def same_currency_def i64_checked_sub_def)
  then show ?thesis
    by (intro exI [of _ "\<lparr>ch_intent_id = ''i1'', ch_amount = cad 500, ch_provider_reference =
        ''sim_charge_'' @ hex_encode plain_env (w_rand (small_world Executing) (w_draws (small_world Executing)) 12),
        ch_settled = True, ch_refunded = False\<rparr>"])
      (simp add: simulated_authorize_def Let_def run_bind simulated_available_balance_def simulated_new_def
        book_intent_def book_request_def lift_def)
qed

lemma book_returned:
  assumes "ch_amount c = cad 500" and "\<not> ch_refunded c"
  shows "simulated_refund ((simulated_new (cad 1000))\<lparr>sp_balance := cad 500, sp_charges := bput ''i1'' c bempty\<rparr>) ''i1''
    = (Inr (cad 500), (simulated_new (cad 1000))
         \<lparr>sp_charges := bput ''i1'' (c\<lparr>ch_refunded := True\<rparr>) bempty\<rparr>)"
proof -
  have "bput ''i1'' d (bput ''i1'' c bempty) = bput ''i1'' d bempty" for d
    by (intro bmap_eqI) simp
  with assms show ?thesis
    by (simp add: simulated_refund_def simulated_new_def checked_add_def cad_def same_currency_def
        i64_checked_add_def)
qed

theorem provider_refines_bank_witness:
  "\<exists>q. bank_step\<^sup>*\<^sup>* (bank (simulated_new (cad 1000))) (bank q) \<and> account q ''i1'' = Returned 500"
proof -
  let ?p = "simulated_new (cad 1000)"
  from book_charged obtain c v where
    a: "simulated_authorize plain_env ?p (book_intent Executing) (small_world Executing)
      = (Inr (OutApproved (ch_provider_reference c), ?p\<lparr>sp_balance := cad 500, sp_charges := bput ''i1'' c bempty\<rparr>), v)"
    and c: "ch_amount c = cad 500" "\<not> ch_refunded c" by blast
  have bought: "provider_call plain_env ?p (?p\<lparr>sp_balance := cad 500, sp_charges := bput ''i1'' c bempty\<rparr>)"
    by (rule call_authorize [OF _ _ a]) (simp_all add: simulated_new_def)
  have "(provider_call plain_env)\<^sup>*\<^sup>* ?p (?p\<lparr>sp_charges := bput ''i1'' (c\<lparr>ch_refunded := True\<rparr>) bempty\<rparr>)"
    by (rule converse_rtranclp_into_rtranclp, rule bought, rule r_into_rtranclp,
        rule call_refund, rule book_returned [OF c])
  then have "bank_step\<^sup>*\<^sup>* (bank ?p) (bank (?p\<lparr>sp_charges := bput ''i1'' (c\<lparr>ch_refunded := True\<rparr>) bempty\<rparr>))"
    by (rule provider_refines_bank)
      (simp_all add: simulated_new_def provider_sound_def spendable_def hold_total_def held_or_charged_def)
  moreover have "account (?p\<lparr>sp_charges := bput ''i1'' (c\<lparr>ch_refunded := True\<rparr>) bempty\<rparr>) ''i1'' = Returned 500"
    using c by (simp add: account_def charge_view_def)
  ultimately show ?thesis by blast
qed

end
