(* ===== verification/Secrets.thy ===== *)
theory Secrets
  imports Rpc
begin

text \<open>
  One-shot payment secrets: the approved secret operation and its binding to an approved
  intent, the helper's grant and its durable nonce store, and the secret providers. The trait
  \<open>SecretProvider\<close> is the locale \<open>secret_provider\<close>, extended by \<open>one_shot_provider\<close>
  for those that give the secret out once.
\<close>

section \<open>Approved operations\<close>

record secret_operation =
  so_operation_id :: string
  so_intent_id :: string
  so_card_reference :: string
  so_expires_at :: int
  so_nonce :: string
  so_helper_id :: "string option"
  so_broker_uid :: "nat option"
  so_helper_mac :: "string option"

definition new_operation :: "env \<Rightarrow> string \<Rightarrow> string \<Rightarrow> string \<Rightarrow> ('s, secret_operation) op" where
  "new_operation E operation_id intent_id card_reference =
     bind (lift (bounded operation_id ''secret_operation_id'' 128)) (\<lambda>_.
     bind (lift (bounded intent_id ''intent_id'' 128)) (\<lambda>_.
     bind (lift (bounded card_reference ''card_reference'' 256)) (\<lambda>_.
     bind now (\<lambda>at.
     bind (random_hex E 16) (\<lambda>nonce.
     ret \<lparr>so_operation_id = operation_id, so_intent_id = intent_id,
          so_card_reference = card_reference, so_expires_at = i64_add at (5 * 60),
          so_nonce = nonce, so_helper_id = None, so_broker_uid = None,
          so_helper_mac = None\<rparr>)))))"

definition for_simulated_test :: "env \<Rightarrow> string \<Rightarrow> ('s, secret_operation) op" where
  "for_simulated_test E operation_id =
     new_operation E operation_id ''simulated-intent'' ''simulated-card''"

definition helper_payload :: "secret_operation \<Rightarrow> json" where
  "helper_payload p = JObj
     [(''operation_id'', JStr (so_operation_id p)), (''intent_id'', JStr (so_intent_id p)),
      (''card_reference'', JStr (so_card_reference p)), (''expires_at'', JInt (so_expires_at p)),
      (''nonce'', JStr (so_nonce p)), (''helper_id'', j_opt_str (so_helper_id p)),
      (''broker_uid'', j_opt_nat (so_broker_uid p))]"

definition operation_json :: "secret_operation \<Rightarrow> json" where
  "operation_json p = JObj
     [(''operation_id'', JStr (so_operation_id p)), (''intent_id'', JStr (so_intent_id p)),
      (''card_reference'', JStr (so_card_reference p)), (''expires_at'', JInt (so_expires_at p)),
      (''nonce'', JStr (so_nonce p)), (''helper_id'', j_opt_str (so_helper_id p)),
      (''broker_uid'', j_opt_nat (so_broker_uid p)), (''helper_mac'', j_opt_str (so_helper_mac p))]"

definition sign_for_helper ::
  "env \<Rightarrow> secret_operation \<Rightarrow> string \<Rightarrow> string \<Rightarrow> nat \<Rightarrow> secret_operation res" where
  "sign_for_helper E p helper_key helper_id broker_uid =
     (if length helper_key < 32
      then Inl (Invalid ''secret-helper signing key must contain at least 32 bytes'')
      else
        rbind (bounded helper_id ''secret_helper_id'' 128) (\<lambda>_.
        let q = p\<lparr>so_helper_id := Some helper_id, so_broker_uid := Some broker_uid\<rparr> in
        Inr (q\<lparr>so_helper_mac := Some (hmac_hash E helper_key (helper_payload q))\<rparr>)))"

section \<open>Binding an operation to an intent\<close>

definition purchase_intent_of :: "treasury_state \<Rightarrow> string \<Rightarrow> purchase_intent res" where
  "purchase_intent_of s intent_id =
     ok_or (NotFound (''purchase intent '' @ intent_id)) (bget (intents s) intent_id)"

definition bind_approved_secret_operation ::
  "env \<Rightarrow> string \<Rightarrow> string \<Rightarrow> secret_operation top" where
  "bind_approved_secret_operation E owner_token intent_id =
     bind get_state (\<lambda>s.
     if \<not> is_owner_token E s owner_token then fail Unauthorized
     else
     bind (lift (purchase_intent_of s intent_id)) (\<lambda>i.
     if in_state i \<noteq> Approved
     then fail (Conflict ''payment secrets may be bound only after explicit owner approval'')
     else
     bind (lift (ok_or unconfigured (manual_provider s))) (\<lambda>p.
     bind (new_id E ''secret_op'') (\<lambda>k.
     new_operation E k intent_id (sr_reference (mp_card p))))))"

definition bind_approved_secret_helper_operation ::
  "env \<Rightarrow> string \<Rightarrow> string \<Rightarrow> string \<Rightarrow> string \<Rightarrow> nat \<Rightarrow> secret_operation top" where
  "bind_approved_secret_helper_operation E owner_token intent_id helper_key helper_id broker_uid =
     bind (bind_approved_secret_operation E owner_token intent_id) (\<lambda>operation.
     lift (sign_for_helper E operation helper_key helper_id broker_uid))"

definition checkout_disabled :: treasury_error where
  "checkout_disabled = Forbidden ''controlled card checkout is not enabled by the owner''"

text \<open>
  What the two controlled checkout entry points check alike: the agent's scope, the enabled
  provider, and an intent of its own that the policy or the owner has authorized.
\<close>

definition controlled_intent ::
  "treasury_state \<Rightarrow> actor \<Rightarrow> string \<Rightarrow> (manual_provider \<times> purchase_intent) res" where
  "controlled_intent s a intent_id =
     rbind (require_agent_scope s a ''purchase_intents:execute'') (\<lambda>agent_id.
     rbind (ok_or unconfigured (manual_provider s)) (\<lambda>p.
     if provider_mode s \<noteq> ManualPrepaidCard \<or> \<not> mp_outgoing_supported p
     then Inl checkout_disabled
     else
     rbind (purchase_intent_of s intent_id) (\<lambda>i.
     if in_agent_id i \<noteq> agent_id then Inl (Forbidden ''intent belongs to another agent'')
     else if in_state i \<noteq> PolicyValidated \<and> in_state i \<noteq> Approved
     then Inl (Conflict ''controlled checkout requires a policy-authorized intent'')
     else Inr (p, i))))"

definition bind_controlled_secret_helper_operation ::
  "env \<Rightarrow> string \<Rightarrow> string \<Rightarrow> string \<Rightarrow> string \<Rightarrow> nat \<Rightarrow> secret_operation top" where
  "bind_controlled_secret_helper_operation E agent_token intent_id helper_key helper_id broker_uid =
     bind (authenticate E agent_token) (\<lambda>a.
     bind get_state (\<lambda>s.
     bind (lift (controlled_intent s a intent_id)) (\<lambda>(p, i).
     if payment_form (in_request i) \<noteq> HostedFields \<or> redirect_chain (in_request i) = []
     then fail (Forbidden
       ''controlled checkout requires a bound HTTPS checkout and hosted payment fields'')
     else
     bind (new_id E ''secret_op'') (\<lambda>k.
     bind (new_operation E k intent_id (sr_reference (mp_card p))) (\<lambda>operation.
     lift (sign_for_helper E operation helper_key helper_id broker_uid))))))"

section \<open>The helper's nonce store\<close>

text \<open>
  The store is a private directory with one file per redeemed nonce. Creating the file with
  \<open>create_new\<close> is the redemption; the file stays, so a second redemption fails.
\<close>

definition nonce_file :: "env \<Rightarrow> string \<Rightarrow> string" where
  "nonce_file E nonce = opaque_reference E ''helper_nonce'' nonce"

definition already_redeemed :: treasury_error where
  "already_redeemed = Conflict ''secret-helper grant was already redeemed''"

definition redeemed_mark :: string where
  "redeemed_mark = ''redeemed'' @ [CHR 0x0A]"

definition open_nonce_store :: "('s, unit) op" where
  "open_nonce_store = ensure_private_directory"

definition redeem_nonce :: "env \<Rightarrow> string \<Rightarrow> ('s, unit) op" where
  "redeem_nonce E nonce =
     (let name = nonce_file E nonce; f = \<lparr>fn_kind = RegularFile, fn_mode = 384, fn_bytes = []\<rparr> in
     bind io_call (\<lambda>_.
     bind (gets (\<lambda>w. file_at w name)) (\<lambda>existing.
     if existing \<noteq> None then fail already_redeemed
     else
     bind (put_file name f) (\<lambda>_.
     bind (write_all name f redeemed_mark) (\<lambda>_.
     bind io_call (\<lambda>_.
     sync_directory))))))"

definition redeem_owner_helper_operation ::
  "env \<Rightarrow> secret_operation \<Rightarrow> string \<Rightarrow> string \<Rightarrow> nat \<Rightarrow> ('s, unit) op" where
  "redeem_owner_helper_operation E operation helper_key helper_id peer_uid =
     bind (if length helper_key < 32 then ret True
           else bind now (\<lambda>at. ret (so_expires_at operation \<le> at
             \<or> so_helper_id operation \<noteq> Some helper_id
             \<or> so_broker_uid operation \<noteq> Some peer_uid))) (\<lambda>invalid.
     if invalid then fail (Forbidden ''secret-helper grant is invalid or expired'')
     else if \<not> constant_time_eq (hmac_hash E helper_key (helper_payload operation))
          (case so_helper_mac operation of None \<Rightarrow> [] | Some m \<Rightarrow> m)
     then fail (Forbidden ''secret-helper grant authentication failed'')
     else redeem_nonce E (so_nonce operation))"

section \<open>Secret providers\<close>

definition require_secret_binding ::
  "secret_operation \<Rightarrow> secret_operation \<Rightarrow> string \<Rightarrow> unit res" where
  "require_secret_binding expected actual reference =
     (if expected \<noteq> actual \<or> so_card_reference actual \<noteq> reference
      then Inl (Forbidden
        ''secret retrieval is not bound to this approved intent and card reference'')
      else Inr ())"

text \<open>The interactive and the volatile-session provider hold the secret until it is taken.\<close>

record held_secret =
  hs_reference :: string
  hs_operation :: secret_operation
  hs_secret :: "string option"

definition take_secret ::
  "treasury_error \<Rightarrow> held_secret \<Rightarrow> secret_operation \<Rightarrow> string res \<times> held_secret" where
  "take_secret consumed p operation =
     (case require_secret_binding (hs_operation p) operation (hs_reference p) of
        Inl e \<Rightarrow> (Inl e, p)
      | Inr _ \<Rightarrow> (case hs_secret p of
          None \<Rightarrow> (Inl consumed, p)
        | Some secret \<Rightarrow> (Inr secret, p\<lparr>hs_secret := None\<rparr>)))"

definition from_owner_reader :: "string \<Rightarrow> secret_operation \<Rightarrow> string res \<Rightarrow> held_secret res" where
  "from_owner_reader reference operation input =
     (if so_card_reference operation \<noteq> reference
      then Inl (Forbidden
        ''interactive secret reference does not match the approved operation'')
      else
        rbind input (\<lambda>all_bytes.
        let bytes = take 4097 all_bytes in
        if bytes = [] \<or> 4096 < length bytes
        then Inl (Invalid ''interactive owner secret must contain 1..4096 bytes'')
        else Inr \<lparr>hs_reference = reference, hs_operation = operation, hs_secret = Some bytes\<rparr>))"

definition interactive_fetch ::
  "held_secret \<Rightarrow> secret_operation \<Rightarrow> string res \<times> held_secret" where
  "interactive_fetch =
     take_secret (Conflict ''interactive owner secret was already consumed'')"

definition volatile_session_new :: "string \<Rightarrow> secret_operation \<Rightarrow> string \<Rightarrow> held_secret res" where
  "volatile_session_new reference operation secret =
     (if so_card_reference operation \<noteq> reference \<or> secret = []
      then Inl (Invalid ''volatile secret must be non-empty and bound to its card reference'')
      else Inr \<lparr>hs_reference = reference, hs_operation = operation, hs_secret = Some secret\<rparr>)"

definition volatile_fetch :: "held_secret \<Rightarrow> secret_operation \<Rightarrow> string res \<times> held_secret" where
  "volatile_fetch =
     take_secret (Conflict ''volatile session secret was already consumed'')"

record canary_secret =
  cs_reference :: string
  cs_last_four :: string
  cs_canary :: string
  cs_operation :: secret_operation

text \<open>The last four characters of the card number; each character is one byte for digits.\<close>

definition simulated_secret_new :: "string \<Rightarrow> string \<Rightarrow> secret_operation \<Rightarrow> canary_secret" where
  "simulated_secret_new pan cvv operation =
     \<lparr>cs_reference = ''simulated-card'', cs_last_four = rev (take 4 (rev pan)),
      cs_canary = pan @ cvv, cs_operation = operation\<rparr>"

definition simulated_secret_fetch ::
  "canary_secret \<Rightarrow> secret_operation \<Rightarrow> string res \<times> canary_secret" where
  "simulated_secret_fetch p operation =
     (case require_secret_binding (cs_operation p) operation (cs_reference p) of
        Inl e \<Rightarrow> (Inl e, p)
      | Inr _ \<Rightarrow> (Inr (cs_canary p), p))"

section \<open>The owner-controlled helper\<close>

datatype node_kind = SocketNode | SymlinkNode | DirNode | RegularNode | OtherNode

record path_meta =
  pm_kind :: node_kind
  pm_uid :: nat
  pm_mode :: nat

text \<open>
  The file system as the helper's checks see it: metadata of an absolute path (its
  components; the empty list is the root) and its canonical form.
\<close>

record path_view =
  pv_lstat :: "string list \<Rightarrow> string + path_meta"
  pv_canonical :: "string list \<Rightarrow> string + string list"
  pv_euid :: nat

definition unsafe_ancestor :: "nat \<Rightarrow> path_meta \<Rightarrow> bool" where
  "unsafe_ancestor owner_uid m \<longleftrightarrow>
     pm_kind m = SymlinkNode \<or> pm_kind m \<noteq> DirNode
     \<or> (pm_uid m \<noteq> 0 \<and> pm_uid m \<noteq> owner_uid)
     \<or> Bit_Operations.and (pm_mode m) 18 \<noteq> 0"

text \<open>
  An I/O error of the file system becomes the caller's error. The ancestors of a path are
  checked nearest first, up to the root; the path is given reversed.
\<close>

definition or_error :: "(string \<Rightarrow> 'e) \<Rightarrow> string + 'a \<Rightarrow> 'e + 'a" where
  "or_error f r = (case r of Inl e \<Rightarrow> Inl (f e) | Inr x \<Rightarrow> Inr x)"

fun check_ancestors :: "path_view \<Rightarrow> (string \<Rightarrow> 'e) \<Rightarrow> 'e \<Rightarrow> string list \<Rightarrow> 'e + unit" where
  "check_ancestors V f bad [] = Inr ()"
| "check_ancestors V f bad (c # cs) =
     rbind (or_error f (pv_lstat V (rev cs))) (\<lambda>m.
     if unsafe_ancestor (pv_euid V) m then Inl bad else check_ancestors V f bad cs)"

definition require_owner_helper_socket :: "path_view \<Rightarrow> bool \<Rightarrow> string list \<Rightarrow> unit res" where
  "require_owner_helper_socket V absolute path =
     (if \<not> absolute
      then Inl (Forbidden ''owner secret-helper socket path must be absolute'')
      else
        rbind (or_error Io (pv_lstat V path)) (\<lambda>m.
        if pm_kind m \<noteq> SocketNode \<or> pm_uid m \<noteq> pv_euid V \<or> group_or_other (pm_mode m)
        then Inl (Forbidden
          ''owner secret-helper socket must be private, owner-controlled, and not a symlink'')
        else
          rbind (or_error Io (pv_canonical V path)) (\<lambda>canonical.
          check_ancestors V Io (Forbidden (''owner secret-helper socket ancestors must be ''
            @ ''root/owner-controlled non-writable directories'')) (rev canonical))))"

lemma or_error_Inr [simp]: "or_error f r = Inr x \<longleftrightarrow> r = Inr x"
  by (cases r) (simp_all add: or_error_def)

text \<open>A path whose ancestors pass has only safe directories above it.\<close>

lemma check_ancestors_Inr:
  "check_ancestors V f bad (rev path) = Inr u \<longleftrightarrow>
     (\<forall>n < length path. \<exists>m. pv_lstat V (take n path) = Inr m \<and> \<not> unsafe_ancestor (pv_euid V) m)"
proof (induction path rule: rev_induct)
  case (snoc c cs)
  have "(\<forall>n < length (cs @ [c]). P n) \<longleftrightarrow> P (length cs) \<and> (\<forall>n < length cs. P n)" for P
    by (auto simp: less_Suc_eq)
  with snoc show ?case by (auto simp: rbind_Inr_iff)
qed simp

text \<open>
  The socket loops poll a non-blocking stream until a deadline. An event list is what the
  iterations that begin before the deadline see; when it ends, the next check finds the
  deadline expired.
\<close>

datatype stream_event = Transferred string | WouldBlock | StreamError string

fun unix_write_all_until :: "stream_event list \<Rightarrow> string \<Rightarrow> unit res" where
  "unix_write_all_until evs [] = Inr ()"
| "unix_write_all_until [] (b # bs) =
     Inl (Conflict ''owner handoff deadline expired during helper write'')"
| "unix_write_all_until (ev # evs) (b # bs) =
     (case ev of
        WouldBlock \<Rightarrow> unix_write_all_until evs (b # bs)
      | StreamError e \<Rightarrow> Inl (Conflict (''owner helper write failed: '' @ e))
      | Transferred d \<Rightarrow>
          if d = [] then Inl (Io ''write zero'')
          else unix_write_all_until evs (drop (length d) (b # bs)))"

text \<open>
  A read gives the bytes still missing as their count; the result is the bytes in order. An
  event may carry more than the buffer takes: the stream gives at most what is asked.
\<close>

fun unix_read_exact_until :: "stream_event list \<Rightarrow> nat \<Rightarrow> string res" where
  "unix_read_exact_until evs 0 = Inr []"
| "unix_read_exact_until [] (Suc n) =
     Inl (Conflict ''owner handoff deadline expired during helper read'')"
| "unix_read_exact_until (ev # evs) (Suc n) =
     (case ev of
        WouldBlock \<Rightarrow> unix_read_exact_until evs (Suc n)
      | StreamError e \<Rightarrow> Inl (Conflict (''owner helper read failed: '' @ e))
      | Transferred d \<Rightarrow>
          if d = [] then Inl (Io ''failed to fill whole buffer'')
          else
            let got = take (Suc n) d in
            rbind (unix_read_exact_until evs (Suc n - length got)) (\<lambda>rest. Inr (got @ rest)))"

datatype connect_result = ConnectTimeout | ConnectFailed string | Connected

text \<open>\<open>answer\<close> is what \<open>getsockopt\<close> or \<open>getpeereid\<close> gives.\<close>

definition unix_peer_effective_uid :: "target \<Rightarrow> (string + nat) \<Rightarrow> nat res" where
  "unix_peer_effective_uid t answer =
     (case t of
        OtherUnix \<Rightarrow> Inl (Forbidden
          ''secret-helper peer authentication is unsupported on this Unix platform'')
      | _ \<Rightarrow> (case answer of Inl e \<Rightarrow> Inl (Io e) | Inr uid \<Rightarrow> Inr uid))"

record helper_io =
  hi_metadata :: "path_meta res"
  hi_time_left :: bool
  hi_connect :: connect_result
  hi_target :: target
  hi_peer_uid :: "string + nat"
  hi_own_uid :: nat
  hi_set_nonblocking :: "unit res"
  hi_writes :: "stream_event list"
  hi_flush :: "unit res"
  hi_length_reads :: "stream_event list"
  hi_body_reads :: "stream_event list"

record helper_provider =
  hp_socket_path :: "string list"
  hp_reference :: string
  hp_operation :: secret_operation
  hp_consumed :: bool

definition helper_provider_new ::
  "path_view \<Rightarrow> bool \<Rightarrow> string list \<Rightarrow> string \<Rightarrow> secret_operation \<Rightarrow> helper_provider res" where
  "helper_provider_new V absolute path reference operation =
     (if so_card_reference operation \<noteq> reference \<or> so_helper_mac operation = None
      then Inl (Forbidden
        ''helper requires an authenticated grant bound to the approved operation'')
      else
        rbind (require_owner_helper_socket V absolute path) (\<lambda>_.
        Inr \<lparr>hp_socket_path = path, hp_reference = reference, hp_operation = operation,
             hp_consumed = False\<rparr>))"

definition be_u32 :: "string \<Rightarrow> nat" where
  "be_u32 bs = foldl (\<lambda>n c. 256 * n + byte c) 0 bs"

definition connected :: "connect_result \<Rightarrow> unit res" where
  "connected c =
     (case c of
        ConnectTimeout \<Rightarrow> Inl (Conflict
          ''owner handoff deadline expired during helper connection'')
      | ConnectFailed e \<Rightarrow> Inl (Conflict (''owner helper connection failed: '' @ e))
      | Connected \<Rightarrow> Inr ())"

definition helper_exchange :: "env \<Rightarrow> helper_io \<Rightarrow> secret_operation \<Rightarrow> string res" where
  "helper_exchange E io operation =
     rbind (hi_metadata io) (\<lambda>m.
     if pm_kind m \<noteq> SocketNode \<or> group_or_other (pm_mode m)
     then Inl (Forbidden
       ''owner secret-helper socket must be private and must not be a symlink'')
     else if \<not> hi_time_left io
     then Inl (Conflict ''owner handoff deadline expired before secret retrieval'')
     else
     rbind (connected (hi_connect io)) (\<lambda>_.
     rbind (unix_peer_effective_uid (hi_target io) (hi_peer_uid io)) (\<lambda>uid.
     if uid \<noteq> hi_own_uid io
     then Inl (Forbidden ''owner secret-helper peer UID does not match the broker owner'')
     else
     rbind (hi_set_nonblocking io) (\<lambda>_.
     rbind (unix_write_all_until (hi_writes io)
       (json_text E (operation_json operation) @ [CHR 0x0A])) (\<lambda>_.
     rbind (hi_flush io) (\<lambda>_.
     rbind (unix_read_exact_until (hi_length_reads io) 4) (\<lambda>header.
     let n = be_u32 header in
     if n < 1 \<or> 4096 < n
     then Inl (Invalid ''owner secret-helper response length is invalid'')
     else unix_read_exact_until (hi_body_reads io) n)))))))"

definition helper_fetch ::
  "env \<Rightarrow> helper_io \<Rightarrow> helper_provider \<Rightarrow> secret_operation \<Rightarrow> string res \<times> helper_provider" where
  "helper_fetch E io p operation =
     (case require_secret_binding (hp_operation p) operation (hp_reference p) of
        Inl e \<Rightarrow> (Inl e, p)
      | Inr _ \<Rightarrow>
          if hp_consumed p
          then (Inl (Conflict ''owner secret-helper operation was already consumed''), p)
          else (helper_exchange E io operation, p\<lparr>hp_consumed := True\<rparr>))"

section \<open>The provider interface\<close>

text \<open>
  Every provider hands its secret to the operation it was made for and to no other, and stays
  bound to that operation.
\<close>

locale secret_provider =
  fixes fetch :: "'p \<Rightarrow> secret_operation \<Rightarrow> string res \<times> 'p"
    and bound_to :: "'p \<Rightarrow> secret_operation"
  assumes fetch_bound: "fetch p operation = (Inr secret, p') \<Longrightarrow> operation = bound_to p"
    and fetch_keeps: "fetch p operation = (r, p') \<Longrightarrow> bound_to p' = bound_to p"
begin

text \<open>A client that presents a list of operations, one after the other.\<close>

fun present :: "secret_operation list \<Rightarrow> 'p \<Rightarrow> string list \<times> 'p" where
  "present [] p = ([], p)"
| "present (q # qs) p =
     (case fetch p q of (r, p') \<Rightarrow> (case present qs p' of (ss, p'') \<Rightarrow>
        ((case r of Inr secret \<Rightarrow> secret # ss | Inl _ \<Rightarrow> ss), p'')))"

lemma unbound_gets_nothing:
  "bound_to p \<notin> set qs \<Longrightarrow> fst (present qs p) = []"
proof (induction qs arbitrary: p)
  case (Cons q qs)
  obtain r p' where f: "fetch p q = (r, p')" by (cases "fetch p q")
  have "\<exists>e. r = Inl e"
    using fetch_bound [of p q] f Cons.prems by (cases r) auto
  then obtain e where "r = Inl e" ..
  moreover have "bound_to p' \<notin> set qs"
    using fetch_keeps [OF f] Cons.prems by simp
  ultimately show ?case using f Cons.IH [of p'] by (auto split: prod.splits)
qed simp

end

locale one_shot_provider = secret_provider fetch bound_to
  for fetch :: "'p \<Rightarrow> secret_operation \<Rightarrow> string res \<times> 'p"
    and bound_to :: "'p \<Rightarrow> secret_operation" +
  fixes spent :: "'p \<Rightarrow> bool"
  assumes fetch_spends: "fetch p operation = (Inr secret, p') \<Longrightarrow> \<not> spent p \<and> spent p'"
    and spent_stays: "spent p \<Longrightarrow> fetch p operation = (r, p') \<Longrightarrow> spent p'"
begin

lemma spent_gives_nothing: "spent p \<Longrightarrow> fst (present qs p) = []"
proof (induction qs arbitrary: p)
  case (Cons q qs)
  obtain r p' where f: "fetch p q = (r, p')" by (cases "fetch p q")
  then have "spent p'" and "\<exists>e. r = Inl e"
    using spent_stays [OF Cons.prems f] fetch_spends [of p q] Cons.prems by (cases r; auto)+
  with f Cons.IH [of p'] show ?case by (auto split: prod.splits)
qed simp

lemma secret_once: "length (fst (present qs p)) \<le> 1"
proof (induction qs arbitrary: p)
  case (Cons q qs)
  obtain r p' where f: "fetch p q = (r, p')" by (cases "fetch p q")
  obtain ss p'' where t: "present qs p' = (ss, p'')" by (cases "present qs p'")
  show ?case
  proof (cases r)
    case (Inr secret)
    with f fetch_spends have "spent p'" by auto
    from spent_gives_nothing [OF this, of qs] f t Inr show ?thesis by simp
  next
    case (Inl e)
    with f t Cons.IH [of p'] show ?thesis by simp
  qed
qed simp

end

lemma require_secret_binding_Inr [simp]:
  "require_secret_binding expected actual reference = Inr u \<longleftrightarrow>
     actual = expected \<and> so_card_reference actual = reference"
  by (auto simp: require_secret_binding_def)

lemma take_secret_cases:
  "take_secret c p q = (Inr s, p') \<Longrightarrow>
     q = hs_operation p \<and> hs_secret p = Some s \<and> p' = p\<lparr>hs_secret := None\<rparr>"
  "take_secret c p q = (r, p') \<Longrightarrow>
     hs_operation p' = hs_operation p \<and> (hs_secret p' = hs_secret p \<or> hs_secret p' = None)"
  by (auto simp: take_secret_def split: sum.splits option.splits)

interpretation interactive: one_shot_provider interactive_fetch hs_operation "\<lambda>p. hs_secret p = None"
  unfolding interactive_fetch_def
  by unfold_locales (auto dest: take_secret_cases)

interpretation volatile: one_shot_provider volatile_fetch hs_operation "\<lambda>p. hs_secret p = None"
  unfolding volatile_fetch_def
  by unfold_locales (auto dest: take_secret_cases)

interpretation helper: one_shot_provider "helper_fetch E io" hp_operation hp_consumed for E io
  by unfold_locales (auto simp: helper_fetch_def split: sum.splits if_splits)

interpretation canary: secret_provider simulated_secret_fetch cs_operation
  by unfold_locales (auto simp: simulated_secret_fetch_def split: sum.splits)

end
