(* ===== verification/Checkout.thy ===== *)
theory Checkout
  imports Secrets
begin

text \<open>
  Submitting a prepared intent through a checkout executor: the trait \<open>CheckoutExecutor\<close>,
  the executor \<open>SecureOwnerHandoffExecutor\<close>, and the two persisted workflows
  \<open>execute_controlled_checkout_persisted\<close> and \<open>owner_execute_approved_handoff_persisted\<close>.
\<close>

section \<open>The handoff executor\<close>

record ('p, 't) handoff =
  ho_operation :: secret_operation
  ho_expected_request :: purchase_request
  ho_provider :: 'p
  ho_transport :: 't
  ho_submitted :: bool

text \<open>The secret provider and the transport, as the executor calls them.\<close>

record ('p, 't) handoff_env =
  he_fetch :: "'p \<Rightarrow> secret_operation \<Rightarrow> string res \<times> 'p"
  he_reference :: "'p \<Rightarrow> string"
  he_transport_id :: "'t \<Rightarrow> string"
  he_submit :: "'t \<Rightarrow> purchase_request \<Rightarrow> string \<Rightarrow> provider_outcome res \<times> 't"
  he_cleanup :: "'t \<Rightarrow> unit res \<times> 't"

definition handoff_new ::
  "('p, 't) handoff_env \<Rightarrow> secret_operation \<Rightarrow> purchase_request \<Rightarrow> 'p \<Rightarrow> 't
     \<Rightarrow> ('p, 't) handoff res" where
  "handoff_new H operation expected_request p t =
     (if so_intent_id operation = [] \<or> he_reference H p \<noteq> so_card_reference operation
      then Inl (Forbidden ''handoff provider is not bound to the approved operation'')
      else Inr \<lparr>ho_operation = operation, ho_expected_request = expected_request,
                ho_provider = p, ho_transport = t, ho_submitted = False\<rparr>)"

definition validate_origin_and_total :: "('p, 't) handoff \<Rightarrow> purchase_request \<Rightarrow> unit res" where
  "validate_origin_and_total x r =
     (if r \<noteq> ho_expected_request x
      then Inl (Forbidden ''checkout origin or total differs from the owner-approved request'')
      else Inr ())"

definition cleanup_error :: "env \<Rightarrow> treasury_error \<Rightarrow> treasury_error" where
  "cleanup_error E e =
     Conflict (''owner handoff cleanup failed; payment outcome is unknown: ''
       @ redact_sensitive E (error_text e))"

definition submit_once ::
  "env \<Rightarrow> ('p, 't) handoff_env \<Rightarrow> ('p, 't) handoff \<Rightarrow> purchase_intent
     \<Rightarrow> provider_outcome res \<times> ('p, 't) handoff" where
  "submit_once E H x i =
     (if ho_submitted x \<or> in_id i \<noteq> so_intent_id (ho_operation x)
      then (Inl (Conflict ''checkout handoff is consumed or bound to another intent''), x)
      else case validate_origin_and_total x (in_request i) of
        Inl e \<Rightarrow> (Inl e, x)
      | Inr _ \<Rightarrow>
          let (fetched, p) = he_fetch H (ho_provider x) (ho_operation x);
              (outcome, t1) = (case fetched of
                 Inr secret \<Rightarrow> he_submit H (ho_transport x) (in_request i) secret
               | Inl e \<Rightarrow> (Inl e, ho_transport x));
              (cleanup, t2) = he_cleanup H t1;
              x' = x\<lparr>ho_submitted := True, ho_provider := p, ho_transport := t2\<rparr> in
          (case outcome of
             Inl e \<Rightarrow> (Inl e, x')
           | Inr out \<Rightarrow> (case cleanup of
               Inr _ \<Rightarrow> (Inr out, x')
             | Inl e \<Rightarrow> (Inl (cleanup_error E e), x'))))"

section \<open>The persisted workflows\<close>

text \<open>An executor behind the trait object, and actions over the world and its state.\<close>

record 'x executor =
  ex_id :: "'x \<Rightarrow> string"
  ex_validate :: "'x \<Rightarrow> purchase_request \<Rightarrow> unit res"
  ex_submit :: "'x \<Rightarrow> purchase_intent \<Rightarrow> provider_outcome res \<times> 'x"

type_synonym ('x, 'a) checkout = "(treasury_state world \<times> 'x, treasury_error, 'a) action"

definition on_world :: "'a top \<Rightarrow> ('x, 'a) checkout" where
  "on_world m = (\<lambda>(w, x). case m w of (r, v) \<Rightarrow> (r, (v, x)))"

definition call_submit :: "'x executor \<Rightarrow> purchase_intent \<Rightarrow> ('x, provider_outcome res) checkout" where
  "call_submit X i = (\<lambda>(w, x). case ex_submit X x i of (r, x') \<Rightarrow> (Inr r, (w, x')))"

text \<open>\<open>Err(error)\<close> after a submission: quarantine, save, and return the error.\<close>

definition quarantine_and_save :: "env \<Rightarrow> codec \<Rightarrow> string \<Rightarrow> treasury_error \<Rightarrow> 'a top" where
  "quarantine_and_save E C intent_id e =
     bind (quarantine_execution E intent_id (error_text e)) (\<lambda>_.
     bind (save_to E C) (\<lambda>_. fail e))"

definition record_outcome ::
  "env \<Rightarrow> codec \<Rightarrow> string \<Rightarrow> string \<Rightarrow> provider_outcome res \<Rightarrow> json top" where
  "record_outcome E C agent_id intent_id submitted =
     (case submitted of
        Inr outcome \<Rightarrow>
          bind (attempt (apply_provider_outcome E agent_id intent_id outcome)) (\<lambda>applied.
          case applied of
            Inr v \<Rightarrow> bind (save_to E C) (\<lambda>_. ret v)
          | Inl e \<Rightarrow> quarantine_and_save E C intent_id e)
      | Inl e \<Rightarrow> quarantine_and_save E C intent_id e)"

text \<open>
  The critical section both workflows share: prepare under rollback, write the handoff to
  the audit log and to disk, submit, and record what came back. \<open>who\<close> and \<open>action\<close> are the
  actor and the action of the handoff's audit entry.
\<close>

definition submit_prepared ::
  "env \<Rightarrow> codec \<Rightarrow> 'x executor \<Rightarrow> actor \<Rightarrow> string \<Rightarrow> string \<Rightarrow> string \<Rightarrow> string
     \<Rightarrow> ('x, json) checkout" where
  "submit_prepared E C X agent who action agent_id intent_id =
     bind (on_world get_state) (\<lambda>snapshot.
     bind (on_world (rollback snapshot (prepare_intent_execution E agent intent_id))) (\<lambda>_.
     bind (on_world get_state) (\<lambda>s.
     bind (lift (purchase_intent_of s intent_id)) (\<lambda>executing.
     bind (gets snd) (\<lambda>x.
     bind (on_world (audit E who action (Some intent_id) (Some (in_policy_version executing))
       (Some ''submitted'')
       (JObj [(''executor_id'', JStr (redact_sensitive E (ex_id X x)))]))) (\<lambda>_.
     bind (on_world (save_to E C)) (\<lambda>_.
     bind (call_submit X executing) (\<lambda>submitted.
     on_world (record_outcome E C agent_id intent_id submitted)))))))))"

definition execute_controlled_checkout_persisted ::
  "env \<Rightarrow> codec \<Rightarrow> 'x executor \<Rightarrow> string \<Rightarrow> string \<Rightarrow> ('x, json) checkout" where
  "execute_controlled_checkout_persisted E C X agent_token intent_id =
     bind (on_world (authenticate E agent_token)) (\<lambda>a.
     bind (on_world get_state) (\<lambda>s.
     bind (lift (require_agent_scope s a ''purchase_intents:execute'')) (\<lambda>agent_id.
     bind (lift (controlled_intent s a intent_id)) (\<lambda>(p, existing).
     bind (gets snd) (\<lambda>x.
     bind (lift (ex_validate X x (in_request existing))) (\<lambda>_.
     submit_prepared E C X a agent_id ''controlled_checkout_handoff'' agent_id intent_id))))))"

definition owner_execute_approved_handoff_persisted ::
  "env \<Rightarrow> codec \<Rightarrow> 'x executor \<Rightarrow> string \<Rightarrow> string \<Rightarrow> ('x, json) checkout" where
  "owner_execute_approved_handoff_persisted E C X owner_token intent_id =
     bind (on_world (authenticate E owner_token)) (\<lambda>a.
     bind (lift (require_owner a)) (\<lambda>_.
     bind (on_world get_state) (\<lambda>s.
     if provider_mode s \<noteq> ManualPrepaidCard
     then fail (Conflict
       ''owner handoff is available only for the manual prepaid-card provider'')
     else
     bind (lift (purchase_intent_of s intent_id)) (\<lambda>existing.
     if in_state existing \<noteq> Approved
     then fail (Conflict ''owner handoff requires an explicitly approved intent'')
     else
     bind (gets snd) (\<lambda>x.
     bind (lift (ex_validate X x (in_request existing))) (\<lambda>_.
     submit_prepared E C X (AgentActor (in_agent_id existing)) ''owner'' ''owner_checkout_handoff''
       (in_agent_id existing) intent_id))))))"

section \<open>The executor interface\<close>

text \<open>
  What the workflows rely on: an executor accepts one submission, for one intent and one
  request, and never again, whatever that submission returned.
\<close>

locale checkout_executor =
  fixes submit :: "'x \<Rightarrow> purchase_intent \<Rightarrow> provider_outcome res \<times> 'x"
    and spent :: "'x \<Rightarrow> bool"
    and accepts :: "'x \<Rightarrow> purchase_intent \<Rightarrow> bool"
  assumes submit_accepts: "submit x i = (Inr out, x') \<Longrightarrow> \<not> spent x \<and> accepts x i \<and> spent x'"
    and submit_spent: "spent x \<Longrightarrow> submit x i = (r, x') \<Longrightarrow> x' = x"
begin

fun submit_all :: "purchase_intent list \<Rightarrow> 'x \<Rightarrow> provider_outcome list \<times> 'x" where
  "submit_all [] x = ([], x)"
| "submit_all (i # is) x =
     (case submit x i of (r, x') \<Rightarrow> (case submit_all is x' of (outs, x'') \<Rightarrow>
        ((case r of Inr out \<Rightarrow> out # outs | Inl _ \<Rightarrow> outs), x'')))"

lemma spent_executor: "spent x \<Longrightarrow> submit_all is x = ([], x)"
proof (induction "is" arbitrary: x)
  case (Cons i "is")
  obtain r x' where s: "submit x i = (r, x')" by (cases "submit x i")
  then have "x' = x" using submit_spent [OF Cons.prems] by simp
  moreover have "\<exists>e. r = Inl e" using submit_accepts [of x i] s Cons.prems by (cases r) auto
  ultimately show ?case using s Cons by auto
qed simp

lemma at_most_one_outcome: "length (fst (submit_all is x)) \<le> 1"
proof (induction "is" arbitrary: x)
  case (Cons i "is")
  obtain r x' where s: "submit x i = (r, x')" by (cases "submit x i")
  show ?case
  proof (cases r)
    case (Inr out)
    with submit_accepts s have "spent x'" by auto
    from spent_executor [OF this, of "is"] s Inr show ?thesis by simp
  next
    case (Inl e)
    with s Cons.IH [of x'] show ?thesis by (auto split: prod.splits)
  qed
qed simp

end

lemma submit_once_refused:
  "ho_submitted x \<or> in_id i \<noteq> so_intent_id (ho_operation x)
     \<or> in_request i \<noteq> ho_expected_request x \<Longrightarrow>
   \<exists>e. submit_once E H x i = (Inl e, x)"
  by (auto simp: submit_once_def validate_origin_and_total_def)

lemma submit_once_spends:
  assumes "submit_once E H x i = (r, x')" and "\<not> ho_submitted x"
    and "in_id i = so_intent_id (ho_operation x)" and "in_request i = ho_expected_request x"
  shows "ho_submitted x' \<and> ho_operation x' = ho_operation x
    \<and> ho_expected_request x' = ho_expected_request x"
  using assms
  by (auto simp: submit_once_def validate_origin_and_total_def Let_def
      split: sum.splits prod.splits)

interpretation handoff_exec: checkout_executor "submit_once E H" ho_submitted
    "\<lambda>x i. in_id i = so_intent_id (ho_operation x) \<and> in_request i = ho_expected_request x" for E H
proof
  fix x :: "('a, 'b) handoff" and i out x'
  assume s: "submit_once E H x i = (Inr out, x')"
  have a: "\<not> (ho_submitted x \<or> in_id i \<noteq> so_intent_id (ho_operation x)
      \<or> in_request i \<noteq> ho_expected_request x)"
    using submit_once_refused [of x i E H] s by auto
  with submit_once_spends [OF s] show "\<not> ho_submitted x
    \<and> (in_id i = so_intent_id (ho_operation x) \<and> in_request i = ho_expected_request x)
    \<and> ho_submitted x'" by simp
next
  fix x :: "('a, 'b) handoff" and i r x'
  assume "ho_submitted x" and "submit_once E H x i = (r, x')"
  with submit_once_refused [of x i E H] show "x' = x" by auto
qed

end
