(* ===== verification/Admission.thy ===== *)
theory Admission
  imports Base
begin

text \<open>
  The daemon's admission control (\<open>AgentAdmission\<close> in \<open>apps/daemon/src/main.rs\<close>): which
  agent requests reach the treasury. Each method runs under one mutex and is atomic; the two
  guards' \<open>Drop\<close> are operations of their own. An \<open>Instant\<close> is a number of nanoseconds. The
  hash of \<open>admission_fingerprint\<close> is a parameter.
\<close>

definition max_agent_admission_entries :: nat where "max_agent_admission_entries = 128"
definition max_agent_requests_per_second :: nat where "max_agent_requests_per_second = 100"
definition max_channel_requests_per_second :: nat where "max_channel_requests_per_second = 200"
definition max_channel_in_flight :: nat where "max_channel_in_flight = 4"
definition max_unauthenticated_per_second :: nat where "max_unauthenticated_per_second = 20"

definition one_second :: nat where "one_second = 1000000000"

section \<open>State\<close>

record admission_entry =
  ae_window_started :: nat
  ae_requests :: nat
  ae_in_flight :: bool

record admission =
  ad_known :: "(string, int) bmap"
  ad_entries :: "(nat, admission_entry) bmap"
  ad_window_started :: nat
  ad_requests :: nat
  ad_in_flight :: nat
  ad_unauth_window_started :: nat
  ad_unauth_requests :: nat

definition known_of :: "(string \<times> int) list \<Rightarrow> (string, int) bmap" where
  "known_of cs = fold (\<lambda>c m. bput (fst c) (snd c) m) cs bempty"

definition admission_new :: "(string \<times> int) list \<Rightarrow> nat \<Rightarrow> nat \<Rightarrow> admission" where
  "admission_new known t1 t2 =
     \<lparr>ad_known = known_of known, ad_entries = bempty, ad_window_started = t1, ad_requests = 0,
      ad_in_flight = 0, ad_unauth_window_started = t2, ad_unauth_requests = 0\<rparr>"

section \<open>Operations\<close>

definition is_known_capability :: "env \<Rightarrow> admission \<Rightarrow> int \<Rightarrow> string \<Rightarrow> bool" where
  "is_known_capability E a at token =
     (if length token \<noteq> 64 \<or> \<not> list_all is_ascii_hexdigit token then False
      else case bget (ad_known a) (capability_fingerprint E token) of
        None \<Rightarrow> False | Some expires_at \<Rightarrow> at < expires_at)"

definition replace_known_capabilities ::
  "(string \<Rightarrow> nat) \<Rightarrow> admission \<Rightarrow> (string \<times> int) list \<Rightarrow> admission" where
  "replace_known_capabilities H a capabilities =
     (let known = known_of capabilities; active_keys = map H (bkeys known) in
      a\<lparr>ad_known := known,
        ad_entries := bfilter (\<lambda>k e. ae_in_flight e \<or> k \<in> set active_keys) (ad_entries a)\<rparr>)"

definition admit_unauthenticated :: "admission \<Rightarrow> nat \<Rightarrow> bool \<times> admission" where
  "admit_unauthenticated a t =
     (let b = (if one_second \<le> t - ad_unauth_window_started a
               then a\<lparr>ad_unauth_window_started := t, ad_unauth_requests := 0\<rparr> else a) in
      if max_unauthenticated_per_second \<le> ad_unauth_requests b then (False, b)
      else (True, b\<lparr>ad_unauth_requests := ad_unauth_requests b + 1\<rparr>))"

definition admit_channel :: "admission \<Rightarrow> nat \<Rightarrow> bool \<times> admission" where
  "admit_channel a t =
     (let b = (if one_second \<le> t - ad_window_started a
               then a\<lparr>ad_window_started := t, ad_requests := 0\<rparr> else a) in
      if max_channel_in_flight \<le> ad_in_flight b \<or> max_channel_requests_per_second \<le> ad_requests b
      then (False, b)
      else (True, b\<lparr>ad_in_flight := ad_in_flight b + 1, ad_requests := ad_requests b + 1\<rparr>))"

definition fresh_entry :: "nat \<Rightarrow> admission_entry" where
  "fresh_entry t = \<lparr>ae_window_started = t, ae_requests = 0, ae_in_flight = False\<rparr>"

definition retain_recent :: "admission \<Rightarrow> nat \<Rightarrow> admission" where
  "retain_recent a t = a\<lparr>ad_entries := bfilter (\<lambda>k e. ae_in_flight e
     \<or> t - ae_window_started e < 2 * one_second) (ad_entries a)\<rparr>"

definition entry_or_fresh :: "admission \<Rightarrow> nat \<Rightarrow> nat \<Rightarrow> admission_entry" where
  "entry_or_fresh a k t = (case bget (ad_entries a) k of None \<Rightarrow> fresh_entry t | Some e \<Rightarrow> e)"

definition new_window :: "nat \<Rightarrow> admission_entry \<Rightarrow> admission_entry" where
  "new_window t e = (if one_second \<le> t - ae_window_started e
     then e\<lparr>ae_window_started := t, ae_requests := 0\<rparr> else e)"

definition put_entry :: "nat \<Rightarrow> admission_entry \<Rightarrow> admission \<Rightarrow> admission" where
  "put_entry k e a = a\<lparr>ad_entries := bput k e (ad_entries a)\<rparr>"

definition admit_capability :: "admission \<Rightarrow> nat \<Rightarrow> nat \<Rightarrow> bool \<times> admission" where
  "admit_capability a k t =
     (let b = retain_recent a t in
      if bget (ad_entries b) k = None \<and> max_agent_admission_entries \<le> bsize (ad_entries b)
      then (False, b)
      else
        let e = new_window t (entry_or_fresh b k t) in
        if ae_in_flight e \<or> max_agent_requests_per_second \<le> ae_requests e
        then (False, put_entry k e b)
        else (True, put_entry k (e\<lparr>ae_in_flight := True, ae_requests := ae_requests e + 1\<rparr>) b))"

definition drop_channel :: "admission \<Rightarrow> admission" where
  "drop_channel a = a\<lparr>ad_in_flight := ad_in_flight a - 1\<rparr>"

definition drop_capability :: "admission \<Rightarrow> nat \<Rightarrow> admission" where
  "drop_capability a k =
     (case bget (ad_entries a) k of
        None \<Rightarrow> a
      | Some e \<Rightarrow> put_entry k (e\<lparr>ae_in_flight := False\<rparr>) a)"

section \<open>Runs\<close>

text \<open>
  A run of the daemon: the admission state, the number of channel guards alive and the
  capabilities whose guards are alive. Each guard is dropped once.
\<close>

type_synonym guarded = "admission \<times> nat \<times> nat list"

inductive adm_step :: "guarded \<Rightarrow> guarded \<Rightarrow> bool" where
  channel: "admit_channel a t = (True, b) \<Longrightarrow> adm_step (a, c, ks) (b, c + 1, ks)"
| channel_refused: "admit_channel a t = (False, b) \<Longrightarrow> adm_step (a, c, ks) (b, c, ks)"
| capability: "admit_capability a k t = (True, b) \<Longrightarrow> adm_step (a, c, ks) (b, c, k # ks)"
| capability_refused: "admit_capability a k t = (False, b) \<Longrightarrow> adm_step (a, c, ks) (b, c, ks)"
| unauthenticated: "admit_unauthenticated a t = (r, b) \<Longrightarrow> adm_step (a, c, ks) (b, c, ks)"
| replace: "adm_step (a, c, ks) (replace_known_capabilities H a cs, c, ks)"
| drop_ch: "adm_step (a, c + 1, ks) (drop_channel a, c, ks)"
| drop_cap: "k \<in> set ks \<Longrightarrow> adm_step (a, c, ks) (drop_capability a k, c, remove1 k ks)"

inductive adm_reach :: "guarded \<Rightarrow> bool" where
  start: "adm_reach (admission_new known t1 t2, 0, [])"
| step: "adm_reach g \<Longrightarrow> adm_step g h \<Longrightarrow> adm_reach h"

inductive_cases adm_stepE: "adm_step g h"

section \<open>The invariant\<close>

definition adm_inv :: "guarded \<Rightarrow> bool" where
  "adm_inv g \<longleftrightarrow> (case g of (a, c, ks) \<Rightarrow>
     ad_in_flight a = c \<and> c \<le> max_channel_in_flight
     \<and> ad_requests a \<le> max_channel_requests_per_second
     \<and> ad_unauth_requests a \<le> max_unauthenticated_per_second
     \<and> bsize (ad_entries a) \<le> max_agent_admission_entries
     \<and> (\<forall>k e. bget (ad_entries a) k = Some e \<longrightarrow> ae_requests e \<le> max_agent_requests_per_second)
     \<and> distinct ks
     \<and> (\<forall>k. k \<in> set ks \<longleftrightarrow> (\<exists>e. bget (ad_entries a) k = Some e \<and> ae_in_flight e)))"

lemma admit_channel_simps:
  "admit_channel a t = (r, b) \<Longrightarrow>
     ad_entries b = ad_entries a \<and> ad_unauth_requests b = ad_unauth_requests a
     \<and> ad_in_flight b = ad_in_flight a + (if r then 1 else 0)
     \<and> (r \<longrightarrow> ad_in_flight a < max_channel_in_flight)
     \<and> (ad_requests a \<le> max_channel_requests_per_second \<longrightarrow>
          ad_requests b \<le> max_channel_requests_per_second)"
  by (auto simp: admit_channel_def Let_def split: if_splits)

lemma admit_unauthenticated_simps:
  "admit_unauthenticated a t = (r, b) \<Longrightarrow>
     ad_entries b = ad_entries a \<and> ad_requests b = ad_requests a \<and> ad_in_flight b = ad_in_flight a
     \<and> (ad_unauth_requests a \<le> max_unauthenticated_per_second \<longrightarrow>
          ad_unauth_requests b \<le> max_unauthenticated_per_second)"
  by (auto simp: admit_unauthenticated_def Let_def split: if_splits)

lemma retain_recent_simps [simp]:
  "ad_requests (retain_recent a t) = ad_requests a"
  "ad_in_flight (retain_recent a t) = ad_in_flight a"
  "ad_unauth_requests (retain_recent a t) = ad_unauth_requests a"
  by (simp_all add: retain_recent_def)

lemma retain_recent_get:
  "bget (ad_entries (retain_recent a t)) k = Some e \<Longrightarrow> bget (ad_entries a) k = Some e"
  "bget (ad_entries a) k = Some e \<Longrightarrow> ae_in_flight e \<Longrightarrow>
     bget (ad_entries (retain_recent a t)) k = Some e"
  by (auto simp: retain_recent_def split: option.splits if_splits)

lemma retain_recent_size: "bsize (ad_entries (retain_recent a t)) \<le> bsize (ad_entries a)"
  by (simp add: retain_recent_def bsize_bfilter)

text \<open>What \<open>admit_capability\<close> does to the entries: only the one of its key is written.\<close>

lemma new_window_simps [simp]:
  "ae_in_flight (new_window t e) = ae_in_flight e"
  "ae_requests e \<le> max_agent_requests_per_second \<Longrightarrow>
     ae_requests (new_window t e) \<le> max_agent_requests_per_second"
  by (simp_all add: new_window_def)

lemma admit_capability_cases:
  assumes "admit_capability a k t = (r, b)"
  shows "\<not> r \<and> b = retain_recent a t
    \<or> (\<exists>e. b = put_entry k e (retain_recent a t)
        \<and> ae_in_flight e = (ae_in_flight (entry_or_fresh (retain_recent a t) k t) \<or> r)
        \<and> (r \<longrightarrow> \<not> ae_in_flight (entry_or_fresh (retain_recent a t) k t))
        \<and> (ae_requests (entry_or_fresh (retain_recent a t) k t) \<le> max_agent_requests_per_second \<longrightarrow>
             ae_requests e \<le> max_agent_requests_per_second)
        \<and> (bget (ad_entries (retain_recent a t)) k = None \<longrightarrow>
             bsize (ad_entries (retain_recent a t)) < max_agent_admission_entries))"
  using assms by (auto simp: admit_capability_def Let_def not_le split: if_splits)

lemma put_entry_simps [simp]:
  "ad_requests (put_entry k e a) = ad_requests a"
  "ad_in_flight (put_entry k e a) = ad_in_flight a"
  "ad_unauth_requests (put_entry k e a) = ad_unauth_requests a"
  "bget (ad_entries (put_entry k e a)) j = (if j = k then Some e else bget (ad_entries a) j)"
  by (simp_all add: put_entry_def)

text \<open>The two parts of the invariant: the counters, and the entries with their guards.\<close>

definition entries_ok :: "admission \<Rightarrow> nat list \<Rightarrow> bool" where
  "entries_ok a ks \<longleftrightarrow>
     bsize (ad_entries a) \<le> max_agent_admission_entries
     \<and> (\<forall>k e. bget (ad_entries a) k = Some e \<longrightarrow> ae_requests e \<le> max_agent_requests_per_second)
     \<and> distinct ks
     \<and> (\<forall>k. k \<in> set ks \<longleftrightarrow> (\<exists>e. bget (ad_entries a) k = Some e \<and> ae_in_flight e))"

lemma entries_ok_retain: "entries_ok a ks \<Longrightarrow> entries_ok (retain_recent a t) ks"
  using retain_recent_size [of a t] retain_recent_get [where a = a]
  unfolding entries_ok_def by (meson le_trans)

lemma entries_ok_put:
  assumes "entries_ok a ks" and "ae_requests e \<le> max_agent_requests_per_second"
    and "bget (ad_entries a) k = None \<longrightarrow> bsize (ad_entries a) < max_agent_admission_entries"
    and "distinct js" and "\<And>j. j \<in> set js \<longleftrightarrow> (if j = k then ae_in_flight e else j \<in> set ks)"
  shows "entries_ok (put_entry k e a) js"
proof -
  have "bsize (ad_entries (put_entry k e a)) \<le> max_agent_admission_entries"
    using assms(1,3) by (auto simp: put_entry_def bsize_bput entries_ok_def)
  then show ?thesis using assms by (auto simp: entries_ok_def)
qed

lemma entries_ok_admit:
  assumes inv: "entries_ok a ks" and adm: "admit_capability a k t = (r, b)"
  shows "entries_ok b (if r then k # ks else ks)"
proof -
  let ?b = "retain_recent a t"
  have ok: "entries_ok ?b ks" by (rule entries_ok_retain [OF inv])
  from admit_capability_cases [OF adm] show ?thesis
  proof (elim disjE exE conjE)
    fix e
    assume b: "b = put_entry k e ?b"
      and fl: "ae_in_flight e = (ae_in_flight (entry_or_fresh ?b k t) \<or> r)"
      and fr: "r \<longrightarrow> \<not> ae_in_flight (entry_or_fresh ?b k t)"
      and rq: "ae_requests (entry_or_fresh ?b k t) \<le> max_agent_requests_per_second \<longrightarrow>
          ae_requests e \<le> max_agent_requests_per_second"
      and room: "bget (ad_entries ?b) k = None \<longrightarrow> bsize (ad_entries ?b) < max_agent_admission_entries"
    have old: "ae_in_flight (entry_or_fresh ?b k t) = (k \<in> set ks)"
      and "ae_requests (entry_or_fresh ?b k t) \<le> max_agent_requests_per_second"
      using ok by (auto simp: entries_ok_def entry_or_fresh_def fresh_entry_def split: option.splits)
    with rq have "ae_requests e \<le> max_agent_requests_per_second" by simp
    then show ?thesis
      unfolding b by (rule entries_ok_put [OF ok _ room]) (use ok fl fr old in \<open>auto simp: entries_ok_def\<close>)
  qed (use ok in simp)
qed

lemma entries_ok_drop: "entries_ok a ks \<Longrightarrow> entries_ok (drop_capability a k) (remove1 k ks)"
proof -
  assume ok: "entries_ok a ks"
  show ?thesis
  proof (cases "bget (ad_entries a) k")
    case None
    with ok have "k \<notin> set ks" by (auto simp: entries_ok_def)
    with ok None show ?thesis by (simp add: drop_capability_def remove1_idem)
  next
    case (Some e)
    have "entries_ok (put_entry k (e\<lparr>ae_in_flight := False\<rparr>) a) (remove1 k ks)"
      by (rule entries_ok_put [OF ok]) (use ok Some in \<open>auto simp: entries_ok_def\<close>)
    with Some show ?thesis by (simp add: drop_capability_def)
  qed
qed

lemma entries_ok_replace: "entries_ok a ks \<Longrightarrow> entries_ok (replace_known_capabilities H a cs) ks"
  using bsize_bfilter [where m = "ad_entries a"]
  unfolding entries_ok_def replace_known_capabilities_def Let_def
  by (auto split: option.splits if_splits intro: le_trans)

definition counters_ok :: "admission \<Rightarrow> nat \<Rightarrow> bool" where
  "counters_ok a c \<longleftrightarrow> ad_in_flight a = c \<and> c \<le> max_channel_in_flight
     \<and> ad_requests a \<le> max_channel_requests_per_second
     \<and> ad_unauth_requests a \<le> max_unauthenticated_per_second"

lemma adm_inv_iff: "adm_inv (a, c, ks) \<longleftrightarrow> counters_ok a c \<and> entries_ok a ks"
  by (auto simp: adm_inv_def counters_ok_def entries_ok_def)

lemma counters_capability:
  "admit_capability a k t = (r, b) \<Longrightarrow> counters_ok b c = counters_ok a c"
  by (drule admit_capability_cases) (auto simp: counters_ok_def)

lemma adm_inv_step: "adm_step g h \<Longrightarrow> adm_inv g \<Longrightarrow> adm_inv h"
proof (induction rule: adm_step.induct)
  case (channel a t b c ks)
  with admit_channel_simps [OF channel.hyps] show ?case
    by (simp add: adm_inv_iff counters_ok_def entries_ok_def)
next
  case (channel_refused a t b c ks)
  with admit_channel_simps [OF channel_refused.hyps] show ?case
    by (simp add: adm_inv_iff counters_ok_def entries_ok_def)
next
  case (capability a k t b c ks)
  with entries_ok_admit [of a ks k t True b] counters_capability [OF capability.hyps] show ?case
    by (simp add: adm_inv_iff)
next
  case (capability_refused a k t b c ks)
  with entries_ok_admit [of a ks k t False b] counters_capability [OF capability_refused.hyps]
  show ?case by (simp add: adm_inv_iff)
next
  case (unauthenticated a t r b c ks)
  with admit_unauthenticated_simps [OF unauthenticated.hyps] show ?case
    by (simp add: adm_inv_iff counters_ok_def entries_ok_def)
next
  case (replace a c ks H cs)
  then show ?case
    using entries_ok_replace [of a ks H cs]
    by (simp add: adm_inv_iff counters_ok_def replace_known_capabilities_def Let_def)
next
  case (drop_ch a c ks)
  then show ?case by (simp add: adm_inv_iff counters_ok_def entries_ok_def drop_channel_def)
next
  case (drop_cap k ks a c)
  have "counters_ok (drop_capability a k) c = counters_ok a c"
    by (simp add: drop_capability_def counters_ok_def split: option.split)
  with drop_cap entries_ok_drop show ?case by (simp add: adm_inv_iff)
qed

lemma adm_inv_reach: "adm_reach g \<Longrightarrow> adm_inv g"
proof (induction rule: adm_reach.induct)
  case (start known t1 t2)
  show ?case by (simp add: adm_inv_iff counters_ok_def entries_ok_def admission_new_def)
qed (rule adm_inv_step)

end
