(* ===== verification/Daemon.thy ===== *)
theory Daemon
  imports Checkout Admission
begin

text \<open>
  The daemon (\<open>apps/daemon/src/main.rs\<close>): argument lookup, private CLI files, the
  controlled checkout runtime with its merchant profiles and its browser transport, the
  admission and routing of one connection, the connection limit, and the bounded response
  frame. A CLI error is its text.
\<close>

type_synonym 'a cli = "string + 'a"

definition max_frame_bytes :: nat where "max_frame_bytes = 256 * 1024"

definition cli :: "'a res \<Rightarrow> 'a cli" where
  "cli r = (case r of Inl e \<Rightarrow> Inl (error_text e) | Inr x \<Rightarrow> Inr x)"

section \<open>Arguments\<close>

text \<open>\<open>windows(2)\<close>: the first pair whose first element is the name.\<close>

fun arg_value :: "string list \<Rightarrow> string \<Rightarrow> string option" where
  "arg_value (a # b # rest) name = (if a = name then Some b else arg_value (b # rest) name)"
| "arg_value _ name = None"

definition arg_required :: "string list \<Rightarrow> string \<Rightarrow> string cli" where
  "arg_required args name = ok_or (''missing required argument '' @ name) (arg_value args name)"

section \<open>Owner-controlled files\<close>

definition require_absolute_regular_file ::
  "path_view \<Rightarrow> bool \<Rightarrow> string list \<Rightarrow> string \<Rightarrow> unit cli" where
  "require_absolute_regular_file V absolute path label =
     (if \<not> absolute then Inl (label @ '' must be an absolute path'')
      else
        rbind (pv_lstat V path) (\<lambda>m.
        if pm_kind m \<noteq> RegularNode then Inl (label @ '' must be a regular non-symlink file'')
        else if (pm_uid m \<noteq> 0 \<and> pm_uid m \<noteq> pv_euid V) \<or> Bit_Operations.and (pm_mode m) 18 \<noteq> 0
        then Inl (label @ '' must be root/owner-controlled and not group/world writable'')
        else check_ancestors V (\<lambda>e. e)
          (label @ '' ancestors must be root/owner-controlled non-symlink directories'') (rev path)))"

definition require_owner_directory ::
  "path_view \<Rightarrow> bool \<Rightarrow> string list \<Rightarrow> string \<Rightarrow> unit cli" where
  "require_owner_directory V absolute path label =
     (if \<not> absolute then Inl (label @ '' must be an absolute path'')
      else
        rbind (pv_lstat V path) (\<lambda>m.
        if pm_kind m \<noteq> DirNode \<or> pm_uid m \<noteq> pv_euid V \<or> group_or_other (pm_mode m)
        then Inl (label @ '' must be a private owner-controlled directory'')
        else check_ancestors V (\<lambda>e. e)
          (label @ '' ancestors must be root/owner-controlled non-symlink directories'') (rev path)))"

definition require_owner_executable ::
  "path_view \<Rightarrow> bool \<Rightarrow> string list \<Rightarrow> string \<Rightarrow> unit cli" where
  "require_owner_executable V absolute path label =
     rbind (require_absolute_regular_file V absolute path label) (\<lambda>_.
     rbind (pv_lstat V path) (\<lambda>m.
     if Bit_Operations.and (pm_mode m) 73 = 0 then Inl (label @ '' is not executable'') else Inr ()))"

section \<open>Checkout profiles\<close>

text \<open>
  One directory entry, as the checks and the decoder see it: whether its extension is
  \<open>json\<close>, the result of the file check, of reading it, and of decoding it.
\<close>

record checkout_profile =
  cp_version :: nat
  cp_merchant_domain :: string
  cp_config :: json

record profile_entry =
  pe_path :: string
  pe_is_json :: bool
  pe_check :: "unit cli"
  pe_bytes :: "string cli"
  pe_decoded :: "checkout_profile cli"

type_synonym profile_scan = "nat \<times> (string \<times> json) option"

definition scan_profile :: "string \<Rightarrow> profile_scan \<Rightarrow> profile_entry \<Rightarrow> profile_scan cli" where
  "scan_profile merchant st e =
     (if \<not> pe_is_json e then Inr st
      else
        let entries = fst st + 1 in
        if 64 < entries then Inl ''checkout profile limit exceeded''
        else
        rbind (pe_check e) (\<lambda>_.
        rbind (pe_bytes e) (\<lambda>bytes.
        if 64 * 1024 < length bytes then Inl ''checkout profile exceeds 64 KiB''
        else
        rbind (pe_decoded e) (\<lambda>profile.
        if cp_version profile \<noteq> 1 then Inl ''checkout profile version is unsupported''
        else if cp_merchant_domain profile = merchant
        then (if snd st \<noteq> None then Inl ''multiple checkout profiles match the merchant''
              else Inr (entries, Some (pe_path e, cp_config profile)))
        else Inr (entries, snd st)))))"

definition is_object :: "json \<Rightarrow> bool" where
  "is_object v = (case v of JObj _ \<Rightarrow> True | _ \<Rightarrow> False)"

text \<open>The browser check is \<open>require_owner_executable\<close> on the profile's path.\<close>

definition load_profile ::
  "(string \<Rightarrow> unit cli) \<Rightarrow> profile_entry list cli \<Rightarrow> purchase_request \<Rightarrow> json cli" where
  "load_profile check_browser listing request =
     rbind listing (\<lambda>entries.
     rbind (rfold (scan_profile (merchant_domain request)) (0, None) entries) (\<lambda>st.
     rbind (ok_or (''no owner-approved checkout profile exists for '' @ merchant_domain request)
       (snd st)) (\<lambda>(path, config).
     case redirect_chain request of
       [] \<Rightarrow> Inl ''controlled checkout request has no checkout URL''
     | checkout_url # _ \<Rightarrow>
         if \<not> is_object config
         then Inl (''checkout profile '' @ path @ '' config must be an object'')
         else
           let config = j_set ''checkoutUrl'' (JStr checkout_url) config in
           rbind (ok_or ''checkout profile requires browserExecutable''
             (j_as_str (j_field ''browserExecutable'' config))) (\<lambda>browser_path.
           rbind (check_browser browser_path) (\<lambda>_. Inr config)))))"

section \<open>The browser transport\<close>

record checkout_secret =
  sx_pan :: string
  sx_expiry :: string
  sx_cvv :: string
  sx_cardholder :: "string option"

text \<open>
  What the transport runs is the adapter process: \<open>bt_run\<close> is what spawning it, feeding it
  the request and collecting its output before the deadline gives (the exit status and the
  output). Decoders and the encoder are parameters.
\<close>

record browser =
  bt_decode_secret :: "string \<Rightarrow> checkout_secret option"
  bt_encode :: "purchase_request \<Rightarrow> checkout_secret \<Rightarrow> string"
  bt_run :: "string \<Rightarrow> (bool \<times> string) res"
  bt_decode_outcome :: "string \<Rightarrow> provider_outcome option"

definition out_of_limits :: "nat \<Rightarrow> string \<Rightarrow> bool" where
  "out_of_limits n s \<longleftrightarrow> s = [] \<or> n < length s"

definition browser_submit :: "browser \<Rightarrow> purchase_request \<Rightarrow> string \<Rightarrow> provider_outcome res" where
  "browser_submit B request secret_bytes =
     rbind (ok_or (Invalid (''owner secret must be one strict JSON object for the controlled ''
       @ ''checkout adapter'')) (bt_decode_secret B secret_bytes)) (\<lambda>secret.
     if out_of_limits 32 (sx_pan secret) \<or> out_of_limits 16 (sx_expiry secret)
        \<or> out_of_limits 8 (sx_cvv secret)
        \<or> (case sx_cardholder secret of None \<Rightarrow> False | Some v \<Rightarrow> out_of_limits 128 v)
     then Inl (Invalid ''owner secret fields are missing or outside their size limits'')
     else
     let encoded = bt_encode B request secret @ [CHR 0x0A] in
     if 16 * 1024 < length encoded
     then Inl (Invalid ''checkout adapter request is too large'')
     else
     rbind (bt_run B encoded) (\<lambda>(success, output).
     if \<not> success
     then Inl (Conflict ''controlled checkout adapter failed; payment outcome is unknown'')
     else
     rbind (ok_or (Conflict
       ''controlled checkout adapter returned an invalid sanitized outcome'')
       (bt_decode_outcome B output)) (\<lambda>_.
     Inr (OutUnknown (''browser output is not authenticated provider evidence; ''
       @ ''owner reconciliation required'')))))"

section \<open>The controlled checkout runtime\<close>

text \<open>
  The runtime's view of its files and devices at one execution; the socket's and the
  adapter's behaviour depend on the deadline, given in milliseconds.
\<close>

record runtime =
  rt_listing :: "profile_entry list cli"
  rt_check_browser :: "string \<Rightarrow> unit cli"
  rt_helper_key :: "string cli"
  rt_helper_id :: "string cli"
  rt_euid :: nat
  rt_paths :: path_view
  rt_socket :: "string list"
  rt_io :: "nat \<Rightarrow> helper_io"
  rt_browser :: "json \<Rightarrow> nat \<Rightarrow> browser"

definition timeout_of :: "json \<Rightarrow> nat option" where
  "timeout_of config = (case j_field ''timeoutMs'' config of
     JInt i \<Rightarrow> if 0 \<le> i then Some (nat i) else None | _ \<Rightarrow> None)"

definition hard_timeout_ms :: "nat \<Rightarrow> nat" where
  "hard_timeout_ms t = min 180000 (min u64_max (min u64_max (t * 2) + 1000))"

definition cli_op :: "'a top \<Rightarrow> (treasury_state world, string, 'a) action" where
  "cli_op m = (\<lambda>w. case m w of (r, v) \<Rightarrow> (cli r, v))"

definition browser_env ::
  "env \<Rightarrow> helper_io \<Rightarrow> (helper_provider, browser) handoff_env" where
  "browser_env E io =
     \<lparr>he_fetch = helper_fetch E io, he_reference = hp_reference,
      he_transport_id = (\<lambda>_. ''owner-controlled-playwright''),
      he_submit = (\<lambda>B r secret. (browser_submit B r secret, B)),
      he_cleanup = (\<lambda>B. (Inr (), B))\<rparr>"

definition handoff_executor ::
  "env \<Rightarrow> ('p, 't) handoff_env \<Rightarrow> ('p, 't) handoff executor" where
  "handoff_executor E H =
     \<lparr>ex_id = (\<lambda>x. he_transport_id H (ho_transport x)), ex_validate = validate_origin_and_total,
      ex_submit = submit_once E H\<rparr>"

definition with_executor :: "'x \<Rightarrow> ('x, 'a) checkout \<Rightarrow> 'a top" where
  "with_executor x m = (\<lambda>w. case m (w, x) of (r, (v, _)) \<Rightarrow> (r, v))"

definition runtime_execute ::
  "env \<Rightarrow> codec \<Rightarrow> runtime \<Rightarrow> string \<Rightarrow> string \<Rightarrow> (treasury_state world, string, json) action" where
  "runtime_execute E C R agent_token intent_id =
     bind (gets w_state) (\<lambda>s.
     bind (lift (ok_or ''purchase intent was not found'' (bget (intents s) intent_id))) (\<lambda>i.
     bind (lift (load_profile (rt_check_browser R) (rt_listing R) (in_request i))) (\<lambda>config.
     bind (lift (ok_or ''checkout profile requires an integer timeoutMs'' (timeout_of config)))
       (\<lambda>timeout_ms.
     if timeout_ms < 1000 \<or> 120000 < timeout_ms
     then fail ''checkout profile timeoutMs must be within 1000..120000''
     else
     let deadline = hard_timeout_ms timeout_ms; H = browser_env E (rt_io R deadline) in
     bind (lift (rt_helper_key R)) (\<lambda>key.
     bind (lift (rt_helper_id R)) (\<lambda>helper_id.
     bind (cli_op (bind_controlled_secret_helper_operation E agent_token intent_id key helper_id
       (rt_euid R))) (\<lambda>operation.
     bind (gets w_state) (\<lambda>s.
     bind (lift (ok_or ''manual provider is not configured'' (manual_provider s))) (\<lambda>card.
     bind (lift (cli (helper_provider_new (rt_paths R) True (rt_socket R)
       (sr_reference (mp_card card)) operation))) (\<lambda>p.
     bind (lift (cli (handoff_new H operation (in_request i) p (rt_browser R config deadline))))
       (\<lambda>x.
     cli_op (with_executor x (execute_controlled_checkout_persisted E C (handoff_executor E H)
       agent_token intent_id)))))))))))))"

text \<open>\<open>from_args\<close>: the four arguments come together or not at all.\<close>

definition runtime_args :: "string list \<Rightarrow> (string list) option cli" where
  "runtime_args args =
     (let given = map (arg_value args)
           [''--checkout-runtime-dir'', ''--checkout-profiles-dir'', ''--node-path'',
            ''--adapter-script''];
          configured = length (filter (\<lambda>v. v \<noteq> None) given) in
      if configured = 0 then Inr None
      else if configured \<noteq> 4
      then Inl (''controlled checkout requires --checkout-runtime-dir, --checkout-profiles-dir, ''
        @ ''--node-path, and --adapter-script together'')
      else Inr (Some (map the given)))"

section \<open>One connection\<close>

text \<open>The frame: up to and including the first newline, at most one byte over the limit.\<close>

definition read_frame :: "string \<Rightarrow> string" where
  "read_frame input =
     (let limited = take (max_frame_bytes + 1) input;
          before = takeWhile (\<lambda>c. c \<noteq> CHR 0x0A) limited in
      if length before < length limited then before @ [CHR 0x0A] else before)"

definition rejected_rpc :: "rpc_request \<Rightarrow> string \<Rightarrow> rpc_response" where
  "rejected_rpc q e = rpc_error (rr_request_id q) e"

text \<open>
  The facts of one connection that come from outside: its channel and peer, the wall clock
  of the capability check and the instants of the admission checks.
\<close>

record connection =
  cn_owner_channel :: bool
  cn_target :: target
  cn_peer_uid :: "string + nat"
  cn_euid :: nat
  cn_unix_time :: int
  cn_t_unauthenticated :: nat
  cn_t_channel :: nat
  cn_t_capability :: nat

definition peer_effective_uid :: "target \<Rightarrow> string + nat \<Rightarrow> nat cli" where
  "peer_effective_uid t answer =
     (case t of
        OtherUnix \<Rightarrow> Inl ''peer identity checks are unsupported on this Unix platform''
      | _ \<Rightarrow> answer)"

definition separate_peer :: "connection \<Rightarrow> bool" where
  "separate_peer n =
     (case peer_effective_uid (cn_target n) (cn_peer_uid n) of
        Inl _ \<Rightarrow> False | Inr uid \<Rightarrow> uid \<noteq> cn_euid n)"

text \<open>
  What a connection does under the treasury's mutex: the owner's request, with the capabilities that
  the admission control is to know afterwards, and the agent's. \<open>serve\<close> always has an admission
  control.
\<close>

definition owner_answer ::
  "env \<Rightarrow> codec \<Rightarrow> rpc_request
     \<Rightarrow> (treasury_state world, string, rpc_response \<times> (string \<times> int) list option) action" where
  "owner_answer E C q =
     bind (gets w_state) (\<lambda>s.
     if \<not> is_owner_token E s (rr_token q)
     then ret (rejected_rpc q ''owner control authentication failed'', None)
     else
     bind (cli_op (handle_rpc_persisted E C q)) (\<lambda>response.
     bind (cli_op active_agent_capabilities) (\<lambda>capabilities.
     ret (response, Some capabilities))))"

definition agent_operation ::
  "env \<Rightarrow> codec \<Rightarrow> runtime option \<Rightarrow> rpc_request \<Rightarrow> (treasury_state world, string, rpc_response) action" where
  "agent_operation E C R q =
     (if requires_owner (rr_operation q)
      then ret (rejected_rpc q ''owner operations require the owner control socket'')
      else
      bind (gets w_state) (\<lambda>s.
      case (if controlled_checkout_enabled s
            then (case rr_operation q of ExecutePurchaseIntent k \<Rightarrow> Some k | _ \<Rightarrow> None)
            else None) of
        Some intent_id \<Rightarrow>
          bind (attempt (case R of
              None \<Rightarrow> fail ''controlled checkout runtime is not configured''
            | Some r \<Rightarrow> runtime_execute E C r (rr_token q) intent_id)) (\<lambda>result.
          case result of
            Inr v \<Rightarrow> ret (rpc_ok (rr_request_id q) v)
          | Inl e \<Rightarrow> ret (rpc_error (rr_request_id q) (redact_sensitive E e)))
      | None \<Rightarrow> cli_op (handle_rpc_persisted E C q)))"

definition oversize_request :: rpc_response where
  "oversize_request =
     rpc_error ''oversize'' ''request is too large or missing its frame terminator''"

section \<open>The response frame\<close>

definition response_json :: "rpc_response \<Rightarrow> json" where
  "response_json r = JObj
     [(''api_version'', JStr (rs_api_version r)), (''request_id'', JStr (rs_request_id r)),
      (''ok'', JBool (rs_ok r)), (''data'', j_option (\<lambda>v. v) (rs_data r)),
      (''error'', j_opt_str (rs_error r))]"

definition oversize_response :: rpc_response where
  "oversize_response = rpc_error ''oversize'' ''response exceeds the broker frame limit''"

definition write_response :: "env \<Rightarrow> rpc_response \<Rightarrow> string" where
  "write_response E response =
     (let encoded = json_text E (response_json response) in
      (if max_frame_bytes < length encoded + 1
       then json_text E (response_json oversize_response) else encoded) @ [CHR 0x0A])"

section \<open>The listener's connection limit\<close>

text \<open>
  \<open>serve_listener\<close> counts the connections in flight with an atomic counter: an accepted
  stream increments it first, and takes the increment back when the old value had reached the
  limit. A worker decrements it when its connection ends.
\<close>

datatype accept_result = Served | Busy | WrongIdentity

definition accept_stream ::
  "nat \<Rightarrow> bool \<Rightarrow> connection \<Rightarrow> nat \<Rightarrow> accept_result \<times> nat" where
  "accept_stream limit reject_broker_uid n active =
     (if reject_broker_uid \<and> \<not> separate_peer n then (WrongIdentity, active)
      else if limit \<le> active then (Busy, active + 1 - 1)
      else (Served, active + 1))"

definition finish_connection :: "nat \<Rightarrow> nat" where
  "finish_connection active = active - 1"

end
