(* ===== verification/Handoffs.thy ===== *)
theory Handoffs
  imports Daemon Workflow
begin

text \<open>
  The two checkout workflows and the broker's controlled checkout keep every relation that the
  preparation, the quarantine and the outcomes an executor may report keep: the locale
  \<open>checkout_relation\<close>, with the history, the solvency and the states of intents as instances.
\<close>

section \<open>Actions beside an executor\<close>

lemma wp_on_world:
  "wp (on_world m) Q R (w, x) = wp m (\<lambda>a v. Q a (v, x)) (\<lambda>e v. R e (v, x)) w"
  by (simp add: wp_def on_world_def split: prod.split sum.split)

lemma keeps_on_world: "keeps R m \<Longrightarrow> keeps (\<lambda>a b. R (fst a) (fst b)) (on_world m)"
  by (auto simp: keeps_def on_world_def split: prod.split) (metis snd_conv)

lemma keeps_with_executor: "keeps (\<lambda>a b. R (fst a) (fst b)) m \<Longrightarrow> keeps R (with_executor x m)"
  by (simp add: keeps_def with_executor_def case_prod_beta)

lemma keeps_cli_op: "keeps R m \<Longrightarrow> keeps R (cli_op m)"
  by (simp add: keeps_def cli_op_def case_prod_beta)

lemma wp_cli_op: "wp (cli_op m) Q R w = wp m Q (\<lambda>e. R (error_text e)) w"
  by (simp add: wp_def cli_op_def cli_def split: prod.split sum.split)

lemma keeps_same_operation: "keeps same_state (new_operation E k i c)"
  unfolding new_operation_def by (intro keeps_same)

section \<open>The workflows\<close>

text \<open>\<open>allowed out\<close>: the outcomes the executor may report.\<close>

locale checkout_relation = rollback_relation R E C R
  for R :: "treasury_state world \<Rightarrow> treasury_state world \<Rightarrow> bool" and E :: env and C :: codec +
  fixes allowed :: "provider_outcome \<Rightarrow> bool"
  assumes keeps_prepare: "keeps R (prepare_intent_execution E a k)"
    and keeps_outcome: "allowed out \<Longrightarrow> keeps R (apply_provider_outcome E aid k out)"
    and keeps_in_doubt: "keeps R (quarantine_execution E k reason)"
begin

lemma beside: "step_relation (\<lambda>a b. R (fst a) (fst b))"
  by unfold_locales (auto intro: rel_refl rel_trans)

lemmas beside_rules = step_relation.keeps_bind [OF beside] step_relation.keeps_lift [OF beside]
  step_relation.keeps_gets [OF beside] step_relation.keeps_fail [OF beside]
  step_relation.keeps_if [OF beside]

lemma keeps_record:
  assumes "\<And>out. submitted = Inr out \<Longrightarrow> allowed out"
  shows "keeps R (record_outcome E C aid k submitted)"
  using assms unfolding record_outcome_def quarantine_and_save_def
  by (cases submitted)
    (auto intro!: keeps_basic keeps_save keeps_in_doubt keeps_outcome)

lemma keeps_submit:
  assumes "\<And>x i out x'. ex_submit X x i = (Inr out, x') \<Longrightarrow> allowed out"
  shows "keeps (\<lambda>a b. R (fst a) (fst b)) (submit_prepared E C X a who action aid k)"
proof -
  have prepared: "keeps (\<lambda>a b. R (fst a) (fst b)) (bind (on_world get_state) (\<lambda>s.
      bind (on_world (rollback s (prepare_intent_execution E a k))) f))"
    if f: "\<And>y. keeps (\<lambda>a b. R (fst a) (fst b)) (f y)" for f :: "unit \<Rightarrow> ('a, json) checkout"
  proof (rule keepsI)
    fix p :: "treasury_state world \<times> 'a"
    obtain w x where p: "p = (w, x)" by (cases p)
    have "wp (rollback (w_state w) (prepare_intent_execution E a k)) (\<lambda>_. R w) (\<lambda>_. R w) w"
      by (rule rolled_back [OF after [OF rel_refl keeps_prepare]])
    then have "wp (bind (on_world get_state) (\<lambda>s.
        bind (on_world (rollback s (prepare_intent_execution E a k))) f))
        (\<lambda>_ q. R w (fst q)) (\<lambda>_ q. R w (fst q)) (w, x)"
      unfolding wp_bind [of "on_world _"] wp_on_world wp_get_state
    proof (rule wp_mono)
      show "wp (f y) (\<lambda>_ q. R w (fst q)) (\<lambda>_ q. R w (fst q)) (v, x)" if "R w v" for y v
        using keepsD [OF f, of "(v, x)"] that
        by (auto simp: wp_def split: prod.split sum.split intro: rel_trans)
    qed simp
    then show "R (fst p) (fst (snd (bind (on_world get_state) (\<lambda>s.
        bind (on_world (rollback s (prepare_intent_execution E a k))) f) p)))"
      by (auto simp: p wp_def split: prod.splits sum.splits)
  qed
  have submit: "keeps (\<lambda>a b. R (fst a) (fst b))
      (bind (call_submit X i) (\<lambda>submitted. on_world (record_outcome E C aid k submitted)))" for i
  proof (rule keepsI)
    fix p :: "treasury_state world \<times> 'a"
    obtain w x where p: "p = (w, x)" by (cases p)
    obtain r x' where r: "ex_submit X x i = (r, x')" by (cases "ex_submit X x i")
    have "keeps R (record_outcome E C aid k r)"
      using assms r by (intro keeps_record) auto
    from keepsD [OF keeps_on_world [OF this], of "(w, x')"]
    show "R (fst p) (fst (snd (bind (call_submit X i)
        (\<lambda>submitted. on_world (record_outcome E C aid k submitted)) p)))"
      by (simp add: p run_bind call_submit_def r)
  qed
  show ?thesis
    unfolding submit_prepared_def
    by (intro prepared submit beside_rules(1) [where m = "on_world get_state"]
        beside_rules(1) [where m = "lift _"] beside_rules(1) [where m = "gets _"]
        beside_rules(1) [where m = "on_world (audit _ _ _ _ _ _ _)"]
        beside_rules(1) [where m = "on_world (save_to _ _)"]
        beside_rules(2,3) keeps_on_world keeps_basic keeps_save)
qed

lemma keeps_controlled:
  assumes "\<And>x i out x'. ex_submit X x i = (Inr out, x') \<Longrightarrow> allowed out"
  shows "keeps (\<lambda>a b. R (fst a) (fst b)) (execute_controlled_checkout_persisted E C X token k)"
  unfolding execute_controlled_checkout_persisted_def case_prod_unfold
  by (intro beside_rules keeps_on_world keeps_views keeps_basic keeps_submit assms)

lemma keeps_owner_handoff:
  assumes "\<And>x i out x'. ex_submit X x i = (Inr out, x') \<Longrightarrow> allowed out"
  shows "keeps (\<lambda>a b. R (fst a) (fst b)) (owner_execute_approved_handoff_persisted E C X token k)"
  unfolding owner_execute_approved_handoff_persisted_def
  by (intro beside_rules keeps_on_world keeps_views keeps_basic keeps_submit assms)

lemma keeps_bound:
  "keeps R (bind_controlled_secret_helper_operation E token k key helper uid)"
  unfolding bind_controlled_secret_helper_operation_def case_prod_unfold
  by (intro keeps_basic keeps_views keeps_quiet [OF keeps_same_operation])

text \<open>The runtime's executor reports what its browser transport reports.\<close>

lemma keeps_runtime:
  assumes "\<And>io x i out x'. ex_submit (handoff_executor E (browser_env E io)) x i = (Inr out, x') \<Longrightarrow>
    allowed out"
  shows "keeps R (runtime_execute E C T token k)"
proof -
  have run: "keeps R (cli_op (with_executor x (execute_controlled_checkout_persisted E C
      (handoff_executor E (browser_env E io)) token k)))" for x io
    by (intro keeps_cli_op keeps_with_executor keeps_controlled) (rule assms)
  show ?thesis
    unfolding runtime_execute_def Let_def by (intro keeps_rules run keeps_cli_op keeps_bound)
qed

end

section \<open>The browser's answers\<close>

text \<open>The browser's answer is never more than an unknown outcome.\<close>

lemma browser_submit_unknown: "browser_submit B r secret = Inr out \<Longrightarrow> outcome_state out = Unknown"
  by (auto simp: browser_submit_def Let_def rbind_Inr_iff split: if_splits prod.splits)

lemma browser_executor_unknown:
  assumes "ex_submit (handoff_executor E (browser_env E io)) x i = (Inr out, x')"
  shows "outcome_state out = Unknown"
proof -
  from assms obtain B r secret where "browser_submit B r secret = Inr out"
    by (auto simp: handoff_executor_def submit_once_def browser_env_def Let_def
        split: if_splits sum.splits prod.splits)
  then show ?thesis by (rule browser_submit_unknown)
qed

section \<open>Instances\<close>

abbreviation ended_states :: "transaction_state set" where
  "ended_states \<equiv> {Settled, Declined, ProviderPending, Refunded}"

interpretation handoff_states: checkout_relation "no_new ended_states" E C "\<lambda>out. outcome_state out = Unknown" for E C
  by unfold_locales (simp_all add: keeps_nn_prepare keeps_nn_outcome keeps_nn_quarantine)

interpretation handoff_history: checkout_relation "history E" E C "\<lambda>_. True" for E C
  by unfold_locales (rule keeps_history_prepare keeps_history_outcome hist.keeps_quarantine)+

lemma solvent_unknown:
  assumes "outcome_state out = Unknown"
  shows "keeps keeps_solvent (apply_provider_outcome E aid k out)"
proof (rule keeps_of_wp)
  fix w :: "treasury_state world"
  from assms obtain r where out: "out = OutUnknown r" by (cases out) simp_all
  have tail: "wp (bind (settle_outcome E i out) (\<lambda>p. bind (audit E aid ''provider_outcome'' (Some k)
      (Some (in_policy_version i)) (Some (outcome_label (in_state (fst p)))) (outcome_details (fst p)))
      (\<lambda>_. bind (put_intent (in_id (fst p)) (fst p)) (\<lambda>_. ret (snd p)))))
    (\<lambda>_. keeps_solvent w) (\<lambda>_. keeps_solvent w) w"
    if i: "bget (intents (w_state w)) k = Some i" and e: "in_state i = Executing" for i
  proof (cases "solvent (w_state w)")
    case False
    then show ?thesis by (intro wpI) (simp_all add: keeps_solvent_def)
  next
    case s: True
    have same: "wp (settle_outcome E i out) (\<lambda>_ v. w_state v = w_state w) (\<lambda>_ _. True) w"
      by (simp add: out settle_outcome_def wp_simps e)
    have bal: "wp (settle_outcome E i out) (\<lambda>x v. balanced (w_state w) i (w_state v) (fst x))
        (\<lambda>_ v. w_state v = w_state w) w"
      using s i by (intro settle_outcome_balanced [OF solvent_amounts [OF s] e]) (simp add: solvent_def)
    show ?thesis
    proof (rule wp_seq [OF wp_conj [OF bal same]])
      fix x and u :: "treasury_state world"
      assume u: "balanced (w_state w) i (w_state u) (fst x) \<and> w_state u = w_state w"
      have "solvent ((audited (w_state u) a)\<lparr>intents := bput (in_id (fst x)) (fst x) (intents (w_state u))\<rparr>)"
        for a
        using balanced_put [OF s i conjunct1 [OF u]] solvent_cong [of "(audited (w_state u) a)
          \<lparr>intents := bput (in_id (fst x)) (fst x) (intents (w_state u))\<rparr>"
          "(w_state u)\<lparr>intents := bput (in_id (fst x)) (fst x) (intents (w_state u))\<rparr>"]
        by simp
      with u s show "wp (bind (audit E aid ''provider_outcome'' (Some k)
          (Some (in_policy_version i)) (Some (outcome_label (in_state (fst x)))) (outcome_details (fst x)))
          (\<lambda>_. bind (put_intent (in_id (fst x)) (fst x)) (\<lambda>_. ret (snd x))))
        (\<lambda>_. keeps_solvent w) (\<lambda>_. keeps_solvent w) u"
        by (simp add: wp_simps keeps_solvent_def)
    qed (use s in \<open>simp_all add: keeps_solvent_def\<close>)
  qed
  show "wp (apply_provider_outcome E aid k out) (\<lambda>_. keeps_solvent w) (\<lambda>_. keeps_solvent w) w"
    unfolding apply_provider_outcome_def case_prod_unfold wp_head_state wp_head_lift
    using tail by (simp add: wp_basic wp_tail_if keeps_solvent_def)
qed

interpretation handoff_solvency: checkout_relation keeps_solvent E C "\<lambda>out. outcome_state out = Unknown" for E C
proof
  show "keeps_solvent w v \<Longrightarrow> keeps_solvent w (v\<lparr>w_state := w_state w\<rparr>)" for w v
    by (simp add: keeps_solvent_def)
qed (simp_all add: keeps_solvent_prepare sol.keeps_quarantine solvent_unknown sol.keeps_save)

end
