(* ===== verification/Custody.thy ===== *)
theory Custody
  imports Handoffs Durability
begin

text \<open>
  The broker's custody of capabilities, secrets and frames: single redemption of a helper's
  grant, single delivery of a secret, single submission of a checkout, the controlled checkout
  that never settles by itself, the strict decoder, the bounded frames and admission.
\<close>

section \<open>Helper grants\<close>

lemma redeem_wp:
  "wp (redeem_nonce E nonce)
     (\<lambda>_ v. file_at w (nonce_file E nonce) = None \<and> file_at v (nonce_file E nonce) \<noteq> None) (\<lambda>_ _. True) w"
  unfolding redeem_nonce_def Let_def sync_directory_def
  by (auto simp: wp_bind wp_basic wp_if wp_io wp_put_file wp_write_all file_at_def split: option.splits)

definition grant_valid :: "env \<Rightarrow> secret_operation \<Rightarrow> string \<Rightarrow> string \<Rightarrow> nat \<Rightarrow> int \<Rightarrow> bool" where
  "grant_valid E p key helper uid at \<longleftrightarrow> 32 \<le> length key \<and> at < so_expires_at p
     \<and> so_helper_id p = Some helper \<and> so_broker_uid p = Some uid
     \<and> (case so_helper_mac p of None \<Rightarrow> [] | Some m \<Rightarrow> m) = hmac_hash E key (helper_payload p)"

text \<open>Whether some grant with this nonce can be redeemed on the files of \<open>v\<close>.\<close>

definition redeemable :: "env \<Rightarrow> string \<Rightarrow> 's world \<Rightarrow> bool" where
  "redeemable E nonce v \<longleftrightarrow> (\<exists>q key helper uid x t. \<exists>u :: 's world.
     so_nonce q = nonce \<and> w_disk u = w_disk v
     \<and> redeem_owner_helper_operation E q key helper uid u = (Inr x, t))"

lemma redeemable_fresh:
  fixes v :: "'s world"
  assumes "redeemable E nonce v"
  shows "file_at v (nonce_file E nonce) = None"
proof -
  from assms have "\<exists>(u :: 's world) x t. redeem_nonce E nonce u = (Inr x, t) \<and> w_disk u = w_disk v"
    by (auto simp: redeemable_def redeem_owner_helper_operation_def bind_Inr_iff split: if_splits)
  then obtain u :: "'s world" and x t where "redeem_nonce E nonce u = (Inr x, t)" "w_disk u = w_disk v" by blast
  with wp_OkD [OF redeem_wp this(1)] show ?thesis by (simp add: file_at_def)
qed

text \<open>
  C34: A helper's grant is redeemed at most once. A redemption that succeeds had an unexpired
  grant for this helper and this peer, authenticated by the helper key; on the files it leaves
  behind, no redemption of the same nonce can succeed again, whatever grant presents it.
\<close>

theorem grant_is_redeemed_once:
  "wp (redeem_owner_helper_operation E p key helper uid)
     (\<lambda>_ v. grant_valid E p key helper uid (w_clock w (w_reads w)) \<and> \<not> redeemable E (so_nonce p) v)
     (\<lambda>_ _. True) w"
proof -
  have one: "wp (redeem_nonce E (so_nonce p)) (\<lambda>_ v. \<not> redeemable E (so_nonce p) v) (\<lambda>_ _. True) u" for u
    by (rule wp_mono [OF redeem_wp]) (auto dest: redeemable_fresh)
  have first: "wp (if length key < 32 then ret True
        else bind now (\<lambda>at. ret (so_expires_at p \<le> at \<or> so_helper_id p \<noteq> Some helper
          \<or> so_broker_uid p \<noteq> Some uid)))
      (\<lambda>b v. b \<or> 32 \<le> length key \<and> w_clock w (w_reads w) < so_expires_at p
        \<and> so_helper_id p = Some helper \<and> so_broker_uid p = Some uid) (\<lambda>_ _. True) w"
    by (simp add: wp_basic wp_bind wp_now) (metis linorder_not_less)
  show ?thesis
    unfolding redeem_owner_helper_operation_def
    by (rule wp_seq [OF first])
      (auto simp: wp_basic grant_valid_def constant_time_eq_iff intro!: wp_mono [OF one])
qed

section \<open>Secrets and submissions\<close>

text \<open>
  The owner's secret helper is asked at most once per operation: however many requests are
  presented to the provider, at most one secret comes back, and none to an operation other than
  the one the provider was made for.
\<close>

theorem helper_secret_is_given_once:
  "length (fst (secret_provider.present (helper_fetch E io) qs p)) \<le> 1
     \<and> (fst (secret_provider.present (helper_fetch E io) qs p) \<noteq> [] \<longrightarrow> hp_operation p \<in> set qs)"
  using helper.secret_once helper.unbound_gets_nothing by blast

definition sample_operation :: secret_operation where
  "sample_operation = \<lparr>so_operation_id = ''op'', so_intent_id = ''i1'', so_card_reference = ''card'',
     so_expires_at = 500, so_nonce = ''n1'', so_helper_id = Some ''helper'', so_broker_uid = Some 7,
     so_helper_mac = Some ''mac''\<rparr>"

definition sample_io :: helper_io where
  "sample_io = \<lparr>hi_metadata = Inr \<lparr>pm_kind = SocketNode, pm_uid = 7, pm_mode = 384\<rparr>,
     hi_time_left = True, hi_connect = Connected, hi_target = Linux, hi_peer_uid = Inr 7, hi_own_uid = 7,
     hi_set_nonblocking = Inr (), hi_writes = [Transferred ''x''], hi_flush = Inr (),
     hi_length_reads = [Transferred [CHR 0x00, CHR 0x00, CHR 0x00, CHR 0x03]],
     hi_body_reads = [Transferred ''p'', WouldBlock, Transferred ''an'']\<rparr>"

definition sample_helper :: helper_provider where
  "sample_helper = \<lparr>hp_socket_path = [''run'', ''helper''], hp_reference = ''card'',
     hp_operation = sample_operation, hp_consumed = False\<rparr>"

text \<open>A build that cannot tell who its peer is gives no secret to a helper's socket.\<close>

lemma other_unix_refuses:
  "hi_target io = OtherUnix \<Longrightarrow> fst (helper_fetch E io p operation) \<noteq> Inr secret"
  by (auto simp: helper_fetch_def helper_exchange_def unix_peer_effective_uid_def rbind_Inr_iff
      split: sum.splits if_splits)

text \<open>The sample exchange succeeds: the first request gets the secret, the second nothing.\<close>

lemma sample_fetch:
  "helper_fetch plain_env sample_io sample_helper sample_operation =
     (Inr ''pan'', sample_helper\<lparr>hp_consumed := True\<rparr>)"
proof -
  have "unix_read_exact_until [Transferred [CHR 0x00, CHR 0x00, CHR 0x00, CHR 0x03]] 4
      = Inr [CHR 0x00, CHR 0x00, CHR 0x00, CHR 0x03]"
    and "unix_read_exact_until [Transferred ''p'', WouldBlock, Transferred ''an''] 3 = Inr ''pan''"
    by (simp_all add: eval_nat_numeral)
  then show ?thesis
    by (simp add: helper_fetch_def sample_helper_def require_secret_binding_def sample_operation_def
        helper_exchange_def sample_io_def group_or_other_def connected_def plain_env_def be_u32_def byte_def
        unix_peer_effective_uid_def)
qed

theorem helper_secret_is_given_once_witness:
  "length (fst (secret_provider.present (helper_fetch plain_env sample_io)
      [sample_operation, sample_operation] sample_helper)) \<le> 1
   \<and> fst (secret_provider.present (helper_fetch plain_env sample_io)
      [sample_operation, sample_operation] sample_helper) \<noteq> []"
  using helper_secret_is_given_once [of plain_env sample_io "[sample_operation, sample_operation]" sample_helper]
  by (simp add: sample_fetch split: prod.split)

text \<open>
  The same provider and transport with a record of every purchase the transport was asked to submit,
  whatever became of it.
\<close>

definition recorded :: "('p, 't) handoff_env \<Rightarrow> ('p, 't \<times> purchase_request list) handoff_env" where
  "recorded H = \<lparr>he_fetch = he_fetch H, he_reference = he_reference H,
     he_transport_id = (\<lambda>(t, log). he_transport_id H t),
     he_submit = (\<lambda>(t, log) r secret. case he_submit H t r secret of (out, u) \<Rightarrow> (out, (u, log @ [r]))),
     he_cleanup = (\<lambda>(t, log). case he_cleanup H t of (out, u) \<Rightarrow> (out, (u, log)))\<rparr>"

abbreviation submissions :: "('p, 't \<times> purchase_request list) handoff \<Rightarrow> purchase_request list" where
  "submissions x \<equiv> snd (ho_transport x)"

lemma recorded_step:
  assumes "submit_once E (recorded H) x i = (r, y)"
  shows "ho_expected_request y = ho_expected_request x"
    and "ho_submitted x \<Longrightarrow> y = x"
    and "submissions y = submissions x
      \<or> submissions y = submissions x @ [ho_expected_request x] \<and> \<not> ho_submitted x \<and> ho_submitted y"
    and "r = Inr out \<Longrightarrow> submissions y = submissions x @ [ho_expected_request x]"
  using assms
  by (auto simp: submit_once_def validate_origin_and_total_def recorded_def Let_def
      split: if_splits sum.splits prod.splits)

lemma recorded_submissions:
  assumes "checkout_executor.submit_all (submit_once E (recorded H)) is x = (outs, y)"
  shows "submissions y = submissions x
    \<or> submissions y = submissions x @ [ho_expected_request x] \<and> \<not> ho_submitted x \<and> ho_submitted y"
  using assms
proof (induction "is" arbitrary: x outs)
  case Nil
  then show ?case by (simp add: handoff_exec.submit_all.simps)
next
  case (Cons i "is")
  obtain r u where s: "submit_once E (recorded H) x i = (r, u)" by (cases "submit_once E (recorded H) x i")
  with Cons.prems obtain os where rest: "checkout_executor.submit_all (submit_once E (recorded H)) is u = (os, y)"
    by (auto simp: handoff_exec.submit_all.simps split: prod.splits)
  from Cons.IH [OF rest] recorded_step(1-3) [OF s] handoff_exec.spent_executor [of u E "recorded H" "is"] rest
  show ?case by (cases "ho_submitted u") auto
qed

text \<open>
  C35: A checkout handoff submits at most once. Over any sequence of intents, however each attempt
  ends (an error or a timeout of the transport included), the transport is asked at most once to
  submit, and that for the exact request that was approved; then the handoff is consumed. An outcome
  is returned only for a submission, and only for the approved intent.
\<close>

theorem handoff_submits_once:
  "(case checkout_executor.submit_all (submit_once E (recorded H)) tries x of (outs, y) \<Rightarrow>
      length outs \<le> 1
      \<and> (submissions y = submissions x
         \<or> submissions y = submissions x @ [ho_expected_request x]
           \<and> \<not> ho_submitted x \<and> ho_submitted y))
   \<and> (\<forall>i out y. submit_once E (recorded H) x i = (Inr out, y) \<longrightarrow>
        in_id i = so_intent_id (ho_operation x)
        \<and> submissions y = submissions x @ [ho_expected_request x] \<and> ho_submitted y)"
proof -
  obtain outs y where o: "checkout_executor.submit_all (submit_once E (recorded H)) tries x = (outs, y)"
    by fastforce
  with handoff_exec.at_most_one_outcome [of E "recorded H" tries x] have "length outs \<le> 1" by simp
  with recorded_submissions [OF o] handoff_exec.submit_accepts [of E "recorded H" x]
    recorded_step(4) [of E H x]
  show ?thesis unfolding o by auto
qed

definition sample_handoff :: "(unit, unit \<times> purchase_request list) handoff" where
  "sample_handoff = \<lparr>ho_operation = sample_operation, ho_expected_request = book_request,
     ho_provider = (), ho_transport = ((), []), ho_submitted = False\<rparr>"

definition sample_handoff_env :: "(unit, unit) handoff_env" where
  "sample_handoff_env = \<lparr>he_fetch = (\<lambda>p q. (Inr ''pan'', p)), he_reference = (\<lambda>_. ''card''),
     he_transport_id = (\<lambda>_. ''manual''), he_submit = (\<lambda>t r s. (Inl (Io ''timeout''), t)),
     he_cleanup = (\<lambda>t. (Inr (), t))\<rparr>"

theorem handoff_submits_once_witness:
  "submissions (snd (submit_once plain_env (recorded sample_handoff_env) sample_handoff (book_intent Executing)))
      = [book_request]
   \<and> (case checkout_executor.submit_all (submit_once plain_env (recorded sample_handoff_env))
        [book_intent Executing, book_intent Executing] sample_handoff of (outs, y) \<Rightarrow>
        submissions y = [] \<or> submissions y = [book_request])"
proof
  show "submissions (snd (submit_once plain_env (recorded sample_handoff_env) sample_handoff (book_intent Executing)))
      = [book_request]"
    by (simp add: submit_once_def sample_handoff_def sample_handoff_env_def sample_operation_def recorded_def
        validate_origin_and_total_def)
  show "case checkout_executor.submit_all (submit_once plain_env (recorded sample_handoff_env))
        [book_intent Executing, book_intent Executing] sample_handoff of (outs, y) \<Rightarrow>
        submissions y = [] \<or> submissions y = [book_request]"
    using handoff_submits_once [where E = plain_env and H = sample_handoff_env and x = sample_handoff
        and tries = "[book_intent Executing, book_intent Executing]"]
    by (auto simp: sample_handoff_def split: prod.splits)
qed

section \<open>The helper's socket\<close>

definition transferred :: "stream_event list \<Rightarrow> string" where
  "transferred evs = concat (map (\<lambda>ev. case ev of Transferred d \<Rightarrow> d | _ \<Rightarrow> []) evs)"

lemma transferred_simps [simp]:
  "transferred [] = []" "transferred (Transferred d # evs) = d @ transferred evs"
  "transferred (WouldBlock # evs) = transferred evs" "transferred (StreamError e # evs) = transferred evs"
  by (simp_all add: transferred_def)

text \<open>
  A read from the helper's socket gives exactly the bytes asked for, the first ones of what
  was transferred before the deadline, in order; a short stream is an error, never a short answer.
\<close>

theorem socket_read_is_exact:
  "unix_read_exact_until evs n = Inr bs \<Longrightarrow> length bs = n \<and> bs = take n (transferred evs)"
proof (induction evs n arbitrary: bs rule: unix_read_exact_until.induct)
  case (3 ev evs n)
  then show ?case
  proof (cases ev)
    case (Transferred d)
    with "3.prems" obtain rest where rest: "unix_read_exact_until evs (Suc n - length (take (Suc n) d)) = Inr rest"
      and bs: "bs = take (Suc n) d @ rest" and "d \<noteq> []"
      by (auto simp: Let_def rbind_Inr_iff split: if_splits)
    from "3.IH"(1) [OF Transferred \<open>d \<noteq> []\<close> refl rest] bs Transferred show ?thesis
      by (auto simp: min_def)
  next
    case WouldBlock
    then have "unix_read_exact_until evs (Suc n) = Inr bs" using "3.prems" by simp
    then show ?thesis unfolding WouldBlock transferred_simps by (rule "3.IH"(2) [OF WouldBlock])
  qed simp
qed simp_all

theorem socket_read_is_exact_witness:
  "length ''abc'' = 3 \<and> ''abc'' = take 3 (transferred [Transferred ''a'', WouldBlock, Transferred ''bcd''])"
  by (rule socket_read_is_exact) (simp add: numeral_eq_Suc)

text \<open>Every proper prefix of a path is a directory that only root or the owner may write.\<close>

definition safe_above :: "path_view \<Rightarrow> string list \<Rightarrow> bool" where
  "safe_above V path \<longleftrightarrow> (\<forall>n < length path. \<exists>m. pv_lstat V (take n path) = Inr m
     \<and> \<not> unsafe_ancestor (pv_euid V) m)"

text \<open>
  A helper socket is accepted exactly when it is an absolute path to a socket of the broker's
  own user that no one else may access, and every directory above its canonical path is a real
  directory of root or the owner that no one else may write.
\<close>

theorem helper_socket_is_safe:
  "require_owner_helper_socket V absolute path = Inr () \<longleftrightarrow>
     absolute \<and> (\<exists>m. pv_lstat V path = Inr m \<and> pm_kind m = SocketNode \<and> pm_uid m = pv_euid V
       \<and> \<not> group_or_other (pm_mode m))
     \<and> (\<exists>canonical. pv_canonical V path = Inr canonical \<and> safe_above V canonical)"
  by (auto simp: require_owner_helper_socket_def safe_above_def rbind_Inr_iff check_ancestors_Inr
      split: if_splits)

section \<open>Frames and decoding\<close>

text \<open>
  No frame exceeds the limit: what is read of a request is at most one byte longer and has no
  byte after its first newline, and a response that would be longer is replaced by a fixed error,
  which fits.
\<close>

theorem frames_are_bounded:
  assumes "length (json_text E (response_json oversize_response)) < max_frame_bytes"
  shows "length (write_response E r) \<le> max_frame_bytes
    \<and> length (read_frame input) \<le> max_frame_bytes + 1
    \<and> CHR 0x0A \<notin> set (butlast (read_frame input))
    \<and> (\<exists>rest. input = read_frame input @ rest)"
proof -
  let ?l = "take (max_frame_bytes + 1) input" and ?P = "\<lambda>c. c \<noteq> CHR 0x0A"
  have w: "length (write_response E r) \<le> max_frame_bytes"
    using assms by (auto simp: write_response_def Let_def not_less)
  have b: "CHR 0x0A \<notin> set (takeWhile ?P ?l)" by (auto dest: set_takeWhileD)
  have split: "input = takeWhile ?P ?l @ dropWhile ?P ?l @ drop (max_frame_bytes + 1) input"
    using append_take_drop_id [of "max_frame_bytes + 1" input] takeWhile_dropWhile_id [of ?P ?l]
    by (simp only: append.assoc [symmetric])
  have "CHR 0x0A \<notin> set (butlast (read_frame input)) \<and> length (read_frame input) \<le> max_frame_bytes + 1
      \<and> (\<exists>rest. input = read_frame input @ rest)"
  proof (cases "length (takeWhile ?P ?l) < length ?l")
    case True
    have "dropWhile ?P ?l \<noteq> []"
    proof
      assume "dropWhile ?P ?l = []"
      with takeWhile_dropWhile_id [of ?P ?l] have "takeWhile ?P ?l = ?l" by (simp only: append_Nil2)
      with True show False by (simp only: less_irrefl)
    qed
    then obtain c cs where d: "dropWhile ?P ?l = c # cs" by (cases "dropWhile ?P ?l") auto
    have "hd (dropWhile ?P ?l) = CHR 0x0A" using hd_dropWhile [of ?P ?l] \<open>dropWhile ?P ?l \<noteq> []\<close> by blast
    with d have "c = CHR 0x0A" by (simp only: list.sel)
    with d have "input = (takeWhile ?P ?l @ [CHR 0x0A]) @ (cs @ drop (max_frame_bytes + 1) input)"
      using split by simp
    moreover have "read_frame input = takeWhile ?P ?l @ [CHR 0x0A]"
      using True by (simp add: read_frame_def Let_def)
    moreover from True have "length (takeWhile ?P ?l) < max_frame_bytes + 1" by simp
    ultimately show ?thesis using b by (auto simp: butlast_append)
  next
    case False
    then have "read_frame input = takeWhile ?P ?l" by (simp add: read_frame_def Let_def)
    moreover have "length (takeWhile ?P ?l) \<le> max_frame_bytes + 1"
      using length_takeWhile_le [of ?P ?l] by simp
    moreover have "CHR 0x0A \<notin> set (butlast (takeWhile ?P ?l))" using b by (blast dest: in_set_butlastD)
    moreover have "\<exists>rest. input = takeWhile ?P ?l @ rest" using split by (rule exI)
    ultimately show ?thesis by simp
  qed
  with w show ?thesis by blast
qed

theorem frames_are_bounded_witness:
  "length (write_response plain_env (rpc_ok ''r1'' JNull)) \<le> max_frame_bytes
    \<and> length (read_frame ''ping'') \<le> max_frame_bytes + 1
    \<and> CHR 0x0A \<notin> set (butlast (read_frame ''ping''))
    \<and> (\<exists>rest. ''ping'' = read_frame ''ping'' @ rest)"
  by (rule frames_are_bounded) (simp add: plain_env_def max_frame_bytes_def)

text \<open>
  The decoder is strict: a request is accepted exactly when it is an object with a string
  \<open>type\<close>, every other field of it is permitted for that operation, and the derived decoder
  accepts it.
\<close>

theorem decoder_is_strict:
  "deserialize_request_strict from_value v = Inr r \<longleftrightarrow>
     (\<exists>fs kind. v = JObj fs \<and> map_of fs ''type'' = Some (JStr kind)
        \<and> fst ` set fs \<subseteq> insert ''type'' (set (fields_of kind))
        \<and> from_value v = Inr r)"
proof (cases v)
  case (JObj fs)
  have none: "find P (sort xs) = None \<longleftrightarrow> (\<forall>x \<in> set xs. \<not> P x)" for P and xs :: "string list"
    by (auto simp: find_None_iff)
  show ?thesis
  proof (cases "map_of fs ''type''")
    case (Some t)
    show ?thesis
    proof (cases t)
      case (JStr kind)
      let ?P = "\<lambda>f. f \<noteq> ''type'' \<and> f \<notin> set (fields_of kind)"
      show ?thesis
        using JObj Some JStr none [of ?P "map fst fs"]
        by (cases "find ?P (sort (map fst fs))") (auto simp: deserialize_request_strict_def)
    qed (auto simp: deserialize_request_strict_def JObj Some)
  qed (auto simp: deserialize_request_strict_def JObj)
qed (auto simp: deserialize_request_strict_def)

section \<open>Admission\<close>

text \<open>
  Whatever the order in which requests are admitted, refused and finished, at most four are in
  flight on the agents' channel, no capability has two requests in flight, the counters of each
  window stay within their limits, and the table of capabilities within its size.
\<close>

theorem admission_stays_bounded:
  assumes "adm_reach (a, c, ks)"
  shows "ad_in_flight a = c \<and> c \<le> 4 \<and> distinct ks \<and> bsize (ad_entries a) \<le> 128
    \<and> ad_requests a \<le> 200 \<and> ad_unauth_requests a \<le> 20
    \<and> (\<forall>k e. bget (ad_entries a) k = Some e \<longrightarrow> ae_requests e \<le> 100 \<and> (ae_in_flight e \<longleftrightarrow> k \<in> set ks))"
  using adm_inv_reach [OF assms]
  unfolding adm_inv_def by (auto simp: max_channel_in_flight_def max_agent_admission_entries_def
      max_channel_requests_per_second_def max_unauthenticated_per_second_def
      max_agent_requests_per_second_def)

theorem admission_stays_bounded_witness:
  "let a = snd (admit_channel (admission_new [] 0 0) 5) in ad_in_flight a = 1 \<and> ad_requests a \<le> 200
    \<and> bsize (ad_entries a) \<le> 128"
proof -
  let ?a = "snd (admit_channel (admission_new [] 0 0) 5)"
  have "admit_channel (admission_new [] 0 0) 5 = (True, ?a)"
    by (simp add: admit_channel_def admission_new_def Let_def max_channel_in_flight_def
        max_channel_requests_per_second_def)
  from adm_reach.step [OF adm_reach.start adm_step.channel [OF this]]
  have "adm_reach (?a, 0 + 1, [])" .
  from admission_stays_bounded [OF this] show ?thesis by (simp add: Let_def)
qed

section \<open>The controlled checkout\<close>

text \<open>
  C10: The controlled checkout never settles a payment on the browser's word: whatever the adapter,
  the helper and the merchant page answer, no intent becomes settled, declined, pending or refunded
  by \<open>runtime_execute\<close>; the owner's reconciliation is the only way out of the doubt it leaves.
\<close>

theorem controlled_checkout_settles_nothing:
  "no_new {Settled, Declined, ProviderPending, Refunded} w (snd (runtime_execute E C R token k w))"
  by (rule keepsD [OF handoff_states.keeps_runtime]) (rule browser_executor_unknown)

end
