(* ===== verification/Parsing.thy ===== *)
theory Parsing
  imports Net
begin

text \<open>
  The standard library's text functions the daemon parses its inputs with: \<open>str::trim\<close>,
  \<open>split_whitespace\<close>, \<open>rsplit_once\<close> and the \<open>FromStr\<close> of the integer types, over UTF-8
  bytes, with the lemmas that read back what was printed.
\<close>

section \<open>White space\<close>

text \<open>The length in bytes of the white-space character a text starts with, 0 if none.\<close>

definition space_length :: "string \<Rightarrow> nat" where
  "space_length s =
     (let b = map byte (take 3 s); b0 = hd (b @ [0]) in
      if 9 \<le> b0 \<and> b0 \<le> 13 \<or> b0 = 32 then 1
      else if take 2 b = [194, 133] \<or> take 2 b = [194, 160] then 2
      else if b = [225, 154, 128] \<or> b = [227, 128, 128] \<or> b = [226, 129, 159]
        \<or> (take 2 b = [226, 128] \<and> length b = 3
           \<and> (128 \<le> b ! 2 \<and> b ! 2 \<le> 138 \<or> b ! 2 \<in> {168, 169, 175}))
      then 3 else 0)"

function trim_start :: "string \<Rightarrow> string" where
  "trim_start s = (if space_length s = 0 \<or> s = [] then s else trim_start (drop (space_length s) s))"
  by auto
termination by (relation "measure length") auto

declare trim_start.simps [simp del]

fun trim_end :: "string \<Rightarrow> string" where
  "trim_end [] = []"
| "trim_end (c # cs) = (if trim_start (c # cs) = [] then [] else c # trim_end cs)"

definition trim :: "string \<Rightarrow> string" where
  "trim s = trim_end (trim_start s)"

text \<open>The first word of a text that does not start with white space, and what follows it.\<close>

fun first_word :: "string \<Rightarrow> string \<times> string" where
  "first_word [] = ([], [])"
| "first_word (c # cs) =
     (if space_length (c # cs) \<noteq> 0 then ([], c # cs)
      else (let (word, rest) = first_word cs in (c # word, rest)))"

lemma trim_start_length: "length (trim_start s) \<le> length s"
proof (induction s rule: trim_start.induct)
  case (1 s)
  show ?case
  proof (cases "space_length s = 0 \<or> s = []")
    case False
    with 1 have "length (trim_start (drop (space_length s) s)) \<le> length s"
      by (metis diff_le_self le_trans length_drop)
    with False show ?thesis by (subst trim_start.simps) simp
  qed (auto simp: trim_start.simps)
qed

lemma trim_start_stops: "trim_start s \<noteq> [] \<Longrightarrow> space_length (trim_start s) = 0"
proof (induction s rule: trim_start.induct)
  case (1 s)
  then show ?case
    using trim_start.simps [of s] by (cases "space_length s = 0 \<or> s = []") auto
qed

lemma first_word_length: "length (snd (first_word s)) \<le> length s"
  by (induction s) (auto split: prod.split)

lemma first_word_progress:
  "s \<noteq> [] \<Longrightarrow> space_length s = 0 \<Longrightarrow> length (snd (first_word s)) < length s"
  using first_word_length [of "tl s"] by (cases s) (auto split: prod.splits)

function split_whitespace :: "string \<Rightarrow> string list" where
  "split_whitespace s =
     (let t = trim_start s in
      if t = [] then []
      else (let (word, rest) = first_word t in word # split_whitespace rest))"
  by auto
termination
proof (relation "measure length", simp, goal_cases)
  case (1 s t p word rest)
  then have "length rest < length (trim_start s)"
    using first_word_progress [of "trim_start s"] trim_start_stops [of s] by (metis snd_conv)
  with trim_start_length [of s] show ?case by simp
qed

declare split_whitespace.simps [simp del]

section \<open>Splitting\<close>

text \<open>\<open>rsplit_once\<close>: the parts before and after the last occurrence of the pattern.\<close>

fun rsplit_once :: "string \<Rightarrow> string \<Rightarrow> (string \<times> string) option" where
  "rsplit_once p [] = None"
| "rsplit_once p (c # cs) =
     (case rsplit_once p cs of
        Some (a, b) \<Rightarrow> Some (c # a, b)
      | None \<Rightarrow>
          if starts_with p (c # cs) then Some ([], drop (length p) (c # cs)) else None)"

section \<open>Integers\<close>

definition empty_number :: string where
  "empty_number = ''cannot parse integer from empty string''"

definition invalid_digit :: string where
  "invalid_digit = ''invalid digit found in string''"

definition number_too_large :: string where
  "number_too_large = ''number too large to fit in target type''"

definition number_too_small :: string where
  "number_too_small = ''number too small to fit in target type''"

text \<open>One digit after the other; a digit that is none is reported before an overflow.\<close>

definition add_digit :: "int \<Rightarrow> int \<Rightarrow> char \<Rightarrow> string + int" where
  "add_digit mx n c =
     (if \<not> is_ascii_digit c then Inl invalid_digit
      else if mx < n * 10 + int (digit_val c) then Inl number_too_large
      else Inr (n * 10 + int (digit_val c)))"

definition sub_digit :: "int \<Rightarrow> int \<Rightarrow> char \<Rightarrow> string + int" where
  "sub_digit mn n c =
     (if \<not> is_ascii_digit c then Inl invalid_digit
      else if n * 10 - int (digit_val c) < mn then Inl number_too_small
      else Inr (n * 10 - int (digit_val c)))"

definition parse_unsigned :: "nat \<Rightarrow> string \<Rightarrow> string + nat" where
  "parse_unsigned mx s =
     (if s = [] then Inl empty_number
      else
      let digits = (if hd s = CHR ''+'' \<and> tl s \<noteq> [] then tl s else s) in
      rbind (rfold (add_digit (int mx)) 0 digits) (\<lambda>n. Inr (nat n)))"

definition u128_max :: nat where "u128_max = 2 ^ 128 - 1"

definition parse_i64 :: "string \<Rightarrow> string + int" where
  "parse_i64 s =
     (if s = [] then Inl empty_number
      else if tl s \<noteq> [] \<and> hd s = CHR ''-'' then rfold (sub_digit (- (2 ^ 63))) 0 (tl s)
      else rfold (add_digit (2 ^ 63 - 1)) 0
        (if hd s = CHR ''+'' \<and> tl s \<noteq> [] then tl s else s))"

section \<open>Reading back what was printed\<close>

text \<open>A visible ASCII character is no white space, whatever follows it; a blank is one byte of it.\<close>

definition visible :: "char \<Rightarrow> bool" where
  "visible c \<longleftrightarrow> 32 < byte c \<and> byte c < 127"

lemma space_length_visible [simp]: "visible c \<Longrightarrow> space_length (c # cs) = 0"
  by (auto simp: space_length_def visible_def Let_def numeral_3_eq_3)

lemma space_length_blank [simp]: "space_length (CHR '' '' # cs) = Suc 0"
  by (simp add: space_length_def byte_def Let_def numeral_3_eq_3)

lemma trim_start_visible [simp]: "visible c \<Longrightarrow> trim_start (c # cs) = c # cs"
  by (subst trim_start.simps) simp

lemma trim_start_blank [simp]: "trim_start (CHR '' '' # cs) = trim_start cs"
  by (subst trim_start.simps) simp

lemma trim_start_nil [simp]: "trim_start [] = []"
  by (subst trim_start.simps) simp

lemma first_word_visible:
  "list_all visible w \<Longrightarrow> rest = [] \<or> space_length rest \<noteq> 0 \<Longrightarrow> first_word (w @ rest) = (w, rest)"
proof (induction w)
  case Nil
  then show ?case by (cases rest) auto
qed simp

definition plain_word :: "string \<Rightarrow> bool" where
  "plain_word w \<longleftrightarrow> w \<noteq> [] \<and> list_all visible w"

lemma trim_start_word: "plain_word w \<Longrightarrow> trim_start (w @ rest) = w @ rest"
  by (cases w) (auto simp: plain_word_def)

lemma split_white: "trim_start s = [] \<Longrightarrow> split_whitespace s = []"
  by (subst split_whitespace.simps) simp

lemma split_word:
  assumes "plain_word w" and "rest = [] \<or> space_length rest \<noteq> 0"
  shows "split_whitespace (w @ rest) = w # split_whitespace rest"
proof -
  have "first_word (w @ rest) = (w, rest)"
    using assms by (intro first_word_visible) (simp_all add: plain_word_def)
  then show ?thesis
    using trim_start_word [OF assms(1), of rest] assms(1)
    by (subst split_whitespace.simps) (auto simp: plain_word_def)
qed

text \<open>Words joined by blanks are read back, also before a final line break.\<close>

lemma split_join:
  assumes "list_all plain_word ws" and "trim_start rest = []"
  shows "split_whitespace (join_with '' '' ws @ rest) = ws"
  using assms
proof (induction ws rule: induct_list012)
  case 1
  then show ?case by (simp add: split_white)
next
  case (2 w)
  then have "rest = [] \<or> space_length rest \<noteq> 0" by (metis trim_start.simps)
  with 2 show ?case by (simp add: split_word split_white)
next
  case (3 w v ws)
  let ?rest = "join_with '' '' (v # ws) @ rest"
  have "split_whitespace (CHR '' '' # ?rest) = split_whitespace ?rest"
    by (subst (1 2) split_whitespace.simps) simp
  with 3 show ?case by (simp add: split_word)
qed

lemma rsplit_once_last:
  assumes "p # ps = pat" and "ps \<noteq> []" and "p \<notin> set ps" and "p \<notin> set b"
  shows "rsplit_once pat (a @ pat @ b) = Some (a, b)"
proof -
  have none: "p \<notin> set s \<Longrightarrow> rsplit_once pat s = None" for s
    using assms(1) by (induction s) (auto simp: starts_with_def)
  have "rsplit_once pat (pat @ b) = Some ([], b)"
    using assms none [of "ps @ b"] by (auto simp: starts_with_def)
  then show ?thesis by (induction a) simp_all
qed

lemma byte_digit_char: "d < 10 \<Longrightarrow> byte (digit_char d) = 48 + d"
  by (simp add: byte_def digit_char_def)

lemma digit_char_props:
  assumes "d < 10"
  shows "is_ascii_digit (digit_char d)" and "digit_val (digit_char d) = d"
    and "visible (digit_char d)" and "digit_char d \<noteq> CHR '')''" and "digit_char d \<noteq> CHR ''+''"
proof -
  have "byte CHR '')'' = 41" "byte CHR ''+'' = 43" by (simp_all add: byte_def)
  then show "digit_char d \<noteq> CHR '')''" and "digit_char d \<noteq> CHR ''+''"
    using byte_digit_char [OF assms] by auto
qed (use byte_digit_char [OF assms] assms in
  \<open>auto simp: digit_val_def is_ascii_digit_def visible_def\<close>)

lemma show_nat_induct [case_names digit more]:
  assumes "\<And>n. n < 10 \<Longrightarrow> P n" and "\<And>n. 10 \<le> n \<Longrightarrow> P (n div 10) \<Longrightarrow> P n"
  shows "P (n :: nat)"
  by (induction n rule: less_induct) (metis assms div_less_dividend leI less_le_trans one_less_numeral_iff semiring_norm(76) zero_less_numeral)

lemma show_nat_small: "n < 10 \<Longrightarrow> show_nat n = [digit_char n]"
  by (simp add: show_nat.simps)

lemma show_nat_more: "10 \<le> n \<Longrightarrow> show_nat n = show_nat (n div 10) @ [digit_char (n mod 10)]"
  by (subst show_nat.simps) simp

lemma show_nat_digits: "show_nat n \<noteq> [] \<and> (\<forall>c \<in> set (show_nat n). \<exists>d < 10. c = digit_char d)"
proof (induction n rule: show_nat_induct)
  case (more n)
  have "\<exists>d < 10. digit_char (n mod 10) = digit_char d" by (rule exI [of _ "n mod 10"]) simp
  with more show ?case by (simp add: show_nat_more)
qed (auto simp: show_nat_small)

lemma plain_show_nat: "plain_word (show_nat n)"
  using show_nat_digits [of n] by (auto simp: plain_word_def list_all_iff digit_char_props)

lemma show_nat_no_paren: "CHR '')'' \<notin> set (show_nat n)"
  using show_nat_digits [of n] digit_char_props(4) by metis

lemma rfold_append: "rfold f s (xs @ ys) = rbind (rfold f s xs) (\<lambda>t. rfold f t ys)"
  by (induction xs arbitrary: s) (auto simp: rbind_def split: sum.split)

lemma fold_show_nat: "int n \<le> mx \<Longrightarrow> rfold (add_digit mx) 0 (show_nat n) = Inr (int n)"
proof (induction n rule: show_nat_induct)
  case (digit n)
  then show ?case by (simp add: show_nat_small add_digit_def digit_char_props)
next
  case (more n)
  from more have "rfold (add_digit mx) 0 (show_nat (n div 10)) = Inr (int (n div 10))" by simp
  moreover have "int (n div 10) * 10 + int (n mod 10) = int n"
    by (metis div_mult_mod_eq of_nat_add of_nat_mult of_nat_numeral)
  ultimately show ?case
    using more by (simp add: show_nat_more rfold_append add_digit_def digit_char_props)
qed

text \<open>A number that fits is read back from its decimal text.\<close>

lemma parse_show_nat: "n \<le> mx \<Longrightarrow> parse_unsigned mx (show_nat n) = Inr n"
proof -
  assume "n \<le> mx"
  moreover have "show_nat n \<noteq> []" "hd (show_nat n) \<noteq> CHR ''+''"
    using show_nat_digits [of n] hd_in_set [of "show_nat n"] digit_char_props(5) by metis+
  ultimately show ?thesis using fold_show_nat [of n "int mx"] by (simp add: parse_unsigned_def)
qed

end
