(* ===== verification/Supervisor.thy ===== *)
theory Supervisor
  imports Parsing
begin

text \<open>
  Supervision of the checkout adapter's process (\<open>apps/daemon/src/main.rs\<close>), in the Linux, the
  macOS and the other Unix build: the \<open>/proc\<close> parser and the calls of \<open>libproc\<close>, \<open>descendant_processes\<close>, \<open>DescendantTracker\<close>, the identity-checked
  signals, \<open>collect_child_output\<close>, and the part of \<open>PlaywrightCheckoutTransport::submit\<close> that
  spawns and feeds the adapter.
\<close>

section \<open>The operating system\<close>

datatype process_identity = ProcessIdentity (id_pid: nat) (id_started: nat)

text \<open>The derived order compares the pid first.\<close>

instantiation process_identity :: linorder
begin

definition less_eq_process_identity :: "process_identity \<Rightarrow> process_identity \<Rightarrow> bool" where
  "less_eq_process_identity x y \<longleftrightarrow>
     id_pid x < id_pid y \<or> id_pid x = id_pid y \<and> id_started x \<le> id_started y"

definition less_process_identity :: "process_identity \<Rightarrow> process_identity \<Rightarrow> bool" where
  "less_process_identity x y \<longleftrightarrow>
     id_pid x < id_pid y \<or> id_pid x = id_pid y \<and> id_started x < id_started y"

instance
  by standard (auto simp: less_eq_process_identity_def less_process_identity_def
      intro: process_identity.expand)

end

text \<open>
  What a \<open>read\<close> of the pipe gives (no bytes: the end of the file), and the signals sent:
  \<open>killpg\<close>, a signal through a pidfd, \<open>Child::kill\<close>, and the reaping \<open>wait\<close>.
\<close>

datatype pipe_read = PipeBytes string | PipeWait | ReadError string

datatype signal =
  KillGroup nat | KillProcess process_identity | KillChild nat | Reap nat

text \<open>The structures of \<open>libproc\<close> and of the audit session, and their size in bytes.\<close>

record proc_bsd_info =
  pb_flags :: nat
  pb_status :: nat
  pb_xstatus :: nat
  pb_pid :: nat
  pb_ppid :: nat
  pb_uid :: nat
  pb_gid :: nat
  pb_ruid :: nat
  pb_rgid :: nat
  pb_svuid :: nat
  pb_svgid :: nat
  pb_rfu_1 :: nat
  pb_comm :: string
  pb_name :: string
  pb_nfiles :: nat
  pb_pgid :: nat
  pb_pjobc :: nat
  pb_e_tdev :: nat
  pb_e_tpgid :: nat
  pb_nice :: int
  pb_start_tvsec :: nat
  pb_start_tvusec :: nat

record proc_unique_info =
  pu_uuid :: string
  pu_unique_id :: nat
  pu_parent_unique_id :: nat
  pu_id_version :: int
  pu_original_parent_id_version :: int
  pu_reserved :: "nat list"

record proc_info =
  pi_bsd :: proc_bsd_info
  pi_unique :: proc_unique_info

definition proc_info_size :: int where
  "proc_info_size = (12 * 4 + 16 + 32 + 5 * 4 + 4 + 2 * 8) + (16 + 2 * 8 + 2 * 4 + 2 * 8)"

record audit_mask =
  am_success :: nat
  am_failure :: nat

record audit_terminal_id =
  at_port :: int
  at_kind :: nat
  at_address :: "nat list"

record audit_info =
  ai_audit_user_id :: nat
  ai_mask :: audit_mask
  ai_terminal_id :: audit_terminal_id
  ai_session_id :: int
  ai_flags :: nat

text \<open>
  The operating system as one thread sees it: its \<open>i\<close>-th call is answered by the \<open>i\<close>-th value
  of the oracle of that call, so two looks at the same process may differ. A look at
  \<open>/proc\<close> gives the names of its entries, each with its stat text if it could be read; a
  pidfd refers to the process that had the pid when it was opened. On macOS \<open>proc_pidinfo\<close> gives
  the number of bytes it wrote and the structure, \<open>proc_listchildpids\<close> the number of pids and the
  buffer, and \<open>proc_signal_with_audittoken\<close> the process it reached, if any. \<open>h_rounds\<close> is how often the
  watcher thread looked before it was stopped, and \<open>h_signals\<close> what was sent so far.
\<close>

record host =
  h_looks :: nat
  h_target :: target
  h_pidinfo :: "nat \<Rightarrow> nat \<Rightarrow> int \<times> proc_info"
  h_childpids :: "nat \<Rightarrow> nat \<Rightarrow> int \<times> int list"
  h_audit :: "nat \<Rightarrow> audit_info option"
  h_token :: "nat \<Rightarrow> nat list \<Rightarrow> process_identity option"
  h_proc :: "nat \<Rightarrow> (string \<times> string option) list option"
  h_stat :: "nat \<Rightarrow> nat \<Rightarrow> string option"
  h_open :: "nat \<Rightarrow> nat \<Rightarrow> process_identity option"
  h_send :: "nat \<Rightarrow> process_identity \<Rightarrow> bool"
  h_lock :: "nat \<Rightarrow> bool"
  h_wait :: "nat \<Rightarrow> bool option"
  h_now :: "nat \<Rightarrow> nat"
  h_fcntl :: "nat \<Rightarrow> unit res"
  h_read :: "nat \<Rightarrow> pipe_read"
  h_exited :: "nat \<Rightarrow> bool res"
  h_spawn :: "nat \<Rightarrow> nat res"
  h_pipe :: "nat \<Rightarrow> bool"
  h_write :: "nat \<Rightarrow> string \<Rightarrow> unit res"
  h_rounds :: nat
  h_signals :: "signal list"

definition look :: "(host \<Rightarrow> nat \<Rightarrow> 'a) \<Rightarrow> host \<Rightarrow> 'a \<times> host" where
  "look f h = (f h (h_looks h), h\<lparr>h_looks := Suc (h_looks h)\<rparr>)"

definition send :: "signal \<Rightarrow> host \<Rightarrow> host" where
  "send s h = h\<lparr>h_signals := h_signals h @ [s]\<rparr>"

section \<open>The process table\<close>

definition stat_word :: "nat \<Rightarrow> string \<Rightarrow> string option" where
  "stat_word n stat =
     (case rsplit_once '') '' stat of
        None \<Rightarrow> None
      | Some (_, after_name) \<Rightarrow>
          let words = split_whitespace after_name in
          if n < length words then Some (words ! n) else None)"

definition ok_number :: "nat \<Rightarrow> string \<Rightarrow> nat option" where
  "ok_number mx s = (case parse_unsigned mx s of Inl _ \<Rightarrow> None | Inr n \<Rightarrow> Some n)"

definition identity_of_stat :: "nat \<Rightarrow> string \<Rightarrow> process_identity option" where
  "identity_of_stat pid stat =
     Option.bind (stat_word 19 stat) (\<lambda>word.
     Option.bind (ok_number u128_max word) (\<lambda>started. Some (ProcessIdentity pid started)))"

definition parent_of_stat :: "string \<Rightarrow> nat option" where
  "parent_of_stat stat = Option.bind (stat_word 1 stat) (ok_number u32_max)"

definition macos_process_info :: "nat \<Rightarrow> int \<times> proc_info \<Rightarrow> proc_info option" where
  "macos_process_info pid answer =
     (case answer of (received, info) \<Rightarrow>
        if received \<noteq> proc_info_size \<or> pb_pid (pi_bsd info) \<noteq> pid then None else Some info)"

definition identity_of_info :: "nat \<Rightarrow> int \<times> proc_info \<Rightarrow> process_identity option" where
  "identity_of_info pid answer =
     Option.bind (macos_process_info pid answer) (\<lambda>info.
     Some (ProcessIdentity pid (pu_unique_id (pi_unique info))))"

text \<open>What a look at a process shows, by target.\<close>

definition identity_seen :: "host \<Rightarrow> nat \<Rightarrow> nat \<Rightarrow> process_identity option" where
  "identity_seen h i pid =
     (case h_target h of
        Linux \<Rightarrow> Option.bind (h_stat h i pid) (identity_of_stat pid)
      | MacOS \<Rightarrow> identity_of_info pid (h_pidinfo h i pid)
      | OtherUnix \<Rightarrow> None)"

definition process_identity_at :: "nat \<Rightarrow> host \<Rightarrow> process_identity option \<times> host" where
  "process_identity_at pid = look (\<lambda>h i. identity_seen h i pid)"

definition process_identity_matches :: "process_identity \<Rightarrow> host \<Rightarrow> bool \<times> host" where
  "process_identity_matches identity h =
     (let (current, h) = process_identity_at (id_pid identity) h in (current = Some identity, h))"

definition child_entry :: "nat \<Rightarrow> string \<times> string option \<Rightarrow> nat option" where
  "child_entry parent entry =
     Option.bind (ok_number u32_max (fst entry)) (\<lambda>pid.
     Option.bind (snd entry) (\<lambda>stat.
     if parent_of_stat stat = Some parent then Some pid else None))"

definition listed_children :: "nat \<Rightarrow> (string \<times> string option) list option \<Rightarrow> nat list" where
  "listed_children parent listing =
     (case listing of None \<Rightarrow> [] | Some entries \<Rightarrow> List.map_filter (child_entry parent) entries)"

definition child_buffer :: nat where "child_buffer = 4096"

definition listed_child_pids :: "int \<times> int list \<Rightarrow> nat list" where
  "listed_child_pids answer =
     (case answer of (count, pids) \<Rightarrow>
        if count \<le> 0 then []
        else map nat (filter (\<lambda>pid. 0 < pid) (take (nat count) (take child_buffer pids))))"

definition children_seen :: "host \<Rightarrow> nat \<Rightarrow> nat \<Rightarrow> nat list" where
  "children_seen h i parent =
     (case h_target h of
        Linux \<Rightarrow> listed_children parent (h_proc h i)
      | MacOS \<Rightarrow> listed_child_pids (h_childpids h i parent)
      | OtherUnix \<Rightarrow> [])"

definition direct_child_pids :: "nat \<Rightarrow> host \<Rightarrow> nat list \<times> host" where
  "direct_child_pids parent = look (\<lambda>h i. children_seen h i parent)"

text \<open>
  \<open>pending\<close> is a stack, its top first here. A child without an identity is followed but not
  remembered, so the loop may visit it again: on a process table that keeps changing it need
  not end.
\<close>

fun note_children ::
  "nat list \<Rightarrow> nat list \<Rightarrow> process_identity list \<Rightarrow> host \<Rightarrow> nat list \<times> process_identity list \<times> host" where
  "note_children [] pending found h = (pending, found, h)"
| "note_children (c # cs) pending found h =
     (if c \<in> id_pid ` set found then note_children cs pending found h
      else
        let (identity, h) = process_identity_at c h;
            found = (case identity of None \<Rightarrow> found | Some x \<Rightarrow> found @ [x]) in
        note_children cs (c # pending) found h)"

partial_function (option) descend ::
  "nat list \<Rightarrow> process_identity list \<Rightarrow> host \<Rightarrow> (process_identity list \<times> host) option" where
  "descend pending found h =
     (case pending of
        [] \<Rightarrow> Some (found, h)
      | parent # rest \<Rightarrow>
          let (children, h) = direct_child_pids parent h;
              (pending, found, h) = note_children children rest found h in
          descend pending found h)"

definition descendant_processes :: "nat \<Rightarrow> host \<Rightarrow> (process_identity list \<times> host) option" where
  "descendant_processes root h = descend [root] [] h"

section \<open>Signals\<close>

text \<open>On Linux through a pidfd, on macOS through an audit token.\<close>

definition signal_pidfd :: "process_identity \<Rightarrow> host \<Rightarrow> bool \<times> host" where
  "signal_pidfd identity h =
     (let (descriptor, h) = look (\<lambda>h i. h_open h i (id_pid identity)) h in
      case descriptor of
        None \<Rightarrow> (False, h)
      | Some process \<Rightarrow>
          let (matches, h) = process_identity_matches identity h in
          if \<not> matches then (False, h)
          else
            let (delivered, h) = look (\<lambda>h i. h_send h i process) h in
            (delivered, if delivered then send (KillProcess process) h else h))"

definition as_u32 :: "int \<Rightarrow> nat" where
  "as_u32 n = nat (n mod 2 ^ 32)"

definition audit_token :: "process_identity \<Rightarrow> proc_info \<Rightarrow> audit_info \<Rightarrow> nat list" where
  "audit_token identity info audit =
     [ai_audit_user_id audit, pb_uid (pi_bsd info), pb_gid (pi_bsd info), pb_ruid (pi_bsd info),
      pb_rgid (pi_bsd info), id_pid identity, as_u32 (ai_session_id audit),
      as_u32 (pu_id_version (pi_unique info))]"

definition signal_audit_token :: "process_identity \<Rightarrow> host \<Rightarrow> bool \<times> host" where
  "signal_audit_token identity h =
     (let (found, h) = look (\<lambda>h i. macos_process_info (id_pid identity)
        (h_pidinfo h i (id_pid identity))) h in
      case found of
        None \<Rightarrow> (False, h)
      | Some info \<Rightarrow>
          if pu_unique_id (pi_unique info) \<noteq> id_started identity then (False, h)
          else
            let (audit, h) = look h_audit h in
            case audit of
              None \<Rightarrow> (False, h)
            | Some audit \<Rightarrow>
                let (reached, h) = look (\<lambda>h i. h_token h i (audit_token identity info audit)) h in
                case reached of
                  None \<Rightarrow> (False, h)
                | Some process \<Rightarrow> (True, send (KillProcess process) h))"

definition signal_process_if_current :: "process_identity \<Rightarrow> host \<Rightarrow> bool \<times> host" where
  "signal_process_if_current identity h =
     (case h_target h of
        Linux \<Rightarrow> signal_pidfd identity h
      | MacOS \<Rightarrow> signal_audit_token identity h
      | OtherUnix \<Rightarrow> (False, h))"

fun signal_all :: "process_identity list \<Rightarrow> host \<Rightarrow> host" where
  "signal_all [] h = h"
| "signal_all (x # xs) h = signal_all xs (snd (signal_process_if_current x h))"

text \<open>
  The watcher thread extends the ordered set by the descendants of each of its rounds, when
  it gets the lock.
\<close>

definition extend :: "process_identity list \<Rightarrow> process_identity list \<Rightarrow> process_identity list" where
  "extend tracked xs = sort (remdups (tracked @ xs))"

fun watch ::
  "nat \<Rightarrow> nat \<Rightarrow> process_identity list \<Rightarrow> host \<Rightarrow> (process_identity list \<times> host) option" where
  "watch root 0 tracked h = Some (tracked, h)"
| "watch root (Suc n) tracked h =
     (let (locked, h) = look h_lock h in
      if \<not> locked then watch root n tracked h
      else Option.bind (descendant_processes root h) (\<lambda>(xs, h).
        watch root n (extend tracked xs) h))"

definition kill_group_if_current :: "process_identity option \<Rightarrow> host \<Rightarrow> host" where
  "kill_group_if_current root h =
     (case root of
        None \<Rightarrow> h
      | Some identity \<Rightarrow>
          let (matches, h) = process_identity_matches identity h in
          if matches then send (KillGroup (id_pid identity)) h else h)"

text \<open>\<open>DescendantTracker::terminate\<close>: the tracked processes are signalled in descending order.\<close>

definition signal_tracked ::
  "process_identity option \<Rightarrow> nat \<Rightarrow> process_identity list \<Rightarrow> host \<Rightarrow> host option" where
  "signal_tracked root pid tracked h =
     (let (locked, h) = look h_lock h in
      if \<not> locked then Some h
      else Option.bind (descendant_processes pid h) (\<lambda>(xs, h).
        Some (signal_all (rev (extend tracked xs)) (kill_group_if_current root h))))"

definition terminate ::
  "process_identity option \<Rightarrow> nat \<Rightarrow> host \<Rightarrow> (bool option \<times> host) option" where
  "terminate root pid h =
     Option.bind (watch pid (h_rounds h) [] h) (\<lambda>(tracked, h).
     Option.bind (signal_tracked root pid tracked h) (\<lambda>h.
     let (status, h) = look h_wait (send (KillChild pid) h) in
     Some (status, send (Reap pid) h)))"

definition stop_with ::
  "process_identity option \<Rightarrow> nat \<Rightarrow> treasury_error \<Rightarrow> host \<Rightarrow> ('a res \<times> host) option" where
  "stop_with root pid e h = Option.bind (terminate root pid h) (\<lambda>(_, h). Some (Inl e, h))"

section \<open>Collecting the output\<close>

definition output_limit :: nat where "output_limit = 16 * 1024"

definition too_large :: treasury_error where
  "too_large = Conflict ''controlled checkout adapter output is too large''"

definition not_reaped :: treasury_error where
  "not_reaped = Conflict ''controlled checkout adapter could not be reaped''"

definition past_deadline :: treasury_error where
  "past_deadline =
     Conflict ''controlled checkout adapter exceeded its hard deadline; payment outcome is unknown''"

text \<open>
  One round of the loop: it goes on with the output and the end-of-file flag, gives up, or has
  seen the end of the output and the exit of the child.
\<close>

datatype round = GoOn string bool | GiveUp treasury_error | Exited string

definition read_pipe :: "string \<Rightarrow> bool \<Rightarrow> host \<Rightarrow> round \<times> host" where
  "read_pipe output eof h =
     (let (r, h) = look h_read h in
      case r of
        ReadError e \<Rightarrow> (GiveUp (Io e), h)
      | PipeWait \<Rightarrow> (GoOn output eof, h)
      | PipeBytes s \<Rightarrow>
          let bytes = take 4096 s in
          if bytes = [] then (GoOn output True, h)
          else if output_limit < length (output @ bytes) then (GiveUp too_large, h)
          else (GoOn (output @ bytes) eof, h))"

definition drain_once :: "nat \<Rightarrow> string \<Rightarrow> bool \<Rightarrow> host \<Rightarrow> round \<times> host" where
  "drain_once deadline output eof h =
     (let (t, h) = look h_now h in
      if deadline \<le> t then (GiveUp past_deadline, h)
      else
      let (next, h) = read_pipe output eof h in
      case next of
        GoOn output True \<Rightarrow>
          (let (exited, h) = look h_exited h in
           case exited of
             Inl e \<Rightarrow> (GiveUp e, h)
           | Inr True \<Rightarrow> (Exited output, h)
           | Inr False \<Rightarrow> (GoOn output True, h))
      | _ \<Rightarrow> (next, h))"

partial_function (option) drain ::
  "process_identity option \<Rightarrow> nat \<Rightarrow> nat \<Rightarrow> string \<Rightarrow> bool \<Rightarrow> host
     \<Rightarrow> ((bool \<times> string) res \<times> host) option" where
  "drain root pid deadline output eof h =
     (let (next, h) = drain_once deadline output eof h in
      case next of
        GoOn output eof \<Rightarrow> drain root pid deadline output eof h
      | GiveUp e \<Rightarrow> stop_with root pid e h
      | Exited output \<Rightarrow>
          Option.bind (terminate root pid h) (\<lambda>(status, h).
          Some (case status of None \<Rightarrow> Inl not_reaped | Some st \<Rightarrow> Inr (st, output), h)))"

definition collect_child_output ::
  "process_identity option \<Rightarrow> nat \<Rightarrow> nat \<Rightarrow> host \<Rightarrow> ((bool \<times> string) res \<times> host) option" where
  "collect_child_output root pid timeout h =
     (let (flags, h) = look h_fcntl h in
      case flags of
        Inl e \<Rightarrow> stop_with root pid e h
      | Inr _ \<Rightarrow>
          let (t, h) = look h_now h in drain root pid (t + timeout) [] False h)"

text \<open>
  The middle of \<open>submit\<close>: the adapter is spawned in its own process group and fed the encoded
  request, and its output is collected before the deadline.
\<close>

definition run_adapter :: "nat \<Rightarrow> string \<Rightarrow> host \<Rightarrow> ((bool \<times> string) res \<times> host) option" where
  "run_adapter deadline encoded h =
     (let (child, h) = look h_spawn h in
      case child of
        Inl e \<Rightarrow> Some (Inl e, h)
      | Inr pid \<Rightarrow>
          let (root, h) = process_identity_at pid h;
              (stdin, h) = look h_pipe h in
          if \<not> stdin
          then stop_with root pid (Conflict ''checkout adapter stdin is unavailable'') h
          else
          let (written, h) = look (\<lambda>h i. h_write h i encoded) h in
          case written of
            Inl e \<Rightarrow> stop_with root pid e h
          | Inr _ \<Rightarrow>
              let (stdout, h) = look h_pipe h in
              if \<not> stdout
              then stop_with root pid (Conflict ''checkout adapter stdout is unavailable'') h
              else
              let (t, h) = look h_now h in
              if deadline - t = 0
              then stop_with root pid
                (Conflict ''owner handoff deadline expired before adapter completion'') h
              else collect_child_output root pid (deadline - t) h)"

section \<open>What supervision leaves alone\<close>

text \<open>Only the number of looks grows (\<open>quiet\<close>), or signals are sent too (\<open>host_after\<close>).\<close>

definition quiet :: "host \<Rightarrow> host \<Rightarrow> bool" where
  "quiet h g \<longleftrightarrow> (\<exists>n. g = h\<lparr>h_looks := h_looks h + n\<rparr>)"

definition host_after :: "signal list \<Rightarrow> host \<Rightarrow> host \<Rightarrow> bool" where
  "host_after s h g \<longleftrightarrow> (\<exists>n. g = h\<lparr>h_looks := h_looks h + n, h_signals := h_signals h @ s\<rparr>)"

lemma quiet_refl [simp]: "quiet h h"
  by (auto simp: quiet_def intro: exI [of _ 0])

lemma quiet_look: "look f h = (x, g) \<Longrightarrow> quiet h g"
  by (auto simp: quiet_def look_def intro: exI [of _ 1])

lemma quiet_trans [trans]: "quiet h g \<Longrightarrow> quiet g k \<Longrightarrow> quiet h k"
  by (auto simp: quiet_def add.assoc)

lemma host_after_trans: "host_after s h g \<Longrightarrow> host_after t g k \<Longrightarrow> host_after (s @ t) h k"
  by (auto simp: host_after_def add.assoc)

lemma quiet_follows: "quiet h g \<Longrightarrow> host_after [] h g"
  by (auto simp: quiet_def host_after_def)

lemma host_after_send: "quiet h g \<Longrightarrow> host_after [s] h (send s g)"
  by (auto simp: quiet_def host_after_def send_def)

lemma host_after_quiet: "host_after s h g \<Longrightarrow> quiet g k \<Longrightarrow> host_after s h k"
  using host_after_trans quiet_follows by fastforce

lemma quiet_fields:
  assumes "quiet h g"
  shows "children_seen g = children_seen h" and "identity_seen g = identity_seen h"
    and "h_now g = h_now h" and "h_signals g = h_signals h" and "h_looks h \<le> h_looks g"
  using assms by (auto simp: quiet_def children_seen_def identity_seen_def fun_eq_iff split: target.split)

lemma quiet_identity: "process_identity_at pid h = (x, g) \<Longrightarrow> quiet h g"
  unfolding process_identity_at_def by (rule quiet_look)

lemma quiet_matches: "process_identity_matches x h = (b, g) \<Longrightarrow> quiet h g"
  by (auto simp: process_identity_matches_def Let_def dest: quiet_identity split: prod.splits)

lemma quiet_children: "direct_child_pids pid h = (x, g) \<Longrightarrow> quiet h g"
  unfolding direct_child_pids_def by (rule quiet_look)

lemma quiet_note: "note_children cs p f h = (p', f', g) \<Longrightarrow> quiet h g"
  by (induction cs p f h rule: note_children.induct)
    (auto simp: Let_def dest: quiet_identity split: if_splits prod.splits intro: quiet_trans)

lemma quiet_descend: "descend p f h = Some r \<Longrightarrow> quiet h (snd r)"
proof (induction rule: descend.raw_induct [rotated, consumes 1, case_names step])
  case (step descend p f h r)
  then show ?case
    by (cases r) (auto split: list.splits prod.splits dest!: quiet_children quiet_note
        intro: quiet_trans)
qed

lemma quiet_descendants: "descendant_processes pid h = Some (xs, g) \<Longrightarrow> quiet h g"
  using quiet_descend [of "[pid]" "[]" h "(xs, g)"] by (simp add: descendant_processes_def)

lemma quiet_watch: "watch pid n xs h = Some (ys, g) \<Longrightarrow> quiet h g"
proof (induction n arbitrary: xs h)
  case (Suc n)
  then show ?case
    by (auto simp: Let_def bind_eq_Some_conv split: prod.splits if_splits
        dest!: quiet_look quiet_descendants intro: quiet_trans)
qed simp

lemma some_quiet: "quiet h g \<Longrightarrow> \<exists>s. host_after s h g \<and> (s = [] \<or> P s)"
  by (blast intro: quiet_follows)

lemma some_send: "quiet h g \<Longrightarrow> P [x] \<Longrightarrow> \<exists>s. host_after s h (send x g) \<and> (s = [] \<or> P s)"
  by (blast intro: host_after_send)

text \<open>A process is signalled at most once, and only where its own descriptor matched.\<close>

lemma host_after_pidfd:
  "\<exists>s. host_after s h (snd (signal_pidfd x h)) \<and> (s = [] \<or> (\<exists>p. s = [KillProcess p]))"
proof -
  obtain d g where g: "look (\<lambda>h i. h_open h i (id_pid x)) h = (d, g)" by fastforce
  obtain b k where k: "process_identity_matches x g = (b, k)" by fastforce
  obtain c l where l: "look (\<lambda>h i. h_send h i (the d)) k = (c, l)" by fastforce
  from quiet_look [OF g] quiet_matches [OF k] have hk: "quiet h k" by (rule quiet_trans)
  from hk quiet_look [OF l] have hl: "quiet h l" by (rule quiet_trans)
  have "snd (signal_pidfd x h) \<in> {g, k, l, send (KillProcess (the d)) l}"
    using g k l by (cases d; cases b; cases c) (simp_all add: signal_pidfd_def)
  then show ?thesis
    using quiet_follows [OF quiet_look [OF g]] quiet_follows [OF hk] quiet_follows [OF hl]
      host_after_send [OF hl, of "KillProcess (the d)"] by (elim insertE) auto
qed

lemma host_after_token:
  "\<exists>s. host_after s h (snd (signal_audit_token x h)) \<and> (s = [] \<or> (\<exists>p. s = [KillProcess p]))"
proof -
  obtain d g where g: "look (\<lambda>h i. macos_process_info (id_pid x) (h_pidinfo h i (id_pid x))) h = (d, g)"
    by fastforce
  obtain b k where k: "look h_audit g = (b, k)" by fastforce
  obtain c l where l: "look (\<lambda>h i. h_token h i (audit_token x (the d) (the b))) k = (c, l)" by fastforce
  from quiet_look [OF g] quiet_look [OF k] have hk: "quiet h k" by (rule quiet_trans)
  from hk quiet_look [OF l] have hl: "quiet h l" by (rule quiet_trans)
  have "snd (signal_audit_token x h) \<in> {g, k, l, send (KillProcess (the c)) l}"
    using g k l by (cases d; cases b; cases c) (auto simp: signal_audit_token_def)
  then show ?thesis
    using quiet_follows [OF quiet_look [OF g]] quiet_follows [OF hk] quiet_follows [OF hl]
      host_after_send [OF hl, of "KillProcess (the c)"] by (elim insertE) auto
qed

lemma host_after_signal:
  "\<exists>s. host_after s h (snd (signal_process_if_current x h)) \<and> (s = [] \<or> (\<exists>p. s = [KillProcess p]))"
proof (cases "h_target h")
  case OtherUnix
  have "host_after [] h h" by (rule quiet_follows) simp
  with OtherUnix show ?thesis by (auto simp: signal_process_if_current_def)
qed (simp_all add: signal_process_if_current_def host_after_pidfd host_after_token)

lemma host_after_signal_all:
  "\<exists>s. host_after s h (signal_all xs h) \<and> set s \<subseteq> range KillProcess"
proof (induction xs arbitrary: h)
  case Nil
  have "host_after [] h (signal_all [] h)" by (simp add: quiet_follows)
  then show ?case by (intro exI [of _ "[]"]) simp
next
  case (Cons x xs)
  obtain s where s: "host_after s h (snd (signal_process_if_current x h))" "set s \<subseteq> range KillProcess"
    using host_after_signal [of h x] by auto
  obtain t where
    t: "host_after t (snd (signal_process_if_current x h)) (signal_all (x # xs) h)"
      "set t \<subseteq> range KillProcess"
    using Cons [of "snd (signal_process_if_current x h)"] by auto
  have "set (s @ t) \<subseteq> range KillProcess" using s(2) t(2) by simp
  with host_after_trans [OF s(1) t(1)] show ?case by blast
qed

lemma host_after_group:
  "\<exists>s. host_after s h (kill_group_if_current root h)
     \<and> (s = [] \<or> (\<exists>x. root = Some x \<and> s = [KillGroup (id_pid x)]))"
proof (cases root)
  case None
  then show ?thesis by (auto simp: kill_group_if_current_def intro: quiet_follows)
next
  case (Some x)
  obtain b g where m: "process_identity_matches x h = (b, g)" by fastforce
  with quiet_matches [OF this] Some show ?thesis
    by (cases b) (auto simp: kill_group_if_current_def intro!: some_send intro: quiet_follows)
qed

text \<open>Every call that returns has killed and reaped the child, as the last two things it did.\<close>

definition cleaned_up :: "nat \<Rightarrow> host \<Rightarrow> host \<Rightarrow> bool" where
  "cleaned_up pid h g \<longleftrightarrow> (\<exists>s. host_after (s @ [KillChild pid, Reap pid]) h g
     \<and> set s \<subseteq> range KillProcess \<union> range KillGroup)"

lemma cleaned_up_after: "quiet h g \<Longrightarrow> cleaned_up pid g k \<Longrightarrow> cleaned_up pid h k"
  unfolding cleaned_up_def using host_after_trans [OF quiet_follows] by fastforce

lemma signal_tracked_follows:
  assumes "signal_tracked root pid xs h = Some g"
  shows "\<exists>s. host_after s h g \<and> set s \<subseteq> range KillProcess \<union> range KillGroup"
proof -
  obtain locked k where k: "look h_lock h = (locked, k)" by fastforce
  show ?thesis
  proof (cases locked)
    case False
    with assms k quiet_follows [OF quiet_look [OF k]] show ?thesis
      by (auto simp: signal_tracked_def intro!: exI [of _ "[]"])
  next
    case True
    with assms k obtain ys l where l: "descendant_processes pid k = Some (ys, l)"
      and g: "g = signal_all (rev (extend xs ys)) (kill_group_if_current root l)"
      by (auto simp: signal_tracked_def bind_eq_Some_conv)
    have q: "quiet h l" using quiet_trans [OF quiet_look [OF k] quiet_descendants [OF l]] .
    obtain s where s: "host_after s l (kill_group_if_current root l)" "set s \<subseteq> range KillGroup"
      using host_after_group [of l root] by auto
    obtain t where t: "host_after t (kill_group_if_current root l) g" "set t \<subseteq> range KillProcess"
      using host_after_signal_all g by blast
    have "host_after ([] @ s @ t) h g"
      by (intro host_after_trans [OF quiet_follows [OF q]] host_after_trans [OF s(1) t(1)])
    with s(2) t(2) show ?thesis by (intro exI [of _ "s @ t"]) auto
  qed
qed

lemma terminate_cleans:
  assumes "terminate root pid h = Some (st, g)"
  shows "cleaned_up pid h g"
proof -
  from assms obtain xs k l where k: "watch pid (h_rounds h) [] h = Some (xs, k)"
    and l: "signal_tracked root pid xs k = Some l"
    and e: "(let (status, h) = look h_wait (send (KillChild pid) l) in
      Some (status, send (Reap pid) h)) = Some (st, g)"
    unfolding terminate_def by (auto simp: bind_eq_Some_conv simp del: Let_def)
  obtain v m where m: "look h_wait (send (KillChild pid) l) = (v, m)" by fastforce
  with e have g: "g = send (Reap pid) m" by simp
  from signal_tracked_follows [OF l] obtain s where
    s: "host_after s k l" "set s \<subseteq> range KillProcess \<union> range KillGroup" by blast
  have "host_after [KillChild pid] l (send (KillChild pid) l)" by (rule host_after_send) simp
  with quiet_look [OF m] have "host_after [KillChild pid] l m" by (rule host_after_quiet [rotated])
  moreover have "host_after [Reap pid] m g" using g by (auto intro: host_after_send)
  ultimately have "host_after (([] @ s) @ ([KillChild pid] @ [Reap pid])) h g"
    by (intro host_after_trans [OF host_after_trans [OF quiet_follows [OF quiet_watch [OF k]] s(1)]]
        host_after_trans)
  with s(2) show ?thesis unfolding cleaned_up_def by (intro exI [of _ s]) simp
qed

lemma stop_with_cleans: "stop_with root pid e h = Some (r, g) \<Longrightarrow> cleaned_up pid h g \<and> r = Inl e"
  by (auto simp: stop_with_def bind_eq_Some_conv split: prod.splits dest: terminate_cleans)

text \<open>Supervision returns when the process table's scans do.\<close>

definition scans_return :: "host \<Rightarrow> bool" where
  "scans_return h \<longleftrightarrow>
     (\<forall>n s pid. descendant_processes pid (h\<lparr>h_looks := n, h_signals := s\<rparr>) \<noteq> None)"

lemma scans_return_quiet: "scans_return h \<Longrightarrow> quiet h g \<Longrightarrow> scans_return g"
  by (auto simp: scans_return_def quiet_def)

lemma scans_returnD: "scans_return h \<Longrightarrow> \<exists>xs g. descendant_processes pid h = Some (xs, g)"
  unfolding scans_return_def by (metis host.surjective host.update_convs(1,21) old.prod.exhaust option.exhaust)

lemma watch_returns: "scans_return h \<Longrightarrow> \<exists>ys g. watch pid n xs h = Some (ys, g)"
proof (induction n arbitrary: xs h)
  case (Suc n)
  obtain b k where k: "look h_lock h = (b, k)" by fastforce
  have r: "scans_return k" using scans_return_quiet [OF Suc.prems quiet_look [OF k]] .
  from scans_returnD [OF r, of pid] obtain ys l where l: "descendant_processes pid k = Some (ys, l)"
    by blast
  have "scans_return l" using scans_return_quiet [OF r quiet_descendants [OF l]] .
  with Suc.IH [OF r] Suc.IH k l show ?case by (cases b) simp_all
qed simp

lemma terminate_returns:
  assumes "scans_return h"
  shows "\<exists>st g. terminate root pid h = Some (st, g)"
proof -
  from watch_returns [OF assms, of pid "h_rounds h" "[]"] obtain xs k where
    k: "watch pid (h_rounds h) [] h = Some (xs, k)" by blast
  have r: "scans_return k" using scans_return_quiet [OF assms quiet_watch [OF k]] .
  obtain b l where l: "look h_lock k = (b, l)" by fastforce
  from scans_returnD [OF scans_return_quiet [OF r quiet_look [OF l]], of pid] k l
  show ?thesis by (cases b) (auto simp: terminate_def signal_tracked_def Let_def split: prod.split)
qed

lemma stop_with_returns: "scans_return h \<Longrightarrow> \<exists>r g. stop_with root pid e h = Some (r, g)"
  using terminate_returns [of h root pid] by (auto simp: stop_with_def)

end
