(* ===== verification/Containment.thy ===== *)
theory Containment
  imports Supervisor
begin

text \<open>
  What supervision of the checkout adapter guarantees: the adapter is killed and reaped however
  its run ends, signals reach observed descendants only, a scan of a settled process table ends
  with exactly the descendants, and a process cannot forge its identity through its name.
\<close>

section \<open>Collecting ends\<close>

lemma read_pipe_spec:
  assumes "read_pipe output eof h = (x, g)" and "length output \<le> output_limit"
  shows "quiet h g \<and> (case x of GoOn o' _ \<Rightarrow> length o' \<le> output_limit
    | Exited _ \<Rightarrow> False | GiveUp _ \<Rightarrow> True)"
  using assms
  by (auto simp: read_pipe_def Let_def dest!: quiet_look split: prod.splits pipe_read.splits if_splits)

text \<open>A round looks at the clock first; it goes on only before the deadline.\<close>

lemma drain_once_spec:
  assumes "drain_once deadline output eof h = (x, g)" and "length output \<le> output_limit"
  shows "quiet h g \<and> h_looks h < h_looks g \<and> (case x of
      GoOn o' _ \<Rightarrow> length o' \<le> output_limit \<and> h_now h (h_looks h) < deadline
    | Exited o' \<Rightarrow> length o' \<le> output_limit | GiveUp _ \<Rightarrow> True)"
proof -
  let ?k = "h\<lparr>h_looks := Suc (h_looks h)\<rparr>"
  have k: "look h_now h = (h_now h (h_looks h), ?k)" by (simp add: look_def)
  then have qk: "quiet h ?k" by (rule quiet_look)
  obtain y l where l: "read_pipe output eof ?k = (y, l)" by fastforce
  obtain ex m where m: "look h_exited l = (ex, m)" by fastforce
  from read_pipe_spec [OF l assms(2)] have ql: "quiet ?k l" by simp
  with qk quiet_look [OF m] have hl: "quiet h l" and hm: "quiet h m" by (blast intro: quiet_trans)+
  have "h_looks ?k \<le> h_looks l" "h_looks l \<le> h_looks m"
    using ql quiet_look [OF m] by (auto dest: quiet_fields)
  then have less: "h_looks h < h_looks l" "h_looks h < h_looks m" by simp_all
  show ?thesis
  proof (cases "deadline \<le> h_now h (h_looks h)")
    case True
    with assms(1) k qk show ?thesis by (auto simp: drain_once_def)
  next
    case False
    with assms(1) k l m read_pipe_spec [OF l assms(2)] hl hm less show ?thesis
      by (auto simp: drain_once_def split: round.splits bool.splits sum.splits)
  qed
qed

definition bounded_output :: "(bool \<times> string) res \<Rightarrow> bool" where
  "bounded_output r = (case r of Inl _ \<Rightarrow> True | Inr (_, output) \<Rightarrow> length output \<le> output_limit)"

text \<open>The result of a supervised call: it returns, having cleaned up, with a bounded output.\<close>

definition resolves :: "nat \<Rightarrow> host \<Rightarrow> ((bool \<times> string) res \<times> host) option \<Rightarrow> bool" where
  "resolves pid h x \<longleftrightarrow> (\<exists>r g. x = Some (r, g) \<and> cleaned_up pid h g \<and> bounded_output r)"

lemma resolves_after: "quiet h g \<Longrightarrow> resolves pid g x \<Longrightarrow> resolves pid h x"
  by (auto simp: resolves_def intro: cleaned_up_after)

lemma resolves_stop:
  assumes "scans_return h"
  shows "resolves pid h (stop_with root pid e h)"
proof -
  obtain r :: "(bool \<times> string) res" and g where r: "stop_with root pid e h = Some (r, g)"
    using stop_with_returns [OF assms] by blast
  with stop_with_cleans [OF r] show ?thesis by (simp add: resolves_def bounded_output_def)
qed

lemma drain_resolves:
  assumes "scans_return h" and "\<forall>i \<ge> n. deadline \<le> h_now h i" and "length out \<le> output_limit"
  shows "resolves pid h (drain root pid deadline out eof h)"
  using assms
proof (induction "n - h_looks h" arbitrary: h out eof rule: less_induct)
  case less
  obtain x g where x: "drain_once deadline out eof h = (x, g)" by fastforce
  note spec = drain_once_spec [OF x less.prems(3)]
  then have q: "quiet h g" by simp
  have r: "scans_return g" using scans_return_quiet [OF less.prems(1) q] .
  show ?case
  proof (cases x)
    case (GoOn o' e')
    with spec less.prems(2) have "h_looks h < n" by (cases "n \<le> h_looks h") auto
    with spec GoOn have "n - h_looks g < n - h_looks h" by auto
    from less.hyps [OF this r] less.prems(2) spec GoOn quiet_fields(3) [OF q]
    have "resolves pid g (drain root pid deadline o' e' g)" by simp
    with q GoOn x show ?thesis by (subst drain.simps) (simp add: resolves_after)
  next
    case (GiveUp e)
    with q x resolves_stop [OF r] show ?thesis by (subst drain.simps) (simp add: resolves_after)
  next
    case (Exited o')
    from terminate_returns [OF r] obtain st k where k: "terminate root pid g = Some (st, k)" by blast
    have "resolves pid g
      (Some (case st of None \<Rightarrow> Inl not_reaped | Some v \<Rightarrow> Inr (v, o'), k))"
      using terminate_cleans [OF k] spec Exited
      by (auto simp: resolves_def bounded_output_def split: option.split)
    with q x k Exited show ?thesis by (subst drain.simps) (simp add: resolves_after)
  qed
qed

definition time_passes :: "host \<Rightarrow> bool" where
  "time_passes h \<longleftrightarrow> (\<forall>d. \<exists>n. \<forall>i \<ge> n. d \<le> h_now h i)"

lemma time_passes_quiet: "time_passes h \<Longrightarrow> quiet h g \<Longrightarrow> time_passes g"
  by (auto simp: time_passes_def quiet_def)

lemma collect_resolves:
  assumes "scans_return h" and "time_passes h"
  shows "resolves pid h (collect_child_output root pid timeout h)"
proof -
  obtain f g where g: "look h_fcntl h = (f, g)" by fastforce
  obtain t k where k: "look h_now g = (t, k)" by fastforce
  note hg = quiet_look [OF g] and gk = quiet_look [OF k]
  note hk = quiet_trans [OF hg gk]
  from time_passes_quiet [OF assms(2) hk] obtain n where
    n: "\<forall>i \<ge> n. t + timeout \<le> h_now k i" unfolding time_passes_def by blast
  have "resolves pid k (drain root pid (t + timeout) [] False k)"
    by (rule drain_resolves [OF scans_return_quiet [OF assms(1) hk] n]) simp
  moreover have "resolves pid g (stop_with root pid e g)" for e
    by (rule resolves_stop [OF scans_return_quiet [OF assms(1) hg]])
  ultimately show ?thesis
    using g k hg hk by (cases f) (auto simp: collect_child_output_def intro: resolves_after)
qed

section \<open>The adapter never outlives its call\<close>

text \<open>A host whose processes never change, whose clock ticks, and which has nothing to do.\<close>

definition no_info :: proc_info where
  "no_info = \<lparr>pi_bsd = \<lparr>pb_flags = 0, pb_status = 0, pb_xstatus = 0, pb_pid = 0, pb_ppid = 0,
       pb_uid = 0, pb_gid = 0, pb_ruid = 0, pb_rgid = 0, pb_svuid = 0, pb_svgid = 0, pb_rfu_1 = 0,
       pb_comm = [], pb_name = [], pb_nfiles = 0, pb_pgid = 0, pb_pjobc = 0, pb_e_tdev = 0,
       pb_e_tpgid = 0, pb_nice = 0, pb_start_tvsec = 0, pb_start_tvusec = 0\<rparr>,
     pi_unique = \<lparr>pu_uuid = [], pu_unique_id = 0, pu_parent_unique_id = 0, pu_id_version = 0,
       pu_original_parent_id_version = 0, pu_reserved = [0, 0]\<rparr>\<rparr>"

definition idle_host :: host where
  "idle_host = \<lparr>h_looks = 0, h_target = Linux, h_pidinfo = (\<lambda>_ _. (0, no_info)),
     h_childpids = (\<lambda>_ _. (0, [])), h_audit = (\<lambda>_. None), h_token = (\<lambda>_ _. None), h_proc = (\<lambda>_. Some []), h_stat = (\<lambda>_ _. None),
     h_open = (\<lambda>_ _. None), h_send = (\<lambda>_ _. False), h_lock = (\<lambda>_. True),
     h_wait = (\<lambda>_. Some True), h_now = (\<lambda>i. i), h_fcntl = (\<lambda>_. Inr ()),
     h_read = (\<lambda>_. PipeBytes []), h_exited = (\<lambda>_. Inr True), h_spawn = (\<lambda>_. Inr 7),
     h_pipe = (\<lambda>_. True), h_write = (\<lambda>_ _. Inr ()), h_rounds = 1, h_signals = []\<rparr>"

lemma idle_scans: "scans_return idle_host"
  by (auto simp: scans_return_def descendant_processes_def idle_host_def descend.simps
      direct_child_pids_def children_seen_def look_def listed_children_def)

lemma idle_time: "time_passes idle_host"
  by (auto simp: time_passes_def idle_host_def)

text \<open>
  C36: When time passes and the scans of the process table return, \<open>submit\<close> returns. If the
  adapter was spawned, then whatever fails afterwards, the last two things done are the kill and
  the reaping of the child, at most 16 KiB of output are returned, and only processes and process
  groups were signalled before; if it was not, the error is returned and nothing is signalled.
\<close>

theorem adapter_never_outlives:
  assumes "scans_return h" and "time_passes h"
  shows "\<exists>r g. run_adapter deadline encoded h = Some (r, g) \<and> bounded_output r
    \<and> (case h_spawn h (h_looks h) of
         Inl e \<Rightarrow> r = Inl e \<and> h_signals g = h_signals h
       | Inr pid \<Rightarrow> \<exists>s. h_signals g = h_signals h @ s @ [KillChild pid, Reap pid]
           \<and> set s \<subseteq> range KillProcess \<union> range KillGroup)"
proof (cases "h_spawn h (h_looks h)")
  case (Inl e)
  then show ?thesis by (simp add: run_adapter_def look_def bounded_output_def)
next
  case (Inr pid)
  define h1 where "h1 = h\<lparr>h_looks := Suc (h_looks h)\<rparr>"
  obtain root h2 where h2: "process_identity_at pid h1 = (root, h2)" by fastforce
  obtain stdin h3 where h3: "look h_pipe h2 = (stdin, h3)" by fastforce
  obtain written h4 where h4: "look (\<lambda>h i. h_write h i encoded) h3 = (written, h4)" by fastforce
  obtain stdout h5 where h5: "look h_pipe h4 = (stdout, h5)" by fastforce
  obtain t h6 where h6: "look h_now h5 = (t, h6)" by fastforce
  have h1: "look h_spawn h = (Inr pid, h1)" using Inr by (simp add: look_def h1_def)
  note q2 = quiet_trans [OF quiet_look [OF h1] quiet_identity [OF h2]]
  note q3 = quiet_trans [OF q2 quiet_look [OF h3]]
  note q4 = quiet_trans [OF q3 quiet_look [OF h4]]
  note q5 = quiet_trans [OF q4 quiet_look [OF h5]]
  note q6 = quiet_trans [OF q5 quiet_look [OF h6]]
  have stop: "resolves pid h (stop_with root pid e k)" if "quiet h k" for e k
    by (rule resolves_after [OF that resolves_stop [OF scans_return_quiet [OF assms(1) that]]])
  have go: "resolves pid h (collect_child_output root pid d h6)" for d
    by (rule resolves_after [OF q6 collect_resolves
          [OF scans_return_quiet [OF assms(1) q6] time_passes_quiet [OF assms(2) q6]]])
  have "resolves pid h (run_adapter deadline encoded h)"
    using h1 h2 h3 h4 h5 h6 stop [OF q3] stop [OF q4] stop [OF q5] stop [OF q6] go
    by (cases stdin; cases written; cases stdout) (simp_all add: run_adapter_def)
  with Inr show ?thesis by (auto simp: resolves_def cleaned_up_def host_after_def)
qed

theorem adapter_never_outlives_witness:
  "\<exists>r g. run_adapter 5 ''x'' idle_host = Some (r, g) \<and> bounded_output r
    \<and> (case h_spawn idle_host (h_looks idle_host) of
         Inl e \<Rightarrow> r = Inl e \<and> h_signals g = h_signals idle_host
       | Inr pid \<Rightarrow> \<exists>s. h_signals g = h_signals idle_host @ s @ [KillChild pid, Reap pid]
           \<and> set s \<subseteq> range KillProcess \<union> range KillGroup)"
  by (rule adapter_never_outlives [OF idle_scans idle_time])

section \<open>Names\<close>

text \<open>A line of \<open>/proc/<pid>/stat\<close>: the pid, the name in parentheses, the other fields.\<close>

definition stat_line :: "nat \<Rightarrow> string \<Rightarrow> string list \<Rightarrow> string" where
  "stat_line pid comm fs =
     show_nat pid @ '' ('' @ comm @ '') '' @ join_with '' '' fs @ [CHR 0x0A]"

definition stat_fields :: "string list \<Rightarrow> bool" where
  "stat_fields fs \<longleftrightarrow> list_all (\<lambda>f. plain_word f \<and> CHR '')'' \<notin> set f) fs"

lemma join_no_paren: "stat_fields fs \<Longrightarrow> CHR '')'' \<notin> set (join_with '' '' fs)"
  by (induction fs rule: induct_list012) (auto simp: stat_fields_def)

lemma stat_word_line:
  assumes "stat_fields fs"
  shows "stat_word n (stat_line pid comm fs) = (if n < length fs then Some (fs ! n) else None)"
proof -
  let ?after = "join_with '' '' fs @ [CHR 0x0A]"
  have "CHR '')'' \<notin> set ?after" using join_no_paren [OF assms] by simp
  then have "rsplit_once '') '' ((show_nat pid @ '' ('' @ comm) @ '') '' @ ?after)
      = Some (show_nat pid @ '' ('' @ comm, ?after)"
    by (intro rsplit_once_last [where p = "CHR '')''" and ps = "'' ''"]) simp_all
  moreover have "split_whitespace ?after = fs"
    using assms by (intro split_join)
      (auto simp: stat_fields_def list_all_iff trim_start.simps space_length_def byte_def Let_def)
  ultimately show ?thesis by (simp add: stat_word_def stat_line_def)
qed

text \<open>
  C39: A process cannot forge what the tracker reads about it by choosing its name: whatever the
  name holds, parentheses and white space included, the parent pid and the start time are read
  from the fields the kernel writes after it.
\<close>

theorem names_cannot_forge:
  assumes "stat_fields fs" and "19 < length fs"
    and "fs ! 1 = show_nat parent" and "parent \<le> u32_max"
    and "fs ! 19 = show_nat started" and "started \<le> u128_max"
  shows "identity_of_stat pid (stat_line pid comm fs) = Some (ProcessIdentity pid started)
    \<and> parent_of_stat (stat_line pid comm fs) = Some parent"
  using assms
  by (simp add: identity_of_stat_def parent_of_stat_def stat_word_line ok_number_def parse_show_nat)

definition sample_fields :: "nat \<Rightarrow> nat \<Rightarrow> string list" where
  "sample_fields parent started =
     ''S'' # show_nat parent # replicate 17 ''0'' @ [show_nat started, ''0'']"

lemma plain_letters [simp]: "plain_word ''S''" "plain_word ''0''"
  by (simp_all add: plain_word_def visible_def byte_def)

lemma sample_fields_ok [simp]:
  "stat_fields (sample_fields parent started)" "19 < length (sample_fields parent started)"
  "sample_fields parent started ! 1 = show_nat parent"
  "sample_fields parent started ! 19 = show_nat started"
  by (auto simp: sample_fields_def stat_fields_def plain_show_nat show_nat_no_paren nth_append
      list_all_iff)

theorem names_cannot_forge_witness:
  "identity_of_stat 8 (stat_line 8 '') S 1 ('' (sample_fields 7 42)) = Some (ProcessIdentity 8 42)
    \<and> parent_of_stat (stat_line 8 '') S 1 ('' (sample_fields 7 42)) = Some 7"
  by (rule names_cannot_forge [OF sample_fields_ok(1,2,3) _ sample_fields_ok(4)])
    (simp_all add: u32_max_def u128_max_def)

section \<open>Signals\<close>

text \<open>
  The processes a host was ever seen to have below \<open>root\<close>: a child found by some look at its
  parent's children, with an identity read by some look at the process.
\<close>

inductive descends :: "(nat \<Rightarrow> nat \<Rightarrow> nat list) \<Rightarrow> nat \<Rightarrow> nat \<Rightarrow> bool" for children root where
  descends_root: "descends children root root"
| descends_child: "descends children root q \<Longrightarrow> c \<in> set (children i q) \<Longrightarrow> descends children root c"

definition observed ::
  "(nat \<Rightarrow> nat \<Rightarrow> nat list) \<Rightarrow> (nat \<Rightarrow> nat \<Rightarrow> process_identity option) \<Rightarrow> nat
     \<Rightarrow> process_identity \<Rightarrow> bool" where
  "observed children identity root x \<longleftrightarrow>
     (\<exists>q i. descends children root q \<and> id_pid x \<in> set (children i q))
     \<and> (\<exists>i. identity i (id_pid x) = Some x)"

lemma identity_of_stat_pid: "identity_of_stat pid t = Some x \<Longrightarrow> id_pid x = pid"
  by (auto simp: identity_of_stat_def bind_eq_Some_conv)

lemma identity_pid: "identity_seen h i pid = Some x \<Longrightarrow> id_pid x = pid"
  by (auto simp: identity_seen_def identity_of_stat_def identity_of_info_def bind_eq_Some_conv
      split: target.splits)

lemma note_observed:
  assumes "note_children cs p f h = (p', f', g)"
    and "\<forall>c \<in> set cs. \<exists>q i. descends (children_seen h) root q \<and> c \<in> set (children_seen h i q)"
    and "\<forall>q \<in> set p. descends (children_seen h) root q"
    and "\<forall>x \<in> set f. observed (children_seen h) (identity_seen h) root x"
  shows "(\<forall>q \<in> set p'. descends (children_seen h) root q)
    \<and> (\<forall>x \<in> set f'. observed (children_seen h) (identity_seen h) root x)"
  using assms
proof (induction cs arbitrary: p f h)
  case (Cons c cs)
  show ?case
  proof (cases "c \<in> id_pid ` set f")
    case True
    with Cons.prems(1) have "note_children cs p f h = (p', f', g)" by simp
    from Cons.IH [OF this _ Cons.prems(3,4)] Cons.prems(2) show ?thesis
      by (meson list.set_intros(2))
  next
    case False
    obtain o' k where k: "process_identity_at c h = (o', k)" by fastforce
    note q = quiet_fields [OF quiet_identity [OF k]]
    from k have o': "o' = identity_seen h (h_looks h) c"
      by (simp add: process_identity_at_def look_def)
    let ?f = "case o' of None \<Rightarrow> f | Some x \<Rightarrow> f @ [x]"
    have c: "descends (children_seen h) root c" using Cons.prems(2) by (auto intro: descends_child)
    have "\<forall>x \<in> set ?f. observed (children_seen h) (identity_seen h) root x"
    proof (cases o')
      case (Some x)
      then have "id_pid x = c" using o' by (auto dest: identity_pid)
      with Some o' Cons.prems(2) have "observed (children_seen h) (identity_seen h) root x"
        unfolding observed_def by auto
      with Some Cons.prems(4) show ?thesis by auto
    qed (use Cons.prems(4) in simp)
    moreover have "note_children cs (c # p) ?f k = (p', f', g)"
      using Cons.prems(1) k False by simp
    moreover have "\<forall>q \<in> set (c # p). descends (children_seen h) root q" using c Cons.prems(3) by simp
    moreover have "\<forall>c \<in> set cs. \<exists>q i. descends (children_seen h) root q \<and> c \<in> set (children_seen h i q)"
      using Cons.prems(2) by simp
    ultimately show ?thesis using Cons.IH [of "c # p" ?f k, unfolded q(1,2)] by blast
  qed
qed simp

lemma descend_observed:
  assumes "descend p f h = Some (xs, g)"
    and "\<forall>q \<in> set p. descends (children_seen h) root q"
    and "\<forall>x \<in> set f. observed (children_seen h) (identity_seen h) root x"
  shows "\<forall>x \<in> set xs. observed (children_seen h) (identity_seen h) root x"
proof -
  have "(\<forall>q \<in> set p. descends (children_seen h) root q) \<Longrightarrow>
    (\<forall>x \<in> set f. observed (children_seen h) (identity_seen h) root x) \<Longrightarrow>
    (\<forall>x \<in> set (fst (xs, g)). observed (children_seen h) (identity_seen h) root x)"
    using assms(1)
  proof (induction rule: descend.raw_induct [rotated, consumes 1, case_names step])
    case (step descend p f h r)
    show ?case
    proof (cases p)
      case Nil
      with step.prems step.hyps show ?thesis by auto
    next
      case (Cons q qs)
      obtain cs k where k: "direct_child_pids q h = (cs, k)" by fastforce
      obtain p' f' l where l: "note_children cs qs f k = (p', f', l)"
        by (metis prod.exhaust)
      note hk = quiet_fields [OF quiet_children [OF k]]
      note kl = quiet_fields [OF quiet_note [OF l]]
      from k have cs: "cs = children_seen h (h_looks h) q"
        by (simp add: direct_child_pids_def look_def)
      have "(\<forall>q \<in> set p'. descends (children_seen h) root q)
          \<and> (\<forall>x \<in> set f'. observed (children_seen h) (identity_seen h) root x)"
        using note_observed [OF l, of root] step.prems Cons cs hk by auto
      with step.IH [of p' f' l r] step.hyps Cons k l hk kl show ?thesis by simp
    qed
  qed
  with assms(2,3) show ?thesis by simp
qed

lemma descendants_observed:
  "descendant_processes root h = Some (xs, g) \<Longrightarrow> x \<in> set xs \<Longrightarrow> observed (children_seen h) (identity_seen h) root x"
  using descend_observed [of "[root]" "[]" h xs g root]
  by (auto simp: descendant_processes_def intro: descends_root)

lemma set_extend [simp]: "set (extend xs ys) = set xs \<union> set ys"
  by (simp add: extend_def)

lemma watch_observed:
  "watch root n xs h = Some (ys, g) \<Longrightarrow> y \<in> set ys \<Longrightarrow>
     y \<in> set xs \<or> observed (children_seen h) (identity_seen h) root y"
proof (induction n arbitrary: xs h)
  case (Suc n)
  obtain b k where k: "look h_lock h = (b, k)" by fastforce
  note hk = quiet_fields [OF quiet_look [OF k]]
  show ?case
  proof (cases b)
    case True
    with Suc.prems(1) k obtain zs l where l: "descendant_processes root k = Some (zs, l)"
      and rest: "watch root n (extend xs zs) l = Some (ys, g)"
      by (auto simp: bind_eq_Some_conv)
    from Suc.IH [OF rest Suc.prems(2)] descendants_observed [OF l, of y] hk
      quiet_fields [OF quiet_descendants [OF l]]
    show ?thesis by auto
  next
    case False
    with Suc.prems(1) k have "watch root n xs k = Some (ys, g)" by simp
    from Suc.IH [OF this Suc.prems(2)] hk show ?thesis by simp
  qed
qed simp

text \<open>
  What the kernels document, for the processes \<open>live\<close> has at each moment: a pidfd refers to the
  process that has the pid when it is opened, a stat file or a \<open>proc_pidinfo\<close> describes the process
  that has the pid when it is read, a signal through a pidfd is delivered only while its process
  lives, and a process that is there at two moments is there between them (a pid is reused by
  another process only after the first has gone, and the pid with the start time names one
  process). On macOS a signal with an audit token reaches the process with the token's pid and pid
  version only, which is the one that \<open>proc_pidinfo\<close> reports with this version.
\<close>

definition honest :: "(nat \<Rightarrow> nat \<Rightarrow> process_identity option) \<Rightarrow> host \<Rightarrow> bool" where
  "honest live h \<longleftrightarrow>
     (\<forall>i pid x. h_open h i pid = Some x \<longrightarrow> id_pid x = pid \<and> live i pid = Some x)
     \<and> (\<forall>i pid x. identity_seen h i pid = Some x \<longrightarrow> live i pid = Some x)
     \<and> (\<forall>i x. h_send h i x \<longrightarrow> live i (id_pid x) = Some x)
     \<and> (\<forall>i j k pid x. i \<le> j \<and> j \<le> k \<and> live i pid = Some x \<and> live k pid = Some x
          \<longrightarrow> live j pid = Some x)
     \<and> (\<forall>i j pid info token p. macos_process_info pid (h_pidinfo h i pid) = Some info
          \<and> h_token h j token = Some p \<and> token ! 5 = pid
          \<and> token ! 7 = as_u32 (pu_id_version (pi_unique info))
          \<longrightarrow> p = ProcessIdentity pid (pu_unique_id (pi_unique info)))"

lemma host_after_oracles:
  assumes "host_after s h g"
  shows "h_open g = h_open h" and "identity_seen g = identity_seen h" and "h_send g = h_send h"
    and "h_pidinfo g = h_pidinfo h" and "h_token g = h_token h"
    and "children_seen g = children_seen h" and "h_signals g = h_signals h @ s"
  using assms by (auto simp: host_after_def children_seen_def identity_seen_def fun_eq_iff
      split: target.split)

lemma honestD:
  assumes "honest live h"
  shows "h_open h i pid = Some x \<Longrightarrow> id_pid x = pid" and "h_open h i pid = Some x \<Longrightarrow> live i pid = Some x"
    and "identity_seen h i pid = Some x \<Longrightarrow> live i pid = Some x"
    and "h_send h i x \<Longrightarrow> live i (id_pid x) = Some x"
    and "i \<le> j \<Longrightarrow> j \<le> k \<Longrightarrow> live i pid = Some x \<Longrightarrow> live k pid = Some x \<Longrightarrow> live j pid = Some x"
    and "macos_process_info pid (h_pidinfo h i pid) = Some info \<Longrightarrow> h_token h j token = Some p \<Longrightarrow>
      token ! 5 = pid \<Longrightarrow> token ! 7 = as_u32 (pu_id_version (pi_unique info)) \<Longrightarrow>
      p = ProcessIdentity pid (pu_unique_id (pi_unique info))"
proof -
  note h1 = assms [unfolded honest_def]
  note h2 = h1 [THEN conjunct2]
  note h3 = h2 [THEN conjunct2]
  note h4 = h3 [THEN conjunct2]
  note h5 = h4 [THEN conjunct2]
  show "h_open h i pid = Some x \<Longrightarrow> id_pid x = pid"
    and "h_open h i pid = Some x \<Longrightarrow> live i pid = Some x" using h1 [THEN conjunct1] by blast+
  show "identity_seen h i pid = Some x \<Longrightarrow> live i pid = Some x" using h2 [THEN conjunct1] by blast
  show "h_send h i x \<Longrightarrow> live i (id_pid x) = Some x" using h3 [THEN conjunct1] by blast
  show "i \<le> j \<Longrightarrow> j \<le> k \<Longrightarrow> live i pid = Some x \<Longrightarrow> live k pid = Some x \<Longrightarrow> live j pid = Some x"
    using h4 [THEN conjunct1] by blast
  show "macos_process_info pid (h_pidinfo h i pid) = Some info \<Longrightarrow> h_token h j token = Some p \<Longrightarrow>
      token ! 5 = pid \<Longrightarrow> token ! 7 = as_u32 (pu_id_version (pi_unique info)) \<Longrightarrow>
      p = ProcessIdentity pid (pu_unique_id (pi_unique info))" using h5 by blast
qed

lemma honest_follows:
  assumes "honest live h" and "host_after s h g"
  shows "honest live g"
  using assms(1) unfolding honest_def host_after_oracles(1-5) [OF assms(2)] .

text \<open>Each way to signal a process reaches that process only.\<close>

definition exact :: "process_identity \<Rightarrow> host \<Rightarrow> host \<Rightarrow> bool" where
  "exact x h g \<longleftrightarrow> (\<exists>s. host_after s h g \<and> set s \<subseteq> {KillProcess x})"

lemma exact_quiet: "quiet h g \<Longrightarrow> exact x h g"
  unfolding exact_def by (intro exI [of _ "[]"]) (simp add: quiet_follows)

lemma exact_send: "quiet h g \<Longrightarrow> exact x h (send (KillProcess x) g)"
  unfolding exact_def by (intro exI [of _ "[KillProcess x]"]) (simp add: host_after_send)

lemma pidfd_exact:
  assumes "honest live h"
  shows "exact x h (snd (signal_pidfd x h))"
proof -
  obtain d g where g: "look (\<lambda>h i. h_open h i (id_pid x)) h = (d, g)" by fastforce
  obtain b k where k: "process_identity_matches x g = (b, k)" by fastforce
  obtain c l where l: "look (\<lambda>h i. h_send h i (the d)) k = (c, l)" by fastforce
  from quiet_look [OF g] quiet_matches [OF k] have hk: "quiet h k" by (rule quiet_trans)
  from hk quiet_look [OF l] have hl: "quiet h l" by (rule quiet_trans)
  have same: "the d = x" if "d \<noteq> None" "b" "c"
  proof -
    from that(1) obtain y where y: "d = Some y" by blast
    let ?i = "h_looks h"
    have "h_open h ?i (id_pid x) = Some y" using g y by (simp add: look_def)
    then have y1: "id_pid y = id_pid x" "live ?i (id_pid x) = Some y"
      using honestD(1,2) [OF assms] by blast+
    have "identity_seen g (Suc ?i) (id_pid x) = Some x"
      and k2: "k = h\<lparr>h_looks := Suc (Suc ?i)\<rparr>"
      using g k \<open>b\<close> by (auto simp: look_def process_identity_matches_def process_identity_at_def)
    then have "identity_seen h (Suc ?i) (id_pid x) = Some x"
      using quiet_fields(2) [OF quiet_look [OF g]] by simp
    with honestD(3) [OF assms] have x1: "live (Suc ?i) (id_pid x) = Some x" by blast
    have "h_send h (Suc (Suc ?i)) y" using l k2 y \<open>c\<close> by (simp add: look_def)
    with honestD(4) [OF assms] y1(1) have y2: "live (Suc (Suc ?i)) (id_pid x) = Some y" by metis
    have "live (Suc ?i) (id_pid x) = Some y"
      by (rule honestD(5) [OF assms _ _ y1(2) y2]) simp_all
    with x1 y show ?thesis by simp
  qed
  have "snd (signal_pidfd x h) =
      (if d \<noteq> None \<and> b \<and> c then send (KillProcess (the d)) l
       else if d \<noteq> None \<and> b then l else if d \<noteq> None then k else g)"
    using g k l by (cases d; cases b; cases c) (simp_all add: signal_pidfd_def)
  then show ?thesis
    using same exact_quiet [OF quiet_look [OF g]] exact_quiet [OF hk] exact_quiet [OF hl]
      exact_send [OF hl, of x] by (auto split: if_splits)
qed

lemma audit_token_exact:
  assumes "honest live h"
  shows "exact x h (snd (signal_audit_token x h))"
proof -
  obtain f g where g: "look (\<lambda>h i. macos_process_info (id_pid x) (h_pidinfo h i (id_pid x))) h = (f, g)"
    by fastforce
  obtain a k where k: "look h_audit g = (a, k)" by fastforce
  obtain r l where l: "look (\<lambda>h i. h_token h i (audit_token x (the f) (the a))) k = (r, l)" by fastforce
  from quiet_look [OF g] quiet_look [OF k] have hk: "quiet h k" by (rule quiet_trans)
  from hk quiet_look [OF l] have hl: "quiet h l" by (rule quiet_trans)
  have same: "p = x" if "f = Some info" "pu_unique_id (pi_unique info) = id_started x" "a = Some b"
    "r = Some p" for info b p
  proof -
    have "macos_process_info (id_pid x) (h_pidinfo h (h_looks h) (id_pid x)) = Some info"
      "h_token h (Suc (Suc (h_looks h))) (audit_token x info b) = Some p"
      using g k l that by (auto simp: look_def)
    moreover have "audit_token x info b ! 5 = id_pid x"
      "audit_token x info b ! 7 = as_u32 (pu_id_version (pi_unique info))"
      by (simp_all add: audit_token_def)
    ultimately have "p = ProcessIdentity (id_pid x) (pu_unique_id (pi_unique info))"
      by (rule honestD(6) [OF assms])
    with that(2) show ?thesis by simp
  qed
  then show ?thesis
    using g k l exact_quiet [OF quiet_look [OF g]] exact_quiet [OF hk] exact_quiet [OF hl]
      exact_send [OF hl, of x]
    by (cases f; cases a; cases r) (auto simp: signal_audit_token_def)
qed

lemma signal_exact: "honest live h \<Longrightarrow> exact x h (snd (signal_process_if_current x h))"
  using pidfd_exact [of live h x] audit_token_exact [of live h x]
  by (simp add: signal_process_if_current_def exact_quiet split: target.split)

lemma signal_all_exact:
  "honest live h \<Longrightarrow> \<exists>s. host_after s h (signal_all xs h) \<and> set s \<subseteq> KillProcess ` set xs"
proof (induction xs arbitrary: h)
  case Nil
  have "host_after [] h (signal_all [] h)" by (simp add: quiet_follows)
  then show ?case by (intro exI [of _ "[]"]) simp
next
  case (Cons x xs)
  from signal_exact [OF Cons.prems, of x, unfolded exact_def] obtain s where
    s: "host_after s h (snd (signal_process_if_current x h))" "set s \<subseteq> {KillProcess x}" by blast
  from Cons.IH [OF honest_follows [OF Cons.prems s(1)]] obtain t where
    t: "host_after t (snd (signal_process_if_current x h)) (signal_all (x # xs) h)"
      "set t \<subseteq> KillProcess ` set xs" by auto
  have "set (s @ t) \<subseteq> KillProcess ` set (x # xs)" using s(2) t(2) by auto
  with host_after_trans [OF s(1) t(1)] show ?case by blast
qed

lemma group_exact:
  assumes "honest live h"
  shows "\<exists>s. host_after s h (kill_group_if_current root h)
    \<and> set s \<subseteq> {KillGroup (id_pid x) | x i. root = Some x \<and> live i (id_pid x) = Some x}"
proof (cases root)
  case None
  then show ?thesis
    by (intro exI [of _ "[]"]) (simp add: kill_group_if_current_def quiet_follows)
next
  case (Some x)
  obtain b g where m: "process_identity_matches x h = (b, g)" by fastforce
  show ?thesis
  proof (cases b)
    case True
    with m have "identity_seen h (h_looks h) (id_pid x) = Some x"
      by (auto simp: look_def process_identity_matches_def process_identity_at_def)
    with honestD(3) [OF assms] have "live (h_looks h) (id_pid x) = Some x" by blast
    moreover have "host_after [KillGroup (id_pid x)] h (kill_group_if_current root h)"
      using host_after_send [OF quiet_matches [OF m]] Some True m
      by (simp add: kill_group_if_current_def)
    ultimately show ?thesis using Some by (intro exI [of _ "[KillGroup (id_pid x)]"]) auto
  next
    case False
    with quiet_follows [OF quiet_matches [OF m]] Some m show ?thesis
      by (intro exI [of _ "[]"]) (simp add: kill_group_if_current_def)
  qed
qed

text \<open>What the termination of the adapter may send before it kills and reaps the child.\<close>

definition proper_signal ::
  "(nat \<Rightarrow> nat \<Rightarrow> process_identity option) \<Rightarrow> process_identity option \<Rightarrow> nat \<Rightarrow> host \<Rightarrow> signal \<Rightarrow> bool" where
  "proper_signal live root pid h s \<longleftrightarrow>
     (case s of
        KillProcess x \<Rightarrow> observed (children_seen h) (identity_seen h) pid x
      | KillGroup q \<Rightarrow> (\<exists>x i. root = Some x \<and> id_pid x = q \<and> live i q = Some x)
      | _ \<Rightarrow> False)"

lemma signal_tracked_proper:
  assumes "honest live h" and "signal_tracked root pid xs h = Some g"
    and "\<forall>x \<in> set xs. observed (children_seen h) (identity_seen h) pid x"
  shows "\<exists>s. host_after s h g \<and> (\<forall>x \<in> set s. proper_signal live root pid h x)"
proof -
  obtain b k where k: "look h_lock h = (b, k)" by fastforce
  show ?thesis
  proof (cases b)
    case False
    with assms(2) k quiet_follows [OF quiet_look [OF k]] show ?thesis
      by (intro exI [of _ "[]"]) (simp add: signal_tracked_def)
  next
    case True
    with assms(2) k obtain ys l where l: "descendant_processes pid k = Some (ys, l)"
      and g: "g = signal_all (rev (extend xs ys)) (kill_group_if_current root l)"
      by (auto simp: signal_tracked_def bind_eq_Some_conv)
    have hl: "host_after [] h l"
      using quiet_follows [OF quiet_trans [OF quiet_look [OF k] quiet_descendants [OF l]]] .
    note live = honest_follows [OF assms(1) hl]
    from group_exact [OF live, of root] obtain s where
      s: "host_after s l (kill_group_if_current root l)"
        "set s \<subseteq> {KillGroup (id_pid x) | x i. root = Some x \<and> live i (id_pid x) = Some x}" by blast
    from signal_all_exact [OF honest_follows [OF live s(1)], of "rev (extend xs ys)"] obtain t where
      t: "host_after t (kill_group_if_current root l) g" "set t \<subseteq> KillProcess ` (set xs \<union> set ys)"
      using g by auto
    have ys: "observed (children_seen h) (identity_seen h) pid y" if "y \<in> set ys" for y
      using descendants_observed [OF l that] quiet_fields [OF quiet_look [OF k]] by simp
    have "proper_signal live root pid h x" if "x \<in> set s" for x
    proof -
      from that s(2) obtain y i where "x = KillGroup (id_pid y)" "root = Some y"
        "live i (id_pid y) = Some y" by blast
      then show ?thesis by (auto simp: proper_signal_def)
    qed
    moreover have "proper_signal live root pid h x" if "x \<in> set t" for x
    proof -
      from that t(2) obtain y where "x = KillProcess y" "y \<in> set xs \<union> set ys" by blast
      with ys assms(3) show ?thesis by (auto simp: proper_signal_def)
    qed
    moreover have "host_after ([] @ s @ t) h g"
      by (intro host_after_trans [OF hl] host_after_trans [OF s(1) t(1)])
    ultimately show ?thesis by (intro exI [of _ "s @ t"]) auto
  qed
qed

text \<open>
  C37: A signal never reaches a process by accident of a reused pid. When the adapter's process
  tree is terminated, every process signalled is one that a look at the process table showed below
  the adapter, the process group is signalled only while the adapter itself still has its pid,
  and the child is killed and reaped last.
\<close>

theorem signals_reach_descendants_only:
  assumes "honest live h" and "terminate root pid h = Some (st, g)"
  shows "\<exists>s. h_signals g = h_signals h @ s @ [KillChild pid, Reap pid]
    \<and> (\<forall>x \<in> set s. proper_signal live root pid h x)"
proof -
  from assms(2) obtain xs k l where k: "watch pid (h_rounds h) [] h = Some (xs, k)"
    and l: "signal_tracked root pid xs k = Some l"
    and e: "(let (status, h) = look h_wait (send (KillChild pid) l) in
      Some (status, send (Reap pid) h)) = Some (st, g)"
    unfolding terminate_def by (auto simp: bind_eq_Some_conv simp del: Let_def)
  note hk = quiet_follows [OF quiet_watch [OF k]]
  note same = host_after_oracles [OF hk]
  have "\<forall>x \<in> set xs. observed (children_seen k) (identity_seen k) pid x"
    using watch_observed [OF k] same by simp
  from signal_tracked_proper [OF honest_follows [OF assms(1) hk] l this] obtain s where
    s: "host_after s k l" "\<forall>x \<in> set s. proper_signal live root pid k x" by blast
  have "h_signals g = h_signals l @ [KillChild pid, Reap pid]"
    using e by (auto simp: look_def send_def)
  then have "h_signals g = h_signals h @ s @ [KillChild pid, Reap pid]"
    using host_after_oracles(7) [OF s(1)] same by simp
  moreover have "\<forall>x \<in> set s. proper_signal live root pid h x"
    using s(2) same by (simp add: proper_signal_def cong: signal.case_cong)
  ultimately show ?thesis by blast
qed

section \<open>Scanning a settled process table\<close>

text \<open>
  Every look at the children of a process and at its identity gives the same, in whichever
  build; the processes are finitely many.
\<close>

type_synonym children = "nat \<Rightarrow> nat list"
type_synonym identities = "nat \<Rightarrow> process_identity option"

definition all_children :: "children \<Rightarrow> nat set" where
  "all_children kids = (\<Union>q. set (kids q))"

definition settled :: "host \<Rightarrow> children \<Rightarrow> identities \<Rightarrow> bool" where
  "settled h kids ids \<longleftrightarrow> (\<forall>i. children_seen h i = kids) \<and> (\<forall>i. identity_seen h i = ids)
     \<and> finite (all_children kids)"

definition child_relation :: "children \<Rightarrow> (nat \<times> nat) set" where
  "child_relation kids = {(q, c). c \<in> set (kids q)}"

definition identified :: "children \<Rightarrow> identities \<Rightarrow> bool" where
  "identified kids ids \<longleftrightarrow> (\<forall>q. list_all (\<lambda>c. ids c \<noteq> None) (kids q))"

lemma settled_quiet: "settled h kids ids \<Longrightarrow> quiet h g \<Longrightarrow> settled g kids ids"
  by (auto simp: settled_def dest: quiet_fields)

lemma settled_pid: "settled h kids ids \<Longrightarrow> ids c = Some x \<Longrightarrow> id_pid x = c"
  unfolding settled_def by (metis identity_pid)

lemma note_settled:
  assumes "settled h kids ids" and "list_all (\<lambda>c. ids c \<noteq> None) cs"
  shows "\<exists>new g. note_children cs p f h =
      (rev new @ p, f @ map (\<lambda>c. the (ids c)) new, g)
    \<and> quiet h g \<and> distinct new \<and> set new = set cs - id_pid ` set f"
  using assms
proof (induction cs arbitrary: p f h)
  case Nil
  show ?case by (intro exI [of _ "[]"] exI [of _ h]) simp
next
  case (Cons c cs)
  show ?case
  proof (cases "c \<in> id_pid ` set f")
    case True
    from Cons.IH [OF Cons.prems(1), of p f] Cons.prems(2) obtain new g where
      "note_children cs p f h = (rev new @ p, f @ map (\<lambda>c. the (ids c)) new, g)"
      "quiet h g" "distinct new" "set new = set cs - id_pid ` set f" by auto
    with True show ?thesis by (intro exI [of _ new] exI [of _ g]) auto
  next
    case False
    from Cons.prems(2) obtain x where x: "ids c = Some x" by auto
    obtain y k where k: "process_identity_at c h = (y, k)" by fastforce
    with Cons.prems(1) x have y: "y = Some x"
      by (auto simp: process_identity_at_def look_def settled_def)
    have c: "id_pid x = c" using settled_pid [OF Cons.prems(1) x] .
    have "list_all (\<lambda>c. ids c \<noteq> None) cs" using Cons.prems(2) by simp
    from Cons.IH [OF settled_quiet [OF Cons.prems(1) quiet_identity [OF k]] this, of "c # p" "f @ [x]"]
    obtain new g where new: "note_children cs (c # p) (f @ [x]) k =
        (rev new @ c # p, (f @ [x]) @ map (\<lambda>c. the (ids c)) new, g)"
      "quiet k g" "distinct new" "set new = set cs - id_pid ` set (f @ [x])" by blast
    have "note_children (c # cs) p f h =
        (rev (c # new) @ p, f @ map (\<lambda>c. the (ids c)) (c # new), g)"
      using False k y x new(1) by simp
    moreover have "quiet h g" using quiet_trans [OF quiet_identity [OF k] new(2)] .
    moreover have "distinct (c # new)" "set (c # new) = set (c # cs) - id_pid ` set f"
      using new(3,4) c False by auto
    ultimately show ?thesis by blast
  qed
qed

text \<open>The loop's invariant, and the measure it decreases.\<close>

definition scan_invariant ::
  "children \<Rightarrow> identities \<Rightarrow> nat \<Rightarrow> nat list \<Rightarrow> process_identity list \<Rightarrow> bool" where
  "scan_invariant kids ids root p f \<longleftrightarrow> distinct (map id_pid f)
     \<and> (\<forall>x \<in> set f. (root, id_pid x) \<in> (child_relation kids)\<^sup>+ \<and> ids (id_pid x) = Some x)
     \<and> set p \<subseteq> insert root (id_pid ` set f)
     \<and> (\<forall>q \<in> insert root (id_pid ` set f). q \<in> set p \<or> set (kids q) \<subseteq> id_pid ` set f)"

lemma scan_step:
  assumes inv: "scan_invariant kids ids root (q # p) f" and "distinct new"
    and new: "set new = set (kids q) - id_pid ` set f"
    and ids: "\<forall>c \<in> set new. ids c \<noteq> None" and pids: "\<forall>c x. ids c = Some x \<longrightarrow> id_pid x = c"
  shows "scan_invariant kids ids root (rev new @ p) (f @ map (\<lambda>c. the (ids c)) new)"
    and "id_pid ` set (f @ map (\<lambda>c. the (ids c)) new) = id_pid ` set f \<union> set new"
proof -
  have pid: "id_pid (the (ids c)) = c" if "c \<in> set new" for c
    using that ids pids by fastforce
  then have "id_pid ` (\<lambda>c. the (ids c)) ` set new = set new" by (auto simp: image_iff)
  then show names_set: "id_pid ` set (f @ map (\<lambda>c. the (ids c)) new) = id_pid ` set f \<union> set new"
    by (simp add: image_Un)
  have names: "map id_pid (map (\<lambda>c. the (ids c)) new) = new"
    using pid by (simp add: map_idI)
  have q: "(root, c) \<in> (child_relation kids)\<^sup>+" if "c \<in> set new" for c
  proof -
    have "(q, c) \<in> child_relation kids" using that new by (simp add: child_relation_def)
    moreover have "q = root \<or> (root, q) \<in> (child_relation kids)\<^sup>+"
      using inv by (auto simp: scan_invariant_def)
    ultimately show ?thesis by (metis r_into_trancl' trancl.trancl_into_trancl)
  qed
  have "\<forall>x \<in> set (f @ map (\<lambda>c. the (ids c)) new).
      (root, id_pid x) \<in> (child_relation kids)\<^sup>+ \<and> ids (id_pid x) = Some x"
    using inv q pid ids by (auto simp: scan_invariant_def)
  moreover have "distinct (map id_pid (f @ map (\<lambda>c. the (ids c)) new))"
    using inv names assms(2) new by (auto simp: scan_invariant_def simp del: map_map)
  ultimately show "scan_invariant kids ids root (rev new @ p)
      (f @ map (\<lambda>c. the (ids c)) new)"
    unfolding scan_invariant_def names_set using inv new unfolding scan_invariant_def by auto
qed

definition scanned ::
  "children \<Rightarrow> identities \<Rightarrow> nat \<Rightarrow> process_identity list \<Rightarrow> bool" where
  "scanned kids ids root xs \<longleftrightarrow> distinct xs \<and> set xs =
     {x. (root, id_pid x) \<in> (child_relation kids)\<^sup>+ \<and> ids (id_pid x) = Some x}"

lemma scan_done:
  assumes inv: "scan_invariant kids ids root [] f"
  shows "scanned kids ids root f"
proof -
  have closed: "c \<in> id_pid ` set f"
    if "q \<in> insert root (id_pid ` set f)" "(q, c) \<in> child_relation kids" for q c
    using inv that by (auto simp: scan_invariant_def child_relation_def)
  have "c \<in> id_pid ` set f" if "(root, c) \<in> (child_relation kids)\<^sup>+" for c
    using that by induction (auto intro: closed)
  with inv have "set f =
      {x. (root, id_pid x) \<in> (child_relation kids)\<^sup>+ \<and> ids (id_pid x) = Some x}"
    by (fastforce simp: scan_invariant_def)
  with inv show ?thesis by (simp add: scanned_def scan_invariant_def distinct_map)
qed

lemma descend_settled:
  assumes "settled h kids ids" and "identified kids ids" and "scan_invariant kids ids root p f"
    and "id_pid ` set f \<subseteq> all_children kids"
  shows "\<exists>xs g. descend p f h = Some (xs, g) \<and> scanned kids ids root xs"
  using assms
proof (induction "length p + 2 * card (all_children kids - id_pid ` set f)"
    arbitrary: p f h rule: less_induct)
  case less
  show ?case
  proof (cases p)
    case Nil
    with scan_done less.prems(3) show ?thesis by (subst descend.simps) simp
  next
    case (Cons q rest)
    obtain k where k: "direct_child_pids q h = (kids q, k)"
      using less.prems(1) by (simp add: direct_child_pids_def look_def settled_def)
    note ids = less.prems(2) [unfolded identified_def, rule_format, of q]
    from note_settled [OF settled_quiet [OF less.prems(1) quiet_children [OF k]] ids, of rest f]
    obtain new g where new: "note_children (kids q) rest f k =
        (rev new @ rest, f @ map (\<lambda>c. the (ids c)) new, g)"
      "quiet k g" "distinct new" "set new = set (kids q) - id_pid ` set f" by blast
    let ?f = "f @ map (\<lambda>c. the (ids c)) new"
    have named: "\<forall>c \<in> set new. ids c \<noteq> None"
      using ids new(4) by (auto simp: list_all_iff)
    have pids: "\<forall>c x. ids c = Some x \<longrightarrow> id_pid x = c" using settled_pid [OF less.prems(1)] by blast
    note step = scan_step [OF less.prems(3) [unfolded Cons] new(3,4) named pids]
    have finite_all_children: "finite (all_children kids)" using less.prems(1) by (simp add: settled_def)
    have below: "set new \<subseteq> all_children kids - id_pid ` set f"
      using new(4) by (auto simp: all_children_def)
    have "all_children kids - id_pid ` set ?f = (all_children kids - id_pid ` set f) - set new"
      unfolding step(2) by blast
    with below have "card (all_children kids - id_pid ` set ?f) =
        card (all_children kids - id_pid ` set f) - length new"
      using distinct_card [OF new(3)] by (simp only: card_Diff_subset finite_set)
    moreover have "length new \<le> card (all_children kids - id_pid ` set f)"
      using below card_mono [of "all_children kids - id_pid ` set f" "set new"] finite_all_children
        distinct_card [OF new(3)] by auto
    ultimately have "length (rev new @ rest) + 2 * card (all_children kids - id_pid ` set ?f)
        < length p + 2 * card (all_children kids - id_pid ` set f)" using Cons by simp
    from less.hyps [OF this settled_quiet [OF less.prems(1) quiet_trans [OF quiet_children [OF k] new(2)]]
        less.prems(2) step(1)] below less.prems(4) step(2)
    obtain xs l where "descend (rev new @ rest) ?f g = Some (xs, l)" "scanned kids ids root xs" by auto
    with Cons k new(1) show ?thesis by (subst descend.simps) simp
  qed
qed

text \<open>
  C38: On a process table that does not change while it is scanned, and whose entries can be
  read, \<open>descendant_processes\<close> ends, cycles in the table included, and returns each descendant
  of the root, at whatever depth, exactly once and nothing else.
\<close>

theorem scan_finds_descendants:
  assumes "settled h kids ids" and "identified kids ids"
  shows "\<exists>xs g. descendant_processes root h = Some (xs, g) \<and> scanned kids ids root xs"
  unfolding descendant_processes_def
  by (rule descend_settled [OF assms]) (simp_all add: scan_invariant_def)

text \<open>On Linux: a listing and stat files that stay the same.\<close>

type_synonym listing = "(string \<times> string option) list option"

definition identity_in :: "(nat \<Rightarrow> string option) \<Rightarrow> identities" where
  "identity_in stat pid = Option.bind (stat pid) (identity_of_stat pid)"

definition children_in :: "listing \<Rightarrow> children" where
  "children_in t q = listed_children q t"

lemma finite_listed: "finite (all_children (children_in t))"
proof (cases t)
  case (Some es)
  have "all_children (children_in t) \<subseteq> (\<lambda>e. the (ok_number u32_max (fst e))) ` set es"
    using Some by (auto simp: all_children_def children_in_def listed_children_def map_filter_def child_entry_def
        bind_eq_Some_conv image_iff split: if_splits) force
  then show ?thesis by (rule finite_subset) simp
qed (simp add: all_children_def children_in_def listed_children_def)

lemma linux_settled:
  assumes "h_target h = Linux" and "\<forall>i. h_proc h i = t" and "\<forall>i. h_stat h i = stat"
  shows "settled h (children_in t) (identity_in stat)"
  using assms finite_listed [of t]
  by (simp add: settled_def children_seen_def identity_seen_def identity_in_def children_in_def fun_eq_iff)

lemma identity_in_pid: "identity_in stat c = Some x \<Longrightarrow> id_pid x = c"
  by (auto simp: identity_in_def bind_eq_Some_conv dest: identity_of_stat_pid)

text \<open>An adapter with a child whose name imitates the fields of a stat line.\<close>

definition family_stat :: "nat \<Rightarrow> string option" where
  "family_stat pid =
     (if pid = 7 then Some (stat_line 7 ''node'' (sample_fields 1 40))
      else if pid = 8 then Some (stat_line 8 '') S 1 ('' (sample_fields 7 42)) else None)"

definition family_listing :: listing where
  "family_listing =
     Some [(show_nat 7, family_stat 7), (show_nat 8, family_stat 8), (''self'', None)]"

definition family_host :: host where
  "family_host = idle_host\<lparr>h_proc := \<lambda>_. family_listing, h_stat := \<lambda>_. family_stat,
     h_open := \<lambda>_. identity_in family_stat, h_send := \<lambda>_ x. identity_in family_stat (id_pid x) = Some x\<rparr>"

lemma sample_stat:
  "parent \<le> u32_max \<Longrightarrow>
     parent_of_stat (stat_line pid comm (sample_fields parent started)) = Some parent"
  "started \<le> u128_max \<Longrightarrow>
     identity_of_stat pid (stat_line pid comm (sample_fields parent started))
       = Some (ProcessIdentity pid started)"
  using sample_fields_ok(2) [of parent started]
  by (simp_all add: parent_of_stat_def identity_of_stat_def stat_word_line ok_number_def
      parse_show_nat less_trans [of 1 19] del: One_nat_def)

lemma ok_show_nat: "n \<le> mx \<Longrightarrow> ok_number mx (show_nat n) = Some n"
  by (simp add: ok_number_def parse_show_nat)

lemma family_children:
  "listed_children q family_listing = (if q = 1 then [7] else if q = 7 then [8] else [])"
  by (simp add: listed_children_def family_listing_def child_entry_def map_filter_simps
      ok_show_nat family_stat_def sample_stat u32_max_def del: One_nat_def)

lemma family_identities:
  "identity_in family_stat 7 = Some (ProcessIdentity 7 40)"
  "identity_in family_stat 8 = Some (ProcessIdentity 8 42)"
  by (simp_all add: identity_in_def family_stat_def sample_stat u128_max_def)

lemma family_settled:
  "settled (family_host\<lparr>h_looks := n, h_signals := s\<rparr>) (children_in family_listing)
     (identity_in family_stat)"
  "settled family_host (children_in family_listing) (identity_in family_stat)"
  by (rule linux_settled; simp add: family_host_def idle_host_def)+

lemma family_identified: "identified (children_in family_listing) (identity_in family_stat)"
  by (simp add: identified_def children_in_def family_children family_identities)

lemma family_scans: "scans_return family_host"
  unfolding scans_return_def descendant_processes_def
proof (intro allI)
  fix n s pid
  from descend_settled [OF family_settled(1) [of s n] family_identified, of pid "[pid]" "[]"]
  show "descend [pid] [] (family_host\<lparr>h_looks := n, h_signals := s\<rparr>) \<noteq> None"
    by (auto simp: scan_invariant_def)
qed

theorem scan_finds_descendants_witness:
  "\<exists>xs g. descendant_processes 7 family_host = Some (xs, g)
     \<and> scanned (children_in family_listing) (identity_in family_stat) 7 xs"
  by (rule scan_finds_descendants [OF family_settled(2) family_identified])

theorem signals_reach_descendants_only_witness:
  "\<exists>st g s. terminate (Some (ProcessIdentity 7 40)) 7 family_host = Some (st, g)
     \<and> h_signals g = h_signals family_host @ s @ [KillChild 7, Reap 7]
     \<and> list_all (proper_signal (\<lambda>_. identity_in family_stat) (Some (ProcessIdentity 7 40)) 7
          family_host) s"
proof -
  obtain st g where t: "terminate (Some (ProcessIdentity 7 40)) 7 family_host = Some (st, g)"
    using terminate_returns [OF family_scans] by blast
  have "honest (\<lambda>_. identity_in family_stat) family_host"
    by (auto simp: honest_def family_host_def idle_host_def identity_seen_def identity_in_def
        bind_eq_Some_conv dest: identity_of_stat_pid)
  from signals_reach_descendants_only [OF this t] t show ?thesis by (auto simp: list_all_iff)
qed

section \<open>The same family on macOS\<close>

definition mac_info :: "nat \<Rightarrow> nat \<Rightarrow> proc_info" where
  "mac_info pid unique =
     \<lparr>pi_bsd = \<lparr>pb_flags = 0, pb_status = 0, pb_xstatus = 0, pb_pid = pid, pb_ppid = 1, pb_uid = 501,
        pb_gid = 20, pb_ruid = 501, pb_rgid = 20, pb_svuid = 501, pb_svgid = 20, pb_rfu_1 = 0,
        pb_comm = ''node'', pb_name = ''node'', pb_nfiles = 0, pb_pgid = 7, pb_pjobc = 0,
        pb_e_tdev = 0, pb_e_tpgid = 0, pb_nice = 0, pb_start_tvsec = 0, pb_start_tvusec = 0\<rparr>,
      pi_unique = \<lparr>pu_uuid = [], pu_unique_id = unique, pu_parent_unique_id = 0, pu_id_version = int pid,
        pu_original_parent_id_version = 0, pu_reserved = []\<rparr>\<rparr>"

definition mac_live :: identities where
  "mac_live pid = (if pid = 7 then Some (ProcessIdentity 7 40)
     else if pid = 8 then Some (ProcessIdentity 8 42) else None)"

definition mac_children :: children where
  "mac_children q = (if q = 7 then [8] else [])"

definition mac_host :: host where
  "mac_host = idle_host\<lparr>h_target := MacOS,
     h_pidinfo := \<lambda>_ pid. (case mac_live pid of
         None \<Rightarrow> (0, mac_info 0 0) | Some x \<Rightarrow> (proc_info_size, mac_info pid (id_started x))),
     h_childpids := \<lambda>_ q. (int (length (mac_children q)), map int (mac_children q)),
     h_audit := \<lambda>_. Some \<lparr>ai_audit_user_id = 501, ai_mask = \<lparr>am_success = 0, am_failure = 0\<rparr>,
       ai_terminal_id = \<lparr>at_port = 0, at_kind = 0, at_address = []\<rparr>, ai_session_id = -1, ai_flags = 0\<rparr>,
     h_token := \<lambda>_ token. (if token ! 7 = token ! 5 then mac_live (token ! 5) else None)\<rparr>"

lemma mac_settled: "settled mac_host mac_children mac_live"
proof -
  have "all_children mac_children \<subseteq> {8}" by (auto simp: all_children_def mac_children_def split: if_splits)
  then have "finite (all_children mac_children)" by (rule finite_subset) simp
  then show ?thesis
    by (auto simp: settled_def children_seen_def identity_seen_def mac_host_def listed_child_pids_def
        mac_children_def child_buffer_def identity_of_info_def macos_process_info_def mac_live_def
        mac_info_def proc_info_size_def fun_eq_iff)
qed

lemma mac_scan:
  "\<exists>xs g. descendant_processes 7 mac_host = Some (xs, g) \<and> scanned mac_children mac_live 7 xs"
proof -
  have "identified mac_children mac_live" by (simp add: identified_def mac_children_def mac_live_def)
  from descend_settled [OF mac_settled this, of 7 "[7]" "[]"] show ?thesis
    by (simp add: descendant_processes_def scan_invariant_def)
qed

text \<open>What is asked of the system can be kept on macOS too, and the child is signalled there.\<close>

lemma mac_honest: "honest (\<lambda>_. mac_live) mac_host"
proof -
  have seen: "identity_seen mac_host i = mac_live" for i using mac_settled by (simp add: settled_def)
  show ?thesis
    unfolding honest_def seen
    by (auto simp: mac_host_def idle_host_def macos_process_info_def mac_live_def mac_info_def
        as_u32_def split: if_splits)
qed

lemma mac_signals:
  "h_signals (snd (signal_process_if_current (ProcessIdentity 8 42) mac_host))
     = [KillProcess (ProcessIdentity 8 42)]"
  by (simp add: signal_process_if_current_def signal_audit_token_def look_def mac_host_def
      idle_host_def macos_process_info_def mac_live_def mac_info_def audit_token_def as_u32_def
      send_def)

end
