(* ===== verification/Service.thy ===== *)
theory Service
  imports Handoffs "HOL-Library.Multiset"
begin

text \<open>
  The running broker (\<open>serve_command\<close>, \<open>serve_listener\<close> and \<open>handle_connection\<close> in
  \<open>apps/daemon/src/main.rs\<close>) as a step relation: two listeners with their connection counters, any
  number of worker threads, and the mutexes of the treasury and of the admission control. A worker
  waits for the mutex its next stage needs, does the work while it holds it, and releases it; the
  owner's request takes the second mutex while it holds the first.
\<close>

section \<open>Sockets\<close>

text \<open>
  The directory entries the socket paths name: what is there, whether it resolves (\<open>exists\<close> follows
  links), its mode and the group it was given; and the system calls' failures. Two spellings of a path
  may name one place. The modes of the directories above are not modelled.
\<close>

record socket_node =
  sn_kind :: node_kind
  sn_resolves :: bool
  sn_mode :: nat
  sn_group :: "nat option"

record socket_dir =
  so_place :: "string \<Rightarrow> nat"
  so_node :: "nat \<Rightarrow> socket_node option"
  so_fail :: "nat \<Rightarrow> string option"
  so_calls :: nat

type_synonym 'a socket_op = "(socket_dir, string, 'a) action"

definition sk_call :: "unit socket_op" where
  "sk_call = (\<lambda>d. (case so_fail d (so_calls d) of None \<Rightarrow> Inr () | Some e \<Rightarrow> Inl e,
     d\<lparr>so_calls := Suc (so_calls d)\<rparr>))"

definition entry :: "string \<Rightarrow> socket_dir \<Rightarrow> socket_node option" where
  "entry path d = so_node d (so_place d path)"

definition set_entry :: "string \<Rightarrow> socket_node option \<Rightarrow> socket_dir \<Rightarrow> socket_dir" where
  "set_entry path e d = d\<lparr>so_node := (so_node d)(so_place d path := e)\<rparr>"

definition change_entry :: "string \<Rightarrow> (socket_node \<Rightarrow> socket_node) \<Rightarrow> unit socket_op" where
  "change_entry path f = modify (\<lambda>d. set_entry path (map_option f (entry path d)) d)"

definition bind_private_socket :: "string \<Rightarrow> bool \<Rightarrow> unit socket_op" where
  "bind_private_socket path has_parent =
     bind (gets (entry path)) (\<lambda>found.
     bind (case found of
         None \<Rightarrow> ret ()
       | Some node \<Rightarrow>
           if \<not> sn_resolves node then ret ()
           else
           bind sk_call (\<lambda>_.
           if sn_kind node \<noteq> SocketNode
           then fail (''refusing to replace non-socket path '' @ path)
           else bind sk_call (\<lambda>_. modify (set_entry path None)))) (\<lambda>_.
     bind (if has_parent then sk_call else ret ()) (\<lambda>_.
     bind sk_call (\<lambda>_.
     bind (gets (entry path)) (\<lambda>found.
     if found \<noteq> None then fail ''address in use''
     else
     bind (modify (set_entry path (Some \<lparr>sn_kind = SocketNode, sn_resolves = True, sn_mode = 493,
       sn_group = None\<rparr>))) (\<lambda>_.
     bind sk_call (\<lambda>_.
     change_entry path (\<lambda>n. n\<lparr>sn_mode := 384\<rparr>))))))))"

text \<open>\<open>share_with_agent_group\<close> on a socket, and the two sockets of \<open>serve_command\<close>, the agent's first.\<close>

definition share_socket :: "string \<Rightarrow> nat \<Rightarrow> nat \<Rightarrow> unit socket_op" where
  "share_socket path gid mode =
     bind sk_call (\<lambda>_.
     bind (change_entry path (\<lambda>n. n\<lparr>sn_group := Some gid\<rparr>)) (\<lambda>_.
     bind sk_call (\<lambda>_.
     change_entry path (\<lambda>n. n\<lparr>sn_mode := mode\<rparr>))))"

definition open_sockets ::
  "string \<Rightarrow> bool \<Rightarrow> string \<Rightarrow> bool \<Rightarrow> nat option \<Rightarrow> unit socket_op" where
  "open_sockets agent_socket agent_parent owner_socket owner_parent agent_gid =
     bind (bind_private_socket agent_socket agent_parent) (\<lambda>_.
     bind (bind_private_socket owner_socket owner_parent) (\<lambda>_.
     case agent_gid of
       None \<Rightarrow> ret ()
     | Some gid \<Rightarrow>
         bind (if agent_parent then bind sk_call (\<lambda>_. sk_call) else ret ()) (\<lambda>_.
         share_socket agent_socket gid 432)))"

section \<open>Listeners\<close>

definition max_connections :: nat where "max_connections = 32"
definition max_owner_connections :: nat where "max_owner_connections = 8"

record listener_context =
  lc_owner_channel :: bool
  lc_connection_limit :: nat
  lc_reject_broker_uid :: bool

definition owner_context :: listener_context where
  "owner_context = \<lparr>lc_owner_channel = True, lc_connection_limit = max_owner_connections,
     lc_reject_broker_uid = False\<rparr>"

definition agent_context :: "bool \<Rightarrow> listener_context" where
  "agent_context require_separate_agent = \<lparr>lc_owner_channel = False,
     lc_connection_limit = max_connections, lc_reject_broker_uid = require_separate_agent\<rparr>"

text \<open>
  What the threads of one broker share that does not change: the parameters of the model, the
  checkout runtime, the decoder of requests, and whether agents need an identity of their own.
\<close>

record broker =
  br_env :: env
  br_codec :: codec
  br_hash :: "string \<Rightarrow> nat"
  br_runtime :: "runtime option"
  br_parse :: "string \<Rightarrow> string + rpc_request"
  br_separate :: bool

definition context_of :: "broker \<Rightarrow> bool \<Rightarrow> listener_context" where
  "context_of B own = (if own then owner_context else agent_context (br_separate B))"

section \<open>Workers\<close>

text \<open>
  Where a worker is in \<open>handle_connection\<close>. \<open>Reading\<close> has the bytes its peer will send, or the
  error of reading them; a request's token names the capability whose guard it may hold.
\<close>

datatype stage =
    Reading "string cli"
  | OwnerTurn rpc_request
  | OwnerDone rpc_response "(string \<times> int) list"
  | AgentTurn rpc_request
  | CheckingToken rpc_request
  | Unrecognised rpc_request
  | Recognised rpc_request
  | InChannel rpc_request
  | TurnedAway rpc_request
  | Admitted rpc_request
  | Answered rpc_request "string + rpc_response"
  | Leaving "string + rpc_response"
  | Writing rpc_response
  | Ended

definition capability_key :: "broker \<Rightarrow> rpc_request \<Rightarrow> nat" where
  "capability_key B q = br_hash B (capability_fingerprint (br_env B) (rr_token q))"

definition close_with :: "string + rpc_response \<Rightarrow> stage" where
  "close_with r = (case r of Inl _ \<Rightarrow> Ended | Inr response \<Rightarrow> Writing response)"

type_synonym shared = "treasury_state world \<times> admission"

fun worker_step :: "broker \<Rightarrow> connection \<Rightarrow> stage \<Rightarrow> shared \<Rightarrow> stage \<times> shared" where
  "worker_step B n (Reading (Inl e)) s = (Ended, s)"
| "worker_step B n (Reading (Inr input)) s =
     (let frame = read_frame input in
      if max_frame_bytes < length frame \<or> frame = [] \<or> last frame \<noteq> CHR 0x0A
      then (Writing oversize_request, s)
      else case br_parse B frame of
        Inr q \<Rightarrow> (if cn_owner_channel n then OwnerTurn q else AgentTurn q, s)
      | Inl e \<Rightarrow> (Writing (rpc_error ''invalid''
          (redact_sensitive (br_env B) (''invalid request: '' @ e))), s))"
| "worker_step B n (OwnerTurn q) (w, a) =
     (case owner_answer (br_env B) (br_codec B) q w of
        (Inl e, v) \<Rightarrow> (Ended, (v, a))
      | (Inr (response, None), v) \<Rightarrow> (Writing response, (v, a))
      | (Inr (response, Some capabilities), v) \<Rightarrow> (OwnerDone response capabilities, (v, a)))"
| "worker_step B n (OwnerDone response capabilities) (w, a) =
     (Writing response, (w, replace_known_capabilities (br_hash B) a capabilities))"
| "worker_step B n (AgentTurn q) (w, a) =
     (if provider_mode (w_state w) = ManualPrepaidCard \<and> \<not> separate_peer n
      then (Writing (rejected_rpc q ''manual provider requires a separate agent OS identity''), (w, a))
      else (CheckingToken q, (w, a)))"
| "worker_step B n (CheckingToken q) (w, a) =
     (if is_known_capability (br_env B) a (cn_unix_time n) (rr_token q)
      then Recognised q else Unrecognised q, (w, a))"
| "worker_step B n (Unrecognised q) (w, a) =
     (let (admitted, b) = admit_unauthenticated a (cn_t_unauthenticated n) in
      (Writing (rejected_rpc q (if admitted then ''agent capability authentication failed''
         else ''unauthenticated agent request limit exceeded'')), (w, b)))"
| "worker_step B n (Recognised q) (w, a) =
     (let (admitted, b) = admit_channel a (cn_t_channel n) in
      (if admitted then InChannel q
       else Writing (rejected_rpc q ''agent request limit exceeded''), (w, b)))"
| "worker_step B n (InChannel q) (w, a) =
     (let (admitted, b) = admit_capability a (capability_key B q) (cn_t_capability n) in
      (if admitted then Admitted q else TurnedAway q, (w, b)))"
| "worker_step B n (TurnedAway q) (w, a) =
     (Writing (rejected_rpc q ''agent request limit exceeded''), (w, drop_channel a))"
| "worker_step B n (Admitted q) (w, a) =
     (case agent_operation (br_env B) (br_codec B) (br_runtime B) q w of
        (r, v) \<Rightarrow> (Answered q r, (v, a)))"
| "worker_step B n (Answered q r) (w, a) = (Leaving r, (w, drop_capability a (capability_key B q)))"
| "worker_step B n (Leaving r) (w, a) = (close_with r, (w, drop_channel a))"
| "worker_step B n (Writing r) s = (Ended, s)"
| "worker_step B n Ended s = (Ended, s)"

text \<open>
  The mutexes. \<open>needs\<close> is the one a stage's work locks; a request that is refused before it, for the
  form of its token or because it is the owner's, locks none. \<open>carried\<close> are those a worker still holds
  from the stage before.
\<close>

datatype mutex = TreasuryMutex | AdmissionMutex

definition needs :: "stage \<Rightarrow> mutex option" where
  "needs g =
     (case g of
        Reading _ \<Rightarrow> None
      | OwnerTurn _ \<Rightarrow> Some TreasuryMutex
      | OwnerDone _ _ \<Rightarrow> Some AdmissionMutex
      | AgentTurn _ \<Rightarrow> Some TreasuryMutex
      | CheckingToken q \<Rightarrow>
          if length (rr_token q) \<noteq> 64 \<or> \<not> list_all is_ascii_hexdigit (rr_token q) then None
          else Some AdmissionMutex
      | Unrecognised _ \<Rightarrow> Some AdmissionMutex
      | Recognised _ \<Rightarrow> Some AdmissionMutex
      | InChannel _ \<Rightarrow> Some AdmissionMutex
      | TurnedAway _ \<Rightarrow> Some AdmissionMutex
      | Admitted q \<Rightarrow> if requires_owner (rr_operation q) then None else Some TreasuryMutex
      | Answered _ _ \<Rightarrow> Some AdmissionMutex
      | Leaving _ \<Rightarrow> Some AdmissionMutex
      | Writing _ \<Rightarrow> None
      | Ended \<Rightarrow> None)"

definition carried :: "stage \<Rightarrow> mutex set" where
  "carried g = (case g of OwnerDone _ _ \<Rightarrow> {TreasuryMutex} | _ \<Rightarrow> {})"

text \<open>A thread is before its stage's work, or in it, holding the mutex the work needs.\<close>

datatype thread = Before stage | Inside stage

primrec stage_of :: "thread \<Rightarrow> stage" where
  "stage_of (Before g) = g"
| "stage_of (Inside g) = g"

primrec mutexes_of :: "thread \<Rightarrow> mutex set" where
  "mutexes_of (Before g) = carried g"
| "mutexes_of (Inside g) = carried g \<union> set_option (needs g)"

section \<open>The broker's steps\<close>

record listener =
  ls_active :: nat
  ls_refusing :: bool

record service =
  sv_shared :: shared
  sv_locked :: "mutex set"
  sv_listener :: "bool \<Rightarrow> listener"
  sv_workers :: "(connection \<times> thread) multiset"

definition service_start ::
  "treasury_state world \<Rightarrow> (string \<times> int) list \<Rightarrow> nat \<Rightarrow> nat \<Rightarrow> service" where
  "service_start w capabilities t1 t2 =
     \<lparr>sv_shared = (w, admission_new capabilities t1 t2), sv_locked = {},
      sv_listener = (\<lambda>_. \<lparr>ls_active = 0, ls_refusing = False\<rparr>), sv_workers = {#}\<rparr>"

definition set_listener :: "bool \<Rightarrow> listener \<Rightarrow> service \<Rightarrow> service" where
  "set_listener own l s = s\<lparr>sv_listener := (sv_listener s)(own := l)\<rparr>"

definition decide_stream :: "broker \<Rightarrow> connection \<Rightarrow> nat \<Rightarrow> accept_result \<times> nat" where
  "decide_stream B n active =
     (let x = context_of B (cn_owner_channel n) in
      accept_stream (lc_connection_limit x) (lc_reject_broker_uid x) n active)"

text \<open>
  What the threads do by themselves. A worker locks a mutex only when it is free; when its work is
  done it releases what it held, but for what the next stage carries on. A worker that has ended
  still has to decrement the counter of its channel, and a listener whose counter was full has
  incremented it and still has to take that back; in between, other threads may run.
\<close>

inductive thread_step :: "broker \<Rightarrow> service \<Rightarrow> service \<Rightarrow> bool" for B where
  locking: "\<lbrakk>sv_workers s = add_mset (n, Before g) rest; needs g = Some m; m \<notin> sv_locked s\<rbrakk> \<Longrightarrow>
   thread_step B s (s\<lparr>sv_locked := insert m (sv_locked s), sv_workers := add_mset (n, Inside g) rest\<rparr>)"
| working: "\<lbrakk>sv_workers s = add_mset (n, t) rest; t = Inside g \<or> t = Before g \<and> needs g = None \<and> g \<noteq> Ended;
     worker_step B n g (sv_shared s) = (g', shared)\<rbrakk> \<Longrightarrow>
   thread_step B s (s\<lparr>sv_shared := shared, sv_locked := sv_locked s - mutexes_of t \<union> carried g',
     sv_workers := add_mset (n, Before g') rest\<rparr>)"
| ending: "\<lbrakk>sv_workers s = add_mset (n, Before Ended) rest; l = sv_listener s (cn_owner_channel n);
     t = set_listener (cn_owner_channel n) (l\<lparr>ls_active := finish_connection (ls_active l)\<rparr>) s\<rbrakk> \<Longrightarrow>
   thread_step B s (t\<lparr>sv_workers := rest\<rparr>)"
| refused: "\<lbrakk>l = sv_listener s own; ls_refusing l\<rbrakk> \<Longrightarrow>
   thread_step B s (set_listener own (l\<lparr>ls_active := ls_active l - 1, ls_refusing := False\<rparr>) s)"

text \<open>A listener accepts one stream after the other.\<close>

inductive service_step :: "broker \<Rightarrow> service \<Rightarrow> service \<Rightarrow> bool" for B where
  serving: "\<lbrakk>l = sv_listener s (cn_owner_channel n); \<not> ls_refusing l;
     decide_stream B n (ls_active l) = (Served, active);
     t = set_listener (cn_owner_channel n) (l\<lparr>ls_active := active\<rparr>) s\<rbrakk> \<Longrightarrow>
   service_step B s (t\<lparr>sv_workers := add_mset (n, Before (Reading input)) (sv_workers s)\<rparr>)"
| stranger: "\<lbrakk>l = sv_listener s (cn_owner_channel n); \<not> ls_refusing l;
     decide_stream B n (ls_active l) = (WrongIdentity, active)\<rbrakk> \<Longrightarrow> service_step B s s"
| busy: "\<lbrakk>l = sv_listener s (cn_owner_channel n); \<not> ls_refusing l;
     decide_stream B n (ls_active l) = (Busy, active)\<rbrakk> \<Longrightarrow>
   service_step B s (set_listener (cn_owner_channel n)
     (l\<lparr>ls_active := ls_active l + 1, ls_refusing := True\<rparr>) s)"
| moving: "thread_step B s t \<Longrightarrow> service_step B s t"

inductive service_run :: "broker \<Rightarrow> service \<Rightarrow> service \<Rightarrow> bool" for B s where
  here: "service_run B s s"
| more: "service_run B s t \<Longrightarrow> service_step B t u \<Longrightarrow> service_run B s u"

text \<open>Runs of the threads alone, while nothing new is accepted, with their length.\<close>

inductive thread_run :: "broker \<Rightarrow> nat \<Rightarrow> service \<Rightarrow> service \<Rightarrow> bool" for B where
  still: "thread_run B 0 s s"
| further: "thread_run B k s t \<Longrightarrow> thread_step B t u \<Longrightarrow> thread_run B (Suc k) s u"

inductive_cases thread_stepE: "thread_step B s t"

end
