(* ===== verification/Broker.thy ===== *)
theory Broker
  imports Service
begin

text \<open>
  What holds of the running broker whatever the interleaving of its threads: the mutexes exclude each
  other and cannot deadlock, the workers' use of the admission control is a run of its guarded
  protocol, connections and guards are bounded and always given back, and the treasury goes through a
  sequence of persisted requests.
\<close>

section \<open>The mutexes\<close>

text \<open>The locked mutexes are those the workers hold, each held by one of them.\<close>

definition holders :: "mutex \<Rightarrow> (connection \<times> thread) multiset \<Rightarrow> nat" where
  "holders m ws = size (filter_mset (\<lambda>p. m \<in> mutexes_of (snd p)) ws)"

lemma holders_simps [simp]:
  "holders m {#} = 0"
  "holders m (add_mset p ws) = (if m \<in> mutexes_of (snd p) then 1 else 0) + holders m ws"
  by (simp_all add: holders_def)

definition locks_ok :: "service \<Rightarrow> bool" where
  "locks_ok s \<longleftrightarrow> (\<forall>m. holders m (sv_workers s) = (if m \<in> sv_locked s then 1 else 0))"

lemma set_listener_simps [simp]:
  "sv_shared (set_listener own l s) = sv_shared s"
  "sv_locked (set_listener own l s) = sv_locked s"
  "sv_workers (set_listener own l s) = sv_workers s"
  "sv_listener (set_listener own l s) = (sv_listener s)(own := l)"
  by (simp_all add: set_listener_def)

lemma carried_simps [simp]:
  "carried (Reading x) = {}" "carried Ended = {}" "carried (Writing r) = {}"
  "carried (OwnerDone r cs) = {TreasuryMutex}" "carried (close_with y) = {}"
  by (simp_all add: carried_def close_with_def split: sum.split)

text \<open>Only the owner's request carries a mutex on, and it held that one already.\<close>

lemma carried_held:
  assumes "worker_step B n g (w, a) = (g', s')" and "t = Inside g \<or> t = Before g \<and> needs g = None"
  shows "carried g' \<subseteq> mutexes_of t"
proof (cases g)
  case (Reading input)
  with assms show ?thesis
    by (cases input) (auto simp: Let_def carried_def split: if_splits sum.splits)
next
  case (OwnerTurn q)
  with assms show ?thesis
    by (auto simp: needs_def split: prod.splits sum.splits option.splits)
qed (use assms in \<open>auto simp: carried_def close_with_def split: if_splits prod.splits sum.splits\<close>)

lemma locks_ok_thread:
  assumes "thread_step B s t" and ok: "locks_ok s"
  shows "locks_ok t"
  using assms(1)
proof cases
  case (locking n g rest m)
  have "m \<notin> carried g" using ok locking(1,2,4) by (auto simp: locks_ok_def dest: spec [of _ m])
  then show ?thesis using ok locking
    by (auto simp: locks_ok_def split: if_splits)
next
  case (working n u rest g g' shared)
  obtain w a where sh: "sv_shared s = (w, a)" by fastforce
  have c: "carried g' \<subseteq> mutexes_of u"
    using carried_held [OF working(4) [unfolded sh]] working(3) by blast
  show ?thesis
    unfolding locks_ok_def
  proof
    fix m
    have "holders m (add_mset (n, u) rest) = (if m \<in> sv_locked s then 1 else 0)"
      using ok working(2) by (simp add: locks_ok_def)
    with c show "holders m (sv_workers t) = (if m \<in> sv_locked t then 1 else 0)"
      by (auto simp: working(1) split: if_splits)
  qed
qed (use ok in \<open>auto simp: locks_ok_def\<close>)

lemma locks_ok_step:
  assumes "service_step B s t" and ok: "locks_ok s"
  shows "locks_ok t"
  using assms(1)
proof cases
  case moving
  then show ?thesis using ok by (rule locks_ok_thread)
qed (use ok in \<open>auto simp: locks_ok_def\<close>)

lemma locks_ok_run: "service_run B s t \<Longrightarrow> locks_ok s \<Longrightarrow> locks_ok t"
  by (induction rule: service_run.induct) (auto intro: locks_ok_step)

lemma locks_ok_start: "locks_ok (service_start w cs t1 t2)"
  by (simp add: locks_ok_def service_start_def)

text \<open>A build that cannot tell who its peer is serves no agent of a manual provider.\<close>

lemma other_unix_serves_no_agent:
  "cn_target n = OtherUnix \<Longrightarrow> provider_mode (w_state w) = ManualPrepaidCard \<Longrightarrow>
     worker_step B n (AgentTurn q) (w, a) =
       (Writing (rejected_rpc q ''manual provider requires a separate agent OS identity''), (w, a))"
  by (simp add: separate_peer_def peer_effective_uid_def)

section \<open>The admission protocol\<close>

text \<open>
  The guards a worker holds: its place in the agent channel, and the key of its capability.
  \<open>guard_view\<close> sees the service as a state of the admission protocol \<open>adm_step\<close>.
\<close>

definition channel_held :: "stage \<Rightarrow> nat" where
  "channel_held g = (case g of InChannel _ \<Rightarrow> 1 | TurnedAway _ \<Rightarrow> 1 | Admitted _ \<Rightarrow> 1
     | Answered _ _ \<Rightarrow> 1 | Leaving _ \<Rightarrow> 1 | _ \<Rightarrow> 0)"

definition keys_held :: "broker \<Rightarrow> stage \<Rightarrow> nat multiset" where
  "keys_held B g = (case g of Admitted q \<Rightarrow> {#capability_key B q#}
     | Answered q _ \<Rightarrow> {#capability_key B q#} | _ \<Rightarrow> {#})"

definition channel_guards :: "(connection \<times> thread) multiset \<Rightarrow> nat" where
  "channel_guards ws = sum_mset (image_mset (channel_held \<circ> stage_of \<circ> snd) ws)"

definition capability_guards :: "broker \<Rightarrow> (connection \<times> thread) multiset \<Rightarrow> nat multiset" where
  "capability_guards B ws = sum_mset (image_mset (keys_held B \<circ> stage_of \<circ> snd) ws)"

definition guard_view :: "broker \<Rightarrow> service \<Rightarrow> guarded \<Rightarrow> bool" where
  "guard_view B s g \<longleftrightarrow> (case g of (a, c, ks) \<Rightarrow> a = snd (sv_shared s)
     \<and> c = channel_guards (sv_workers s) \<and> mset ks = capability_guards B (sv_workers s))"

lemma guards_add [simp]:
  "channel_guards (add_mset p ws) = channel_held (stage_of (snd p)) + channel_guards ws"
  "capability_guards B (add_mset p ws) = keys_held B (stage_of (snd p)) + capability_guards B ws"
  "channel_guards {#} = 0" "capability_guards B {#} = {#}"
  by (simp_all add: channel_guards_def capability_guards_def)

lemma held_close [simp]: "channel_held (close_with r) = 0" "keys_held B (close_with r) = {#}"
  by (simp_all add: close_with_def channel_held_def keys_held_def split: sum.split)

text \<open>One step of a worker is a step of the protocol, or does nothing to it.\<close>

lemma worker_step_guards:
  assumes "worker_step B n g (w, a) = (g', (v, b))" and "mset ks = keys_held B g + rest"
  shows "\<exists>js. mset js = keys_held B g' + rest
    \<and> ((a, channel_held g + c, ks) = (b, channel_held g' + c, js)
       \<or> adm_step (a, channel_held g + c, ks) (b, channel_held g' + c, js))"
proof (cases g)
  case (Reading input)
  then show ?thesis using assms
    by (cases input)
      (auto simp: Let_def channel_held_def keys_held_def split: if_splits sum.splits)
next
  case (OwnerTurn q)
  then have "b = a" "channel_held g' = 0" "keys_held B g' = {#}"
    using assms(1)
    by (auto simp: channel_held_def keys_held_def split: prod.splits sum.splits option.splits)
  with OwnerTurn assms(2) show ?thesis
    by (intro exI [of _ ks]) (simp add: channel_held_def keys_held_def)
next
  case (OwnerDone r cs)
  with assms adm_step.replace [of a c ks "br_hash B" cs] show ?thesis
    by (intro exI [of _ ks]) (auto simp: channel_held_def keys_held_def)
next
  case (Unrecognised q)
  obtain x y where "admit_unauthenticated a (cn_t_unauthenticated n) = (x, y)" by fastforce
  with adm_step.unauthenticated [OF this] assms Unrecognised show ?thesis
    by (auto simp: channel_held_def keys_held_def)
next
  case (Recognised q)
  obtain x y where "admit_channel a (cn_t_channel n) = (x, y)" by fastforce
  with adm_step.channel adm_step.channel_refused assms Recognised show ?thesis
    by (cases x) (fastforce simp: channel_held_def keys_held_def)+
next
  case (InChannel q)
  obtain x y where xy: "admit_capability a (capability_key B q) (cn_t_capability n) = (x, y)" by fastforce
  show ?thesis
  proof (cases x)
    case True
    with adm_step.capability [of a _ _ b "channel_held g + c" ks] assms InChannel xy show ?thesis
      by (intro exI [of _ "capability_key B q # ks"])
        (auto simp: channel_held_def keys_held_def)
  next
    case False
    with adm_step.capability_refused [of a _ _ b "channel_held g + c" ks] assms InChannel xy show ?thesis
      by (intro exI [of _ ks]) (auto simp: channel_held_def keys_held_def)
  qed
next
  case (TurnedAway q)
  with adm_step.drop_ch [of a c ks] assms show ?thesis
    by (auto simp: channel_held_def keys_held_def)
next
  case (Leaving r)
  then have "g' = close_with r" "b = drop_channel a" "channel_held g = 1" "keys_held B g = {#}"
    using assms(1) by (simp_all add: channel_held_def keys_held_def)
  with adm_step.drop_ch [of a c ks] assms(2) show ?thesis
    by (intro exI [of _ ks]) simp
next
  case (Answered q r)
  then have ks: "mset ks = add_mset (capability_key B q) rest"
    using assms(2) by (simp add: keys_held_def)
  then have "capability_key B q \<in> set ks" and "mset ks - {#capability_key B q#} = rest"
    by (metis set_mset_mset union_single_eq_member, simp)
  with adm_step.drop_cap [of "capability_key B q" ks a "channel_held g + c"] assms Answered show ?thesis
    by (intro exI [of _ "remove1 (capability_key B q) ks"])
      (auto simp: channel_held_def keys_held_def)
qed (use assms in \<open>auto simp: channel_held_def keys_held_def split: if_splits prod.splits\<close>)

lemma thread_step_guards:
  assumes "thread_step B s t" and "guard_view B s g"
  shows "\<exists>h. guard_view B t h \<and> (h = g \<or> adm_step g h)"
  using assms(1)
proof cases
  case (working n u rest st st' shared)
  obtain w a where sh: "sv_shared s = (w, a)" by fastforce
  obtain v b where sh': "shared = (v, b)" by fastforce
  have st: "stage_of u = st" using working(3) by auto
  obtain ks where g: "g = (a, channel_held st + channel_guards rest, ks)"
    and ks: "mset ks = keys_held B st + capability_guards B rest"
    using assms(2) sh working(2) by (auto simp: guard_view_def st)
  from worker_step_guards [OF working(4) [unfolded sh sh'] ks, of "channel_guards rest"] obtain js where
    "mset js = keys_held B st' + capability_guards B rest"
    "g = (b, channel_held st' + channel_guards rest, js)
      \<or> adm_step g (b, channel_held st' + channel_guards rest, js)"
    unfolding g by blast
  then show ?thesis
    by (intro exI [of _ "(b, channel_held st' + channel_guards rest, js)"])
      (auto simp: guard_view_def working(1) sh')
next
  case (locking n st rest m)
  then show ?thesis using assms(2)
    by (intro exI [of _ g]) (simp add: guard_view_def split: prod.splits)
next
  case (ending n rest l t')
  then show ?thesis using assms(2)
    by (intro exI [of _ g]) (simp add: guard_view_def channel_held_def keys_held_def split: prod.splits)
qed (use assms(2) in \<open>auto simp: guard_view_def\<close>)

lemma service_step_guards:
  assumes "service_step B s t" and "guard_view B s g"
  shows "\<exists>h. guard_view B t h \<and> (h = g \<or> adm_step g h)"
  using assms(1)
proof cases
  case moving
  then show ?thesis using assms(2) by (rule thread_step_guards)
qed (use assms(2) in \<open>auto simp: guard_view_def channel_held_def keys_held_def\<close>)

lemma reached_view:
  "service_run B (service_start w capabilities t1 t2) s \<Longrightarrow> \<exists>g. adm_reach g \<and> guard_view B s g"
proof (induction rule: service_run.induct)
  case here
  have "adm_reach (admission_new capabilities t1 t2, 0, [])" by (rule adm_reach.start)
  then show ?case by (intro exI conjI) (auto simp: guard_view_def service_start_def)
next
  case (more t u)
  then obtain g where g: "adm_reach g" "guard_view B t g" by blast
  from service_step_guards [OF more.hyps(2) g(2)] g(1) show ?case
    by (auto intro: adm_reach.step)
qed

text \<open>
  C6: The threads of the broker run the guarded admission protocol. Whatever the interleaving,
  the admission state with the channel and capability guards that the workers hold is a state the
  protocol \<open>adm_step\<close> reaches from a new admission control, and each step of the service is one step
  of the protocol or leaves it alone: no guard is dropped twice, leaked, or held without admission.
\<close>

theorem service_refines_admission:
  assumes "service_run B (service_start w capabilities t1 t2) s"
  shows "\<exists>g. adm_reach g \<and> guard_view B s g
    \<and> (\<forall>t. service_step B s t \<longrightarrow> (\<exists>h. guard_view B t h \<and> (h = g \<or> adm_step g h)))"
  using reached_view [OF assms] service_step_guards by blast

section \<open>Slots and guards\<close>

definition workers_of :: "bool \<Rightarrow> (connection \<times> thread) multiset \<Rightarrow> nat" where
  "workers_of own ws = size (filter_mset (\<lambda>p. cn_owner_channel (fst p) = own) ws)"

lemma workers_of_simps [simp]:
  "workers_of own {#} = 0"
  "workers_of own (add_mset p ws) =
     (if cn_owner_channel (fst p) = own then 1 else 0) + workers_of own ws"
  by (simp_all add: workers_of_def)

definition slots_ok :: "broker \<Rightarrow> service \<Rightarrow> bool" where
  "slots_ok B s \<longleftrightarrow> (\<forall>own.
     ls_active (sv_listener s own) = workers_of own (sv_workers s)
        + (if ls_refusing (sv_listener s own) then 1 else 0)
     \<and> workers_of own (sv_workers s) \<le> lc_connection_limit (context_of B own))"

lemma decide_served:
  "decide_stream B n active = (Served, k) \<Longrightarrow>
     k = Suc active \<and> active < lc_connection_limit (context_of B (cn_owner_channel n))"
  by (auto simp: decide_stream_def accept_stream_def Let_def split: if_splits)

lemma slots_ok_thread:
  assumes "thread_step B s t" and "slots_ok B s"
  shows "slots_ok B t"
  unfolding slots_ok_def
proof
  fix own
  have old: "ls_active (sv_listener s own) = workers_of own (sv_workers s)
      + (if ls_refusing (sv_listener s own) then 1 else 0)"
    "workers_of own (sv_workers s) \<le> lc_connection_limit (context_of B own)"
    using assms(2) by (simp_all add: slots_ok_def)
  from assms(1) show "ls_active (sv_listener t own) = workers_of own (sv_workers t)
      + (if ls_refusing (sv_listener t own) then 1 else 0)
    \<and> workers_of own (sv_workers t) \<le> lc_connection_limit (context_of B own)"
  proof cases
    case (ending n rest l t')
    with old show ?thesis by (auto simp: finish_connection_def split: if_splits)
  qed (use old in \<open>auto split: if_splits\<close>)
qed

lemma slots_ok_step:
  assumes "service_step B s t" and ok: "slots_ok B s"
  shows "slots_ok B t"
  using assms(1)
proof cases
  case (serving l n active t' input)
  with decide_served [OF serving(4)] ok show ?thesis by (auto simp: slots_ok_def)
next
  case moving
  then show ?thesis using ok by (rule slots_ok_thread)
qed (use ok in \<open>auto simp: slots_ok_def\<close>)

lemma slots_ok_run:
  "service_run B s t \<Longrightarrow> slots_ok B s \<Longrightarrow> slots_ok B t"
  by (induction rule: service_run.induct) (auto intro: slots_ok_step)

lemma slots_ok_start [simp]: "slots_ok B (service_start w cs t1 t2)"
  by (simp add: slots_ok_def service_start_def)

lemma guards_bounded:
  assumes "service_run B (service_start w capabilities t1 t2) s"
  shows "channel_guards (sv_workers s) \<le> max_channel_in_flight
    \<and> (\<forall>k. count (capability_guards B (sv_workers s)) k \<le> 1)"
proof -
  obtain a c ks where "adm_reach (a, c, ks)" and v: "guard_view B s (a, c, ks)"
    using reached_view [OF assms] by (metis prod_cases3)
  then have "adm_inv (a, c, ks)" by (intro adm_inv_reach)
  then have "c \<le> max_channel_in_flight" and d: "distinct ks" by (simp_all add: adm_inv_def)
  moreover have "count (mset ks) k \<le> 1" for k
    using d by (simp add: distinct_count_atmost_1)
  ultimately show ?thesis using v by (simp add: guard_view_def)
qed

text \<open>
  C17: The broker's work is bounded in every interleaving. A channel has at most its limit of
  workers, its counter is their number (one more while a stream is being refused), at most
  \<open>max_channel_in_flight\<close> workers hold a place in the agent channel, no two work for the same
  capability at a time, and no two hold the same mutex.
\<close>

theorem connections_are_bounded:
  assumes "service_run B (service_start w capabilities t1 t2) s"
  shows "workers_of own (sv_workers s) \<le> (if own then max_owner_connections else max_connections)
    \<and> ls_active (sv_listener s own) = workers_of own (sv_workers s)
        + (if ls_refusing (sv_listener s own) then 1 else 0)
    \<and> channel_guards (sv_workers s) \<le> max_channel_in_flight
    \<and> count (capability_guards B (sv_workers s)) k \<le> 1
    \<and> holders m (sv_workers s) \<le> 1"
proof -
  have "locks_ok s" by (rule locks_ok_run [OF assms locks_ok_start])
  then have "holders m (sv_workers s) \<le> 1" by (simp add: locks_ok_def)
  moreover have "slots_ok B s" by (rule slots_ok_run [OF assms]) simp
  then have "workers_of own (sv_workers s) \<le> lc_connection_limit (context_of B own)
      \<and> ls_active (sv_listener s own) = workers_of own (sv_workers s)
        + (if ls_refusing (sv_listener s own) then 1 else 0)"
    by (simp add: slots_ok_def)
  ultimately show ?thesis
    using guards_bounded [OF assms]
    by (cases own) (simp_all add: context_of_def owner_context_def agent_context_def)
qed

section \<open>Coming to rest\<close>

text \<open>What is left to do: the steps of each worker, the last one included, and the refusals.\<close>

primrec stage_rank :: "stage \<Rightarrow> nat" where
  "stage_rank (Reading _) = 9"
| "stage_rank (OwnerTurn _) = 3"
| "stage_rank (OwnerDone _ _) = 2"
| "stage_rank (AgentTurn _) = 8"
| "stage_rank (CheckingToken _) = 7"
| "stage_rank (Unrecognised _) = 2"
| "stage_rank (Recognised _) = 6"
| "stage_rank (InChannel _) = 5"
| "stage_rank (TurnedAway _) = 2"
| "stage_rank (Admitted _) = 4"
| "stage_rank (Answered _ _) = 3"
| "stage_rank (Leaving _) = 2"
| "stage_rank (Writing _) = 1"
| "stage_rank Ended = 0"

primrec thread_rank :: "thread \<Rightarrow> nat" where
  "thread_rank (Before g) = 2 * stage_rank g + 1"
| "thread_rank (Inside g) = 2 * stage_rank g"

definition load :: "service \<Rightarrow> nat" where
  "load s = sum_mset (image_mset (\<lambda>p. Suc (thread_rank (snd p))) (sv_workers s))
     + (if ls_refusing (sv_listener s True) then 1 else 0)
     + (if ls_refusing (sv_listener s False) then 1 else 0)"

lemma rank_close: "stage_rank (close_with r) \<le> 1"
  by (simp add: close_with_def split: sum.split)

lemma worker_step_rank:
  assumes "worker_step B n g (w, a) = (g', s')" and "g \<noteq> Ended"
  shows "stage_rank g' < stage_rank g"
proof (cases g)
  case (Reading input)
  with assms show ?thesis
    by (cases input) (auto simp: Let_def split: if_splits sum.splits)
next
  case (OwnerTurn q)
  with assms show ?thesis by (auto split: prod.splits sum.splits option.splits)
next
  case (Leaving r)
  with assms rank_close [of r] show ?thesis by auto
qed (use assms in \<open>auto split: if_splits prod.splits\<close>)

text \<open>A worker that is done holds no stage; \<open>idle_safe\<close> keeps \<open>Inside Ended\<close> from being reached.\<close>

definition idle_safe :: "service \<Rightarrow> bool" where
  "idle_safe s \<longleftrightarrow> (\<forall>p \<in># sv_workers s. \<forall>g. snd p = Inside g \<longrightarrow> needs g \<noteq> None)"

lemma idle_safe_run:
  "service_run B (service_start w cs t1 t2) s \<Longrightarrow> idle_safe s"
proof (induction rule: service_run.induct)
  case (more t u)
  have "idle_safe u" if "thread_step B t u"
    using that more.IH by cases (auto simp: idle_safe_def)
  with more.hyps(2) more.IH show ?case by cases (auto simp: idle_safe_def)
qed (simp add: idle_safe_def service_start_def)

lemma needs_Ended [simp]: "needs Ended = None" by (simp add: needs_def)

text \<open>Every step of the threads is one less to do.\<close>

lemma thread_step_load:
  assumes "thread_step B s t" and "idle_safe s"
  shows "load t < load s"
  using assms(1)
proof cases
  case (locking n g rest m)
  then show ?thesis by (simp add: load_def)
next
  case (working n u rest g g' shared)
  obtain w a where sh: "sv_shared s = (w, a)" by fastforce
  have "g \<noteq> Ended" using working(2,3) assms(2) by (auto simp: idle_safe_def)
  then have "stage_rank g' < stage_rank g"
    by (rule worker_step_rank [OF working(4) [unfolded sh]])
  with working show ?thesis by (auto simp: load_def)
next
  case (ending n rest l t')
  then show ?thesis by (simp add: load_def)
next
  case (refused l own)
  then show ?thesis by (cases own) (simp_all add: load_def)
qed

text \<open>
  Somebody can always go on. A worker inside its stage can; if there is none, the admission's mutex
  is free, so an owner's worker that waits for it can; if there is none of these either, no mutex is
  held at all.
\<close>

lemma someone_goes_on:
  assumes "locks_ok s" and "load s \<noteq> 0"
  shows "\<exists>t. thread_step B s t"
proof (cases "\<exists>own. ls_refusing (sv_listener s own)")
  case True
  then show ?thesis by (blast intro: thread_step.refused [OF refl])
next
  case no: False
  have work: "\<exists>t. thread_step B s t"
    if mem: "(n, u) \<in># sv_workers s" and at: "u = Inside g \<or> u = Before g \<and> needs g = None \<and> g \<noteq> Ended" for n u g
  proof -
    obtain rest where "sv_workers s = add_mset (n, u) rest" using multi_member_split [OF mem] by blast
    moreover obtain g' sh where "worker_step B n g (sv_shared s) = (g', sh)" by (metis prod.exhaust)
    ultimately show ?thesis using at by (blast intro: thread_step.working)
  qed
  have lock: "\<exists>t. thread_step B s t" if mem: "(n, Before g) \<in># sv_workers s" and m: "needs g = Some m" "m \<notin> sv_locked s" for n g m
  proof -
    obtain rest where "sv_workers s = add_mset (n, Before g) rest" using multi_member_split [OF mem] by blast
    then show ?thesis using m by (blast intro: thread_step.locking)
  qed
  have free: "m \<notin> sv_locked s" if "\<forall>p \<in># sv_workers s. m \<notin> mutexes_of (snd p)" for m
  proof -
    have "holders m (sv_workers s) = 0" using that by (simp add: holders_def filter_mset_eq_conv)
    then show ?thesis using assms(1) by (auto simp: locks_ok_def dest: spec [of _ m])
  qed
  from no assms(2) have "sv_workers s \<noteq> {#}" by (auto simp: load_def)
  then obtain n u where nu: "(n, u) \<in># sv_workers s" by (auto dest: multiset_nonemptyE)
  consider (inside) n g where "(n, Inside g) \<in># sv_workers s"
    | (owner) n r cs where "\<forall>p \<in># sv_workers s. \<exists>g. snd p = Before g" "(n, Before (OwnerDone r cs)) \<in># sv_workers s"
    | (none) "\<forall>p \<in># sv_workers s. \<exists>g. snd p = Before g \<and> carried g = {}"
  proof -
    have "carried g = {} \<or> (\<exists>r cs. g = OwnerDone r cs)" for g by (cases g) (auto simp: carried_def)
    then show ?thesis using that by (metis (full_types) prod.collapse thread.exhaust)
  qed
  then show ?thesis
  proof cases
    case inside
    then show ?thesis by (rule work) simp
  next
    case owner
    have "AdmissionMutex \<notin> sv_locked s"
      using owner(1) by (intro free) (fastforce simp: carried_def split: stage.splits)
    moreover have "needs (OwnerDone r cs) = Some AdmissionMutex" by (simp add: needs_def)
    ultimately show ?thesis using lock [OF owner(2)] by blast
  next
    case none
    then obtain g where g: "u = Before g" "carried g = {}" using nu by fastforce
    show ?thesis
    proof (cases "g = Ended")
      case True
      obtain rest where "sv_workers s = add_mset (n, Before Ended) rest"
        using multi_member_split [OF nu] g True by blast
      then show ?thesis by (blast intro: thread_step.ending [OF _ refl refl])
    next
      case False
      show ?thesis
      proof (cases "needs g")
        case None
        with nu g False show ?thesis by (blast intro: work)
      next
        case (Some m)
        have "m \<notin> sv_locked s" using none by (intro free) fastforce
        with nu g Some show ?thesis by (blast intro: lock)
      qed
    qed
  qed
qed

lemma thread_run_reaches:
  "thread_run B k s t \<Longrightarrow> service_run B r s \<Longrightarrow> service_run B r t"
  by (induction rule: thread_run.induct) (auto intro: service_run.more service_step.moving)

lemma thread_run_load:
  "thread_run B k s t \<Longrightarrow> service_run B (service_start w cs t1 t2) s \<Longrightarrow> k + load t \<le> load s"
proof (induction rule: thread_run.induct)
  case (further k s t u)
  have "idle_safe t" by (rule idle_safe_run [OF thread_run_reaches [OF further.hyps(1) further.prems]])
  from thread_step_load [OF further.hyps(2) this] further.IH [OF further.prems] show ?case by simp
qed simp

lemma load_bound: "load s \<le> 20 * size (sv_workers s) + 2"
proof -
  have "thread_rank t \<le> 19" for t
  proof (cases t)
    case (Before g)
    then show ?thesis by (cases g) simp_all
  next
    case (Inside g)
    then show ?thesis by (cases g) simp_all
  qed
  then have "sum_mset (image_mset (\<lambda>p. Suc (thread_rank (snd p))) ws) \<le> 20 * size ws" for ws :: "(connection \<times> thread) multiset"
    by (induction ws) (simp_all add: add_le_mono)
  from this [of "sv_workers s"] show ?thesis by (simp add: load_def)
qed

lemma stuck_at_rest:
  assumes run: "service_run B (service_start w cs t1 t2) t" and "\<nexists>u. thread_step B t u"
  shows "sv_workers t = {#} \<and> sv_locked t = {} \<and> (\<forall>own. ls_active (sv_listener t own) = 0)
    \<and> ad_in_flight (snd (sv_shared t)) = 0
    \<and> (\<forall>k e. bget (ad_entries (snd (sv_shared t))) k = Some e \<longrightarrow> \<not> ae_in_flight e)"
proof -
  have ok: "locks_ok t" by (rule locks_ok_run [OF run locks_ok_start])
  with assms(2) have l: "load t = 0" using someone_goes_on by blast
  then have ws: "sv_workers t = {#}"
    by (cases "sv_workers t" rule: multiset_cases) (simp_all add: load_def)
  then have "sv_locked t = {}" using ok by (auto simp: locks_ok_def split: if_splits)
  have rf: "\<not> ls_refusing (sv_listener t own)" for own
    using l by (cases own) (simp_all add: load_def split: if_splits)
  have "slots_ok B t" by (rule slots_ok_run [OF run]) simp
  with ws rf have "\<forall>own. ls_active (sv_listener t own) = 0" by (simp add: slots_ok_def)
  moreover obtain a c ks where g: "adm_reach (a, c, ks)" "guard_view B t (a, c, ks)"
    using reached_view [OF run] by (metis prod_cases3)
  have "adm_inv (a, c, ks)" by (rule adm_inv_reach [OF g(1)])
  moreover have "a = snd (sv_shared t)" "c = 0" "ks = []"
    using g(2) ws by (simp_all add: guard_view_def)
  ultimately show ?thesis using ws \<open>sv_locked t = {}\<close> by (auto simp: adm_inv_def)
qed

lemma runs_to_rest:
  assumes "service_run B (service_start w cs t1 t2) s"
  shows "\<exists>k t. thread_run B k s t \<and> (\<nexists>u. thread_step B t u)"
proof (rule ccontr)
  assume no: "\<nexists>k t. thread_run B k s t \<and> (\<nexists>u. thread_step B t u)"
  have "\<exists>t. thread_run B k s t" for k
  proof (induction k)
    case 0
    then show ?case by (blast intro: thread_run.still)
  next
    case (Suc k)
    with no show ?case by (blast intro: thread_run.further)
  qed
  then obtain t where "thread_run B (Suc (load s)) s t" by blast
  from thread_run_load [OF this assms] show False by simp
qed

text \<open>
  C18: The broker does not deadlock and gives everything back. From any state it can reach, its
  threads take at most twenty steps for each connection and one for each listener, however they are
  interleaved, before they stop; and when they cannot take another one, no worker is left, no mutex
  is locked, both counters are zero, and the admission control has no request in flight and no
  capability marked as in use. In particular no thread is left waiting for a mutex, although the
  owner's request takes one inside the other.
\<close>

theorem broker_comes_to_rest:
  assumes "service_run B (service_start w capabilities t1 t2) s"
  shows "(\<forall>k t. thread_run B k s t \<longrightarrow> k \<le> 20 * size (sv_workers s) + 2)
    \<and> (\<forall>k t. thread_run B k s t \<and> (\<nexists>u. thread_step B t u) \<longrightarrow>
        sv_workers t = {#} \<and> sv_locked t = {} \<and> (\<forall>own. ls_active (sv_listener t own) = 0)
        \<and> ad_in_flight (snd (sv_shared t)) = 0
        \<and> (\<forall>k e. bget (ad_entries (snd (sv_shared t))) k = Some e \<longrightarrow> \<not> ae_in_flight e))
    \<and> (\<exists>k t. thread_run B k s t \<and> (\<nexists>u. thread_step B t u))"
proof (intro conjI allI impI runs_to_rest [OF assms])
  show "k \<le> 20 * size (sv_workers s) + 2" if "thread_run B k s t" for k t
    using thread_run_load [OF that assms] load_bound [of s] by simp
qed (use stuck_at_rest [OF thread_run_reaches [OF _ assms]] in blast)+

section \<open>The treasury behind the broker\<close>

text \<open>What every critical section on the treasury keeps, every run of the broker keeps.\<close>

locale served_relation = step_relation R
  for R :: "treasury_state world \<Rightarrow> treasury_state world \<Rightarrow> bool" +
  fixes B :: broker
  assumes keeps_served: "keeps R (handle_persisted (br_env B) (br_codec B) token r)"
    and keeps_checkout: "keeps R (runtime_execute (br_env B) (br_codec B) T token k)"
    and keeps_capabilities: "keeps R active_agent_capabilities"
begin

lemma keeps_rpc: "keeps R (handle_rpc_persisted (br_env B) (br_codec B) q)"
  unfolding handle_rpc_persisted_def respond_def by (intro keeps_rules keeps_served)

lemma keeps_owner_answer: "keeps R (owner_answer (br_env B) (br_codec B) q)"
  unfolding owner_answer_def by (intro keeps_rules keeps_cli_op keeps_rpc keeps_capabilities)

lemma keeps_agent_operation: "keeps R (agent_operation (br_env B) (br_codec B) T q)"
  unfolding agent_operation_def by (intro keeps_rules keeps_cli_op keeps_rpc keeps_checkout)

lemma worker_step_relates:
  "worker_step B n g (w, a) = (g', (v, b)) \<Longrightarrow> R w v"
proof (cases g)
  case (Reading input)
  then show "worker_step B n g (w, a) = (g', (v, b)) \<Longrightarrow> R w v"
    by (cases input) (auto simp: Let_def rel_refl split: if_splits sum.splits)
next
  case (OwnerTurn q)
  then show "worker_step B n g (w, a) = (g', (v, b)) \<Longrightarrow> R w v"
    using keepsD [OF keeps_owner_answer [of q], of w] by (auto split: prod.splits sum.splits option.splits)
next
  case (Admitted q)
  then show "worker_step B n g (w, a) = (g', (v, b)) \<Longrightarrow> R w v"
    using keepsD [OF keeps_agent_operation [of "br_runtime B" q], of w] by (auto split: prod.splits)
qed (auto simp: rel_refl split: if_splits prod.splits)

lemma thread_step_relates:
  "thread_step B s t \<Longrightarrow> R (fst (sv_shared s)) (fst (sv_shared t))"
proof (induction rule: thread_step.induct)
  case (working s n t rest g g' shared)
  then show ?case
    by (cases "sv_shared s"; cases shared) (simp add: worker_step_relates)
qed (simp_all add: rel_refl)

lemma service_step_relates:
  "service_step B s t \<Longrightarrow> R (fst (sv_shared s)) (fst (sv_shared t))"
  by (induction rule: service_step.induct) (simp_all add: rel_refl thread_step_relates)

lemma service_run_relates:
  "service_run B s t \<Longrightarrow> R (fst (sv_shared s)) (fst (sv_shared t))"
  by (induction rule: service_run.induct) (auto intro: rel_refl rel_trans service_step_relates)

end

text \<open>
  The books stay in order: the audit log is only extended, and as long as the generation counter
  has room, a solvent treasury stays solvent.
\<close>

definition books_kept :: "env \<Rightarrow> treasury_state world \<Rightarrow> treasury_state world \<Rightarrow> bool" where
  "books_kept E v w \<longleftrightarrow> history E v w
     \<and> (solvent (w_state v) \<longrightarrow> generation (w_state w) + 1 < u64_max \<longrightarrow> solvent (w_state w))"

lemma history_generation: "history E v w \<Longrightarrow> generation (w_state v) \<le> generation (w_state w)"
  by (auto simp: history_def log_extends_def)

interpretation books: step_relation "books_kept E" for E
proof
  show "books_kept E s s" for s
    by (simp add: books_kept_def history_refl)
  show "books_kept E s u" if "books_kept E s t" "books_kept E t u" for s t u
    using that history_generation [of E t u]
    by (auto simp: books_kept_def intro: history_trans)
qed

lemma books_kept_both: "keeps (history E) m \<Longrightarrow> keeps keeps_solvent m \<Longrightarrow> keeps (books_kept E) m"
  by (simp add: keeps_def books_kept_def keeps_solvent_def)

lemma books_kept_served: "keeps (books_kept E) (handle_persisted E C token r)"
proof (rule keepsI)
  fix w
  let ?v = "snd (handle_persisted E C token r w)"
  have h: "history E w ?v" by (rule keepsD [OF keeps_history_persisted])
  have "solvent (w_state ?v)" if "solvent (w_state w)" "generation (w_state ?v) + 1 < u64_max"
    using handle_persisted_solvent [of w E C token r] history_generation [OF h] that
    by (auto simp: wp_def keeps_solvent_def split: prod.splits sum.splits)
  with h show "books_kept E w ?v" by (simp add: books_kept_def)
qed

interpretation books: served_relation "books_kept (br_env B)" B for B
proof
  show "keeps (books_kept (br_env B)) (handle_persisted (br_env B) (br_codec B) token r)" for token r
    by (rule books_kept_served)
  show "keeps (books_kept (br_env B)) (runtime_execute (br_env B) (br_codec B) T token k)" for T token k
    by (rule books_kept_both [OF handoff_history.keeps_runtime handoff_solvency.keeps_runtime])
      (simp_all add: browser_executor_unknown)
  show "keeps (books_kept (br_env B)) active_agent_capabilities"
    by (rule books_kept_both [OF hist.keeps_quiet sol.keeps_quiet]) (rule keeps_same_capabilities)+
qed

text \<open>
  C2: The broker keeps its books whatever the threads do. From a solvent treasury, any interleaving
  of owner and agent connections, executions and controlled checkouts included, leaves a treasury
  that is solvent (as long as the generation counter has room), whose audit log extends the old one
  and still verifies if it did, and in which no finished or doubtful payment is ever retried.
\<close>

theorem broker_keeps_the_books:
  assumes "service_run B (service_start w capabilities t1 t2) s" and "solvent (w_state w)"
    and "generation (w_state (fst (sv_shared s))) + 1 < u64_max"
    and "sound_ids (br_env B) w"
  shows "solvent (w_state (fst (sv_shared s)))
    \<and> log_extends (br_env B) (w_key w) (w_state w) (w_state (fst (sv_shared s)))
    \<and> (bget (intents (w_state w)) k = Some i \<and> spent_or_ambiguous (in_state i) \<longrightarrow>
        (\<exists>j. bget (intents (w_state (fst (sv_shared s)))) k = Some j
           \<and> in_request j = in_request i \<and> spent_or_ambiguous (in_state j)))"
proof -
  have b: "books_kept (br_env B) w (fst (sv_shared s))"
    using books.service_run_relates [OF assms(1)] by (simp add: service_start_def)
  then have h: "history (br_env B) w (fst (sv_shared s))" by (simp add: books_kept_def)
  have "\<exists>j. bget (intents (w_state (fst (sv_shared s)))) k = Some j
      \<and> in_request j = in_request i \<and> spent_or_ambiguous (in_state j)"
    if i: "bget (intents (w_state w)) k = Some i" and sp: "spent_or_ambiguous (in_state i)"
  proof -
    from h assms(4) i obtain j where
      j: "bget (intents (w_state (fst (sv_shared s)))) k = Some j" "successor i j"
      unfolding history_def evolves_def by blast
    then have "spent_or_ambiguous (in_state j)"
      using reaches_closed [where P = spent_or_ambiguous, OF _ sp spent_or_ambiguous_closed]
      by (auto simp: successor_def)
    with j show ?thesis by (auto simp: successor_def)
  qed
  with b h assms(2,3) show ?thesis by (auto simp: books_kept_def history_def)
qed

section \<open>A run\<close>

definition sample_broker :: broker where
  "sample_broker = \<lparr>br_env = plain_env, br_codec = plain_codec, br_hash = (\<lambda>s. length s),
     br_runtime = None, br_parse = (\<lambda>_. Inl ''no request''), br_separate = False\<rparr>"

definition owner_connection :: connection where
  "owner_connection = \<lparr>cn_owner_channel = True, cn_target = Linux, cn_peer_uid = Inl ''no credentials'', cn_euid = 7, cn_unix_time = 0,
     cn_t_unauthenticated = 0, cn_t_channel = 0, cn_t_capability = 0\<rparr>"

definition accepted :: "service \<Rightarrow> bool" where
  "accepted s \<longleftrightarrow> service_run sample_broker (service_start (small_world Unknown) [] 0 0) s
     \<and> sv_workers s = {#(owner_connection, Before (Reading (Inr ''x'')))#} \<and> fst (sv_shared s) = small_world Unknown"

lemma one_accepted: "\<exists>s. accepted s"
proof -
  let ?s = "service_start (small_world Unknown) [] 0 0"
  have "decide_stream sample_broker owner_connection 0 = (Served, 1)"
    by (simp add: decide_stream_def context_of_def owner_context_def accept_stream_def
        owner_connection_def max_owner_connections_def Let_def)
  then have step: "service_step sample_broker ?s ((set_listener True \<lparr>ls_active = 1, ls_refusing = False\<rparr> ?s)
      \<lparr>sv_workers := add_mset (owner_connection, Before (Reading (Inr ''x''))) (sv_workers ?s)\<rparr>)"
    (is "service_step _ _ ?t")
    by (intro service_step.serving [where l = "\<lparr>ls_active = 0, ls_refusing = False\<rparr>" and active = 1])
      (simp_all add: service_start_def owner_connection_def)
  have "accepted ?t"
    unfolding accepted_def
    using service_run.more [OF service_run.here step] by (simp add: service_start_def)
  then show ?thesis by blast
qed

theorem service_refines_admission_witness:
  "\<exists>s. accepted s \<and> (\<exists>g. adm_reach g \<and> guard_view sample_broker s g)"
proof -
  obtain s where s: "accepted s" using one_accepted by blast
  then have "service_run sample_broker (service_start (small_world Unknown) [] 0 0) s"
    by (simp add: accepted_def)
  from service_refines_admission [OF this] s show ?thesis by blast
qed

theorem connections_are_bounded_witness:
  "\<exists>s. accepted s \<and> workers_of True (sv_workers s) \<le> max_owner_connections
     \<and> ls_active (sv_listener s True) = workers_of True (sv_workers s)
         + (if ls_refusing (sv_listener s True) then 1 else 0)
     \<and> channel_guards (sv_workers s) \<le> max_channel_in_flight"
proof -
  obtain s where s: "accepted s" using one_accepted by blast
  then have "service_run sample_broker (service_start (small_world Unknown) [] 0 0) s"
    by (simp add: accepted_def)
  from connections_are_bounded [OF this, of True] s show ?thesis by auto
qed

theorem broker_comes_to_rest_witness:
  "\<exists>s k t. accepted s \<and> thread_run sample_broker k s t \<and> k \<le> 22 \<and> sv_workers t = {#}
     \<and> sv_locked t = {} \<and> ls_active (sv_listener t True) = 0"
proof -
  obtain s where s: "accepted s" using one_accepted by blast
  then have "service_run sample_broker (service_start (small_world Unknown) [] 0 0) s"
    by (simp add: accepted_def)
  from broker_comes_to_rest [OF this] obtain k t where
    "thread_run sample_broker k s t" "k \<le> 20 * size (sv_workers s) + 2" "sv_workers t = {#}"
    "sv_locked t = {}" "ls_active (sv_listener t True) = 0" by blast
  with s show ?thesis by (fastforce simp: accepted_def)
qed

theorem broker_keeps_the_books_witness:
  "\<exists>s. accepted s \<and> solvent (w_state (fst (sv_shared s)))
     \<and> (\<exists>j. bget (intents (w_state (fst (sv_shared s)))) ''i1'' = Some j \<and> spent_or_ambiguous (in_state j))"
proof -
  obtain s where s: "accepted s" using one_accepted by blast
  then have run: "service_run sample_broker (service_start (small_world Unknown) [] 0 0) s"
    by (simp add: accepted_def)
  have "solvent (w_state (small_world Unknown))" "sound_ids (br_env sample_broker) (small_world Unknown)"
    by (simp_all add: small_solvent small_sound sample_broker_def)
  moreover have "generation (w_state (fst (sv_shared s))) + 1 < u64_max"
    using s by (simp add: accepted_def u64_max_def)
  ultimately show ?thesis
    using broker_keeps_the_books [OF run, of "''i1''" "book_intent Unknown"] s
    by (auto simp: spent_or_ambiguous_def)
qed

end
