(* ===== verification/Restart.thy ===== *)
theory Restart
  imports Broker Durability
begin

text \<open>
  What a later process finds on disk. No operation of the treasury writes a file but \<open>save_to\<close>, so
  the state file always holds a state that some request saved: it is solvent, whichever system
  calls failed and wherever the broker stopped.
\<close>

section \<open>Operations in memory\<close>

definition same_disk :: "treasury_state world \<Rightarrow> treasury_state world \<Rightarrow> bool" where
  "same_disk v w \<longleftrightarrow> w_disk w = w_disk v"

interpretation still: treasury_relation same_disk E for E
  by unfold_locales (simp_all add: same_disk_def same_state_def)

interpretation still: intent_relation same_disk E "\<lambda>_ _. True" for E
  by unfold_locales (simp_all add: same_disk_def with_intent_def)

lemma still_update: "keeps same_disk (update_state f)"
  unfolding update_state_def by (rule still.keeps_modify) (simp add: same_disk_def)

lemma still_puts:
  "keeps same_disk (put_intent k i)" "keeps same_disk (put_provider p)"
  "keeps same_disk (put_manual_balance m b)" "keeps same_disk (put_state s)"
  unfolding put_intent_def put_provider_def put_manual_balance_def
  by (rule still_update)+ (simp add: keeps_def same_disk_def put_state_def modify_def)

lemmas still_rules = still.keeps_basic still.keeps_views still_update still_puts
  still.keeps_quiet [OF keeps_same_transition(1)] still.keeps_quiet [OF keeps_same_transition(2)]
  still.keeps_quiet [OF keeps_same_manual_authorize]
  still.keeps_quiet [OF keeps_same_authorize] still.keeps_quiet [OF keeps_same_reconcile]
  still.keeps_quiet [OF keeps_same_expired]

lemma still_ledger: "keeps same_disk (append_ledger E kind amount iid source verified)"
  unfolding append_ledger_def by (intro still_rules)

lemma still_settled: "keeps same_disk (record_settled E i)"
  unfolding record_settled_def by (intro still_rules still_ledger)

lemma still_entry: "keeps same_disk manual_entry"
  unfolding manual_entry_def by (intro still_rules)

lemma still_create: "keeps same_disk (create_intent E a r)"
proof -
  have "keeps same_disk (file_intent E aid agent p req d)" for aid agent p req d
    unfolding file_intent_def draft_intent_def by (intro still_rules)
  then have "keeps same_disk (decide_and_file E aid agent p req usage)" for aid agent p req usage
    unfolding decide_and_file_def by (intro still_rules)
  then show ?thesis
    unfolding create_intent_def by (intro still_rules still.keeps_admin)
qed

lemma still_prepare: "keeps same_disk (prepare_intent_execution E a k)"
proof -
  have "keeps same_disk (reserve_and_start E aid iid p i)" for aid iid p i
    unfolding reserve_and_start_def by (intro still_rules still_ledger)
  then show ?thesis
    unfolding prepare_intent_execution_def case_prod_unfold Let_def by (intro still_rules)
qed

lemma still_outcome: "keeps same_disk (apply_provider_outcome E aid k out)"
proof -
  have "keeps same_disk (settle_outcome E i out)" for i
    unfolding settle_outcome_def
    by (cases out) (auto intro!: still_rules still_settled still_ledger)
  then show ?thesis
    unfolding apply_provider_outcome_def case_prod_unfold by (intro still_rules)
qed

lemma still_complete: "keeps same_disk (complete_intent_execution E a k)"
proof -
  have "keeps same_disk (provider_authorize E i)" for i
    unfolding provider_authorize_def by (intro still_rules)
  then show ?thesis
    unfolding complete_intent_execution_def by (intro still_rules still_outcome)
qed

lemma still_execute: "keeps same_disk (execute_intent E a k)"
  unfolding execute_intent_def
  by (intro still_rules still_prepare still_complete still.keeps_quarantine)

lemma still_handoff: "keeps same_disk (owner_begin_manual_handoff E a k)"
  unfolding owner_begin_manual_handoff_def by (intro still_rules still_prepare)

lemma still_reconcile: "keeps same_disk (owner_reconcile E a k outcome r)"
proof -
  have settle: "keeps same_disk (settle_simulated E i s)" "keeps same_disk (settle_manual i s)"
    "keeps same_disk (refund_simulated i)" "keeps same_disk (refund_manual i b)" for i s b
    unfolding settle_simulated_def settle_manual_def refund_simulated_def refund_manual_def Let_def
    by (intro still_rules still_entry)+
  have mark: "keeps same_disk (mark_settled E i s)" for i s
    unfolding mark_settled_def by (intro still_rules still_settled)
  have "keeps same_disk (reconcile_as_settled E i s)" "keeps same_disk (reconcile_as_declined E i)"
    "keeps same_disk (reconcile_as_refunded E i b s)" for i s b
    unfolding reconcile_as_settled_def reconcile_as_declined_def reconcile_as_refunded_def
    by (intro still_rules still_ledger settle mark)+
  then have "keeps same_disk (case outcome of RecSettled \<Rightarrow> reconcile_as_settled E i s
      | RecDeclined \<Rightarrow> reconcile_as_declined E i | RecRefunded \<Rightarrow> reconcile_as_refunded E i b s)" for i s b
    by (cases outcome) simp_all
  then have "keeps same_disk (owner_reconcile_inner E k outcome r)"
    unfolding owner_reconcile_inner_def Let_def by (intro still_rules)
  then show ?thesis
    unfolding owner_reconcile_def by (intro still_rules)
qed

lemma still_deposit: "keeps same_disk (owner_record_deposit E a amount source verified aid reference)"
proof -
  have "keeps same_disk (credit_provider m)" for m
    unfolding credit_provider_def by (intro still_rules still_entry)
  then have "keeps same_disk (file_deposit E amount src verified aid opaque fp m)" for src opaque fp m
    unfolding file_deposit_def by (intro still_rules still_ledger)
  then show ?thesis
    unfolding owner_record_deposit_def Let_def by (intro still_rules)
qed

lemma still_dispatch: "keeps same_disk (dispatch E a r)"
  by (cases r; simp only: dispatch.simps;
      intro still.keeps_views still.keeps_admin still_create still_execute still.keeps_cancel
        still.keeps_decisions still_handoff still_reconcile still_deposit)

lemma still_handle: "keeps same_disk (handle E token r)"
  unfolding handle_def by (intro still_rules still_dispatch)

section \<open>The state file\<close>

text \<open>
  The printer and the parser of the envelope agree: what parses as printed is what was printed.
  \<open>stored_sound\<close>: every state the state file may be read as is solvent.
\<close>

definition faithful :: "codec \<Rightarrow> bool" where
  "faithful C \<longleftrightarrow> (\<forall>s mac t m. parse_envelope C (envelope_text C s mac) = Some (t, m) \<longrightarrow> t = s)"

definition stored_sound :: "codec \<Rightarrow> treasury_state world \<Rightarrow> bool" where
  "stored_sound C w \<longleftrightarrow> (\<forall>f s mac. file_at w state_file = Some f \<longrightarrow>
     parse_envelope C (fn_bytes f) = Some (s, mac) \<longrightarrow> solvent s)"

definition vault_sound :: "codec \<Rightarrow> treasury_state world \<Rightarrow> bool" where
  "vault_sound C w \<longleftrightarrow> faithful C \<and> solvent (w_state w) \<and> stored_sound C w"

definition vault_kept :: "codec \<Rightarrow> treasury_state world \<Rightarrow> treasury_state world \<Rightarrow> bool" where
  "vault_kept C v w \<longleftrightarrow> (vault_sound C v \<longrightarrow> vault_sound C w)"

lemma stored_sound_disk: "w_disk w = w_disk v \<Longrightarrow> stored_sound C w = stored_sound C v"
  by (simp add: stored_sound_def file_at_def)

lemma stored_sound_state [simp]: "stored_sound C (w\<lparr>w_state := s\<rparr>) = stored_sound C w"
  by (rule stored_sound_disk) simp

lemma vault_kept_both:
  assumes "keeps keeps_solvent m" and "keeps same_disk m"
  shows "keeps (vault_kept C) m"
proof (rule keepsI)
  fix w
  have "w_disk (snd (m w)) = w_disk w" using keepsD [OF assms(2), of w] by (simp add: same_disk_def)
  from stored_sound_disk [OF this] keepsD [OF assms(1), of w] show "vault_kept C w (snd (m w))"
    by (simp add: keeps_solvent_def vault_kept_def vault_sound_def)
qed

lemma vault_save: "keeps (vault_kept C) (save_to E C)"
proof (rule keeps_of_wp)
  fix w :: "treasury_state world"
  have mem: "wp (save_to E C) (\<lambda>_ v. w_state v = w_state w) (\<lambda>_ v. w_state v = w_state w) w"
    by (rule wp_memory [OF keeps_memory_save]) (simp_all add: same_memory_def)
  have "vault_kept C w v" if "old_or_new (saved_text E C w) w v" and "w_state v = w_state w" for v
  proof -
    have "stored_sound C v" if "faithful C" "solvent (w_state w)" "stored_sound C w"
      using that \<open>old_or_new (saved_text E C w) w v\<close>
      unfolding stored_sound_def old_or_new_def faithful_def saved_text_def new_file_def by fastforce
    with that(2) show ?thesis by (simp add: vault_kept_def vault_sound_def)
  qed
  then show "wp (save_to E C) (\<lambda>_. vault_kept C w) (\<lambda>_. vault_kept C w) w"
    by (intro wp_mono [OF wp_conj [OF save_wp mem]]) (auto intro: on_disk_new)
qed

interpretation vault: treasury_relation "vault_kept C" E for C E
proof
  show "vault_kept C v w" if "same_state v w" for v w
    using that stored_sound_disk [of w v C] by (simp add: vault_kept_def vault_sound_def same_state_def)
  show "vault_kept C w (w\<lparr>w_state := audited (w_state w) (new_entry E (w_key w)
      (audit_log (w_state w)) at who action iid pv dec det)\<rparr>)" for w at who action iid pv dec det
    using sol.audit_rel [of w E]
    by (simp add: vault_kept_def vault_sound_def keeps_solvent_def)
  show "vault_kept C w (w\<lparr>w_state := s\<rparr>)" if "same_books (w_state w) s" for w s
    using sol.books_rel [OF that]
    by (simp add: vault_kept_def vault_sound_def keeps_solvent_def)
qed (auto simp: vault_kept_def)

interpretation vault: rollback_relation "vault_kept C" E C "vault_kept C" for C E
proof
  show "vault_kept C w (v\<lparr>w_state := w_state w\<rparr>)" if "vault_kept C w v" for w v
    using that by (simp add: vault_kept_def vault_sound_def)
qed (simp_all add: vault_save)

lemma vault_quarantine: "keeps (vault_kept C) (quarantine_execution E k reason)"
  by (rule vault_kept_both [OF sol.keeps_quarantine still.keeps_quarantine])

interpretation vault: checkout_relation "vault_kept C" E C "\<lambda>out. outcome_state out = Unknown" for C E
  by unfold_locales
    (simp_all add: vault_kept_both keeps_solvent_prepare still_prepare solvent_unknown still_outcome
      vault_quarantine)

section \<open>Requests\<close>

lemma wp_still: "keeps same_disk m \<Longrightarrow> wp m (\<lambda>_ v. w_disk v = w_disk w) (\<lambda>_ v. w_disk v = w_disk w) w"
  unfolding keeps_wp same_disk_def by blast

lemma vault_execute:
  assumes "generation (w_state w) + 1 < u64_max"
  shows "wp (execute_persisted E C token k) (\<lambda>_. vault_kept C w) (\<lambda>_. vault_kept C w) w"
proof (cases "vault_sound C w")
  case False
  then show ?thesis by (intro wpI) (simp_all add: vault_kept_def)
next
  case True
  let ?Q = "\<lambda>u. ready u \<and> vault_sound C u"
  show ?thesis
  proof (rule vault.execute_persisted_rule [where Q = ?Q])
    fix a and u :: "treasury_state world"
    assume u: "same_state w u"
    with True assms have s: "solvent (w_state u)" "generation (w_state u) + 1 < u64_max"
      by (simp_all add: same_state_def vault_sound_def)
    have "vault_sound C v" if "solvent (w_state v)" "w_disk v = w_disk u" for v
      using that True u stored_sound_disk [of v w C] by (simp add: vault_sound_def same_state_def)
    then show "wp (prepare_intent_execution E a k) (\<lambda>_. ?Q) (\<lambda>_. vault_kept C w) u"
      by (intro wp_mono [OF wp_conj [OF prepare_ready [OF s] wp_still [OF still_prepare]]])
        (auto simp: vault_kept_def ready_def)
  next
    fix a and u :: "treasury_state world"
    assume u: "?Q u"
    have "vault_sound C v" if "solvent (w_state v)" "w_disk v = w_disk u" for v
      using that u stored_sound_disk [of v u C] by (simp add: vault_sound_def)
    with u show "wp (complete_intent_execution E a k) (\<lambda>_. vault_kept C w) (\<lambda>_. vault_kept C w) u"
      by (intro wp_mono [OF wp_conj [OF complete_solvent wp_still [OF still_complete]]])
        (auto simp: vault_kept_def)
  next
    fix u :: "treasury_state world"
    assume u: "?Q u"
    have mem: "wp (save_to E C) (\<lambda>_. ready) (\<lambda>_ _. True) u"
      by (rule wp_memory [OF keeps_memory_save]) (use u in \<open>simp_all add: ready_def same_memory_def\<close>)
    have "wp (save_to E C) (\<lambda>_. vault_kept C u) (\<lambda>_. vault_kept C u) u"
      by (rule vault.after [OF vault.rel_refl vault_save])
    from wp_conj [OF mem this] u show "wp (save_to E C) (\<lambda>_. ?Q) (\<lambda>_. vault_kept C w) u"
      by (elim wp_mono) (simp_all add: vault_kept_def)
  qed (rule vault_quarantine)
qed

lemma vault_persisted:
  assumes "generation (w_state w) + 1 < u64_max"
  shows "wp (handle_persisted E C token r) (\<lambda>_. vault_kept C w) (\<lambda>_. vault_kept C w) w"
proof (cases "\<exists>k. r = ExecutePurchaseIntent k")
  case True
  with vault_execute [OF assms] show ?thesis by (auto simp: handle_persisted_def)
next
  case False
  then have "keeps keeps_solvent (handle E token r)"
    unfolding handle_def by (intro sol.keeps_basic sol.keeps_views keeps_solvent_dispatch)
  then have "keeps (vault_kept C) (change_persisted E C token r)"
    by (intro vault.keeps_change vault_kept_both still_handle)
  from vault.after [OF vault.rel_refl this] False vault.rel_refl
  show ?thesis by (cases r) (auto simp: handle_persisted_def wp_basic)
qed

text \<open>With the history, which bounds the generation by the one at the end.\<close>

definition vault_run :: "env \<Rightarrow> codec \<Rightarrow> treasury_state world \<Rightarrow> treasury_state world \<Rightarrow> bool" where
  "vault_run E C v w \<longleftrightarrow> history E v w
     \<and> (generation (w_state w) + 1 < u64_max \<longrightarrow> vault_kept C v w)"

interpretation vault_run: step_relation "vault_run E C" for E C
proof
  show "vault_run E C s s" for s by (simp add: vault_run_def history_refl vault.rel_refl)
  show "vault_run E C s u" if "vault_run E C s t" "vault_run E C t u" for s t u
    using that history_generation [of E t u]
    by (auto simp: vault_run_def vault_kept_def intro: history_trans)
qed

lemma vault_run_both: "keeps (history E) m \<Longrightarrow> keeps (vault_kept C) m \<Longrightarrow> keeps (vault_run E C) m"
  by (simp add: keeps_def vault_run_def)

lemma vault_run_served: "keeps (vault_run E C) (handle_persisted E C token r)"
proof (rule keepsI)
  fix w
  let ?v = "snd (handle_persisted E C token r w)"
  have h: "history E w ?v" by (rule keepsD [OF keeps_history_persisted])
  have "vault_kept C w ?v" if "generation (w_state ?v) + 1 < u64_max"
    using vault_persisted [of w E C token r] history_generation [OF h] that
    by (auto simp: wp_def split: prod.splits sum.splits)
  with h show "vault_run E C w ?v" by (simp add: vault_run_def)
qed

interpretation vault_run: served_relation "vault_run (br_env B) (br_codec B)" B for B
proof
  show "keeps (vault_run (br_env B) (br_codec B)) (handle_persisted (br_env B) (br_codec B) token r)"
    for token r by (rule vault_run_served)
  show "keeps (vault_run (br_env B) (br_codec B)) (runtime_execute (br_env B) (br_codec B) T token k)"
    for T token k
    by (rule vault_run_both [OF handoff_history.keeps_runtime vault.keeps_runtime])
      (simp_all add: browser_executor_unknown)
  show "keeps (vault_run (br_env B) (br_codec B)) active_agent_capabilities"
    by (rule vault_run_both [OF hist.keeps_quiet vault.keeps_quiet]) (rule keeps_same_capabilities)+
qed

lemma loaded_from_file:
  assumes "load_from E C u = (Inr (t, key), v)"
  shows "\<exists>f mac. file_at u state_file = Some f \<and> parse_envelope C (fn_bytes f) = Some (t, mac)"
proof -
  have inner: "wp (read_private_file state_file)
      (\<lambda>bytes _. \<exists>f. file_at u state_file = Some f \<and> fn_bytes f = bytes) (\<lambda>_ _. True) v"
    if "leaves {} u v" for v :: "treasury_state world"
    using that by (intro wp_mono [OF read_private_wp]) (auto simp: leaves_def private_file_def)
  have "wp (load_from E C) (\<lambda>r _. \<exists>f mac. file_at u state_file = Some f
      \<and> parse_envelope C (fn_bytes f) = Some (fst r, mac)) (\<lambda>_ _. True) u"
    unfolding load_from_def
  proof (rule wp_seq [OF read_private_wp], elim conjE)
    fix key v
    assume "leaves {} u (v :: treasury_state world)"
    from inner [OF this] show "wp (if length key < 32 then fail (Invalid ''audit key is too short'')
        else bind (read_private_file state_file) (\<lambda>encoded.
          bind (lift (ok_or (Serialization ''invalid persisted envelope'') (parse_envelope C encoded)))
            (\<lambda>(s, mac). if \<not> constant_time_eq (state_mac E key s) mac
              then fail (Conflict ''persisted treasury state failed integrity verification'')
              else bind (lift (validate_state E s)) (\<lambda>_. bind (lift (verify_audit_chain E key s)) (\<lambda>_.
                ret (s, key)))))) (\<lambda>r _. \<exists>f mac. file_at u state_file = Some f
          \<and> parse_envelope C (fn_bytes f) = Some (fst r, mac)) (\<lambda>_ _. True) v"
      unfolding wp_bind [of "read_private_file _"]
      by (auto simp: wp_basic wp_bind wp_lift ok_or_def elim!: wp_mono split: option.splits)
  qed simp
  with assms show ?thesis by (auto simp: wp_def)
qed

text \<open>
  C3: Wherever the broker stops, it restarts solvent. In every state the broker reaches, whichever
  system calls failed on the way, a process that opens the data directory and loads the state file
  finds a solvent treasury. The JSON parser is assumed to undo the printer.
\<close>

theorem broker_restarts_solvent:
  assumes "service_run B (service_start w capabilities t1 t2) s"
    and "solvent (w_state w)" and "stored_sound (br_codec B) w" and "faithful (br_codec B)"
    and "generation (w_state (fst (sv_shared s))) + 1 < u64_max"
    and "w_disk u = w_disk (fst (sv_shared s))"
    and "load_from (br_env B) (br_codec B) u = (Inr (t, key), v)"
  shows "solvent t"
proof -
  have "vault_run (br_env B) (br_codec B) w (fst (sv_shared s))"
    using vault_run.service_run_relates [OF assms(1)] by (simp add: service_start_def)
  with assms(2-5) have "stored_sound (br_codec B) (fst (sv_shared s))"
    by (simp add: vault_run_def vault_kept_def vault_sound_def)
  then have "stored_sound (br_codec B) u" using stored_sound_disk [OF assms(6)] by simp
  with loaded_from_file [OF assms(7)] show ?thesis unfolding stored_sound_def by blast
qed

text \<open>A broker on a data directory that holds a saved treasury.\<close>

definition sealed_codec :: codec where
  "sealed_codec = vault_codec\<lparr>pretty_text := (\<lambda>_. ''another'')\<rparr>"

definition sealed_broker :: broker where
  "sealed_broker = sample_broker\<lparr>br_codec := sealed_codec\<rparr>"

lemma sealed_load: "load_from E sealed_codec = load_from E vault_codec"
proof -
  have parse: "parse_envelope sealed_codec = parse_envelope vault_codec"
    by (simp add: sealed_codec_def)
  show ?thesis unfolding load_from_def parse ..
qed

lemma sealed_faithful: "faithful sealed_codec"
  by (simp add: faithful_def sealed_codec_def vault_codec_def envelope_text_def)

lemma vault_solvent: "solvent (w_state vault)"
proof -
  have "provider (w_state vault) = simulated_new (cad 1000)" "intents (w_state vault) = bempty"
    "ledger (w_state vault) = []"
    by (simp_all add: vault_def initial_state_def)
  then show ?thesis
    by (simp add: solvent_def authority_def held_total_def simulated_new_def bm.well_keyed_def
        kind_sum_def)
qed

lemma sealed_sound: "stored_sound sealed_codec w"
  using vault_solvent by (auto simp: stored_sound_def sealed_codec_def vault_codec_def split: if_splits)

theorem broker_restarts_solvent_witness:
  "\<exists>v t u. service_run sealed_broker (service_start v [] 0 0) (service_start v [] 0 0)
     \<and> load_from plain_env sealed_codec v = (Inr (t, w_key vault), u) \<and> solvent t"
proof -
  from wp_conj [OF save_wp vault_saves] obtain v where
    sv: "save_to plain_env vault_codec vault = (Inr (), v)" and od: "on_disk plain_env vault_codec vault v"
    by (auto simp: wp_def split: prod.splits sum.splits)
  have m: "same_memory vault v" using keeps_run [OF keeps_memory_save sv] .
  then have io: "w_io v = (\<lambda>_. None)" and st: "w_state v = w_state vault"
    by (simp_all add: same_memory_def vault_def small_world_def)
  have "fst (load_from plain_env vault_codec v) = Inr (w_state vault, w_key vault)"
    by (rule load_saved [OF od refl io])
      (simp_all add: saved_text_def envelope_text_def vault_codec_def vault_def)
  then obtain u where ld: "load_from plain_env sealed_codec v = (Inr (w_state vault, w_key vault), u)"
    unfolding sealed_load by (metis prod.collapse)
  have run: "service_run sealed_broker (service_start v [] 0 0) (service_start v [] 0 0)"
    by (rule service_run.here)
  have "solvent (w_state vault)"
    by (rule broker_restarts_solvent [OF run, where u = v and key = "w_key vault" and v = u])
      (use ld st vault_solvent in \<open>simp_all add: sealed_broker_def sample_broker_def sealed_sound
        sealed_faithful service_start_def vault_def initial_state_def u64_max_def\<close>)
  with run ld show ?thesis by blast
qed

end
