(* ===== verification/Commands.thy ===== *)
theory Commands
  imports Daemon Parsing
begin

text \<open>
  The command line of the daemon (\<open>apps/daemon/src/main.rs\<close>): reading tokens and keys from
  private files, the translation of each command and its arguments into the request it sends,
  the request's way to the broker (over its socket, or on the data directory under its lock), the
  prepared token files, \<open>init\<close>, and the checks that \<open>serve\<close> makes before it listens.
\<close>

section \<open>What a command sees of the file system\<close>

text \<open>Paths are texts; the decoders of JSON files are parameters.\<close>

record shell =
  sh_meta :: "string \<Rightarrow> string + (file_kind \<times> nat)"
  sh_text :: "string \<Rightarrow> string cli"
  sh_exists :: "string \<Rightarrow> bool"
  sh_policy :: "string \<Rightarrow> policy cli"
  sh_purchase :: "string \<Rightarrow> purchase_request cli"
  sh_egid :: nat

definition join_path :: "string \<Rightarrow> string \<Rightarrow> string" where
  "join_path dir name =
     (if dir = [] then name else if last dir = CHR ''/'' then dir @ name else dir @ ''/'' @ name)"

definition arg_default :: "string list \<Rightarrow> string \<Rightarrow> string \<Rightarrow> string" where
  "arg_default args name d = (case arg_value args name of None \<Rightarrow> d | Some v \<Rightarrow> v)"

definition data_dir :: "string list \<Rightarrow> string cli" where
  "data_dir args = arg_required args ''--data-dir''"

definition token_option :: "bool \<Rightarrow> string" where
  "token_option own = (if own then ''--owner-token-file'' else ''--token-file'')"

definition token_file :: "shell \<Rightarrow> string list \<Rightarrow> bool \<Rightarrow> string cli" where
  "token_file S args own =
     rbind (arg_required args (token_option own)) (\<lambda>path.
     rbind (sh_meta S path) (\<lambda>(kind, mode).
     if kind \<noteq> RegularFile then Inl (''token file '' @ path @ '' must be a regular file'')
     else if group_or_other mode
     then Inl (''token file '' @ path @ '' permissions are too broad'')
     else
     rbind (sh_text S path) (\<lambda>content.
     let token = trim content in
     if token = [] then Inl (''token file '' @ path @ '' is empty'') else Inr token)))"

definition read_private_text :: "shell \<Rightarrow> string \<Rightarrow> string \<Rightarrow> string cli" where
  "read_private_text S path label =
     rbind (sh_meta S path) (\<lambda>(kind, mode).
     if kind \<noteq> RegularFile then Inl (label @ '' must be a regular file'')
     else if group_or_other mode then Inl (label @ '' permissions are too broad'')
     else
     rbind (sh_text S path) (\<lambda>content.
     let v = trim content in if v = [] then Inl (label @ '' is empty'') else Inr v))"

section \<open>Commands and their requests\<close>

text \<open>A command that sends one request gives the token and the operation.\<close>

type_synonym command = "(string \<times> request) cli"

definition direct_command :: "shell \<Rightarrow> string list \<Rightarrow> request \<Rightarrow> command" where
  "direct_command S args operation =
     rbind (token_file S args (operation = OwnerListAudit)) (\<lambda>token. Inr (token, operation))"

definition parse_mode :: "string \<Rightarrow> autonomy_mode cli" where
  "parse_mode s =
     (if s = ''observe'' then Inr Observe
      else if s = ''approval_required'' then Inr ApprovalRequiredMode
      else if s = ''bounded_autonomous'' then Inr BoundedAutonomous
      else if s = ''disabled'' then Inr Disabled
      else Inl (''unsupported mode '' @ s))"

definition update_policy_command :: "shell \<Rightarrow> string list \<Rightarrow> command" where
  "update_policy_command S args =
     rbind (token_file S args True) (\<lambda>token.
     rbind (arg_required args ''--policy-file'') (\<lambda>path.
     rbind (sh_text S path) (\<lambda>content.
     rbind (sh_policy S content) (\<lambda>p.
     rbind (arg_required args ''--agent-id'') (\<lambda>agent_id.
     Inr (token, OwnerUpdatePolicy agent_id p))))))"

definition configure_receive_command :: "shell \<Rightarrow> string list \<Rightarrow> command" where
  "configure_receive_command S args =
     rbind (token_file S args True) (\<lambda>token.
     rbind (arg_required args ''--address'') (\<lambda>address.
     Inr (token, OwnerConfigureReceiveInstructions
       (arg_default args ''--method'' ''interac_e_transfer'') address
       (arg_default args ''--memo-template'' ''AGENT-{agent_id}-{intent_id}''))))"

definition agent_lifecycle_command :: "shell \<Rightarrow> string list \<Rightarrow> bool \<Rightarrow> command" where
  "agent_lifecycle_command S args revoke =
     rbind (token_file S args True) (\<lambda>token.
     rbind (arg_required args ''--agent-id'') (\<lambda>agent_id.
     if revoke then Inr (token, OwnerRevokeAgent agent_id)
     else
     rbind (arg_required args ''--mode'') (\<lambda>s.
     rbind (parse_mode s) (\<lambda>mode.
     Inr (token, OwnerSetAgentMode agent_id mode)))))"

definition arm_session_command :: "shell \<Rightarrow> string list \<Rightarrow> command" where
  "arm_session_command S args =
     rbind (token_file S args True) (\<lambda>token.
     rbind (arg_required args ''--agent-id'') (\<lambda>agent_id.
     rbind (parse_i64 (arg_default args ''--ttl-secs'' ''600'')) (\<lambda>ttl.
     Inr (token, OwnerArmAgentSession agent_id ttl))))"

definition parse_flag :: "string \<Rightarrow> string option \<Rightarrow> bool cli" where
  "parse_flag name v =
     (case v of
        None \<Rightarrow> Inr False
      | Some s \<Rightarrow>
          if s = ''true'' then Inr True
          else if s = ''false'' then Inr False
          else Inl (name @ '' must be true or false, got '' @ s))"

definition parse_balance_status :: "string \<Rightarrow> balance_status cli" where
  "parse_balance_status s =
     (if s = ''estimated'' then Inr Estimated
      else if s = ''owner_confirmed'' then Inr OwnerConfirmed
      else Inl (''unsupported balance status '' @ s))"

definition configure_manual_provider_command :: "shell \<Rightarrow> string list \<Rightarrow> command" where
  "configure_manual_provider_command S args =
     rbind (token_file S args True) (\<lambda>token.
     rbind (arg_required args ''--balance-status'') (\<lambda>s.
     rbind (parse_balance_status s) (\<lambda>status.
     rbind (arg_required args ''--credential-reference'') (\<lambda>reference.
     rbind (arg_required args ''--balance-minor'') (\<lambda>b.
     rbind (parse_i64 b) (\<lambda>m.
     rbind (cli (money_new m (arg_default args ''--currency'' ''CAD''))) (\<lambda>balance.
     rbind (parse_i64 (arg_default args ''--balance-ttl-secs'' ''900'')) (\<lambda>ttl.
     rbind (parse_flag ''--autonomous-checkout'' (arg_value args ''--autonomous-checkout'')) (\<lambda>auto.
     Inr (token, OwnerConfigureManualProvider
       \<lparr>mc_credential_reference = reference,
        mc_provider_kind = arg_default args ''--provider-kind'' ''os-credential-store'',
        mc_last_four = arg_value args ''--last-four'', mc_balance = balance,
        mc_balance_status = status, mc_balance_ttl_secs = ttl,
        mc_autonomous_checkout = auto\<rparr>))))))))))"

definition record_deposit_command :: "shell \<Rightarrow> string list \<Rightarrow> command" where
  "record_deposit_command S args =
     rbind (token_file S args True) (\<lambda>token.
     rbind (arg_required args ''--amount-minor'') (\<lambda>a.
     rbind (parse_i64 a) (\<lambda>m.
     rbind (parse_flag ''--verified'' (arg_value args ''--verified'')) (\<lambda>verified.
     rbind (cli (money_new m (arg_default args ''--currency'' ''CAD''))) (\<lambda>amount.
     rbind (arg_required args ''--external-reference'') (\<lambda>reference.
     Inr (token, OwnerRecordDeposit amount (arg_default args ''--source'' ''owner-reconciliation'')
       verified (arg_value args ''--agent-id'') reference)))))))"

definition intent_command :: "shell \<Rightarrow> string list \<Rightarrow> command" where
  "intent_command S args =
     rbind (token_file S args False) (\<lambda>token.
     rbind (arg_required args ''--request-file'') (\<lambda>path.
     rbind (sh_text S path) (\<lambda>content.
     rbind (sh_purchase S content) (\<lambda>r.
     Inr (token, CreatePurchaseIntent r)))))"

definition intent_id_command :: "shell \<Rightarrow> string list \<Rightarrow> bool \<Rightarrow> command" where
  "intent_id_command S args cancel =
     rbind (token_file S args False) (\<lambda>token.
     rbind (arg_required args ''--intent-id'') (\<lambda>k.
     Inr (token, if cancel then CancelPurchaseIntent k else ExecutePurchaseIntent k)))"

definition owner_intent_command :: "shell \<Rightarrow> string list \<Rightarrow> command" where
  "owner_intent_command S args =
     rbind (token_file S args True) (\<lambda>token.
     rbind (arg_required args ''--intent-id'') (\<lambda>k.
     Inr (token, OwnerApproveIntent k)))"

definition owner_handoff_command :: "shell \<Rightarrow> string list \<Rightarrow> bool \<Rightarrow> command" where
  "owner_handoff_command S args complete =
     rbind (token_file S args True) (\<lambda>token.
     rbind (data_dir args) (\<lambda>directory.
     if \<not> sh_exists S (arg_default args ''--owner-socket'' (join_path directory ''owner.sock''))
     then Inl ''manual handoff commands require a continuously running broker daemon''
     else
     rbind (arg_required args ''--intent-id'') (\<lambda>k.
     Inr (token, if complete then OwnerCompleteManualHandoff k else OwnerBeginManualHandoff k))))"

definition approve_merchant_command :: "shell \<Rightarrow> string list \<Rightarrow> command" where
  "approve_merchant_command S args =
     rbind (token_file S args True) (\<lambda>token.
     rbind (arg_required args ''--agent-id'') (\<lambda>agent_id.
     rbind (arg_required args ''--merchant-domain'') (\<lambda>domain.
     Inr (token, OwnerApproveMerchant agent_id domain))))"

definition parse_outcome :: "string \<Rightarrow> reconciliation_outcome cli" where
  "parse_outcome s =
     (if s = ''settled'' then Inr RecSettled
      else if s = ''declined'' then Inr RecDeclined
      else if s = ''refunded'' then Inr RecRefunded
      else Inl (''unsupported reconciliation outcome '' @ s))"

definition reconcile_command :: "shell \<Rightarrow> string list \<Rightarrow> command" where
  "reconcile_command S args =
     rbind (token_file S args True) (\<lambda>token.
     rbind (arg_required args ''--outcome'') (\<lambda>s.
     rbind (parse_outcome s) (\<lambda>outcome.
     rbind (arg_required args ''--intent-id'') (\<lambda>k.
     Inr (token, OwnerReconcile k outcome (arg_value args ''--provider-reference''))))))"

definition stop_command :: "shell \<Rightarrow> string list \<Rightarrow> bool \<Rightarrow> command" where
  "stop_command S args stopped =
     rbind (token_file S args True) (\<lambda>token. Inr (token, OwnerSetEmergencyStop stopped))"

text \<open>The commands of \<open>run\<close> that send one request; the others are \<open>None\<close> here.\<close>

definition command_request :: "shell \<Rightarrow> string \<Rightarrow> string list \<Rightarrow> command option" where
  "command_request S c args = map_of
     [(''update-policy'', update_policy_command S args),
      (''revoke-agent'', agent_lifecycle_command S args True),
      (''set-agent-mode'', agent_lifecycle_command S args False),
      (''arm-session'', arm_session_command S args),
      (''configure-manual-provider'', configure_manual_provider_command S args),
      (''configure-receive'', configure_receive_command S args),
      (''record-deposit'', record_deposit_command S args),
      (''status'', direct_command S args GetStatus),
      (''budget'', direct_command S args GetBudget),
      (''capabilities'', direct_command S args GetCapabilities),
      (''receive-instructions'', direct_command S args GetReceiveInstructions),
      (''intent'', intent_command S args),
      (''execute'', intent_id_command S args False),
      (''cancel'', intent_id_command S args True),
      (''approve'', owner_intent_command S args),
      (''begin-handoff'', owner_handoff_command S args False),
      (''complete-handoff'', owner_handoff_command S args True),
      (''approve-merchant'', approve_merchant_command S args),
      (''reconcile'', reconcile_command S args),
      (''stop'', stop_command S args True),
      (''resume'', stop_command S args False),
      (''audit'', direct_command S args OwnerListAudit)] c"

end
