(* ===== verification/Sessions.thy ===== *)
theory Sessions
  imports Commands
begin

text \<open>
  What the commands of the daemon do (\<open>apps/daemon/src/main.rs\<close>): the lock on the data
  directory, token files, requests over the broker's socket or on the data directory itself,
  \<open>init\<close>, \<open>create-agent\<close>, the secret helper's sessions, \<open>execute-handoff\<close>, and the start of
  \<open>serve\<close>. Files outside the data directory are a second world of named files.
\<close>

section \<open>The lock on the data directory\<close>

text \<open>The text of a plain \<open>io::Error\<close>; other errors carry their own prefix.\<close>

definition io_text :: "treasury_error \<Rightarrow> string" where
  "io_text e = (case e of Io m \<Rightarrow> m | _ \<Rightarrow> error_text e)"

definition io_op :: "('s, 'a) op \<Rightarrow> ('s world, string, 'a) action" where
  "io_op m = (\<lambda>w. case m w of
     (Inl e, v) \<Rightarrow> (Inl (io_text e), v) | (Inr x, v) \<Rightarrow> (Inr x, v))"

definition lock_file :: string where "lock_file = ''cixa.lock''"

definition create_directory :: "('s, unit) op" where
  "create_directory =
     bind io_call (\<lambda>_.
     bind (gets (\<lambda>w. d_dir (w_disk w))) (\<lambda>dir.
     case dir of
       None \<Rightarrow> modify (\<lambda>w. w\<lparr>w_disk := (w_disk w)\<lparr>d_dir :=
         Some \<lparr>fn_kind = DirectoryNode, fn_mode = 493, fn_bytes = []\<rparr>\<rparr>\<rparr>)
     | Some f \<Rightarrow> guard (fn_kind f \<noteq> RegularFile) file_exists_error))"

definition directory_metadata :: "('s, file_node) op" where
  "directory_metadata = bind io_call (\<lambda>_. bind (gets (\<lambda>w. d_dir (w_disk w))) (\<lambda>d.
     lift (ok_or not_found d)))"

definition restrict_directory :: "file_node \<Rightarrow> ('s, unit) op" where
  "restrict_directory f = bind io_call (\<lambda>_.
     modify (\<lambda>w. w\<lparr>w_disk := (w_disk w)\<lparr>d_dir := Some (f\<lparr>fn_mode := 448\<rparr>)\<rparr>\<rparr>))"

definition open_lock_file :: "('s, unit) op" where
  "open_lock_file =
     bind io_call (\<lambda>_.
     bind (gets (\<lambda>w. file_at w lock_file)) (\<lambda>f.
     bind (case f of
             None \<Rightarrow> put_file lock_file \<lparr>fn_kind = RegularFile, fn_mode = 384, fn_bytes = []\<rparr>
           | Some _ \<Rightarrow> ret ()) (\<lambda>_.
     bind io_call (\<lambda>_.
     bind (gets (\<lambda>w. file_at w lock_file)) (\<lambda>f.
     bind (lift (ok_or not_found f)) (\<lambda>f. put_file lock_file (f\<lparr>fn_mode := 384\<rparr>)))))))"

text \<open>\<open>held\<close>: another process holds the exclusive lock when \<open>try_lock_exclusive\<close> is called.\<close>

definition acquire :: "bool \<Rightarrow> ('s world, string, unit) action" where
  "acquire held =
     bind (io_op create_directory) (\<lambda>_.
     bind (io_op directory_metadata) (\<lambda>f.
     if fn_kind f \<noteq> DirectoryNode then fail ''data directory must be a real directory''
     else
     bind (io_op (restrict_directory f)) (\<lambda>_.
     bind (attempt (io_op (metadata_of lock_file))) (\<lambda>m.
     if (case m of Inl _ \<Rightarrow> False | Inr f \<Rightarrow> fn_kind f \<noteq> RegularFile)
     then fail ''treasury lock must be a regular file''
     else
     bind (io_op open_lock_file) (\<lambda>_.
     if held then fail ''treasury data directory is already owned by another writer''
     else ret ())))))"

section \<open>Requests\<close>

text \<open>
  The broker as a client reaches it: the bytes a socket answers to a request within the read
  timeout (in seconds), and the decoder of the response.
\<close>

record link =
  lk_pid :: nat
  lk_nanos :: "nat cli"
  lk_exchange :: "string \<Rightarrow> nat \<Rightarrow> rpc_request \<Rightarrow> string cli"
  lk_response :: "string \<Rightarrow> rpc_response cli"

definition read_timeout :: "request \<Rightarrow> nat" where
  "read_timeout r = (case r of ExecutePurchaseIntent _ \<Rightarrow> 180 | _ \<Rightarrow> 5)"

definition rpc_over_socket :: "link \<Rightarrow> string \<Rightarrow> string \<Rightarrow> request \<Rightarrow> json cli" where
  "rpc_over_socket K socket token operation =
     rbind (lk_nanos K) (\<lambda>nanos.
     let q = \<lparr>rr_api_version = api_version_v1,
           rr_request_id = ''cli-'' @ show_nat (lk_pid K) @ ''-'' @ show_nat nanos,
           rr_token = token, rr_operation = operation\<rparr> in
     rbind (lk_exchange K socket (read_timeout operation) q) (\<lambda>bytes.
     let encoded = read_frame bytes in
     if max_frame_bytes < length encoded \<or> encoded = [] \<or> last encoded \<noteq> CHR 0x0A
     then Inl ''broker response exceeded the bounded frame size''
     else
     rbind (lk_response K encoded) (\<lambda>r.
     if rs_ok r then ok_or ''broker returned no data'' (rs_data r)
     else Inl (case rs_error r of None \<Rightarrow> ''broker rejected request'' | Some e \<Rightarrow> e))))"

definition request_socket :: "string list \<Rightarrow> string \<Rightarrow> request \<Rightarrow> string" where
  "request_socket args directory operation =
     (if requires_owner operation
      then arg_default args ''--owner-socket'' (join_path directory ''owner.sock'')
      else arg_default args ''--socket'' (join_path directory ''cixa.sock''))"

text \<open>A treasury as a process opens it: loaded, and its interrupted executions quarantined.\<close>

definition load_treasury :: "env \<Rightarrow> codec \<Rightarrow> unit top" where
  "load_treasury E C =
     bind (load_from E C) (\<lambda>(s, key). modify (\<lambda>w. w\<lparr>w_state := s, w_key := key\<rparr>))"

definition recover_saved :: "env \<Rightarrow> codec \<Rightarrow> unit top" where
  "recover_saved E C =
     bind (recover_interrupted_executions E) (\<lambda>n. if 0 < n then save_to E C else ret ())"

definition run_local ::
  "env \<Rightarrow> codec \<Rightarrow> bool \<Rightarrow> string \<Rightarrow> request \<Rightarrow> (treasury_state world, string, json) action" where
  "run_local E C held token operation =
     bind (acquire held) (\<lambda>_.
     bind (cli_op (load_treasury E C)) (\<lambda>_.
     bind (cli_op (recover_saved E C)) (\<lambda>_.
     cli_op (handle_persisted E C token operation))))"

definition run_request ::
  "env \<Rightarrow> codec \<Rightarrow> shell \<Rightarrow> link \<Rightarrow> bool \<Rightarrow> string list \<Rightarrow> string \<Rightarrow> request
     \<Rightarrow> (treasury_state world, string, json) action" where
  "run_request E C S K held args token operation =
     bind (lift (data_dir args)) (\<lambda>directory.
     let socket = request_socket args directory operation in
     if sh_exists S socket then lift (rpc_over_socket K socket token operation)
     else run_local E C held token operation)"

section \<open>Token files\<close>

type_synonym 'a session = "(treasury_state world \<times> unit world, string, 'a) action"

definition inside :: "(treasury_state world, string, 'a) action \<Rightarrow> 'a session" where
  "inside m = (\<lambda>(w, t). case m w of (r, v) \<Rightarrow> (r, (v, t)))"

definition outside :: "(unit world, string, 'a) action \<Rightarrow> 'a session" where
  "outside m = (\<lambda>(w, t). case m t of (r, u) \<Rightarrow> (r, (w, u)))"

text \<open>
  \<open>write_token\<close> creates the parent directory and the file, writes and syncs it and then the
  directory; the file must be new.
\<close>

definition write_token :: "string \<Rightarrow> string \<Rightarrow> (unit world, string, unit) action" where
  "write_token path token =
     (let f = \<lparr>fn_kind = RegularFile, fn_mode = 384, fn_bytes = []\<rparr> in
     bind (io_op io_call) (\<lambda>_.
     bind (io_op io_call) (\<lambda>_.
     bind (gets (\<lambda>w. file_at w path)) (\<lambda>existing.
     if existing \<noteq> None then fail (io_text file_exists_error)
     else
     bind (io_op (put_file path f)) (\<lambda>_.
     bind (io_op (write_all path f (token @ [CHR 0x0A]))) (\<lambda>_.
     bind (io_op io_call) (\<lambda>_.
     io_op sync_directory)))))))"

text \<open>Only the file's mode is modelled of its group sharing; the directory's own is not.\<close>

definition share_with_agent_group :: "string \<Rightarrow> nat \<Rightarrow> (unit world, string, unit) action" where
  "share_with_agent_group path mode =
     bind (io_op io_call) (\<lambda>_.
     bind (io_op io_call) (\<lambda>_.
     modify (\<lambda>w. case file_at w path of
         None \<Rightarrow> w
       | Some f \<Rightarrow> snd (put_file path (f\<lparr>fn_mode := mode\<rparr>) w))))"

definition parent_of :: "string \<Rightarrow> string" where
  "parent_of path =
     (let p = rev (dropWhile (\<lambda>c. c \<noteq> CHR ''/'') (rev path)) in
      if p = [] then ''.'' else if length p = 1 then p else butlast p)"

definition activation_error :: "string \<Rightarrow> string \<Rightarrow> string" where
  "activation_error path e =
     ''agent activation failed or became uncertain; prepared token retained at '' @ path
       @ '' for owner reconciliation: '' @ e"

definition activate_with_prepared_token ::
  "env \<Rightarrow> string \<Rightarrow> nat option \<Rightarrow> (string \<Rightarrow> json session) \<Rightarrow> json session" where
  "activate_with_prepared_token E path agent_gid activate =
     bind (outside (io_op (random_hex E 32))) (\<lambda>token.
     bind (outside (write_token path token)) (\<lambda>_.
     bind (case agent_gid of
             None \<Rightarrow> ret ()
           | Some _ \<Rightarrow>
               bind (outside (share_with_agent_group (parent_of path) 488)) (\<lambda>_.
               bind (outside (share_with_agent_group path 416)) (\<lambda>_.
               bind (outside (io_op sync_directory)) (\<lambda>_.
               outside (io_op sync_directory))))) (\<lambda>_.
     bind (attempt (activate token)) (\<lambda>r.
     case r of Inl e \<Rightarrow> fail (activation_error path e) | Inr v \<Rightarrow> ret v))))"

section \<open>Setting up\<close>

definition init_command ::
  "env \<Rightarrow> codec \<Rightarrow> bool \<Rightarrow> string list \<Rightarrow> (string \<times> string) session" where
  "init_command E C held args =
     bind (lift (data_dir args)) (\<lambda>directory.
     bind (lift (arg_required args ''--owner-token-file'')) (\<lambda>token_path.
     bind (inside (acquire held)) (\<lambda>_.
     bind (inside (io_op (path_exists state_file))) (\<lambda>initialized.
     if initialized then fail ''treasury is already initialized''
     else
     bind (lift (parse_i64 (arg_default args ''--balance-minor'' ''10000''))) (\<lambda>balance.
     bind (lift (cli (money_positive balance ''CAD''))) (\<lambda>money.
     bind (inside (cli_op (bootstrap E (arg_default args ''--owner-name'' ''local-owner'') money)))
       (\<lambda>token.
     bind (outside (write_token token_path token)) (\<lambda>_.
     bind (attempt (inside (cli_op (save_to E C)))) (\<lambda>saved.
     case saved of
       Inl e \<Rightarrow> bind (attempt (outside (io_op (remove_file token_path)))) (\<lambda>_. fail e)
     | Inr _ \<Rightarrow> ret (directory, token_path))))))))))"

text \<open>What \<open>create-agent\<close> has found out before it prepares the token.\<close>

record enrollment =
  er_owner :: string
  er_token_path :: string
  er_agent_gid :: "nat option"
  er_policy :: policy
  er_mode :: autonomy_mode
  er_name :: string
  er_ttl_secs :: int

definition parse_gid :: "string option \<Rightarrow> nat option cli" where
  "parse_gid v = (case v of None \<Rightarrow> Inr None
     | Some s \<Rightarrow> rbind (parse_unsigned u32_max s) (\<lambda>g. Inr (Some g)))"

definition enrollment_of :: "shell \<Rightarrow> string list \<Rightarrow> enrollment cli" where
  "enrollment_of S args =
     rbind (token_file S args True) (\<lambda>own.
     rbind (arg_required args ''--agent-token-file'') (\<lambda>path.
     if sh_exists S path then Inl ''agent token file already exists''
     else
     rbind (parse_gid (arg_value args ''--agent-gid'')) (\<lambda>gid.
     if gid = Some (sh_egid S)
     then Inl ''--agent-gid must identify a group distinct from the broker primary group''
     else
     rbind (case arg_value args ''--policy-file'' of
              Some p \<Rightarrow> rbind (sh_text S p) (sh_policy S)
            | None \<Rightarrow> cli conservative_demo) (\<lambda>p.
     rbind (parse_mode (arg_default args ''--mode'' ''approval_required'')) (\<lambda>mode.
     rbind (parse_i64 (arg_default args ''--ttl-secs'' ''3600'')) (\<lambda>ttl.
     Inr \<lparr>er_owner = own, er_token_path = path, er_agent_gid = gid, er_policy = p, er_mode = mode,
          er_name = arg_default args ''--name'' ''local-agent'', er_ttl_secs = ttl\<rparr>))))))"

definition create_agent_command ::
  "env \<Rightarrow> codec \<Rightarrow> shell \<Rightarrow> link \<Rightarrow> bool \<Rightarrow> string list \<Rightarrow> json session" where
  "create_agent_command E C S K held args =
     bind (lift (enrollment_of S args)) (\<lambda>e.
     activate_with_prepared_token E (er_token_path e) (er_agent_gid e) (\<lambda>token.
       inside (run_request E C S K held args (er_owner e)
         (OwnerCreateAgentPrepared (er_name e) (er_policy e) (er_mode e) (er_ttl_secs e) token))))"

section \<open>The secret helper\<close>

text \<open>
  Standard input as \<open>read_owner_secret\<close> uses it: whether it is a terminal, the results of
  reading and changing its attributes, the bytes read, and the result of restoring the attributes.
\<close>

record terminal =
  tm_is_tty :: bool
  tm_attributes :: "unit cli"
  tm_hide :: "unit cli"
  tm_input :: "string cli"
  tm_restore :: "unit cli"

definition read_owner_secret :: "terminal \<Rightarrow> string cli" where
  "read_owner_secret T =
     rbind
       (if tm_is_tty T
        then rbind (tm_attributes T) (\<lambda>_. rbind (tm_hide T) (\<lambda>_.
          rbind (tm_input T) (\<lambda>s. rbind (tm_restore T) (\<lambda>_. Inr (take 4097 s)))))
        else rbind (tm_input T) (\<lambda>s. Inr (take 4097 s))) (\<lambda>s.
     let secret = rev (dropWhile (\<lambda>c. c = CHR 0x0A \<or> c = CHR 0x0D) (rev s)) in
     if secret = [] \<or> 4096 < length secret
     then Inl ''owner secret on stdin must contain 1..4096 bytes'' else Inr secret)"

text \<open>
  A connection to the helper: the results of setting its timeouts, of the peer's credentials, the
  bytes it sends, and whether the answer could be written. The accept loop sees connections,
  quiet moments (before or after its deadline) and failures.
\<close>

record helper_connection =
  hc_timeouts :: "unit cli"
  hc_target :: target
  hc_peer :: "string + nat"
  hc_input :: "string cli"
  hc_written :: "unit cli"

datatype helper_event =
  HelperConnection helper_connection | HelperQuiet bool | AcceptFailed string

datatype helper_exit = HelperDone | HelperFailed string | HelperWaiting

definition domain_op :: "('s, 'a) op \<Rightarrow> ('s world, string, 'a) action" where
  "domain_op m = (\<lambda>w. case m w of (r, v) \<Rightarrow> (cli r, v))"

text \<open>From the accepted connection to the redemption of its grant.\<close>

definition admit_operation ::
  "env \<Rightarrow> (string \<Rightarrow> secret_operation cli) \<Rightarrow> string \<Rightarrow> string \<Rightarrow> helper_connection
     \<Rightarrow> ('s world, string, secret_operation) action" where
  "admit_operation E decode key helper_id c =
     bind (lift (hc_timeouts c)) (\<lambda>_.
     bind (lift (cli (unix_peer_effective_uid (hc_target c) (hc_peer c)))) (\<lambda>uid.
     bind (lift (hc_input c)) (\<lambda>bytes.
     let line = read_frame bytes in
     if max_frame_bytes < length line \<or> line = [] \<or> last line \<noteq> CHR 0x0A
     then fail ''secret-helper request frame is invalid''
     else
     bind (lift (decode line)) (\<lambda>operation.
     bind (domain_op (redeem_owner_helper_operation E operation key helper_id uid)) (\<lambda>_.
     ret operation)))))"

text \<open>
  The loop of \<open>serve_secret_helper\<close> over what its listener sees; \<open>given\<close> lists the operations
  redeemed so far, each of which the secret was (or, the last one, may have been) written for.
\<close>

fun helper_loop ::
  "env \<Rightarrow> (string \<Rightarrow> secret_operation cli) \<Rightarrow> string \<Rightarrow> string \<Rightarrow> nat \<Rightarrow> bool \<Rightarrow> helper_event list
     \<Rightarrow> secret_operation list \<Rightarrow> 's world \<Rightarrow> helper_exit \<times> secret_operation list \<times> 's world" where
  "helper_loop E decode key helper_id max_operations require_operation events given w =
     (if max_operations \<le> length given then (HelperDone, given, w)
      else case events of
        [] \<Rightarrow> (HelperWaiting, given, w)
      | AcceptFailed e # _ \<Rightarrow> (HelperFailed e, given, w)
      | HelperQuiet expired # rest \<Rightarrow>
          if \<not> expired
          then helper_loop E decode key helper_id max_operations require_operation rest given w
          else if require_operation \<and> given = []
          then (HelperFailed ''secret-helper expired before an authenticated broker connected'', given, w)
          else (HelperDone, given, w)
      | HelperConnection c # rest \<Rightarrow>
          (case admit_operation E decode key helper_id c w of
             (Inl e, v) \<Rightarrow> (HelperFailed e, given, v)
           | (Inr operation, v) \<Rightarrow>
               (case hc_written c of
                  Inl e \<Rightarrow> (HelperFailed e, given @ [operation], v)
                | Inr _ \<Rightarrow> helper_loop E decode key helper_id max_operations require_operation rest
                    (given @ [operation]) v)))"

declare helper_loop.simps [simp del]

text \<open>
  \<open>secret-session\<close> checks its limits before it serves; \<open>secret-helper\<close> serves one operation for
  300 seconds.
\<close>

definition session_limits :: "string list \<Rightarrow> (nat \<times> nat) cli" where
  "session_limits args =
     rbind (parse_unsigned u64_max (arg_default args ''--ttl-secs'' ''600'')) (\<lambda>ttl.
     rbind (parse_unsigned u32_max (arg_default args ''--max-operations'' ''10'')) (\<lambda>n.
     if ttl < 60 \<or> 3600 < ttl then Inl ''secret-session ttl must be within 60..3600 seconds''
     else if n < 1 \<or> 100 < n
     then Inl ''secret-session max operations must be within 1..100''
     else Inr (ttl, n)))"

definition helper_limits :: "nat \<times> nat" where "helper_limits = (300, 1)"

text \<open>The helper's socket before its first connection, and the terminal it reads the secret from.\<close>

record helper_setup =
  hs_bind :: "unit cli"
  hs_permissions :: "unit cli"
  hs_nonblocking :: "unit cli"
  hs_terminal :: terminal
  hs_decode :: "string \<Rightarrow> secret_operation cli"

definition serve_secret_helper ::
  "env \<Rightarrow> shell \<Rightarrow> helper_setup \<Rightarrow> string list \<Rightarrow> nat \<Rightarrow> bool \<Rightarrow> helper_event list
     \<Rightarrow> (unit world, string, helper_exit \<times> secret_operation list) action" where
  "serve_secret_helper E S H args max_operations require_operation events =
     bind (lift (arg_required args ''--socket'')) (\<lambda>socket.
     bind (lift (rbind (arg_required args ''--helper-key-file'') (\<lambda>p.
       read_private_text S p ''helper key file''))) (\<lambda>key.
     bind (lift (rbind (arg_required args ''--helper-id-file'') (\<lambda>p.
       read_private_text S p ''helper id file''))) (\<lambda>helper_id.
     bind (lift (arg_required args ''--redemption-dir'')) (\<lambda>_.
     bind (domain_op open_nonce_store) (\<lambda>_.
     if sh_exists S socket then fail ''secret-helper socket already exists''
     else
     bind (lift (hs_bind H)) (\<lambda>_.
     bind (lift (hs_permissions H)) (\<lambda>_.
     bind (lift (hs_nonblocking H)) (\<lambda>_.
     bind (lift (read_owner_secret (hs_terminal H))) (\<lambda>_.
     (\<lambda>w. case helper_loop E (hs_decode H) key helper_id max_operations require_operation events
           [] w of
         (exit, given, v) \<Rightarrow> (case exit of
             HelperFailed e \<Rightarrow> Inl e | _ \<Rightarrow> Inr (exit, given), v)))))))))))"

definition init_helper_command ::
  "env \<Rightarrow> string list \<Rightarrow> (unit world, string, string \<times> string) action" where
  "init_helper_command E args =
     bind (lift (arg_required args ''--helper-dir'')) (\<lambda>directory.
     bind (io_op io_call) (\<lambda>_.
     bind (io_op io_call) (\<lambda>_.
     bind (io_op io_call) (\<lambda>_.
     bind (io_op io_call) (\<lambda>_.
     bind (gets (\<lambda>w. w_rand w (w_draws w) 48)) (\<lambda>random.
     bind (modify (\<lambda>w. w\<lparr>w_draws := Suc (w_draws w)\<rparr>)) (\<lambda>_.
     let key_path = join_path directory ''helper.key''; id_path = join_path directory ''helper.id'' in
     bind (write_token key_path (hex_encode E (take 32 random))) (\<lambda>_.
     bind (write_token id_path (hex_encode E (drop 32 random))) (\<lambda>_.
     ret (key_path, id_path))))))))))"

section \<open>Paths\<close>

text \<open>
  \<open>Path\<close> compares by components: whether the path is absolute, and its names, a \<open>.\<close> counting
  only at the start. \<open>parent_parts\<close> is \<open>Path::parent\<close>.
\<close>

definition path_parts :: "string \<Rightarrow> bool \<times> string list" where
  "path_parts p =
     (let ps = split_on CHR ''/'' p in
      (p \<noteq> [] \<and> hd p = CHR ''/'',
       (if hd ps = ''.'' then [''.''] else []) @ filter (\<lambda>x. x \<noteq> [] \<and> x \<noteq> ''.'') ps))"

definition parent_parts :: "bool \<times> string list \<Rightarrow> (bool \<times> string list) option" where
  "parent_parts p = (if snd p = [] then None else Some (fst p, butlast (snd p)))"

section \<open>Executing an approved handoff\<close>

text \<open>
  The files and devices of \<open>execute-handoff\<close>: the view for the ownership checks, the decoder of
  the adapter's configuration, and the helper's socket and the adapter up to a deadline (in
  milliseconds from now).
\<close>

record handoff_tools =
  ht_view :: path_view
  ht_config :: "string \<Rightarrow> json cli"
  ht_io :: "nat \<Rightarrow> helper_io"
  ht_browser :: "json \<Rightarrow> nat \<Rightarrow> browser"

definition check_executable :: "handoff_tools \<Rightarrow> string \<Rightarrow> string \<Rightarrow> unit cli" where
  "check_executable T path label =
     (case path_parts path of (absolute, ps) \<Rightarrow> require_owner_executable (ht_view T) absolute ps label)"

definition check_regular :: "handoff_tools \<Rightarrow> string \<Rightarrow> string \<Rightarrow> unit cli" where
  "check_regular T path label =
     (case path_parts path of (absolute, ps) \<Rightarrow>
        require_absolute_regular_file (ht_view T) absolute ps label)"

definition handoff_config :: "handoff_tools \<Rightarrow> shell \<Rightarrow> string \<Rightarrow> (json \<times> nat) cli" where
  "handoff_config T S path =
     rbind (sh_text S path) (\<lambda>content.
     rbind (ht_config T content) (\<lambda>config.
     rbind (ok_or ''checkout adapter config requires browserExecutable''
       (j_as_str (j_field ''browserExecutable'' config))) (\<lambda>browser.
     rbind (check_executable T browser ''browser executable'') (\<lambda>_.
     rbind (ok_or ''checkout adapter config requires an integer timeoutMs'' (timeout_of config))
       (\<lambda>timeout_ms.
     if timeout_ms < 1000 \<or> 120000 < timeout_ms
     then Inl ''checkout adapter timeoutMs must be within 1000..120000''
     else Inr (config, timeout_ms))))))"

definition execute_bound_handoff ::
  "env \<Rightarrow> codec \<Rightarrow> handoff_tools \<Rightarrow> string \<Rightarrow> string \<Rightarrow> string \<Rightarrow> string \<Rightarrow> string \<Rightarrow> json \<times> nat
     \<Rightarrow> (treasury_state world, string, json) action" where
  "execute_bound_handoff E C T own intent_id helper_socket key helper_id conf =
     (let config = fst conf; deadline = hard_timeout_ms (snd conf);
          H = browser_env E (ht_io T deadline) in
     bind (cli_op (bind_approved_secret_helper_operation E own intent_id key helper_id
       (pv_euid (ht_view T)))) (\<lambda>operation.
     bind (gets w_state) (\<lambda>s.
     bind (lift (ok_or ''manual provider is not configured'' (manual_provider s))) (\<lambda>card.
     bind (lift (ok_or ''purchase intent was not found'' (bget (intents s) intent_id))) (\<lambda>i.
     bind (lift (cli (case path_parts helper_socket of (absolute, ps) \<Rightarrow>
       helper_provider_new (ht_view T) absolute ps (sr_reference (mp_card card)) operation))) (\<lambda>p.
     bind (lift (cli (handoff_new H operation (in_request i) p (ht_browser T config deadline)))) (\<lambda>x.
     cli_op (with_executor x (owner_execute_approved_handoff_persisted E C (handoff_executor E H)
       own intent_id)))))))))"

definition execute_handoff_command ::
  "env \<Rightarrow> codec \<Rightarrow> shell \<Rightarrow> handoff_tools \<Rightarrow> bool \<Rightarrow> string list
     \<Rightarrow> (treasury_state world, string, json) action" where
  "execute_handoff_command E C S T held args =
     bind (lift (data_dir args)) (\<lambda>_.
     bind (acquire held) (\<lambda>_.
     bind (lift (token_file S args True)) (\<lambda>own.
     bind (lift (arg_required args ''--intent-id'')) (\<lambda>intent_id.
     bind (lift (arg_required args ''--helper-socket'')) (\<lambda>helper_socket.
     bind (lift (rbind (arg_required args ''--helper-key-file'') (\<lambda>p.
       read_private_text S p ''helper key file''))) (\<lambda>key.
     bind (lift (rbind (arg_required args ''--helper-id-file'') (\<lambda>p.
       read_private_text S p ''helper id file''))) (\<lambda>helper_id.
     bind (lift (arg_required args ''--node-path'')) (\<lambda>node.
     bind (lift (arg_required args ''--adapter-script'')) (\<lambda>script.
     bind (lift (arg_required args ''--adapter-config'')) (\<lambda>config_path.
     bind (lift (check_executable T node ''Node executable'')) (\<lambda>_.
     bind (lift (check_regular T script ''checkout adapter script'')) (\<lambda>_.
     bind (lift (check_regular T config_path ''checkout adapter config'')) (\<lambda>_.
     bind (lift (handoff_config T S config_path)) (\<lambda>conf.
     bind (cli_op (load_treasury E C)) (\<lambda>_.
     bind (cli_op (recover_saved E C)) (\<lambda>_.
     execute_bound_handoff E C T own intent_id helper_socket key helper_id conf))))))))))))))))"

section \<open>Starting the broker\<close>

text \<open>\<open>ControlledCheckoutRuntime::from_args\<close> beyond its arguments: \<open>canonical\<close> resolves a path.\<close>

definition check_directory :: "handoff_tools \<Rightarrow> string \<Rightarrow> string \<Rightarrow> unit cli" where
  "check_directory T path label =
     (case path_parts path of (absolute, ps) \<Rightarrow> require_owner_directory (ht_view T) absolute ps label)"

definition runtime_from_args ::
  "handoff_tools \<Rightarrow> shell \<Rightarrow> (string \<Rightarrow> string cli) \<Rightarrow> string list \<Rightarrow> string list option cli" where
  "runtime_from_args T S canonical args =
     rbind (runtime_args args) (\<lambda>given.
     case given of
       None \<Rightarrow> Inr None
     | Some paths \<Rightarrow>
         rbind (rmap canonical paths) (\<lambda>ps.
         rbind (check_directory T (ps ! 0) ''checkout runtime directory'') (\<lambda>_.
         rbind (check_directory T (ps ! 1) ''checkout profiles directory'') (\<lambda>_.
         rbind (check_executable T (ps ! 2) ''Node executable'') (\<lambda>_.
         rbind (check_regular T (ps ! 3) ''checkout adapter script'') (\<lambda>_.
         rbind (read_private_text S (join_path (ps ! 0) ''helper.key'') ''helper key file'') (\<lambda>_.
         rbind (read_private_text S (join_path (ps ! 0) ''helper.id'') ''helper id file'') (\<lambda>_.
         Inr (Some (join_path (ps ! 0) ''session.sock'' # ps))))))))))"

text \<open>What \<open>serve\<close> has settled when it binds its sockets.\<close>

record broker_start =
  bk_agent_socket :: string
  bk_owner_socket :: string
  bk_agent_gid :: "nat option"
  bk_separate_agent :: bool
  bk_capabilities :: "(string \<times> int) list"
  bk_runtime :: "string list option"

definition serve_checks ::
  "string \<Rightarrow> string \<Rightarrow> nat option \<Rightarrow> nat \<Rightarrow> bool \<Rightarrow> unit cli" where
  "serve_checks directory agent_socket gid egid separate =
     (if separate \<and> gid = None
      then Inl ''manual provider mode requires --agent-gid and a separate agent OS identity''
      else if gid = Some egid then Inl ''--agent-gid must differ from the broker primary group''
      else if gid \<noteq> None \<and> parent_parts (path_parts agent_socket) = Some (path_parts directory)
      then Inl ''group-shared agent socket must be outside the private broker data directory''
      else Inr ())"

definition serve_start ::
  "env \<Rightarrow> codec \<Rightarrow> shell \<Rightarrow> handoff_tools \<Rightarrow> (string \<Rightarrow> string cli) \<Rightarrow> bool \<Rightarrow> string list
     \<Rightarrow> (treasury_state world, string, broker_start) action" where
  "serve_start E C S T canonical held args =
     bind (lift (data_dir args)) (\<lambda>directory.
     bind (acquire held) (\<lambda>_.
     bind (lift (runtime_from_args T S canonical args)) (\<lambda>runtime.
     let agent_socket = arg_default args ''--socket'' (join_path directory ''cixa.sock'');
         owner_socket = arg_default args ''--owner-socket'' (join_path directory ''owner.sock'') in
     bind (lift (parse_gid (arg_value args ''--agent-gid''))) (\<lambda>gid.
     if path_parts agent_socket = path_parts owner_socket
     then fail ''agent and owner sockets must use different paths''
     else
     bind (cli_op (load_treasury E C)) (\<lambda>_.
     bind (gets w_state) (\<lambda>s.
     let separate = (provider_mode s = ManualPrepaidCard) in
     bind (lift (serve_checks directory agent_socket gid (sh_egid S) separate)) (\<lambda>_.
     bind (cli_op (recover_saved E C)) (\<lambda>_.
     bind (cli_op active_agent_capabilities) (\<lambda>capabilities.
     ret \<lparr>bk_agent_socket = agent_socket, bk_owner_socket = owner_socket, bk_agent_gid = gid,
          bk_separate_agent = separate, bk_capabilities = capabilities,
          bk_runtime = runtime\<rparr>)))))))))"

end
