(* ===== verification/Frontend.thy ===== *)
theory Frontend
  imports Sessions Custody
begin

text \<open>
  What the command line guarantees: each request goes out under the token of its role, a secret
  helper answers a bounded number of distinct grants, and an agent's token is on disk before the
  agent is activated.
\<close>

section \<open>Tokens\<close>

definition private_token :: "shell \<Rightarrow> string list \<Rightarrow> bool \<Rightarrow> string \<Rightarrow> bool" where
  "private_token S args own token \<longleftrightarrow> token \<noteq> [] \<and>
     (\<exists>path mode content. arg_value args (token_option own) = Some path
        \<and> sh_meta S path = Inr (RegularFile, mode) \<and> \<not> group_or_other mode
        \<and> sh_text S path = Inr content \<and> token = trim content)"

lemma token_file_private: "token_file S args own = Inr token \<Longrightarrow> private_token S args own token"
  by (auto simp: token_file_def private_token_def rbind_Inr_iff arg_required_def Let_def
      split: if_splits)

lemmas command_defs =
  direct_command_def update_policy_command_def configure_receive_command_def
  agent_lifecycle_command_def arm_session_command_def configure_manual_provider_command_def
  record_deposit_command_def intent_command_def intent_id_command_def owner_intent_command_def
  owner_handoff_command_def approve_merchant_command_def reconcile_command_def stop_command_def

lemma command_tokens:
  "update_policy_command S args = Inr (t, r) \<Longrightarrow> token_file S args (requires_owner r) = Inr t"
  "configure_receive_command S args = Inr (t, r) \<Longrightarrow> token_file S args (requires_owner r) = Inr t"
  "agent_lifecycle_command S args b = Inr (t, r) \<Longrightarrow> token_file S args (requires_owner r) = Inr t"
  "arm_session_command S args = Inr (t, r) \<Longrightarrow> token_file S args (requires_owner r) = Inr t"
  "configure_manual_provider_command S args = Inr (t, r) \<Longrightarrow> token_file S args (requires_owner r) = Inr t"
  "record_deposit_command S args = Inr (t, r) \<Longrightarrow> token_file S args (requires_owner r) = Inr t"
  "intent_command S args = Inr (t, r) \<Longrightarrow> token_file S args (requires_owner r) = Inr t"
  "intent_id_command S args b = Inr (t, r) \<Longrightarrow> token_file S args (requires_owner r) = Inr t"
  "owner_intent_command S args = Inr (t, r) \<Longrightarrow> token_file S args (requires_owner r) = Inr t"
  "owner_handoff_command S args b = Inr (t, r) \<Longrightarrow> token_file S args (requires_owner r) = Inr t"
  "approve_merchant_command S args = Inr (t, r) \<Longrightarrow> token_file S args (requires_owner r) = Inr t"
  "reconcile_command S args = Inr (t, r) \<Longrightarrow> token_file S args (requires_owner r) = Inr t"
  "stop_command S args b = Inr (t, r) \<Longrightarrow> token_file S args (requires_owner r) = Inr t"
  by (auto simp: command_defs requires_owner_def rbind_Inr_iff split: if_splits)

lemma direct_tokens:
  "direct_command S args q = Inr (t, r) \<Longrightarrow> requires_owner q = (q = OwnerListAudit) \<Longrightarrow>
     token_file S args (requires_owner r) = Inr t"
  by (auto simp: direct_command_def rbind_Inr_iff)

text \<open>
  A command sends its request under the token of the role the request needs: an owner's
  operation under the token in the file named by \<open>--owner-token-file\<close>, any other under the one named by
  \<open>--token-file\<close>; the file is a regular one without access for group and others, and the token is
  its content less the white space around it, never empty and never an argument.
\<close>

theorem commands_use_the_token_of_their_role:
  assumes "command_request S c args = Some (Inr (token, operation))"
  shows "private_token S args (requires_owner operation) token"
proof (rule token_file_private)
  show "token_file S args (requires_owner operation) = Inr token"
    using assms
    by (auto simp: command_request_def requires_owner_def [of GetStatus] requires_owner_def [of GetBudget]
        requires_owner_def [of GetCapabilities] requires_owner_def [of GetReceiveInstructions]
        requires_owner_def [of OwnerListAudit] split: if_splits
        dest!: command_tokens direct_tokens)
qed

definition sample_shell :: shell where
  "sample_shell = \<lparr>sh_meta = (\<lambda>_. Inr (RegularFile, 384)), sh_text = (\<lambda>_. Inr (''tok'' @ [CHR 0x0A])),
     sh_exists = (\<lambda>_. False), sh_policy = (\<lambda>_. Inl ''no policy''), sh_purchase = (\<lambda>_. Inl ''no request''),
     sh_egid = 1000\<rparr>"

definition stop_args :: "string list" where
  "stop_args = [''--data-dir'', ''d'', ''--owner-token-file'', ''f'']"

lemma trim_line: "trim (''tok'' @ [CHR 0x0A]) = ''tok''"
  by (simp add: trim_def trim_start.simps space_length_def byte_def Let_def)

theorem commands_use_the_token_of_their_role_witness:
  "command_request sample_shell ''stop'' stop_args = Some (Inr (''tok'', OwnerSetEmergencyStop True))
     \<and> private_token sample_shell stop_args (requires_owner (OwnerSetEmergencyStop True)) ''tok''"
proof -
  have "command_request sample_shell ''stop'' stop_args = Some (Inr (''tok'', OwnerSetEmergencyStop True))"
    using trim_line
    by (simp add: command_request_def stop_command_def token_file_def sample_shell_def stop_args_def
        arg_required_def token_option_def group_or_other_def)
  with commands_use_the_token_of_their_role [OF this] show ?thesis by simp
qed

section \<open>The secret helper's sessions\<close>

definition marked :: "env \<Rightarrow> 's world \<Rightarrow> secret_operation \<Rightarrow> bool" where
  "marked E w p \<longleftrightarrow> file_at w (nonce_file E (so_nonce p)) \<noteq> None"

lemma redeem_marks:
  "wp (redeem_nonce E nonce)
     (\<lambda>_ v. file_at w (nonce_file E nonce) = None \<and> file_at v (nonce_file E nonce) \<noteq> None
        \<and> (\<forall>n. file_at w n \<noteq> None \<longrightarrow> file_at v n \<noteq> None)) (\<lambda>_ _. True) w"
  unfolding redeem_nonce_def Let_def sync_directory_def
  by (auto simp: wp_bind wp_basic wp_if wp_io wp_put_file wp_write_all file_at_def split: option.splits)

lemma redeem_operation_marks:
  "wp (redeem_owner_helper_operation E p key helper uid)
     (\<lambda>_ v. (\<exists>at. grant_valid E p key helper uid at) \<and> \<not> marked E w p \<and> marked E v p
        \<and> (\<forall>q. marked E w q \<longrightarrow> marked E v q)) (\<lambda>_ _. True) w"
proof -
  have first: "wp (if length key < 32 then ret True
        else bind now (\<lambda>at. ret (so_expires_at p \<le> at \<or> so_helper_id p \<noteq> Some helper
          \<or> so_broker_uid p \<noteq> Some uid)))
      (\<lambda>b v. (b \<or> 32 \<le> length key \<and> (\<exists>at. at < so_expires_at p)
        \<and> so_helper_id p = Some helper \<and> so_broker_uid p = Some uid)
        \<and> (\<forall>n. file_at v n = file_at w n)) (\<lambda>_ _. True) w"
    by (auto simp: wp_basic wp_bind wp_now file_at_def) (metis linorder_not_less)
  show ?thesis
    unfolding redeem_owner_helper_operation_def
    by (rule wp_seq [OF first])
      (auto simp: wp_basic grant_valid_def constant_time_eq_iff marked_def
        intro!: wp_mono [OF redeem_marks])
qed

lemma admit_marks:
  assumes "admit_operation E decode key helper c w = (Inr p, v)"
  shows "(\<exists>uid at. grant_valid E p key helper uid at) \<and> \<not> marked E w p \<and> marked E v p
    \<and> (\<forall>q. marked E w q \<longrightarrow> marked E v q)"
proof -
  from assms obtain uid where "domain_op (redeem_owner_helper_operation E p key helper uid) w = (Inr (), v)"
    by (auto simp: admit_operation_def Let_def bind_Inr_iff lift_def split: if_splits)
  then have "redeem_owner_helper_operation E p key helper uid w = (Inr (), v)"
    by (auto simp: domain_op_def cli_def split: prod.splits sum.splits)
  from wp_OkD [OF redeem_operation_marks this] show ?thesis by blast
qed

definition well_given :: "env \<Rightarrow> string \<Rightarrow> string \<Rightarrow> nat \<Rightarrow> secret_operation list \<Rightarrow> 's world \<Rightarrow> bool" where
  "well_given E key helper n given w \<longleftrightarrow> length given \<le> n \<and> distinct (map so_nonce given)
     \<and> list_all (\<lambda>p. marked E w p \<and> (\<exists>uid at. grant_valid E p key helper uid at)) given"

lemma well_given_more:
  assumes "well_given E key helper n given w" and "length given < n"
    and "admit_operation E decode key helper c w = (Inr p, v)"
  shows "well_given E key helper n (given @ [p]) v"
proof -
  note m = admit_marks [OF assms(3)]
  have "so_nonce p \<notin> so_nonce ` set given"
    using assms(1) m by (auto simp: well_given_def list_all_iff marked_def)
  with assms(1,2) m show ?thesis by (auto simp: well_given_def list_all_iff)
qed

lemma helper_loop_given:
  "helper_loop E decode key helper n req events given (w :: 's world) = (x, given', v) \<Longrightarrow>
     well_given E key helper n given w \<Longrightarrow> \<exists>u :: 's world. well_given E key helper n given' u"
proof (induction events arbitrary: given w)
  case Nil
  then show ?case by (subst (asm) helper_loop.simps) (auto split: if_splits)
next
  case (Cons e events)
  note step = Cons.prems(1) [unfolded helper_loop.simps [of E decode key helper n req "e # events" given w]]
  show ?case
  proof (cases "n \<le> length given")
    case True
    with step Cons.prems(2) show ?thesis by auto
  next
    case False
    show ?thesis
    proof (cases e)
      case (HelperConnection c)
      obtain r u where a: "admit_operation E decode key helper c w = (r, u)" by fastforce
      show ?thesis
      proof (cases r)
        case (Inr p)
        with well_given_more [OF Cons.prems(2)] False a have "well_given E key helper n (given @ [p]) u"
          by auto
        with Cons.IH step HelperConnection False a Inr show ?thesis by (auto split: sum.splits)
      qed (use step Cons.prems(2) HelperConnection False a in auto)
    qed (use step Cons.IH Cons.prems(2) False in \<open>auto split: if_splits\<close>)
  qed
qed

text \<open>
  C40: A secret helper gives its secret to at most \<open>n\<close> operations, whatever connects to it in
  whatever order: each of them presented its own nonce, in a grant that the helper key
  authenticated for this helper and the peer that connected.
\<close>

theorem helper_session_is_bounded:
  assumes "helper_loop E decode key helper n req events [] w = (x, given, v)"
  shows "length given \<le> n \<and> distinct (map so_nonce given)
    \<and> list_all (\<lambda>p. \<exists>uid at. grant_valid E p key helper uid at) given"
proof -
  have "well_given E key helper n [] w" by (simp add: well_given_def)
  from helper_loop_given [OF assms this] show ?thesis
    by (auto simp: well_given_def list_all_iff)
qed

definition helper_key_text :: string where
  "helper_key_text = replicate 32 CHR ''k''"

definition signed_operation :: secret_operation where
  "signed_operation = sample_operation\<lparr>so_helper_mac :=
     Some (hmac_hash plain_env helper_key_text (helper_payload sample_operation))\<rparr>"

definition sample_connection :: helper_connection where
  "sample_connection = \<lparr>hc_timeouts = Inr (), hc_target = Linux, hc_peer = Inr 7, hc_input = Inr [CHR 0x0A], hc_written = Inr ()\<rparr>"

definition calm_world :: "unit world" where
  "calm_world = \<lparr>w_state = (), w_key = [], w_clock = (\<lambda>_. 100), w_reads = 0, w_rand = (\<lambda>_ n. replicate n CHR ''r''),
     w_draws = 0, w_disk = \<lparr>d_path = ''redeemed'', d_dir = None, d_files = bempty\<rparr>,
     w_io = (\<lambda>_. None), w_ios = 0\<rparr>"

theorem helper_session_is_bounded_witness:
  "\<exists>v. helper_loop plain_env (\<lambda>_. Inr signed_operation) helper_key_text ''helper'' 1 True
       [HelperConnection sample_connection] [] calm_world
     = (HelperDone, [signed_operation], v)
     \<and> list_all (\<lambda>p. \<exists>uid at. grant_valid plain_env p helper_key_text ''helper'' uid at) [signed_operation]"
proof -
  have payload: "helper_payload signed_operation = helper_payload sample_operation"
    by (simp add: signed_operation_def helper_payload_def)
  have key: "length helper_key_text = 32" by (simp add: helper_key_text_def)
  have "\<exists>v. redeem_owner_helper_operation plain_env signed_operation helper_key_text ''helper'' 7 calm_world
      = (Inr (), v)"
    using payload key
    by (simp add: redeem_owner_helper_operation_def run_bind redeem_nonce_def Let_def signed_operation_def
        sample_operation_def calm_world_def constant_time_eq_iff io_call_def write_all_def put_file_def
        sync_directory_def file_at_def)
  then obtain v where r: "redeem_owner_helper_operation plain_env signed_operation helper_key_text ''helper''
      7 calm_world = (Inr (), v)" by blast
  have "admit_operation plain_env (\<lambda>_. Inr signed_operation) helper_key_text ''helper''
      sample_connection calm_world = (Inr signed_operation, v)"
    using r by (simp add: admit_operation_def run_bind sample_connection_def read_frame_def
        max_frame_bytes_def domain_op_def cli_def unix_peer_effective_uid_def)
  then have "helper_loop plain_env (\<lambda>_. Inr signed_operation) helper_key_text ''helper'' 1 True
       [HelperConnection sample_connection] [] calm_world
     = (HelperDone, [signed_operation], v)"
    by (simp add: helper_loop.simps sample_connection_def)
  with helper_session_is_bounded [OF this] show ?thesis by blast
qed

section \<open>Prepared tokens\<close>

lemma wp_io_op: "wp (io_op m) Q R w = wp m Q (\<lambda>e. R (io_text e)) w"
  by (simp add: wp_def io_op_def split: prod.split sum.split)

lemma wp_outside: "wp (outside m) Q R (w, t) = wp m (\<lambda>x u. Q x (w, u)) (\<lambda>e u. R e (w, u)) t"
  by (simp add: wp_def outside_def split: prod.split sum.split)

lemma wp_inside: "wp (inside m) Q R (w, t) = wp m (\<lambda>x v. Q x (v, t)) (\<lambda>e v. R e (v, t)) w"
  by (simp add: wp_def inside_def split: prod.split sum.split)

text \<open>The token file with its mode, and the modes a prepared one may have.\<close>

definition holds_token :: "string \<Rightarrow> string \<Rightarrow> nat set \<Rightarrow> unit world \<Rightarrow> bool" where
  "holds_token path token modes u \<longleftrightarrow> (\<exists>mode \<in> modes. file_at u path =
     Some \<lparr>fn_kind = RegularFile, fn_mode = mode, fn_bytes = token @ [CHR 0x0A]\<rparr>)"

definition token_modes :: "nat option \<Rightarrow> nat set" where
  "token_modes agent_gid = (if agent_gid = None then {384} else {416})"

lemma write_token_wp:
  "wp (write_token path token) (\<lambda>_ v. file_at w path = None \<and> holds_token path token {384} v)
     (\<lambda>_ _. True) w"
  unfolding write_token_def Let_def sync_directory_def
  by (auto simp: wp_bind wp_basic wp_if wp_io_op wp_io wp_put_file wp_write_all file_at_def
      holds_token_def split: option.splits)

lemma put_file_snd:
  "snd (put_file name f w) = w\<lparr>w_disk := (w_disk w)\<lparr>d_files := bput name f (d_files (w_disk w))\<rparr>\<rparr>"
  by (simp add: put_file_def modify_def)

lemma share_wp:
  "wp (share_with_agent_group name mode)
     (\<lambda>_ v. file_at v path = (if name = path then map_option (fn_mode_update (\<lambda>_. mode)) (file_at w path)
        else file_at w path)) (\<lambda>_ _. True) w"
  unfolding share_with_agent_group_def
  by (auto simp: wp_bind wp_basic wp_modify wp_io_op wp_io put_file_snd file_at_def
      split: option.splits)

lemma holds_token_share:
  assumes "holds_token path token modes w"
  shows "wp (share_with_agent_group name mode) (\<lambda>_. holds_token path token (insert mode modes)) (\<lambda>_ _. True) w"
    and "wp (share_with_agent_group path mode) (\<lambda>_. holds_token path token {mode}) (\<lambda>_ _. True) w"
  by (rule wp_mono [OF share_wp [where path = path]]; use assms in \<open>auto simp: holds_token_def\<close>)+

lemma holds_token_sync:
  "holds_token path token modes w \<Longrightarrow>
     wp sync_directory (\<lambda>_. holds_token path token modes) (\<lambda>_ _. True) w"
  by (simp add: sync_directory_def wp_bind wp_io holds_token_def file_at_def split: option.split)

text \<open>The part of the activation before the request: it leaves the treasury alone.\<close>

definition prepare_token :: "env \<Rightarrow> string \<Rightarrow> nat option \<Rightarrow> string session" where
  "prepare_token E path agent_gid =
     bind (outside (io_op (random_hex E 32))) (\<lambda>token.
     bind (outside (write_token path token)) (\<lambda>_.
     bind (case agent_gid of
             None \<Rightarrow> ret ()
           | Some _ \<Rightarrow>
               bind (outside (share_with_agent_group (parent_of path) 488)) (\<lambda>_.
               bind (outside (share_with_agent_group path 416)) (\<lambda>_.
               bind (outside (io_op sync_directory)) (\<lambda>_.
               outside (io_op sync_directory))))) (\<lambda>_.
     ret token)))"

lemma activate_prepared:
  "activate_with_prepared_token E path agent_gid activate =
     bind (prepare_token E path agent_gid) (\<lambda>token. bind (attempt (activate token)) (\<lambda>r.
     case r of Inl e \<Rightarrow> fail (activation_error path e) | Inr v \<Rightarrow> ret v))"
  by (auto simp: fun_eq_iff activate_with_prepared_token_def prepare_token_def bind_def ret_def
      split: prod.splits sum.splits option.splits)

lemma prepare_token_wp:
  "wp (prepare_token E path agent_gid)
     (\<lambda>token (v, u). v = w \<and> file_at t path = None \<and> holds_token path token (token_modes agent_gid) u)
     (\<lambda>_ (v, u). v = w) (w, t)"
proof -
  have written: "wp (write_token path token)
      (\<lambda>_ u. file_at t path = None \<and> holds_token path token {384} u) (\<lambda>_ _. True) t'"
    if "file_at t' path = file_at t path" for t' token
    using write_token_wp [of path token t'] that by (simp add: wp_mono)
  have share: "wp (bind (outside (share_with_agent_group (parent_of path) 488)) (\<lambda>_.
      bind (outside (share_with_agent_group path 416)) (\<lambda>_.
      bind (outside (io_op sync_directory)) (\<lambda>_. outside (io_op sync_directory)))))
      (\<lambda>_ (v, u). v = w \<and> holds_token path token {416} u) (\<lambda>_ (v, u). v = w) (w, u)"
    if "holds_token path token {384} u" for token u
    unfolding wp_bind wp_outside wp_io_op
    by (rule wp_mono [OF holds_token_share(1) [OF that]], simp_all,
        rule wp_mono [OF holds_token_share(2)], assumption, simp_all,
        rule wp_mono [OF holds_token_sync], assumption, simp_all,
        rule wp_mono [OF holds_token_sync], assumption, simp_all)
  have rest: "wp (bind (case agent_gid of
             None \<Rightarrow> ret ()
           | Some _ \<Rightarrow>
               bind (outside (share_with_agent_group (parent_of path) 488)) (\<lambda>_.
               bind (outside (share_with_agent_group path 416)) (\<lambda>_.
               bind (outside (io_op sync_directory)) (\<lambda>_.
               outside (io_op sync_directory))))) (\<lambda>_. ret token))
      (\<lambda>token (v, u). v = w \<and> file_at t path = None \<and> holds_token path token (token_modes agent_gid) u)
      (\<lambda>_ (v, u). v = w) (w, u)"
    if "file_at t path = None" and "holds_token path token {384} u" for token u
  proof (cases agent_gid)
    case None
    with that show ?thesis by (simp add: wp_bind wp_basic token_modes_def)
  next
    case (Some g)
    then show ?thesis
      unfolding wp_bind [of "case agent_gid of None \<Rightarrow> _ | Some _ \<Rightarrow> _"]
      using that by (auto simp: wp_basic token_modes_def intro!: wp_mono [OF share])
  qed
  show ?thesis
    unfolding prepare_token_def wp_bind [of "outside _"] wp_outside wp_io_op wp_random
    by (rule wp_mono [OF written], simp add: file_at_def, elim conjE, rule rest, assumption+, simp)
qed

text \<open>
  C29: An agent's capability is on disk before anyone can use it. \<open>create-agent\<close> changes the
  treasury only through the one request that enrols the agent under the token it has prepared; by
  then the token file, which did not exist before, holds exactly that token, readable by nobody but
  the owner and, if one was named, the agent's group, and it stays whatever the request's result.
\<close>

theorem token_is_prepared_before_activation:
  assumes "create_agent_command E C S K held args (w, t) = (r, (v, u))" and "v \<noteq> w"
  shows "\<exists>e token r'. enrollment_of S args = Inr e \<and> file_at t (er_token_path e) = None
    \<and> holds_token (er_token_path e) token (token_modes (er_agent_gid e)) u
    \<and> run_request E C S K held args (er_owner e) (OwnerCreateAgentPrepared (er_name e) (er_policy e)
        (er_mode e) (er_ttl_secs e) token) w = (r', v)"
proof (cases "enrollment_of S args")
  case (Inl x)
  with assms show ?thesis by (simp add: create_agent_command_def run_bind)
next
  case (Inr e)
  let ?run = "\<lambda>token. run_request E C S K held args (er_owner e) (OwnerCreateAgentPrepared (er_name e)
    (er_policy e) (er_mode e) (er_ttl_secs e) token)"
  obtain x v1 u1 where p: "prepare_token E (er_token_path e) (er_agent_gid e) (w, t) = (x, (v1, u1))"
    by (metis prod.exhaust)
  note pw = prepare_token_wp [of E "er_token_path e" "er_agent_gid e" w t]
  show ?thesis
  proof (cases x)
    case (Inl err)
    with pw p have "v1 = w" by (simp add: wp_def)
    with assms Inr p Inl show ?thesis by (simp add: create_agent_command_def activate_prepared run_bind)
  next
    case (Inr token)
    with pw p have v1: "v1 = w" and ok: "file_at t (er_token_path e) = None"
      "holds_token (er_token_path e) token (token_modes (er_agent_gid e)) u1"
      by (simp_all add: wp_def)
    obtain r' v2 where run: "?run token w = (r', v2)" by fastforce
    then have "v2 = v" and "u1 = u"
      using assms(1) \<open>enrollment_of S args = Inr e\<close> p Inr v1
      by (auto simp: create_agent_command_def activate_prepared run_bind attempt_def inside_def
          split: sum.splits)
    with ok run \<open>enrollment_of S args = Inr e\<close> show ?thesis by blast
  qed
qed

definition enrol_args :: "string list" where
  "enrol_args = [''--data-dir'', ''d'', ''--owner-token-file'', ''f'', ''--agent-token-file'', ''t'']"

definition sample_link :: link where
  "sample_link = \<lparr>lk_pid = 9, lk_nanos = Inr 1, lk_exchange = (\<lambda>_ _ _. Inl ''no broker''),
     lk_response = (\<lambda>_. Inl ''no broker'')\<rparr>"

lemma demo_policy: "\<exists>p. conservative_demo = Inr p"
  by (simp add: conservative_demo_def money_positive_def money_new_def is_ascii_uppercase_def byte_def)

lemma parse_3600: "parse_i64 ''3600'' = Inr 3600"
  by (simp add: parse_i64_def add_digit_def is_ascii_digit_def digit_val_def byte_def)

lemma busy_lock:
  "\<exists>v. acquire True (small_world PolicyValidated)
     = (Inl ''treasury data directory is already owned by another writer'', v)
     \<and> w_ios v \<noteq> w_ios (small_world PolicyValidated)"
  by (simp add: acquire_def run_bind io_op_def create_directory_def directory_metadata_def
      restrict_directory_def open_lock_file_def metadata_of_def io_call_def small_world_def
      file_at_def put_file_def guard_def attempt_def modify_def ok_or_def Let_def)

theorem token_is_prepared_before_activation_witness:
  "\<exists>r v u e token r'. create_agent_command plain_env plain_codec sample_shell sample_link True enrol_args
       (small_world PolicyValidated, calm_world) = (r, (v, u))
     \<and> enrollment_of sample_shell enrol_args = Inr e \<and> er_token_path e = ''t''
     \<and> file_at calm_world ''t'' = None \<and> holds_token ''t'' token {384} u
     \<and> run_request plain_env plain_codec sample_shell sample_link True enrol_args (er_owner e)
         (OwnerCreateAgentPrepared (er_name e) (er_policy e) (er_mode e) (er_ttl_secs e) token)
         (small_world PolicyValidated) = (r', v)"
proof -
  let ?w = "small_world PolicyValidated"
  obtain p where demo: "conservative_demo = Inr p" using demo_policy by blast
  obtain e where e: "enrollment_of sample_shell enrol_args = Inr e" "er_token_path e = ''t''"
    "er_agent_gid e = None"
    by (simp add: demo trim_line [simplified] parse_3600 enrollment_of_def token_file_def sample_shell_def enrol_args_def arg_required_def
        token_option_def group_or_other_def parse_gid_def parse_mode_def arg_default_def cli_def)
  obtain v' where busy: "acquire True ?w
      = (Inl ''treasury data directory is already owned by another writer'', v')" "w_ios v' \<noteq> w_ios ?w"
    using busy_lock by blast
  have refused: "run_request plain_env plain_codec sample_shell sample_link True enrol_args own op ?w
      = (Inl ''treasury data directory is already owned by another writer'', v')" for own op
    using busy by (simp add: run_request_def run_bind run_local_def data_dir_def enrol_args_def
        arg_required_def sample_shell_def Let_def)
  obtain r v u where c: "create_agent_command plain_env plain_codec sample_shell sample_link True enrol_args
      (?w, calm_world) = (r, (v, u))" by (metis prod.exhaust)
  have "\<exists>token u'. prepare_token plain_env ''t'' None (?w, calm_world) = (Inr token, (?w, u'))"
    by (simp add: prepare_token_def run_bind outside_def io_op_def write_token_def calm_world_def
        io_call_def write_all_def put_file_def modify_def sync_directory_def file_at_def Let_def)
  then have "v = v'"
    using c e refused
    by (auto simp: create_agent_command_def activate_prepared run_bind attempt_def inside_def)
  with busy(2) have "v \<noteq> ?w" by auto
  from token_is_prepared_before_activation [OF c this] e c show ?thesis
    by (auto simp: token_modes_def)
qed

end
