(* ===== verification/Forms.thy ===== *)
theory Forms
  imports Durability
begin

text \<open>
  The form of the persisted state (\<open>validate_state\<close>). \<open>save_to\<close> refuses a state that is not valid,
  so a payment whose outcome made the state invalid could not be recorded. It cannot happen: the
  steps of an execution keep the form on every branch.
\<close>

section \<open>The parts of a valid state\<close>

abbreviation valid :: "env \<Rightarrow> treasury_state \<Rightarrow> bool" where
  "valid E s \<equiv> validate_state E s = Inr ()"

definition quota_ok :: "treasury_state \<Rightarrow> bool" where
  "quota_ok s \<longleftrightarrow> ordinary_count (audit_log s) \<le> max_audit_entries
     \<and> emergency_count (audit_log s) \<le> emergency_audit_reserve + 1"

definition receipt_ok :: "env \<Rightarrow> purchase_intent \<Rightarrow> bool" where
  "receipt_ok E i \<longleftrightarrow> validate_stored_receipt E i = Inr ()"

definition intent_ok :: "env \<Rightarrow> treasury_state \<Rightarrow> string \<Rightarrow> purchase_intent \<Rightarrow> bool" where
  "intent_ok E s k i \<longleftrightarrow> in_id i = k \<and> bget (agents s) (in_agent_id i) \<noteq> None
     \<and> in_broker_session_id i \<noteq> []
     \<and> iso_code (currency (rq_amount (in_request i))) \<and> 0 < minor (rq_amount (in_request i))
     \<and> iso_code (currency (final_total (in_request i))) \<and> 0 < minor (final_total (in_request i))
     \<and> receipt_ok E i"

definition event_ok :: "treasury_state \<Rightarrow> ledger_event \<Rightarrow> bool" where
  "event_ok s e \<longleftrightarrow> validate_stored_event s e = Inr ()"

lemma counts: "length es - emergency_count es = ordinary_count es"
  using sum_length_filter_compl [of "\<lambda>e. is_emergency_audit (au_action e)" es]
  by (simp add: emergency_count_def ordinary_count_def)

lemma validate_stored_intent_ok: "validate_stored_intent E s (k, i) = Inr () \<longleftrightarrow> intent_ok E s k i"
  by (auto simp: validate_stored_intent_def intent_ok_def receipt_ok_def rbind_Inr_iff require_that_def
      ensure_def)

lemma valid_parts:
  "valid E s \<longleftrightarrow> schema_version s = 2 \<and> bsize (intents s) \<le> max_intents
     \<and> bsize (agents s) \<le> max_agents \<and> quota_ok s
     \<and> length (ow_token_hash (owner s)) = 64
     \<and> (\<forall>e \<in> set (items (policies s)). validate_stored_policy E e = Inr ())
     \<and> (\<forall>e \<in> set (items (agents s)). validate_stored_agent E s e = Inr ())
     \<and> (\<forall>k i. bget (intents s) k = Some i \<longrightarrow> intent_ok E s k i)
     \<and> (\<forall>e \<in> set (ledger s). event_ok s e) \<and> validate_provider E s = Inr ()
     \<and> (\<forall>x \<in> set (bkeys (processed_deposits s)). bounded x ''external_reference'' 160 = Inr ())"
  by (auto simp: validate_state_def rbind_Inr_iff require_that_def ensure_def rall_Inr_iff
      validate_quota_def counts quota_ok_def event_ok_def Let_def bget_items
      simp flip: validate_stored_intent_ok)

text \<open>
  \<open>drafted E s i t j\<close>: on the way from \<open>s\<close>, whose stored intent \<open>i\<close> is being worked on, the state
  is \<open>t\<close> and the intent \<open>j\<close>; writing \<open>j\<close> back would give a valid state if its receipt is right.
\<close>

definition drafted ::
  "env \<Rightarrow> treasury_state \<Rightarrow> purchase_intent \<Rightarrow> treasury_state \<Rightarrow> purchase_intent \<Rightarrow> bool" where
  "drafted E s i t j \<longleftrightarrow> schema_version t = schema_version s \<and> owner t = owner s
     \<and> policies t = policies s \<and> agents t = agents s \<and> intents t = intents s
     \<and> processed_deposits t = processed_deposits s \<and> quota_ok t
     \<and> (\<forall>e \<in> set (ledger t). event_ok s e) \<and> validate_provider E t = Inr ()
     \<and> in_id j = in_id i \<and> in_agent_id j = in_agent_id i \<and> in_request j = in_request i
     \<and> in_broker_session_id j = in_broker_session_id i"

lemma drafted_refl: "valid E s \<Longrightarrow> drafted E s i s i"
  by (simp add: valid_parts drafted_def)

lemma event_ok_mono:
  "event_ok s e \<Longrightarrow> (\<And>k. bget (intents s) k \<noteq> None \<Longrightarrow> bget (intents t) k \<noteq> None) \<Longrightarrow> event_ok t e"
  by (auto simp: event_ok_def validate_stored_event_def rbind_Inr_iff require_that_def ensure_def
      split: option.splits if_splits)

lemma validate_provider_cong:
  "provider_mode t = provider_mode s \<Longrightarrow> provider t = provider s \<Longrightarrow> manual_provider t = manual_provider s \<Longrightarrow>
     validate_provider E t = validate_provider E s"
  unfolding validate_provider_def by (simp only:)

lemma drafted_put:
  assumes s: "valid E s" and i: "bget (intents s) k = Some i"
    and d: "drafted E s i t j" and r: "receipt_ok E j"
  shows "valid E (t\<lparr>intents := bput (in_id j) j (intents t)\<rparr>)"
proof -
  let ?u = "t\<lparr>intents := bput (in_id j) j (intents t)\<rparr>"
  have k: "in_id j = k" "bget (intents t) k = Some i"
    using s i d by (auto simp: valid_parts intent_ok_def drafted_def)
  have ok: "intent_ok E t k j" using s i d r by (auto simp: valid_parts intent_ok_def drafted_def)
  have same: "schema_version t = schema_version s" "owner t = owner s" "policies t = policies s"
    "agents t = agents s" "processed_deposits t = processed_deposits s" "intents t = intents s"
    "quota_ok t" "validate_provider E t = Inr ()"
    using d by (simp_all add: drafted_def)
  have "\<forall>e \<in> set (ledger ?u). event_ok ?u e"
    using d k by (auto simp: drafted_def intro: event_ok_mono [of s])
  moreover have "\<forall>l x. bget (intents ?u) l = Some x \<longrightarrow> intent_ok E ?u l x"
    using ok k s same by (auto simp: intent_ok_def valid_parts)
  moreover have "bsize (intents ?u) = bsize (intents s)"
    using k same by (simp add: bsize_bput)
  moreover have "validate_stored_agent E ?u = validate_stored_agent E s"
    using same by (intro ext) (simp add: validate_stored_agent_def)
  moreover have "validate_provider E ?u = validate_provider E t"
    by (rule validate_provider_cong) simp_all
  moreover have "quota_ok ?u" using same by (simp add: quota_ok_def)
  ultimately show ?thesis
    using s unfolding valid_parts by (simp add: same)
qed

lemma drafted_trans_audit:
  assumes "drafted E s i t j" and "\<not> audit_refused t (au_action e)" and "\<not> is_emergency_audit (au_action e)"
  shows "drafted E s i (audited t e) j"
proof -
  have "quota_ok (audited t e)"
    using assms by (auto simp: drafted_def quota_ok_def audit_refused_def audit_capacity_allows_def
        is_emergency_audit_def ordinary_count_def emergency_count_def max_audit_entries_def
        audit_safety_reserve_def split: if_splits)
  moreover have "validate_provider E (audited t e) = validate_provider E t"
    by (rule validate_provider_cong) (simp_all add: audited_def)
  ultimately show ?thesis using assms(1) by (simp add: drafted_def)
qed

section \<open>Settling an outcome\<close>

text \<open>\<open>stored E s i\<close>: \<open>i\<close> is an intent of the valid state \<open>s\<close>.\<close>

definition stored :: "env \<Rightarrow> treasury_state \<Rightarrow> purchase_intent \<Rightarrow> bool" where
  "stored E s i \<longleftrightarrow> valid E s \<and> bget (intents s) (in_id i) = Some i"

lemma storedI: "valid E s \<Longrightarrow> bget (intents s) k = Some i \<Longrightarrow> stored E s i"
  by (auto simp: stored_def valid_parts intent_ok_def)

lemma stored_total:
  assumes "stored E s i"
  shows "0 < minor (final_total (in_request i)) \<and> iso_code (currency (final_total (in_request i)))
    \<and> receipt_ok E i"
  using assms by (auto simp: stored_def valid_parts intent_ok_def)

lemma drafted_event:
  assumes "event_ok s e" and "drafted E s i t j"
  shows "drafted E s i (t\<lparr>ledger := ledger t @ [e]\<rparr>) j"
proof -
  have "validate_provider E (t\<lparr>ledger := ledger t @ [e]\<rparr>) = validate_provider E t"
    by (rule validate_provider_cong) simp_all
  with assms show ?thesis by (simp add: drafted_def quota_ok_def)
qed

lemma event_ok_total:
  assumes "stored E s i" and "le_amount e = final_total (in_request i)" and "le_intent_id e = Some (in_id i)"
  shows "event_ok s e"
  using assms stored_total [OF assms(1)]
  by (auto simp: event_ok_def validate_stored_event_def rbind_Inr_iff require_that_def ensure_def stored_def)

lemma drafted_ledger:
  assumes "stored E s i" and "drafted E s i (w_state w) j"
  shows "wp (append_ledger E kind (final_total (in_request j)) (Some (in_id j)) source verified)
    (\<lambda>_ v. drafted E s i (w_state v) j) (\<lambda>_ _. False) w"
proof -
  have "event_ok s e" if "le_amount e = final_total (in_request j)" "le_intent_id e = Some (in_id j)" for e
    using that assms(2) by (intro event_ok_total [OF assms(1)]) (simp_all add: drafted_def)
  with assms(2) show ?thesis unfolding append_ledger_def by (simp add: wp_simps drafted_event)
qed

lemma drafted_intent:
  "drafted E s i t j \<Longrightarrow> in_id x = in_id j \<Longrightarrow> in_agent_id x = in_agent_id j \<Longrightarrow> in_request x = in_request j \<Longrightarrow>
     in_broker_session_id x = in_broker_session_id j \<Longrightarrow> drafted E s i t x"
  by (simp add: drafted_def)

lemma drafted_fields [simp]:
  "drafted E s i t (j\<lparr>in_state := n\<rparr>) = drafted E s i t j"
  "drafted E s i t (j\<lparr>in_updated_at := at\<rparr>) = drafted E s i t j"
  "drafted E s i t (j\<lparr>in_last_error := e\<rparr>) = drafted E s i t j"
  "drafted E s i t (j\<lparr>in_provider_reference := e\<rparr>) = drafted E s i t j"
  by (simp_all add: drafted_def)

lemma receipt_other:
  "receipt_ok E i \<Longrightarrow> in_id j = in_id i \<Longrightarrow> in_receipt j = in_receipt i \<Longrightarrow> in_receipt_hash j = in_receipt_hash i \<Longrightarrow>
     in_state j \<noteq> Settled \<Longrightarrow> in_state j \<noteq> Refunded \<Longrightarrow> receipt_ok E j"
  by (auto simp: receipt_ok_def validate_stored_receipt_def require_that_def ensure_def
      split: option.splits if_splits)

lemma drafted_receipt:
  assumes "drafted E s i (w_state w) j"
  shows "wp (issue_receipt E j) (\<lambda>x v. w_state v = w_state w \<and> drafted E s i (w_state v) x \<and> receipt_ok E x)
    (\<lambda>_ v. w_state v = w_state w) w"
  using assms
  by (auto simp: wp_issue_receipt Let_def receipt_ok_def validate_stored_receipt_def require_that_def
      ensure_def intro: drafted_intent)

lemma drafted_settled:
  assumes "stored E s i" and "drafted E s i (w_state w) j"
  shows "wp (record_settled E j) (\<lambda>_ v. drafted E s i (w_state v) j) (\<lambda>_ _. False) w"
proof -
  have spend: "wp (bind get_state (\<lambda>s. if has_event s (in_id j) SpendingSettled then ret ()
      else append_ledger E SpendingSettled (final_total (in_request j)) (Some (in_id j))
        (provider_id s) True)) (\<lambda>_ v. drafted E s i (w_state v) j) (\<lambda>_ _. False) u"
    if "drafted E s i (w_state u) j" for u
    using that drafted_ledger [OF assms(1) that] by (simp add: wp_head_state wp_tail_if wp_basic)
  show ?thesis
    unfolding record_settled_def wp_head_state wp_head_if wp_head_ret
    using wp_seq [OF drafted_ledger [OF assms] spend] spend [OF assms(2)] by (simp add: wp_head_state)
qed

lemma drafted_outcome:
  assumes s: "stored E (w_state w) i" and i: "in_state i = Executing"
  shows "wp (settle_outcome E i out)
    (\<lambda>x v. drafted E (w_state w) i (w_state v) (fst x) \<and> receipt_ok E (fst x)) (\<lambda>_ v. w_state v = w_state w) w"
proof -
  have ct: "can_transition Executing Settled" "can_transition Executing Declined"
    "can_transition Executing ProviderPending" "can_transition Executing Unknown"
    by (simp_all add: can_transition_into)
  have d: "drafted E (w_state w) i (w_state w) j" if "in_id j = in_id i" "in_agent_id j = in_agent_id i"
    "in_request j = in_request i" "in_broker_session_id j = in_broker_session_id i" for j
    using drafted_intent [OF drafted_refl that] s by (simp add: stored_def)
  have r: "receipt_ok E i" using stored_total [OF s] by simp
  show ?thesis
  proof (cases out)
    case (OutApproved q)
    then show ?thesis
      by (auto simp: settle_outcome_def wp_head_transition i ct wp_basic
          intro!: wp_seq [OF drafted_receipt] wp_seq [OF drafted_settled [OF s]] d)
  next
    case (OutDeclined q)
    then show ?thesis
      by (auto simp: settle_outcome_def wp_head_transition i ct wp_basic
          intro!: wp_seq [OF drafted_ledger [OF s]] d receipt_other [OF r])
  qed (auto simp: settle_outcome_def wp_head i ct wp_basic intro!: d receipt_other [OF r])
qed

section \<open>Executing\<close>

text \<open>
  \<open>sealed\<close>: valid and solvent, with room for the audit entry of the outcome, as a preparation
  leaves it.
\<close>

definition sealed :: "env \<Rightarrow> treasury_state world \<Rightarrow> bool" where
  "sealed E w \<longleftrightarrow> ready w \<and> valid E (w_state w)"

lemma valid_provider:
  assumes "valid E s" and "provider_mode s = Simulated" and "0 \<le> minor (sp_balance p)"
  shows "valid E (s\<lparr>provider := p\<rparr>)"
proof -
  have "validate_provider E (s\<lparr>provider := p\<rparr>) = Inr ()"
    using assms by (simp add: validate_provider_def require_that_def ensure_def)
  moreover have "validate_stored_agent E (s\<lparr>provider := p\<rparr>) = validate_stored_agent E s"
    by (intro ext) (simp add: validate_stored_agent_def)
  moreover have "event_ok (s\<lparr>provider := p\<rparr>) e = event_ok s e" for e
    by (cases "le_intent_id e") (simp_all add: event_ok_def validate_stored_event_def)
  ultimately show ?thesis
    using assms(1) by (simp add: valid_parts quota_ok_def intent_ok_def)
qed

lemma authorize_balance:
  assumes "amounts_nonneg p" and "0 \<le> minor (sp_balance p)"
  shows "wp (simulated_authorize E p i) (\<lambda>r _. 0 \<le> minor (sp_balance (snd r))) (\<lambda>_ _. True) w"
proof -
  have "0 \<le> hold_total p"
    using assms(1) by (intro hold_total_nonneg) (auto simp: amounts_nonneg_def set_bvals)
  then show ?thesis
    using assms(2) unfolding simulated_authorize_def Let_def
    by (auto simp: wp_simps checked_Inr spendable_def dest!: simulated_available_Inr)
qed

lemma authorize_sealed:
  assumes w: "sealed E w" and i: "0 \<le> minor (final_total (in_request i))"
  shows "wp (provider_authorize E i) (\<lambda>_ v. sealed E v \<and> intents (w_state v) = intents (w_state w))
    (\<lambda>_. sealed E) w"
proof (cases "provider_mode (w_state w)")
  case Simulated
  have ok: "amounts_nonneg (provider (w_state w))" "0 \<le> minor (sp_balance (provider (w_state w)))"
    using w Simulated by (auto simp: sealed_def ready_def solvent_amounts valid_parts validate_provider_def
        require_that_def ensure_def split: if_splits)
  have "sealed E (v\<lparr>w_state := (w_state v)\<lparr>provider := p\<rparr>\<rparr>)"
    if "w_state v = w_state w" "amounts_nonneg p" "0 \<le> minor (sp_balance p)" for v p
    using that w Simulated valid_provider [of E "w_state w" p]
    by (simp add: sealed_def ready_def solvent_provider audit_refused_def)
  moreover have "sealed E v" if "w_state v = w_state w" for v
    using that w by (simp add: sealed_def ready_def)
  ultimately show ?thesis
    unfolding provider_authorize_def wp_head_state
    by (auto simp: Simulated wp_simps
        intro!: wp_mono [OF wp_conj [OF authorize_amounts [OF ok(1) i] authorize_balance [OF ok]]])
next
  case ManualPrepaidCard
  have "sealed E (w\<lparr>w_state := (w_state w)\<lparr>manual_provider := Some p\<rparr>\<rparr>)"
    if "manual_provider (w_state w) = Some p" for p
  proof -
    have "(w_state w)\<lparr>manual_provider := Some p\<rparr> = w_state w" using that by simp
    then show ?thesis using w by (simp add: sealed_def ready_def)
  qed
  then show ?thesis
    using w unfolding provider_authorize_def wp_head_state
    by (auto simp: ManualPrepaidCard wp_simps manual_authorize_def ok_or_def split: option.splits)
qed

lemma outcome_valid:
  assumes w: "sealed E w"
  shows "wp (apply_provider_outcome E aid k out) (\<lambda>_ v. valid E (w_state v)) (\<lambda>_ v. valid E (w_state v)) w"
proof -
  have v: "valid E (w_state w)" "solvent (w_state w)" using w by (simp_all add: sealed_def ready_def)
  have "wp (bind (settle_outcome E i out) (\<lambda>p. bind (audit E aid ''provider_outcome'' (Some k)
      (Some (in_policy_version i)) (Some (outcome_label (in_state (fst p)))) (outcome_details (fst p)))
      (\<lambda>_. bind (put_intent (in_id (fst p)) (fst p)) (\<lambda>_. ret (snd p)))))
    (\<lambda>_ v. valid E (w_state v)) (\<lambda>_ v. valid E (w_state v)) w"
    if i: "bget (intents (w_state w)) k = Some i" "in_state i = Executing" for i
  proof (rule wp_seq [OF wp_conj [OF settle_outcome_balanced drafted_outcome]])
    show "stored E (w_state w) i" by (rule storedI [OF v(1) i(1)])
    show "amounts_nonneg (provider (w_state w))" by (rule solvent_amounts [OF v(2)])
    show "0 \<le> minor (final_total (in_request i))" using v(2) i(1) by (simp add: solvent_def)
  next
    fix x and u :: "treasury_state world"
    assume b: "balanced (w_state w) i (w_state u) (fst x)
      \<and> drafted E (w_state w) i (w_state u) (fst x) \<and> receipt_ok E (fst x)"
    then have room: "\<not> audit_refused (w_state u) ''provider_outcome''" "\<not> u64_max \<le> generation (w_state u)"
      using w by (simp_all add: sealed_def ready_def balanced_def audit_refused_def)
    have "valid E ((audited (w_state u) e)\<lparr>intents := bput (in_id (fst x)) (fst x) (intents (audited (w_state u) e))\<rparr>)"
      if "au_action e = ''provider_outcome''" for e
      using b that room(1)
      by (intro drafted_put [OF v(1) i(1)] drafted_trans_audit) (simp_all add: is_emergency_audit_def)
    from this [OF new_entry_action] room
    show "wp (bind (audit E aid ''provider_outcome'' (Some k)
        (Some (in_policy_version i)) (Some (outcome_label (in_state (fst x)))) (outcome_details (fst x)))
        (\<lambda>_. bind (put_intent (in_id (fst x)) (fst x)) (\<lambda>_. ret (snd x))))
      (\<lambda>_ v. valid E (w_state v)) (\<lambda>_ v. valid E (w_state v)) u"
      by (simp add: wp_simps)
  qed (use i v in simp_all)
  then show ?thesis
    unfolding apply_provider_outcome_def case_prod_unfold wp_head_state wp_head_lift
    using v(1) by (simp add: wp_basic wp_tail_if)
qed

lemma complete_valid:
  assumes "sealed E w"
  shows "wp (complete_intent_execution E a k) (\<lambda>_ v. valid E (w_state v)) (\<lambda>_ v. valid E (w_state v)) w"
proof -
  have r: "solvent (w_state w)" "valid E (w_state w)" using assms by (simp_all add: sealed_def ready_def)
  have "wp (bind (provider_authorize E i) (apply_provider_outcome E aid k))
      (\<lambda>_ v. valid E (w_state v)) (\<lambda>_ v. valid E (w_state v)) w"
    if "bget (intents (w_state w)) k = Some i" for i aid
  proof (rule wp_seq [OF authorize_sealed [OF assms]])
    show "0 \<le> minor (final_total (in_request i))" using r that by (simp add: solvent_def)
  qed (simp_all add: outcome_valid, simp add: sealed_def)
  then show ?thesis
    unfolding complete_intent_execution_def wp_head_state wp_head_lift wp_tail_if
    using r by (simp add: wp_basic)
qed

lemma prepare_sealed:
  assumes v: "valid E (w_state w)" and s: "solvent (w_state w)" and g: "generation (w_state w) + 1 < u64_max"
  shows "wp (prepare_intent_execution E a k) (\<lambda>_. sealed E) (\<lambda>_ _. True) w"
proof (rule wpI)
  fix x v
  assume m: "prepare_intent_execution E a k w = (Inr x, v)"
  then have "prepare_intent_execution E a k w = (Inr (), v)" by simp
  from prepare_Inr [OF this] obtain i agent p u t where
    c: "cleared E a k w i agent p u" and t: "same_state w t"
    and r: "reserve_and_start E (in_agent_id i) k p i t = (Inr (), v)" by blast
  from wp_OkD [OF reserve_wp r] t obtain e entry at where
    st: "w_state v = reserved_state (w_state w) i e entry at" and
    e: "hold_event i e" "au_action entry = ''reserve_funds''"
    by (auto simp: reserved_from_def same_state_def)
  have i: "bget (intents (w_state w)) k = Some i" using cleared_covers [OF c] by simp
  have stored: "stored E (w_state w) i" by (rule storedI [OF v i])
  let ?t = "audited ((w_state w)\<lparr>ledger := ledger (w_state w) @ [e]\<rparr>) entry"
  let ?j = "i\<lparr>in_state := Executing, in_updated_at := at\<rparr>"
  have room: "\<not> audit_refused (w_state w) ''reserve_funds''"
    using c by (auto simp: cleared_def require_money_workflow_audit_capacity_def
        money_workflow_capacity_allows_def usize_saturating_add_def audit_refused_def
        audit_capacity_allows_def is_emergency_audit_def is_money_safety_audit_def
        max_audit_entries_def u64_max_def split: if_splits)
  have "event_ok (w_state w) e"
    using e(1) by (intro event_ok_total [OF stored]) (simp_all add: hold_event_def)
  then have "drafted E (w_state w) i ?t i"
    using room e(2) v
    by (intro drafted_trans_audit drafted_event drafted_refl)
      (simp_all add: audit_refused_def is_emergency_audit_def)
  then have "valid E (?t\<lparr>intents := bput (in_id ?j) ?j (intents ?t)\<rparr>)"
    using stored_total [OF stored] by (intro drafted_put [OF v i]) (auto intro: receipt_other)
  then have "valid E (w_state v)" by (simp add: st reserved_state_def)
  moreover have "ready v" using wp_OkD [OF prepare_ready [OF s g] m] .
  ultimately show "sealed E v" by (simp add: sealed_def)
qed simp

lemma valid_audited:
  assumes "valid E s" and "\<not> audit_refused s (au_action e)" and "\<not> is_emergency_audit (au_action e)"
  shows "valid E (audited s e)"
proof -
  have d: "drafted E s i (audited s e) i" for i
    by (rule drafted_trans_audit [OF drafted_refl [OF assms(1)] assms(2,3)])
  have "validate_stored_agent E (audited s e) = validate_stored_agent E s"
    by (intro ext) (simp add: validate_stored_agent_def audited_def)
  moreover have "event_ok (audited s e) x = event_ok s x" for x
    by (cases "le_intent_id x") (simp_all add: event_ok_def validate_stored_event_def audited_def)
  ultimately show ?thesis
    using assms(1) d by (simp add: valid_parts intent_ok_def drafted_def)
qed

lemma valid_then_audit:
  assumes "valid E (w_state w)" and "\<not> is_emergency_audit action"
  shows "wp (audit E who action iid pv dec det) (\<lambda>_ v. valid E (w_state v)) (\<lambda>_ v. valid E (w_state v)) w"
  using assms by (simp add: wp_audit valid_audited)

lemma quarantine_valid:
  assumes v: "valid E (w_state w)"
  shows "wp (quarantine_execution E k reason) (\<lambda>_ v. valid E (w_state v)) (\<lambda>_ v. valid E (w_state v)) w"
proof (cases "bget (intents (w_state w)) k")
  case None
  then show ?thesis
    unfolding quarantine_execution_def wp_head_state wp_head_lift by (simp add: v ok_or_def)
next
  case (Some i)
  let ?note = "\<lambda>j. j\<lparr>in_last_error := Some ''provider_execution_error''\<rparr>"
  have put: "valid E (w_state (with_intent l j u))"
    if "w_state u = w_state w" "in_id j = in_id i" "in_agent_id j = in_agent_id i"
      "in_request j = in_request i" "in_broker_session_id j = in_broker_session_id i"
      "receipt_ok E j" "l = in_id j" for l j u
    using drafted_put [OF v Some drafted_intent [OF drafted_refl [OF v] that(2-5)] that(6)] that(1,7)
    by (simp add: with_intent_def)
  have r: "receipt_ok E i" using v Some by (auto simp: valid_parts intent_ok_def)
  have unknown: "receipt_ok E j" if "in_id j = in_id i" "in_state j = Unknown"
    "in_receipt j = in_receipt i" "in_receipt_hash j = in_receipt_hash i" for j
    using receipt_other [OF r that(1,3,4)] that(2) by simp
  show ?thesis
    unfolding quarantine_execution_def wp_head_state wp_head_lift Let_def
    by (auto simp: Some ok_or_def v wp_basic wp_head_if wp_head_transition wp_head_ret wp_head_put
        can_transition_into is_emergency_audit_def intro!: valid_then_audit put unknown)
qed

section \<open>Requests\<close>

text \<open>What holds between requests: the state is valid and solvent.\<close>

definition sound_form :: "env \<Rightarrow> treasury_state \<Rightarrow> bool" where
  "sound_form E s \<longleftrightarrow> valid E s \<and> solvent s"

definition form_kept :: "env \<Rightarrow> treasury_state world \<Rightarrow> treasury_state world \<Rightarrow> bool" where
  "form_kept E v w \<longleftrightarrow> (sound_form E (w_state v) \<longrightarrow> sound_form E (w_state w))"

interpretation form: restored_relation "form_kept E" E C "\<lambda>_ _. True" for E C
proof
  show "keeps (form_kept E) (save_to E C)"
    by (rule save_keeps) (simp add: form_kept_def same_memory_def)
qed (auto simp: form_kept_def same_state_def)

lemma keeps_form_quarantine: "keeps (form_kept E) (quarantine_execution E k reason)"
proof (rule keeps_of_wp)
  fix w
  have s: "wp (quarantine_execution E k reason) (\<lambda>_. keeps_solvent w) (\<lambda>_. keeps_solvent w) w"
    by (rule sol.after [OF sol.rel_refl sol.keeps_quarantine])
  show "wp (quarantine_execution E k reason) (\<lambda>_. form_kept E w) (\<lambda>_. form_kept E w) w"
  proof (cases "valid E (w_state w)")
    case True
    from wp_conj [OF s quarantine_valid [OF True]] show ?thesis
      by (rule wp_mono) (simp_all add: form_kept_def sound_form_def keeps_solvent_def)
  next
    case False
    then show ?thesis by (intro wpI) (simp_all add: form_kept_def sound_form_def)
  qed
qed

lemma execute_keeps_form:
  assumes "sound_form E (w_state w)" and "generation (w_state w) + 1 < u64_max"
  shows "wp (execute_persisted E C token k) (\<lambda>_. form_kept E w) (\<lambda>_. form_kept E w) w"
proof (rule form.execute_persisted_rule [where Q = "sealed E"])
  fix a and u :: "treasury_state world"
  assume "same_state w u"
  with assms show "wp (prepare_intent_execution E a k) (\<lambda>_. sealed E) (\<lambda>_ _. True) u"
    by (intro prepare_sealed) (simp_all add: same_state_def sound_form_def)
next
  fix a and u :: "treasury_state world"
  assume u: "sealed E u"
  then have "ready u" by (simp add: sealed_def)
  from wp_conj [OF complete_valid [OF u] complete_solvent [OF this]]
  show "wp (complete_intent_execution E a k) (\<lambda>_. form_kept E w) (\<lambda>_. form_kept E w) u"
    by (rule wp_mono) (simp_all add: form_kept_def sound_form_def)
  show "wp (save_to E C) (\<lambda>_. sealed E) (\<lambda>_. form_kept E w) u"
    by (rule wp_memory [OF keeps_memory_save])
      (use u in \<open>simp_all add: sealed_def ready_def same_memory_def form_kept_def sound_form_def\<close>)
qed (rule keeps_form_quarantine)

text \<open>Any other change is saved, and so validated, or put back.\<close>

lemma save_validates:
  "wp (save_to E C) (\<lambda>_ v. valid E (w_state v)) (\<lambda>_ _. True) w"
  by (rule wp_mono [OF save_wp]) (auto simp: on_disk_def)

lemma change_valid:
  assumes v: "valid E (w_state w)"
  shows "wp (change_persisted E C token r) (\<lambda>_ v. valid E (w_state v)) (\<lambda>_ v. valid E (w_state v)) w"
proof -
  have saved: "wp (bind (rollback (w_state w) (save_to E C)) (\<lambda>_. m))
      (\<lambda>_ v. valid E (w_state v)) (\<lambda>_ v. valid E (w_state v)) u"
    if "\<And>x. wp m (\<lambda>_ v. valid E (w_state v)) (\<lambda>_ v. valid E (w_state v)) x \<longleftrightarrow> valid E (w_state x)"
    for u and m :: "json top"
    unfolding rollback_def wp_bind wp_attempt
    by (rule wp_mono [OF save_validates]) (simp_all add: wp_simps that v)
  have read: "wp (handle E token r) (\<lambda>_ u. is_read_only r \<longrightarrow> w_state u = w_state w) (\<lambda>_ _. True) w"
  proof (cases "is_read_only r")
    case True
    show ?thesis
      by (rule wp_mono [OF wp_kept [OF keeps_same_read [OF True]]]) (simp_all add: same_state_def)
  qed (simp add: wp_def split: prod.split sum.split)
  show ?thesis
    unfolding change_persisted_def wp_head_state wp_bind [of "attempt _"] wp_attempt
    by (rule wp_mono [OF read]) (auto simp: wp_head_state wp_basic wp_reset v intro!: saved)
qed

text \<open>
  C5: Whatever a request does, the state stays in the form that can be saved and loaded. From a
  valid and solvent treasury, every request, successful or not, leaves a state that
  \<open>validate_state\<close> accepts: a change is validated before it is kept, and the steps of a payment,
  which cannot be undone, are valid on every branch, so recording an outcome fails only with the
  file system.
\<close>

theorem requests_keep_the_form:
  assumes "validate_state E (w_state w) = Inr ()" and "solvent (w_state w)"
    and "generation (w_state w) + 1 < u64_max"
  shows "validate_state E (w_state (snd (handle_persisted E C token r w))) = Inr ()"
proof -
  have "wp (handle_persisted E C token r) (\<lambda>_ v. valid E (w_state v)) (\<lambda>_ v. valid E (w_state v)) w"
  proof (cases "\<exists>k. r = ExecutePurchaseIntent k")
    case True
    then obtain k where r: "r = ExecutePurchaseIntent k" by blast
    have "sound_form E (w_state w)" using assms by (simp add: sound_form_def)
    then show ?thesis
      unfolding r handle_persisted_def request.case
      by (intro wp_mono [OF execute_keeps_form [OF _ assms(3)]]) (simp_all add: form_kept_def sound_form_def)
  next
    case False
    with change_valid [OF assms(1)] assms(1) show ?thesis
      by (cases r) (auto simp: handle_persisted_def wp_basic)
  qed
  then show ?thesis by (auto simp: wp_def split: prod.splits sum.splits)
qed

text \<open>The example with hashes of the length that the form asks for.\<close>

definition formal_world :: "treasury_state world" where
  "formal_world = (small_world PolicyValidated)\<lparr>w_state := (small_state PolicyValidated)
     \<lparr>owner := head_owner\<lparr>ow_token_hash := replicate 64 CHR ''0''\<rparr>,
      agents := bput ''buyer'' (buyer\<lparr>ag_token_hash := replicate 64 CHR ''1''\<rparr>) bempty\<rparr>\<rparr>"

lemma formal_valid: "valid plain_env (w_state formal_world)"
proof -
  have "receipt_ok plain_env (book_intent PolicyValidated)"
    by (simp add: receipt_ok_def validate_stored_receipt_def book_intent_def require_that_def ensure_def)
  moreover have "validate_stored_agent plain_env s (''buyer'', buyer\<lparr>ag_token_hash := replicate 64 CHR ''1''\<rparr>) = Inr ()"
    if "bget (policies s) ''policy'' \<noteq> None" for s
    using that by (simp add: validate_stored_agent_def buyer_def require_that_def ensure_def bkeys_def Let_def)
  moreover have "validate_stored_policy plain_env (''policy'', small_policy) = Inr ()"
    by (simp add: validate_stored_policy_def small_policy_valid require_that_def ensure_def)
      (simp add: small_policy_def)
  ultimately show ?thesis
    by (auto simp: valid_parts formal_world_def small_state_def initial_state_def quota_ok_def
        ordinary_count_def emergency_count_def intent_ok_def event_ok_def validate_stored_event_def
        validate_provider_def simulated_new_def capital_def cad_def require_that_def ensure_def
        bsize_bput bkeys_def max_intents_def max_agents_def book_intent_def book_request_def
        iso_code_def small_policy_def rbind_Inr_iff)
qed

lemma formal_solvent: "solvent (w_state formal_world)"
  using small_solvent by (rule solvent_cong [THEN iffD1, rotated -1]) (simp_all add: formal_world_def)

theorem requests_keep_the_form_witness:
  "validate_state plain_env (w_state (snd (handle_persisted plain_env plain_codec ''token''
     (ExecutePurchaseIntent ''i1'') formal_world))) = Inr ()"
  by (rule requests_keep_the_form [OF formal_valid formal_solvent])
    (simp add: formal_world_def small_state_def initial_state_def u64_max_def)

end
