(* ===== verification/Startup.thy ===== *)
theory Startup
  imports Restart Frontend Forms
begin

text \<open>
  The start of the broker (\<open>serve_command\<close> up to its sockets) and the commands that work on the
  data directory themselves (\<open>run_local\<close>): the lock, the state file, the recovery of the
  executions that were interrupted.
\<close>

section \<open>The parts of a start\<close>

lemma wp_both: "wp m Q (\<lambda>_ _. True) w \<Longrightarrow> wp m Q' (\<lambda>_ _. True) w \<Longrightarrow>
    (\<And>x v. Q x v \<Longrightarrow> Q' x v \<Longrightarrow> P x v) \<Longrightarrow> wp m P (\<lambda>_ _. True) w"
  by (auto simp: wp_def split: prod.splits sum.splits)

text \<open>What a command establishes if it succeeds: its steps that only compute or refuse do not matter.\<close>

lemma wp_lift_then:
  "(\<And>x. wp (f x) Q (\<lambda>_ _. True) w) \<Longrightarrow> wp (bind (lift r) f) Q (\<lambda>_ _. True) w"
  by (simp add: wp_bind wp_lift split: sum.split)

lemma wp_gets_then: "wp (f (g w)) Q R w \<Longrightarrow> wp (bind (gets g) f) Q R w"
  by (simp add: wp_simps)

lemma wp_fails: "wp (fail e) Q (\<lambda>_ _. True) w"
  by (simp add: wp_simps)

lemma wp_then:
  "wp m P (\<lambda>_ _. True) w \<Longrightarrow> (\<And>x v. P x v \<Longrightarrow> wp (f x) Q (\<lambda>_ _. True) v) \<Longrightarrow>
     wp (bind m f) Q (\<lambda>_ _. True) w"
  by (rule wp_seq)

lemma wp_either:
  "(b \<Longrightarrow> wp m Q R w) \<Longrightarrow> (\<not> b \<Longrightarrow> wp n Q R w) \<Longrightarrow> wp (if b then m else n) Q R w"
  by simp

definition same_stored :: "treasury_state world \<Rightarrow> treasury_state world \<Rightarrow> bool" where
  "same_stored v w \<longleftrightarrow> file_at w state_file = file_at v state_file"

interpretation locked: step_relation same_stored
  by unfold_locales (simp_all add: same_stored_def)

lemma keeps_io_op: "keeps R m \<Longrightarrow> keeps R (io_op m)"
  by (auto simp: keeps_def io_op_def split: prod.splits sum.splits) (metis snd_conv)+

lemma keeps_stored_acquire: "keeps same_stored (acquire held)"
proof -
  have io: "keeps same_stored io_call"
    by (simp add: keeps_def same_stored_def io_call_def file_at_def Let_def split: option.split)
  have put: "keeps same_stored (put_file lock_file f)" for f
    by (simp add: keeps_def same_stored_def put_file_def modify_def file_at_def lock_file_def state_file_def)
  have dir: "keeps same_stored (modify (\<lambda>w. w\<lparr>w_disk := (w_disk w)\<lparr>d_dir := d\<rparr>\<rparr>))" for d
    by (simp add: keeps_def same_stored_def modify_def file_at_def)
  show ?thesis
    unfolding acquire_def create_directory_def directory_metadata_def restrict_directory_def
      metadata_of_def open_lock_file_def
    by (intro locked.keeps_rules keeps_io_op io put dir)
qed

lemma wp_anything: "wp m (\<lambda>_ _. True) (\<lambda>_ _. True) w"
  by (simp add: wp_def split: prod.split sum.split)

lemma acquire_free: "wp (acquire held) (\<lambda>_ _. \<not> held) (\<lambda>_ _. True) w"
  unfolding acquire_def by (intro wp_then [OF wp_anything] wp_either wp_fails) (simp add: wp_basic)

lemma stored_sound_same: "same_stored v w \<Longrightarrow> stored_sound C v \<Longrightarrow> stored_sound C w"
  by (simp add: stored_sound_def same_stored_def)

text \<open>What the broker may rely on once the state is loaded, and once it has been recovered.\<close>

definition opened :: "env \<Rightarrow> codec \<Rightarrow> treasury_state world \<Rightarrow> bool" where
  "opened E C v \<longleftrightarrow> vault_sound C v \<and> valid E (w_state v) \<and> verify_audit_chain E (w_key v) (w_state v) = Inr ()"

definition at_rest :: "treasury_state \<Rightarrow> bool" where
  "at_rest s \<longleftrightarrow> (\<forall>i \<in> set (bvals (intents s)). in_state i \<noteq> Executing)"

lemma opened_same: "same_state v w \<Longrightarrow> w_disk w = w_disk v \<Longrightarrow> opened E C v \<Longrightarrow> opened E C w"
  using stored_sound_disk [of w v C] by (simp add: opened_def vault_sound_def same_state_def)

lemma load_opens:
  assumes "faithful C" "stored_sound C w"
  shows "wp (load_treasury E C) (\<lambda>_. opened E C) (\<lambda>_ _. True) w"
proof -
  have "opened E C (v\<lparr>w_state := s, w_key := key\<rparr>)"
    if "leaves {} w v" "file_at w state_file = Some f" "parse_envelope C (fn_bytes f) = Some (s, mac)"
      "valid E s" "verify_audit_chain E key s = Inr ()" for s key v f mac
  proof -
    from that(1) have "stored_sound C v" using assms(2) by (simp add: stored_sound_def leaves_def)
    then have "stored_sound C (v\<lparr>w_state := s, w_key := key\<rparr>)"
      by (rule iffD2 [OF stored_sound_disk, rotated]) simp
    moreover have "solvent s" using assms(2) that unfolding stored_sound_def by blast
    ultimately show ?thesis using that(4,5) assms(1) by (simp add: opened_def vault_sound_def)
  qed
  then show ?thesis
    unfolding load_treasury_def
    by (intro wp_seq [OF load_wp]) (auto simp: wp_simps private_file_def)
qed

lemma keeps_nn_recover: "keeps (no_new {Executing}) (recover_interrupted_executions E)"
proof -
  have "keeps (no_new {Executing}) (recover_one E k)" for k
    unfolding recover_one_def Let_def
    by (intro nn.keeps_basic keeps_nn_move keeps_nn_put) simp_all
  then show ?thesis
    unfolding recover_interrupted_executions_def Let_def by (intro nn.keeps_basic)
qed

lemma recovery_rests:
  assumes "solvent (w_state w)"
  shows "wp (recover_interrupted_executions E)
    (\<lambda>n v. at_rest (w_state v) \<and> (n = 0 \<longrightarrow> w_state v = w_state w)) (\<lambda>_ _. True) w"
proof -
  have keyed: "bm.well_keyed in_id (intents (w_state w))" using assms by (simp add: solvent_def)
  let ?found = "map in_id (filter (\<lambda>i. in_state i = Executing) (bvals (intents (w_state w))))"
  have "wp (each (recover_one E) ?found)
      (\<lambda>_ v. recovering (w_state w) [] v \<and> (?found = [] \<longrightarrow> w_state v = w_state w)) (\<lambda>_ _. True) w"
  proof (cases "?found = []")
    case True
    then show ?thesis using recovering_start [OF keyed] by (simp add: wp_basic)
  next
    case False
    show ?thesis by (rule wp_mono [OF recover_all [OF recovering_start [OF keyed]]]) (use False in auto)
  qed
  then have "wp (recover_interrupted_executions E)
      (\<lambda>n v. recovering (w_state w) [] v \<and> (n = 0 \<longrightarrow> w_state v = w_state w)) (\<lambda>_ _. True) w"
    unfolding recover_interrupted_executions_def Let_def wp_head_state wp_bind [of "each _ _"] wp_basic
    by (rule wp_mono) simp_all
  then show ?thesis
  proof (rule wp_both [OF _ wp_kept [OF keeps_nn_recover]])
    fix n v
    assume "recovering (w_state w) [] v \<and> (n = 0 \<longrightarrow> w_state v = w_state w)"
      and new: "no_new {Executing} w v"
    then have v: "recovering (w_state w) [] v" "n = 0 \<longrightarrow> w_state v = w_state w" by simp_all
    have "in_state j \<noteq> Executing" if "bget (intents (w_state v)) k = Some j" for k j
    proof
      assume e: "in_state j = Executing"
      with new that obtain i where "bget (intents (w_state w)) k = Some i" "in_state i = Executing"
        by (auto simp: no_new_def)
      with v that obtain at where "j = recovered at i" by (fastforce simp: recovering_def)
      with \<open>in_state i = Executing\<close> e show False by (simp add: recovered_def)
    qed
    with v(2) show "at_rest (w_state v) \<and> (n = 0 \<longrightarrow> w_state v = w_state w)"
      by (auto simp: at_rest_def set_bvals)
  qed
qed

lemma keeps_vault_recover: "keeps (vault_kept C) (recover_interrupted_executions E)"
  by (rule vault_kept_both [OF sol.keeps_recover still.keeps_recover])

lemma recover_opens:
  assumes w: "opened E C w"
  shows "wp (recover_saved E C) (\<lambda>_ v. opened E C v \<and> at_rest (w_state v)) (\<lambda>_ _. True) w"
proof -
  let ?ok = "\<lambda>n v. vault_sound C v \<and> verify_audit_chain E (w_key v) (w_state v) = Inr ()
    \<and> at_rest (w_state v) \<and> (n = 0 \<longrightarrow> valid E (w_state v))"
  have saved: "wp (save_to E C) (\<lambda>_ v. opened E C v \<and> at_rest (w_state v)) (\<lambda>_ _. True) u"
    if "?ok n u" for n u
  proof (rule wp_both [OF _ save_validates])
    show "wp (save_to E C) (\<lambda>_ v. same_memory u v \<and> vault_kept C u v) (\<lambda>_ _. True) u"
      by (rule wp_both [OF wp_kept [OF keeps_memory_save] wp_kept [OF vault_save]]) simp
  qed (use that in \<open>simp add: same_memory_def opened_def vault_kept_def\<close>)
  have "solvent (w_state w)" using w by (simp add: opened_def vault_sound_def)
  from recovery_rests [OF this] have "wp (recover_interrupted_executions E)
      (\<lambda>n v. (at_rest (w_state v) \<and> (n = 0 \<longrightarrow> w_state v = w_state w)) \<and> vault_kept C w v) (\<lambda>_ _. True) w"
    by (rule wp_both [OF _ wp_kept [OF keeps_vault_recover [of C E]]]) blast
  then have "wp (recover_interrupted_executions E) ?ok (\<lambda>_ _. True) w"
    by (rule wp_both [OF _ wp_kept [OF hist.keeps_recover [of E]]])
      (use w in \<open>auto simp: opened_def vault_kept_def history_def log_extends_def same_oracles_def\<close>)
  then show ?thesis
    unfolding recover_saved_def
  proof (rule wp_then)
    show "wp (if 0 < n then save_to E C else ret ()) (\<lambda>_ v. opened E C v \<and> at_rest (w_state v)) (\<lambda>_ _. True) v"
      if "?ok n v" for n :: nat and v
      using that saved [of v n] by (cases "n = 0") (simp_all add: wp_basic opened_def)
  qed
qed

section \<open>Starting to serve\<close>

lemma quiet_capabilities:
  "keeps (\<lambda>v w. same_state v w \<and> w_disk w = w_disk v) active_agent_capabilities"
  by (simp add: active_agent_capabilities_def keeps_def same_state_def now_def bind_def gets_def
      get_state_def ret_def)

lemma start_opens:
  assumes "faithful C" "stored_sound C w"
  shows "wp (serve_start E C S T canonical held args)
    (\<lambda>_ v. \<not> held \<and> opened E C v \<and> at_rest (w_state v)) (\<lambda>_ _. True) w"
proof -
  let ?ok = "\<lambda>v. opened E C v \<and> at_rest (w_state v)"
  have caps: "wp (cli_op active_agent_capabilities) (\<lambda>_. ?ok) (\<lambda>_ _. True) v" if "?ok v" for v
  proof -
    have "wp active_agent_capabilities (\<lambda>_ u. same_state v u \<and> w_disk u = w_disk v) (\<lambda>_ _. True) v"
      by (rule wp_kept [OF quiet_capabilities])
    then show ?thesis
      unfolding wp_cli_op using that by (elim wp_mono) (auto intro: opened_same simp: same_state_def)
  qed
  have recovered: "wp (cli_op (recover_saved E C)) (\<lambda>_. ?ok) (\<lambda>_ _. True) v" if "opened E C v" for v
    unfolding wp_cli_op by (rule wp_mono [OF recover_opens [OF that]]) simp_all
  have loaded: "wp (cli_op (load_treasury E C)) (\<lambda>_. opened E C) (\<lambda>_ _. True) v"
    if "same_stored w v" for v
    unfolding wp_cli_op
    by (rule wp_mono [OF load_opens [OF assms(1) stored_sound_same [OF that assms(2)]]]) simp_all
  have lock: "wp (acquire held) (\<lambda>_ v. same_stored w v \<and> \<not> held) (\<lambda>_ _. True) w"
    by (rule wp_both [OF wp_kept [OF keeps_stored_acquire] acquire_free]) simp
  show ?thesis
    unfolding serve_start_def Let_def
    by (intro wp_lift_then wp_either wp_fails wp_gets_then wp_then [OF lock] wp_then [OF loaded]
        wp_then [OF recovered] wp_then [OF caps]) (simp_all add: wp_basic)
qed

text \<open>
  C4: The broker starts from a treasury in order. When the data directory was left by requests on a
  solvent treasury (\<open>broker_restarts_solvent\<close>), a \<open>serve\<close> that gets as far as its sockets has taken
  the lock, loaded a valid and solvent treasury whose audit chain verifies under the key it read, has
  quarantined every execution that was interrupted, and has left a state file that again holds a
  solvent treasury.
\<close>

theorem broker_starts_in_order:
  assumes "stored_sound C w" and "faithful C"
    and "serve_start E C S T canonical held args w = (Inr start, v)"
  shows "solvent (w_state v) \<and> validate_state E (w_state v) = Inr ()
    \<and> verify_audit_chain E (w_key v) (w_state v) = Inr () \<and> at_rest (w_state v) \<and> stored_sound C v \<and> \<not> held"
proof -
  from wp_OkD [OF start_opens [OF assms(2,1)] assms(3)]
  have "\<not> held \<and> opened E C v \<and> at_rest (w_state v)" .
  then show ?thesis by (simp add: opened_def vault_sound_def)
qed

text \<open>A data directory with a saved treasury, and the command line \<open>serve\<close> on it.\<close>

definition saved_vault :: "treasury_state world" where
  "saved_vault = vault\<lparr>w_disk := \<lparr>d_path = ''d'',
     d_dir = Some \<lparr>fn_kind = DirectoryNode, fn_mode = 448, fn_bytes = []\<rparr>,
     d_files = bput state_file (new_file ''envelope'')
       (bput audit_key_file (new_file (w_key vault)) bempty)\<rparr>\<rparr>"

lemma vault_locks: "wp (acquire False) (\<lambda>_ v. on_disk plain_env vault_codec vault v \<and> w_io v = (\<lambda>_. None))
    (\<lambda>_ _. False) saved_vault"
proof -
  have [simp]: "w_io saved_vault = (\<lambda>_. None)" "w_disk saved_vault = \<lparr>d_path = ''d'',
     d_dir = Some \<lparr>fn_kind = DirectoryNode, fn_mode = 448, fn_bytes = []\<rparr>,
     d_files = bput state_file (new_file ''envelope'')
       (bput audit_key_file (new_file (w_key vault)) bempty)\<rparr>"
    by (simp_all add: saved_vault_def vault_def small_world_def)
  have memory: "w_state saved_vault = w_state vault" "w_key saved_vault = w_key vault"
    "audit_log (w_state vault) = []"
    by (simp_all add: saved_vault_def vault_def initial_state_def)
  have [simp]: "lock_file \<noteq> state_file" "lock_file \<noteq> audit_key_file" "state_file \<noteq> lock_file"
    "audit_key_file \<noteq> lock_file" "state_file \<noteq> audit_key_file"
    by (simp_all add: lock_file_def state_file_def audit_key_file_def)
  show ?thesis
    unfolding acquire_def create_directory_def directory_metadata_def restrict_directory_def
      metadata_of_def open_lock_file_def
    by (simp add: wp_simps wp_io_op wp_put_file file_at_def on_disk_def memory vault_valid
        private_file_def group_or_other_def new_file_def saved_text_def envelope_text_def
        vault_codec_def verify_audit_chain_def)
qed

lemma vault_opens:
  assumes "on_disk plain_env vault_codec vault v \<and> w_io v = (\<lambda>_. None)"
  shows "wp (cli_op (load_treasury plain_env sealed_codec)) (\<lambda>_ u. w_state u = w_state vault) (\<lambda>_ _. False) v"
proof -
  have "fst (load_from plain_env vault_codec v) = Inr (w_state vault, w_key vault)"
    by (rule load_saved [OF conjunct1 [OF assms] refl conjunct2 [OF assms]])
      (simp_all add: saved_text_def envelope_text_def vault_codec_def vault_def)
  then obtain u where "load_from plain_env vault_codec v = (Inr (w_state vault, w_key vault), u)"
    by (metis prod.collapse)
  then show ?thesis unfolding wp_cli_op by (simp add: load_treasury_def sealed_load wp_def bind_def)
qed

lemma vault_at_rest:
  assumes "w_state v = w_state vault"
  shows "wp (cli_op (recover_saved plain_env sealed_codec)) (\<lambda>_ u. w_state u = w_state vault) (\<lambda>_ _. False) v"
proof -
  have [simp]: "intents (w_state vault) = bempty" by (simp add: vault_def initial_state_def)
  show ?thesis
    unfolding wp_cli_op recover_saved_def recover_interrupted_executions_def
    by (simp add: wp_simps assms Let_def)
qed

lemma saved_vault_starts:
  "wp (serve_start plain_env sealed_codec sample_shell T canonical False [''--data-dir'', ''d''])
     (\<lambda>start _. bk_agent_socket start = ''d/cixa.sock'' \<and> bk_owner_socket start = ''d/owner.sock'')
     (\<lambda>_ _. False) saved_vault"
proof -
  let ?Q = "\<lambda>start (_ :: treasury_state world). bk_agent_socket start = ''d/cixa.sock''
    \<and> bk_owner_socket start = ''d/owner.sock''"
  have sockets: "arg_default [''--data-dir'', ''d''] ''--socket'' (join_path ''d'' ''cixa.sock'') = ''d/cixa.sock''"
    "arg_default [''--data-dir'', ''d''] ''--owner-socket'' (join_path ''d'' ''owner.sock'') = ''d/owner.sock''"
    by (simp_all add: arg_default_def join_path_def)
  have args: "data_dir [''--data-dir'', ''d''] = Inr ''d''"
    "runtime_from_args T sample_shell canonical [''--data-dir'', ''d''] = Inr None"
    "parse_gid (arg_value [''--data-dir'', ''d''] ''--agent-gid'') = Inr None"
    by (simp_all add: data_dir_def arg_required_def ok_or_def runtime_from_args_def runtime_args_def
        parse_gid_def)
  have paths: "path_parts (arg_default [''--data-dir'', ''d''] ''--socket'' (join_path ''d'' ''cixa.sock''))
      \<noteq> path_parts (arg_default [''--data-dir'', ''d''] ''--owner-socket'' (join_path ''d'' ''owner.sock''))"
    by (simp add: sockets path_parts_def)
  have mode: "provider_mode (w_state vault) = Simulated" by (simp add: vault_def initial_state_def)
  have checks: "serve_checks d p None g False = Inr ()" for d p g by (simp add: serve_checks_def)
  have lift: "wp (f x) Q R w \<Longrightarrow> wp (bind (lift (Inr x)) f) Q R w"
    for f :: "'a \<Rightarrow> (treasury_state world, string, broker_start) action" and x Q R w
    by (simp add: wp_simps)
  have gets: "wp (f (w_state w)) Q R w \<Longrightarrow> wp (bind (gets w_state) f) Q R w"
    for f :: "treasury_state \<Rightarrow> (treasury_state world, string, broker_start) action" and Q R w
    by (simp add: wp_simps)
  have unlike: "wp n Q R w \<Longrightarrow> \<not> b \<Longrightarrow> wp (if b then m else n) Q R w"
    for b Q R w and m n :: "(treasury_state world, string, broker_start) action"
    by simp
  have caps: "wp (bind (cli_op active_agent_capabilities) (\<lambda>c. ret (g c))) ?Q (\<lambda>_ _. False) v"
    if "\<And>c. ?Q (g c) v" for g :: "_ \<Rightarrow> broker_start" and v
    using that by (simp add: wp_cli_op wp_simps active_agent_capabilities_def)
  show ?thesis
    unfolding serve_start_def Let_def args
    by (rule lift wp_seq [OF vault_locks] unlike [OF _ paths] wp_seq [OF vault_opens] gets
        wp_seq [OF vault_at_rest] caps | simp add: mode checks sockets | assumption)+
qed

theorem broker_starts_in_order_witness:
  "\<forall>T canonical. \<exists>start v. serve_start plain_env sealed_codec sample_shell T canonical False
       [''--data-dir'', ''d''] saved_vault = (Inr start, v)
     \<and> solvent (w_state v) \<and> at_rest (w_state v) \<and> stored_sound sealed_codec v"
proof (intro allI)
  fix T canonical
  let ?r = "serve_start plain_env sealed_codec sample_shell T canonical False [''--data-dir'', ''d'']
    saved_vault"
  obtain r v where rv: "?r = (r, v)" by (cases ?r)
  with saved_vault_starts [of T canonical] obtain start where "r = Inr start"
    by (auto simp: wp_def split: sum.splits)
  with rv broker_starts_in_order [OF sealed_sound sealed_faithful, of plain_env sample_shell T
      canonical False "[''--data-dir'', ''d'']"]
  show "\<exists>start v. ?r = (Inr start, v) \<and> solvent (w_state v) \<and> at_rest (w_state v)
      \<and> stored_sound sealed_codec v" by blast
qed

section \<open>The sockets\<close>

text \<open>\<open>spared\<close>: what is at a path is not removed unless it is a socket.\<close>

definition spared :: "string \<Rightarrow> socket_dir \<Rightarrow> socket_dir \<Rightarrow> bool" where
  "spared path d e \<longleftrightarrow>
     (\<forall>n. entry path d = Some n \<longrightarrow> sn_kind n \<noteq> SocketNode \<longrightarrow> entry path e = Some n)"

definition bound_with :: "nat option \<Rightarrow> nat \<Rightarrow> string \<Rightarrow> socket_dir \<Rightarrow> bool" where
  "bound_with g mode path d \<longleftrightarrow> (\<exists>n. entry path d = Some n \<and> sn_kind n = SocketNode \<and> sn_group n = g
     \<and> sn_mode n = mode)"

text \<open>An operation on one path leaves every other place, and where the paths lead, alone.\<close>

definition only_at :: "nat \<Rightarrow> socket_dir \<Rightarrow> socket_dir \<Rightarrow> bool" where
  "only_at k d e \<longleftrightarrow> so_place e = so_place d \<and> (\<forall>j. j \<noteq> k \<longrightarrow> so_node e j = so_node d j)"

lemma entry_simps [simp]:
  "entry path (set_entry path e d) = e" "so_place (set_entry path e d) = so_place d"
  "entry path (d\<lparr>so_calls := n\<rparr>) = entry path d"
  "so_fail (set_entry path e d) = so_fail d" "so_calls (set_entry path e d) = so_calls d"
  by (simp_all add: entry_def set_entry_def)

lemma only_at_simps [simp]:
  "only_at (so_place d path) d (set_entry path e d)" "only_at k d (d\<lparr>so_calls := n\<rparr>)" "only_at k d d"
  by (simp_all add: only_at_def set_entry_def)

lemma only_at_entry: "only_at (so_place d p) d e \<Longrightarrow> so_place d q \<noteq> so_place d p \<Longrightarrow> entry q e = entry q d"
  by (simp add: only_at_def entry_def)

interpretation at_place: step_relation "only_at k" for k
  by unfold_locales (auto simp: only_at_def)

lemma wp_sk_call:
  "wp sk_call Q R d = (case so_fail d (so_calls d) of
     None \<Rightarrow> Q () (d\<lparr>so_calls := Suc (so_calls d)\<rparr>) | Some e \<Rightarrow> R e (d\<lparr>so_calls := Suc (so_calls d)\<rparr>))"
  by (simp add: wp_def sk_call_def split: option.split)

lemma wp_change_entry:
  "wp (change_entry path f) Q R d = Q () (set_entry path (map_option f (entry path d)) d)"
  by (simp add: change_entry_def wp_simps)




lemma spared_unchanged: "only_at (so_place d p) d e \<Longrightarrow> so_place d q \<noteq> so_place d p \<Longrightarrow> spared q d e"
  by (simp add: spared_def only_at_entry)












text \<open>
  The check is one of spelling. Two paths written differently that do name one place pass it, and the
  socket that is left there, the owner's, is shared with the agents' group.
\<close>

lemma aliased_sockets_are_shared:
  assumes "so_place d a = so_place d b" "entry a d = None" "so_fail d = (\<lambda>_. None)"
  shows "wp (open_sockets a a_parent b b_parent (Some gid)) (\<lambda>_. bound_with (Some gid) 432 b)
    (\<lambda>_ _. False) d"
  using assms unfolding open_sockets_def bind_private_socket_def share_socket_def
  by (auto simp: wp_simps wp_sk_call wp_change_entry bound_with_def entry_def set_entry_def)

end
