(* ===== verification/Demo.thy ===== *)
theory Demo
  imports Sessions Handoffs Durability
begin

text \<open>
  The demonstration run (\<open>demo_request\<close> and \<open>run_demo\<close> in \<open>apps/daemon/src/main.rs\<close>): a treasury
  in memory, an agent and eight requests, on the handler of \<open>Treasury::handle\<close>. The report is
  returned as the JSON value that the program prints.
\<close>

definition demo_money :: "int \<Rightarrow> money res" where
  "demo_money amount =
     (case money_positive amount ''CAD'' of Inl _ \<Rightarrow> Inl (Panic ''demo money'') | Inr m \<Rightarrow> Inr m)"

definition demo_request :: "string \<Rightarrow> int \<Rightarrow> purchase_request res" where
  "demo_request key amount =
     rbind (demo_money amount) (\<lambda>a.
     rbind (demo_money amount) (\<lambda>total.
     Inr \<lparr>idempotency_key = key, rq_amount = a, final_total = total,
          merchant_domain = ''merchant.example.test'', category = ''software'',
          rq_items = [\<lparr>item_label = ''demo item'', quantity = 1, unit_price_minor = amount\<rparr>],
          recurring = False, trial_auto_renew = False, stored_card = False, tip_minor = 0,
          preauthorization = False, installments = False,
          fulfillment_profile = ''digital-email'', payment_form = HostedFields,
          redirect_chain = [''https://merchant.example.test/checkout''], attempts = 1,
          session_id = ''demo-session'', scenario = Normal\<rparr>))"

text \<open>A request of the demo by the owner or the agent; an error ends the demo.\<close>

definition demo_handle :: "env \<Rightarrow> string \<Rightarrow> request \<Rightarrow> (treasury_state world, string, json) action" where
  "demo_handle E token r = cli_op (handle E token r)"

definition demo_text :: "string \<Rightarrow> json \<Rightarrow> string \<Rightarrow> string cli" where
  "demo_text k v message = ok_or message (j_as_str (j_field k v))"

text \<open>The agent's requests that policy refuses, each a variation of the first one.\<close>

definition demo_purchase ::
  "env \<Rightarrow> string \<Rightarrow> purchase_request res \<Rightarrow> (treasury_state world, string, json) action" where
  "demo_purchase E token r =
     bind (lift (cli r)) (\<lambda>r. demo_handle E token (CreatePurchaseIntent r))"

definition demo_usd :: "purchase_request res" where
  "demo_usd =
     rbind (demo_request ''currency-substitution'' 500) (\<lambda>r.
     rbind (money_positive 500 ''USD'') (\<lambda>a.
     rbind (money_positive 500 ''USD'') (\<lambda>total. Inr (r\<lparr>rq_amount := a, final_total := total\<rparr>))))"

definition demo_refusals ::
  "env \<Rightarrow> string \<Rightarrow> string \<Rightarrow> (treasury_state world, string, (string \<times> json) list) action" where
  "demo_refusals E own agent_token =
     bind (demo_purchase E agent_token (demo_request ''over-budget'' 3000)) (\<lambda>over_budget.
     bind (demo_purchase E agent_token
       (rbind (demo_request ''recurring'' 500) (\<lambda>r. Inr (r\<lparr>recurring := True\<rparr>)))) (\<lambda>recurring_one.
     bind (demo_purchase E agent_token demo_usd) (\<lambda>other_currency.
     bind (demo_purchase E agent_token
       (rbind (demo_request ''hostile-form'' 500) (\<lambda>r.
        Inr (r\<lparr>payment_form := MerchantControlled\<rparr>)))) (\<lambda>hostile_form.
     bind (demo_handle E own (OwnerSetEmergencyStop True)) (\<lambda>_.
     bind (demo_purchase E agent_token (demo_request ''stopped'' 500)) (\<lambda>stopped_one.
     ret [(''over_budget'', over_budget), (''recurring'', recurring_one),
          (''currency_substitution'', other_currency),
          (''merchant_controlled_form'', hostile_form), (''emergency_stop'', stopped_one)]))))))"

text \<open>One purchase, executed and then requested once more.\<close>

definition demo_valid ::
  "env \<Rightarrow> string \<Rightarrow> (treasury_state world, string, (string \<times> json) list) action" where
  "demo_valid E agent_token =
     bind (lift (cli (demo_request ''demo-low-value'' 500))) (\<lambda>purchase.
     bind (demo_handle E agent_token (CreatePurchaseIntent purchase)) (\<lambda>intent.
     bind (lift (demo_text ''id'' intent ''missing intent id'')) (\<lambda>intent_id.
     bind (demo_handle E agent_token (ExecutePurchaseIntent intent_id)) (\<lambda>executed.
     bind (demo_handle E agent_token (CreatePurchaseIntent purchase)) (\<lambda>duplicate.
     bind (gets w_state) (\<lambda>s.
     ret [(''valid_purchase'', executed), (''same_idempotency_key'', j_field ''id'' duplicate),
          (''provider_charge_count_after_duplicate'',
           JInt (int (bsize (sp_charges (provider s)))))]))))))"

definition demo_secret :: "env \<Rightarrow> (treasury_state world, string, nat) action" where
  "demo_secret E =
     bind (cli_op (for_simulated_test E ''demo'')) (\<lambda>operation.
     let p = simulated_secret_new ''4111111111111111'' ''737'' operation in
     bind (lift (cli (fst (simulated_secret_fetch p operation)))) (\<lambda>secret. ret (length secret)))"

text \<open>What follows the bootstrap.\<close>

definition demo_tour :: "env \<Rightarrow> string \<Rightarrow> (treasury_state world, string, json) action" where
  "demo_tour E own =
     bind (lift (cli conservative_demo)) (\<lambda>p.
     bind (demo_handle E own (OwnerConfigureReceiveInstructions ''interac_e_transfer''
       ''demo-inbox@example.invalid'' ''AGENT-{agent_id}-{intent_id}'')) (\<lambda>_.
     bind (demo_handle E own (OwnerCreateAgent ''demo-agent'' p BoundedAutonomous 3600)) (\<lambda>created.
     bind (lift (demo_text ''capability_token'' created ''missing demo capability'')) (\<lambda>agent_token.
     bind (demo_handle E agent_token GetBudget) (\<lambda>budget.
     bind (demo_handle E agent_token GetReceiveInstructions) (\<lambda>receive.
     bind (demo_valid E agent_token) (\<lambda>purchases.
     bind (demo_refusals E own agent_token) (\<lambda>refusals.
     bind (demo_secret E) (\<lambda>secret_len.
     bind (gets w_state) (\<lambda>s.
     bind (gets w_key) (\<lambda>key.
     bind (lift (cli (verify_audit_chain E key s))) (\<lambda>_.
     ret (JObj ([(''project'', JStr ''cixa''), (''demo'', JStr ''passed''), (''budget'', budget),
         (''public_receive_instructions'', receive)] @ purchases @ refusals @
        [(''secret_canary'', JObj
           [(''volatile_secret_consumed_and_cleared'', JBool (0 < secret_len)),
            (''full_pan_or_cvv_emitted'', JBool False)]),
         (''audit_chain'', JStr ''valid''), (''owner_token_emitted'', JBool False),
         (''agent_token_emitted'', JBool False)]))))))))))))))"

definition run_demo :: "env \<Rightarrow> (treasury_state world, string, json) action" where
  "run_demo E =
     bind (lift (cli (money_positive 10000 ''CAD''))) (\<lambda>initial.
     bind (cli_op (bootstrap E ''demo-owner'' initial)) (demo_tour E))"

section \<open>The demonstration keeps the books\<close>

text \<open>The books are in order as long as the state generation has not run out.\<close>

definition in_order :: "env \<Rightarrow> treasury_state world \<Rightarrow> bool" where
  "in_order E w \<longleftrightarrow> chained E w \<and> (generation (w_state w) + 1 < u64_max \<longrightarrow> solvent (w_state w))"

definition order_kept :: "env \<Rightarrow> treasury_state world \<Rightarrow> treasury_state world \<Rightarrow> bool" where
  "order_kept E v w \<longleftrightarrow> (in_order E v \<longrightarrow> in_order E w)"

interpretation tour: step_relation "order_kept E" for E
  by unfold_locales (simp_all add: order_kept_def)

lemma order_after:
  assumes "history E v w" and "generation (w_state v) + 1 < u64_max \<Longrightarrow> solvent (w_state v) \<Longrightarrow>
    solvent (w_state w)"
  shows "order_kept E v w"
  using assms by (auto simp: order_kept_def in_order_def chained_def history_def log_extends_def
      same_oracles_def)

lemma order_demo_handle: "keeps (order_kept E) (demo_handle E token r)"
  unfolding demo_handle_def
proof (intro keeps_cli_op keeps_of_wp)
  fix w
  note h = keeps_history_handle [of E token r, unfolded keeps_wp, rule_format, of w]
  show "wp (handle E token r) (\<lambda>_. order_kept E w) (\<lambda>_. order_kept E w) w"
  proof (cases "generation (w_state w) + 1 < u64_max \<and> solvent (w_state w)")
    case True
    then have "wp (handle E token r) (\<lambda>_ v. solvent (w_state v)) (\<lambda>_ v. solvent (w_state v)) w"
      by (intro handle_solvent) simp_all
    from wp_conj [OF h this] show ?thesis by (rule wp_mono) (auto intro: order_after)
  next
    case False
    with h show ?thesis by (elim wp_mono) (auto intro!: order_after)
  qed
qed

lemma order_same: "keeps same_state m \<Longrightarrow> keeps (order_kept E) m"
  by (auto simp: keeps_def order_kept_def in_order_def chained_def same_state_def)

lemma order_tour: "keeps (order_kept E) (demo_tour E own)"
  unfolding demo_tour_def demo_valid_def demo_refusals_def demo_purchase_def demo_secret_def Let_def
    for_simulated_test_def
  by (intro tour.keeps_rules order_demo_handle keeps_cli_op order_same [OF keeps_same_operation])

text \<open>
  However the demonstration runs, and wherever it stops after the bootstrap, its treasury is
  solvent and its audit chain verifies.
\<close>

theorem demo_keeps_the_books:
  "wp (run_demo E) (\<lambda>_. in_order E) (\<lambda>_ _. True) w"
  "in_order E w \<Longrightarrow> in_order E (snd (demo_tour E own w))"
proof -
  show tour: "in_order E w \<Longrightarrow> in_order E (snd (demo_tour E own w))" for w own
    using order_tour [of E own] by (simp add: keeps_def order_kept_def)
  have "wp (demo_tour E own) (\<lambda>_. in_order E) (\<lambda>_ _. True) v" if "in_order E v" for own v
    using tour [OF that, of own] by (auto simp: wp_def split: prod.split sum.split)
  moreover have "wp (bootstrap E name m) (\<lambda>_. in_order E) (\<lambda>_ _. True) v" for name m v
    by (rule wp_mono [OF bootstrap_opens]) (use opened_well in \<open>auto simp: in_order_def\<close>)
  ultimately show "wp (run_demo E) (\<lambda>_. in_order E) (\<lambda>_ _. True) w"
    unfolding run_demo_def wp_bind wp_lift wp_cli_op
    by (cases "cli (money_positive 10000 ''CAD'')") (simp, blast intro: wp_mono)
qed

end
