(* ===== verification/Program.thy ===== *)
theory Program
  imports Demo Frontend
begin

text \<open>
  The entry of the daemon (\<open>main\<close> and \<open>run\<close> in \<open>apps/daemon/src/main.rs\<close>): which command the
  arguments name, and how an error leaves the program.
\<close>

section \<open>The commands\<close>

text \<open>A command that sends one request carries its token and request, or why they cannot be had.\<close>

datatype invocation =
    ShowHelp | RunDemo | Init | CreateAgent | SendRequest command | InitHelper | SecretHelper
  | SecretSession | ExecuteHandoff | Serve

definition windows_refusal :: string where
  "windows_refusal = ''stateful treasury commands require the documented Windows named-pipe and ''
     @ ''DACL adapter; this build fails closed''"

definition other_invocation :: "string \<Rightarrow> invocation option" where
  "other_invocation = map_of
     [(''help'', ShowHelp), (''--help'', ShowHelp), (''-h'', ShowHelp), (''demo'', RunDemo),
      (''init'', Init), (''create-agent'', CreateAgent), (''init-helper'', InitHelper),
      (''secret-helper'', SecretHelper), (''secret-session'', SecretSession),
      (''execute-handoff'', ExecuteHandoff), (''serve'', Serve)]"

definition run_command :: "bool \<Rightarrow> shell \<Rightarrow> string list \<Rightarrow> (invocation \<times> string list) cli" where
  "run_command unix S argv =
     (let c = (case argv of [] \<Rightarrow> ''help'' | a # _ \<Rightarrow> a); rest = drop 1 argv in
      if \<not> unix \<and> c \<notin> {''help'', ''--help'', ''-h'', ''demo''} then Inl windows_refusal
      else
        case other_invocation c of
          Some i \<Rightarrow> Inr (i, rest)
        | None \<Rightarrow>
            (case command_request S c rest of
               Some q \<Rightarrow> Inr (SendRequest q, rest)
             | None \<Rightarrow> Inl (''unknown command '' @ c @ ''; run `cixa help`'')))"

text \<open>What is printed on the standard error, and the exit code.\<close>

definition main_exit :: "env \<Rightarrow> 'a cli \<Rightarrow> string option \<times> nat" where
  "main_exit E r =
     (case r of
        Inl e \<Rightarrow> (Some (''error: '' @ redact_sensitive E e), 1)
      | Inr _ \<Rightarrow> (None, 0))"

section \<open>Every command has one meaning\<close>

lemma command_words_disjoint:
  "other_invocation c = Some i \<Longrightarrow> command_request S c args = None"
  by (auto simp: other_invocation_def command_request_def split: if_splits)

lemma sends_nothing: "other_invocation c \<noteq> Some (SendRequest q)"
  by (simp add: other_invocation_def)

text \<open>A build without Unix sockets does nothing but help and the demonstration.\<close>

lemma windows_fails_closed:
  "run_command False S argv = Inr (i, rest) \<Longrightarrow> i = ShowHelp \<or> i = RunDemo"
  by (auto simp: run_command_def other_invocation_def Let_def split: if_splits option.splits list.splits)

text \<open>A request is sent exactly for a word that names one, with the request of that word.\<close>

lemma sends_named_request:
  "run_command True S argv = Inr (SendRequest q, rest) \<longleftrightarrow>
     (\<exists>c. argv = c # rest \<and> command_request S c rest = Some q)"
proof (cases argv)
  case Nil
  have "other_invocation ''help'' = Some ShowHelp" by (simp add: other_invocation_def)
  with Nil show ?thesis by (simp add: run_command_def Let_def)
next
  case (Cons c args)
  then show ?thesis
    by (cases "other_invocation c")
      (auto simp: run_command_def Let_def command_words_disjoint sends_nothing split: option.splits)
qed

end
