(* ===== verification/Findings.thy ===== *)
theory Findings
  imports Durability Workflow
begin

text \<open>
  Where the code does not do what it means to do, or what its documents say: each of the lemmas
  here exhibits one such behaviour on the model.
\<close>

section \<open>Transitions\<close>

text \<open>
  \<open>cancel_intent\<close> accepts a validated purchase, but the transition table has no edge for it: the
  request fails with an invalid transition.
\<close>

lemma cancel_validated_fails:
  assumes "bget (intents (w_state w)) k = Some i" and "in_state i = PolicyValidated"
  shows "wp (cancel_intent E a k) (\<lambda>_ _. False) (\<lambda>_ _. True) w"
  by (rule wp_mono [OF cancel_needs_unexecuted]) (use assms in auto)

text \<open>
  \<open>docs/architecture.md\<close> lets an unknown outcome move to \<open>reconciliation_required\<close> only.
\<close>

lemma unknown_settles_directly: "can_transition Unknown Settled" "can_transition Unknown Declined"
  by (simp_all add: can_transition_def)

section \<open>Clocks\<close>

text \<open>
  A rotation reads the clock twice. When a second passes between the readings, the session
  outlives the capability, and \<open>validate_state\<close> refuses the agent: the rotation cannot be saved.
\<close>

lemma outlived_refused:
  "ag_expires_at b < ag_session_expires_at b \<Longrightarrow> validate_stored_agent E s (k, b) \<noteq> Inr ()"
  by (simp add: validate_stored_agent_def require_that_def ensure_def)

lemma rotation_outlived:
  assumes "w_clock w (w_reads w) = t" and "w_clock w (Suc (w_reads w)) = t + 1"
    and "bget (policies (w_state w)) (ag_policy_id ag) = Some p" "bget (agents (w_state w)) k = Some ag"
    and "\<not> emergency_stop (w_state w)" and "ttl \<le> card_session_ttl_secs p" and "0 \<le> t" "0 \<le> ttl"
    and "t + 1 + ttl \<le> i64_max"
  shows "wp (owner_rotate_agent_capability E a k ttl token)
    (\<lambda>_ v. \<exists>b. bget (agents (w_state v)) k = Some b \<and> ag_expires_at b < ag_session_expires_at b)
    (\<lambda>_ _. True) w"
proof -
  have r: "i64_add t ttl = t + ttl" "i64_add (t + 1) ttl = t + 1 + ttl"
    using assms(7-9) by (auto intro!: i64_add_exact simp: in_i64_def i64_min_def)
  have "agent_of (w_state w) k = Inr ag" "policy_of (w_state w) (ag_policy_id ag) = Inr p"
    using assms(3,4) by (simp_all add: agent_of_def policy_of_def ok_or_def)
  with assms r show ?thesis
    unfolding owner_rotate_agent_capability_def Let_def put_agent_def
    by (simp add: wp_bind wp_basic wp_now wp_lift wp_random wp_get_state wp_put_state wp_audit
        split: sum.split)
qed

text \<open>
  The lifetime of an intent is added to its time of creation without a check: a policy may set a
  lifetime for which the sum wraps, and every intent under it has expired at once.
\<close>

lemma lifetime_wraps:
  assumes "0 < t" and "t \<le> i64_max"
  shows "i64_add t i64_max < 0"
proof -
  have "t + i64_max + 9223372036854775808 = (t - 1) + 18446744073709551616" by (simp add: i64_max_def)
  moreover have "((t - 1) + 18446744073709551616) mod 18446744073709551616 = t - 1"
    unfolding mod_add_self2 by (rule mod_pos_pos_trivial) (use assms in \<open>simp_all add: i64_max_def\<close>)
  ultimately show ?thesis using assms by (simp add: i64_add_def i64_max_def)
qed

lemma longest_lifetime_is_valid:
  "policy_validate E p = Inr () \<Longrightarrow> length (json_text E (policy_json (p\<lparr>intent_ttl_secs := i64_max\<rparr>))) \<le> max_policy_bytes
     \<Longrightarrow> policy_validate E (p\<lparr>intent_ttl_secs := i64_max\<rparr>) = Inr ()"
  by (auto simp: policy_validate_def policy_amounts_def rbind_Inr_iff i64_max_def split: if_splits)

section \<open>Hosts\<close>

text \<open>
  127.0.0.1 as one decimal number is not an address for \<open>IpAddr::parse\<close>, and passes as a domain.
\<close>

lemma decimal_loopback_no_ip: "parse_ip ''2130706433'' = None"
  by (simp add: parse_ip_def read_ipv4_addr_def read_separator_def read_octet_def read_number_def
      read_ipv6_addr_def read_groups.simps [of 8] read_given_char_def is_ascii_digit_def
      is_ascii_hexdigit_def byte_def)

lemma decimal_loopback_is_a_domain: "canonicalize_domain plain_env ''2130706433'' = Inr ''2130706433''"
  by (simp add: canonicalize_domain_def plain_env_def candidate_host_def trim_end_matches_def
      bounded_def chars_def byte_def is_control_def to_ascii_lowercase_def lower_char_def
      is_ascii_uppercase_def ends_with_def bad_label_def starts_with_def decimal_loopback_no_ip Let_def)

section \<open>Saving\<close>

text \<open>
  The last step of a save, the synchronisation of the directory, comes after the new state file is
  in place. When it fails the caller puts the state in memory back, but the new state is on disk,
  where a restart finds it.
\<close>

definition late_failure :: "treasury_state world" where
  "late_failure = vault\<lparr>w_io := (\<lambda>n. if n = 17 then Some (''sync failed'', 0) else None)\<rparr>"

lemma failed_save_is_on_disk:
  "wp (save_to plain_env vault_codec) (\<lambda>_ _. False)
     (\<lambda>e v. e = Io ''sync failed''
        \<and> file_at v state_file = Some (new_file (saved_text plain_env vault_codec late_failure))) late_failure"
proof -
  have [simp]: "d_dir (w_disk late_failure) = None" "d_files (w_disk late_failure) = bempty" "w_ios late_failure = 0"
    by (simp_all add: late_failure_def vault_def small_world_def)
  have [simp]: "w_io late_failure n = (if n = 17 then Some (''sync failed'', 0) else None)" for n
    by (simp add: late_failure_def)
  have [simp]: "w_state late_failure = w_state vault" "audit_log (w_state vault) = []"
    by (simp_all add: late_failure_def) (simp add: vault_def initial_state_def)
  show ?thesis
    unfolding save_to_def ensure_private_directory_def check_key_file_def path_exists_def
      write_new_private_file_def write_atomic_private_file_def rename_file_def verify_private_file_def
      metadata_of_def sync_directory_def
    by (simp add: wp_bind wp_basic wp_if wp_io wp_lift wp_attempt wp_random wp_put_file wp_write_all
        wp_modify wp_guard wp_get_state wp_case_sum file_at_def vault_valid verify_audit_chain_def
        ok_or_def group_or_other_def Let_def new_file_def saved_text_def envelope_text_def vault_codec_def)
qed

end
