(* ===== verification/Panics.thy ===== *)
theory Panics
  imports Outcomes
begin

text \<open>
  No request panics. An \<open>expect\<close> that fails is the error \<open>Panic\<close> in the model, in whose machine
  arithmetic an overflow wraps as in a release build; this theory shows operation by operation, in
  the order of the components, that none fails with it (\<open>survives\<close> for results, \<open>steady\<close> for
  actions), up to the persisted handler the daemon calls. A panic would poison the daemon's mutex
  and unwind past its rollbacks. The same walk through the operations shows which of them fails with
  the message of the rate limit, and so what a failed change may leave behind.
\<close>

text \<open>
  With the flag \<open>lim\<close> the message of the rate limit counts as well, which \<open>change_persisted\<close> reads
  back from the error: only the creation of a purchase fails with it.
\<close>

definition bad :: "bool \<Rightarrow> treasury_error \<Rightarrow> bool" where
  "bad lim e \<longleftrightarrow> is_panic e \<or> lim \<and> e = Forbidden rate_limit_message"

definition survives :: "bool \<Rightarrow> 'a res \<Rightarrow> bool" where
  "survives lim r = (case r of Inl e \<Rightarrow> \<not> bad lim e | Inr _ \<Rightarrow> True)"

definition steady :: "bool \<Rightarrow> ('s, treasury_error, 'a) action \<Rightarrow> bool" where
  "steady lim m \<longleftrightarrow> (\<forall>s. wp m (\<lambda>_ _. True) (\<lambda>e _. \<not> bad lim e) s)"

lemma bad_simps [simp]:
  "bad lim (Forbidden m) \<longleftrightarrow> lim \<and> m = ''transaction rate limit exceeded''"
  "bad lim (Panic m)" "\<not> bad lim Unauthorized" "\<not> bad lim (Invalid m)" "\<not> bad lim (Conflict m)"
  "\<not> bad lim (NotFound m)" "\<not> bad lim (MoneyError m)" "\<not> bad lim (Serialization m)" "\<not> bad lim (Io m)"
  by (auto simp: bad_def rate_limit_message_def)

named_theorems steady

lemmas error_names = not_found_def file_exists_error_def transition_error_def ttl_error_def
  pre_submit_error_def unconfigured_def no_snapshot_def page_limit_error_def

lemma survives_simps [steady]:
  "survives lim (Inr x)" "\<not> bad lim e \<Longrightarrow> survives lim (Inl e)" "\<not> bad lim e \<Longrightarrow> survives lim (ok_or e r)"
  "\<not> bad lim e \<Longrightarrow> survives lim (ensure b e)"
  by (auto simp: survives_def ok_or_def ensure_def split: option.split)

lemma survives_rbind [steady]: "survives lim r \<Longrightarrow> (\<And>x. survives lim (f x)) \<Longrightarrow> survives lim (rbind r f)"
  by (cases r) (simp_all add: survives_def rbind_def)

lemma survives_cases [steady]:
  "(b \<Longrightarrow> survives lim r) \<Longrightarrow> (\<not> b \<Longrightarrow> survives lim q) \<Longrightarrow> survives lim (if b then r else q)"
  "(x = None \<Longrightarrow> survives lim r) \<Longrightarrow> (\<And>y. survives lim (f y)) \<Longrightarrow> survives lim (case x of None \<Rightarrow> r | Some y \<Rightarrow> f y)"
  "(\<And>a b. survives lim (g a b)) \<Longrightarrow> survives lim (case p of (a, b) \<Rightarrow> g a b)"
  by (auto split: option.split prod.split)

lemma steady_basic [steady]:
  "steady lim (ret x)" "\<not> bad lim e \<Longrightarrow> steady lim (fail e)" "steady lim (gets f)" "steady lim (modify g)"
  "survives lim r \<Longrightarrow> steady lim (lift r)" "\<not> bad lim e \<Longrightarrow> steady lim (guard b e)" "steady lim (attempt m)"
  by (auto simp: steady_def survives_def guard_def wp_simps wp_def attempt_def split: sum.split prod.split)

lemma steady_bind [steady]: "steady lim m \<Longrightarrow> (\<And>x. steady lim (f x)) \<Longrightarrow> steady lim (bind m f)"
  by (auto simp: steady_def wp_bind intro: wp_mono)

lemma steady_cases [steady]:
  "(b \<Longrightarrow> steady lim m) \<Longrightarrow> (\<not> b \<Longrightarrow> steady lim n) \<Longrightarrow> steady lim (if b then m else n)"
  "(x = None \<Longrightarrow> steady lim m) \<Longrightarrow> (\<And>y. steady lim (f y)) \<Longrightarrow> steady lim (case x of None \<Rightarrow> m | Some y \<Rightarrow> f y)"
  "(\<And>a b. steady lim (g a b)) \<Longrightarrow> steady lim (case p of (a, b) \<Rightarrow> g a b)"
  by (auto split: option.split prod.split)

lemma survives_folds [steady]:
  "(\<And>a x. survives lim (f a x)) \<Longrightarrow> survives lim (rfold f s xs)"
  "(\<And>x. survives lim (g x)) \<Longrightarrow> survives lim (rall g xs)"
  "(\<And>x. survives lim (h x)) \<Longrightarrow> survives lim (rmap h xs)"
proof -
  show "survives lim (rfold f s xs)" if "\<And>a x. survives lim (f a x)"
    using that by (induction xs arbitrary: s) (auto intro!: survives_rbind survives_simps(1))
  show "survives lim (rall g xs)" if "\<And>x. survives lim (g x)"
    using that by (induction xs) (auto intro!: survives_rbind survives_simps(1))
  show "survives lim (rmap h xs)" if "\<And>x. survives lim (h x)"
    using that by (induction xs) (auto intro!: survives_rbind survives_simps(1))
qed

lemma steady_loops [steady]:
  "(\<And>x. steady lim (f x)) \<Longrightarrow> steady lim (each f xs)" "(\<And>x. steady lim (g x)) \<Longrightarrow> steady lim (collect g xs)"
proof -
  show "steady lim (each f xs)" if "\<And>x. steady lim (f x)"
    using that by (induction xs) (auto intro!: steady_bind steady_basic)
  show "steady lim (collect g xs)" if "\<And>x. steady lim (g x)"
    using that by (induction xs) (auto intro!: steady_bind steady_basic)
qed

text \<open>An error that is caught and raised again.\<close>

lemma steady_rethrow [steady]:
  "steady lim m \<Longrightarrow> (\<And>v. steady lim (f v)) \<Longrightarrow> (\<And>e. \<not> bad lim e \<Longrightarrow> steady lim (g e)) \<Longrightarrow>
     steady lim (bind (attempt m) (\<lambda>r. case r of Inr v \<Rightarrow> f v | Inl e \<Rightarrow> g e))"
  by (auto simp: steady_def wp_bind wp_attempt wp_case_sum intro: wp_mono)

lemma steady_primitive [steady]:
  "steady lim now" "steady lim (random_hex E n)" "steady lim io_call" "steady lim (put_file k f)" "steady lim (drop_file k)" "steady lim (write_all k f b)"
  by (simp_all add: steady_def wp_def io_call_def Let_def put_file_def drop_file_def write_all_def modify_def
      split: option.split)

lemma survives_InlD: "survives lim r \<Longrightarrow> r = Inl e \<Longrightarrow> \<not> bad lim e"
  by (simp add: survives_def)

lemma steady_paired:
  "(\<And>w. wp m (\<lambda>r _. survives lim (fst r)) (\<lambda>e _. \<not> bad lim e) w) \<Longrightarrow> (\<And>p. steady lim (g p)) \<Longrightarrow>
     steady lim (bind m (\<lambda>(r, p). bind (g p) (\<lambda>_. lift r)))"
proof -
  assume m: "\<And>w. wp m (\<lambda>r _. survives lim (fst r)) (\<lambda>e _. \<not> bad lim e) w" and g: "\<And>p. steady lim (g p)"
  have "wp (bind (g p) (\<lambda>_. lift r)) (\<lambda>_ _. True) (\<lambda>e _. \<not> bad lim e) t" if "survives lim r" for r p t
    using steady_bind [OF g steady_basic(5) [OF that]] unfolding steady_def by blast
  then show ?thesis
    unfolding steady_def wp_bind [of m] by (intro allI wp_mono [OF m]) (auto split: prod.split)
qed

lemma steady_more_data [steady]:
  "(\<And>x. steady lim (f1 x)) \<Longrightarrow> (\<And>x. steady lim (f2 x)) \<Longrightarrow> (\<And>x. steady lim (f3 x)) \<Longrightarrow> (\<And>x. steady lim (f4 x)) \<Longrightarrow>
     steady lim (case out of OutApproved x \<Rightarrow> f1 x | OutDeclined x \<Rightarrow> f2 x | OutPending x \<Rightarrow> f3 x | OutUnknown x \<Rightarrow> f4 x)"
  "steady lim m1 \<Longrightarrow> steady lim m2 \<Longrightarrow> steady lim m3 \<Longrightarrow>
     steady lim (case rec of RecSettled \<Rightarrow> m1 | RecDeclined \<Rightarrow> m2 | RecRefunded \<Rightarrow> m3)"
  by (auto split: provider_outcome.split reconciliation_outcome.split)

lemma steady_data [steady]:
  "(\<And>k. survives lim (f k)) \<Longrightarrow> survives lim r \<Longrightarrow> survives lim (case a of OwnerActor \<Rightarrow> r | AgentActor k \<Rightarrow> f k)"
  "(\<And>k. steady lim (g k)) \<Longrightarrow> steady lim m \<Longrightarrow> steady lim (case a of OwnerActor \<Rightarrow> m | AgentActor k \<Rightarrow> g k)"
  "survives lim r \<Longrightarrow> survives lim q \<Longrightarrow> survives lim (case p of Simulated \<Rightarrow> r | ManualPrepaidCard \<Rightarrow> q)"
  "steady lim m \<Longrightarrow> steady lim n \<Longrightarrow> steady lim (case p of Simulated \<Rightarrow> m | ManualPrepaidCard \<Rightarrow> n)"
  by (auto split: actor.split provider_mode_kind.split)

section \<open>Base\<close>

lemma steady_base_1 [steady]:
  "steady lim (new_id E k)"
  "steady lim (new_token E)"
  "steady lim get_state"
  "steady lim (put_state v25)"
  "steady lim (update_state v26)"
  unfolding new_id_def new_token_def get_state_def put_state_def update_state_def Let_def
  by (rule steady | simp add: error_names)+

lemma steady_base_2 [steady]:
  "survives lim (validate_capability_token k)"
  "survives lim (bounded k k2 n)"
  "survives lim (bounded_bytes k k2 n)"
  "survives lim (validate_provider_reference E k)"
  unfolding validate_capability_token_def bounded_def bounded_bytes_def validate_provider_reference_def
    Let_def
  by (rule steady | simp add: error_names)+

section \<open>Files\<close>

lemma steady_files_1 [steady]:
  "steady lim (metadata_of k)"
  "steady lim (path_exists k)"
  "steady lim ensure_private_directory"
  "steady lim (verify_private_file k)"
  "steady lim (read_private_file k)"
  unfolding metadata_of_def path_exists_def ensure_private_directory_def verify_private_file_def
    read_private_file_def Let_def
  by (rule steady | simp add: error_names)+

lemma steady_files_2 [steady]:
  "steady lim (write_new_private_file k k2)"
  "steady lim (rename_file k k2)"
  "steady lim (remove_file k)"
  "steady lim (write_atomic_private_file E k k2)"
  "steady lim sync_directory"
  unfolding write_new_private_file_def rename_file_def remove_file_def write_atomic_private_file_def
    sync_directory_def Let_def
  by (rule steady | simp add: error_names)+

section \<open>Money\<close>

lemma steady_money_1 [steady]:
  "survives lim (money_new t k)"
  "survives lim (money_positive t k)"
  "survives lim (money_zero k)"
  "survives lim (same_currency m m2)"
  "survives lim (checked_add m m2)"
  unfolding money_new_def money_positive_def money_zero_def same_currency_def checked_add_def Let_def
  by (rule steady | simp add: error_names)+

lemma steady_money_2 [steady]:
  "survives lim (checked_sub m m2)"
  "survives lim (scaled_basis_points m n)"
  "survives lim (remaining_money m m2)"
  unfolding checked_sub_def scaled_basis_points_def remaining_money_def Let_def
  by (rule steady | simp add: error_names)+

section \<open>Net\<close>

lemma steady_net_1 [steady]:
  "survives lim (validate_resolved_ip v27)"
  "survives lim (candidate_host E k)"
  "survives lim (canonicalize_domain E k)"
  "survives lim (validate_https_url E k)"
  "survives lim (normalize_https_url E k)"
  unfolding validate_resolved_ip_def candidate_host_def canonicalize_domain_def validate_https_url_def
    normalize_https_url_def Let_def
  by (rule steady | simp add: error_names)+

section \<open>Policy\<close>

lemma steady_policy_1 [steady]:
  "survives lim (usage_zero k)"
  "survives lim (policy_validate E p)"
  "survives lim (add_item t v28)"
  "survives lim (request_validate E q p t)"
  "survives lim (budget_reasons p q u)"
  unfolding usage_zero_def policy_validate_def add_item_def request_validate_def budget_reasons_def
    Let_def
  by (rule steady | simp add: error_names)+

lemma steady_policy_2 [steady]:
  "survives lim (redirect_reasons E p k v29)"
  "survives lim (evaluate E p q u mode b b2 t)"
  unfolding redirect_reasons_def evaluate_def Let_def
  by (rule steady | simp add: error_names)+

section \<open>Intent\<close>

lemma steady_intent_1 [steady]:
  "steady lim (transition i st)"
  "steady lim (issue_receipt E i)"
  unfolding transition_def issue_receipt_def Let_def
  by (rule steady | simp add: error_names)+

section \<open>Provider\<close>

lemma steady_provider_1 [steady]:
  "steady lim (manual_available_balance mp)"
  "steady lim (manual_authorize mp i)"
  "survives lim (simulated_available_balance sp)"
  "steady lim (simulated_authorize E sp i)"
  unfolding manual_available_balance_def manual_authorize_def simulated_available_balance_def
    simulated_authorize_def Let_def
  by (rule steady | simp add: error_names)+

text \<open>The operations that give the new provider beside their result.\<close>

lemma steady_provider_results:
  "wp (settle_pending E p i) (\<lambda>r _. survives lim (fst r)) (\<lambda>e _. \<not> bad lim e) w"
  "wp (reconcile_settled E p i reference) (\<lambda>r _. survives lim (fst r)) (\<lambda>e _. \<not> bad lim e) w"
  "survives lim (fst (simulated_refund p k))"
proof -
  have m: "checked_sub a b = Inl e \<Longrightarrow> \<not> bad lim e" "checked_add a b = Inl e \<Longrightarrow> \<not> bad lim e"
    "simulated_available_balance p = Inl e \<Longrightarrow> \<not> bad lim e" for a b e
    by (rule survives_InlD [rotated], assumption, rule steady)+
  show s: "wp (settle_pending E p i) (\<lambda>r _. survives lim (fst r)) (\<lambda>e _. \<not> bad lim e) w"
    by (auto simp: settle_pending_def Let_def wp_simps steady m split: option.split sum.split)
  show "wp (reconcile_settled E p i reference) (\<lambda>r _. survives lim (fst r)) (\<lambda>e _. \<not> bad lim e) w"
    using s by (auto simp: reconcile_settled_def wp_simps steady m split: option.split sum.split)
  show "survives lim (fst (simulated_refund p k))"
    by (auto simp: simulated_refund_def Let_def steady m split: option.split sum.split)
qed

section \<open>State\<close>

lemma steady_state_1 [steady]:
  "survives lim (agent_of s k)"
  "survives lim (policy_of s k)"
  "survives lim (intent_for_agent s k k2)"
  "steady lim (put_intent k i)"
  "steady lim (put_agent k g)"
  unfolding agent_of_def policy_of_def intent_for_agent_def put_intent_def put_agent_def Let_def
  by (rule steady | simp add: error_names)+

section \<open>Audit Log\<close>

lemma survives_verify_from [steady]: "survives lim (verify_from E key n previous es)"
  by (induction E key n previous es rule: verify_from.induct) (auto intro!: steady)

lemma steady_audit_log_1 [steady]:
  "survives lim (require_money_workflow_audit_capacity s n)"
  "steady lim (audit E k k2 opt v30 opt2 j)"
  "survives lim (verify_audit_chain E k s)"
  unfolding require_money_workflow_audit_capacity_def audit_def verify_audit_chain_def Let_def
  by (rule steady | simp add: error_names)+

section \<open>Ledger\<close>

lemma survives_apply_event [steady]: "survives lim (apply_event cur l e)"
  by (cases "le_kind e") (auto simp: apply_event_def intro!: steady)

lemma steady_ledger_1 [steady]:
  "survives lim (apply_hold k v32 i)"
  "survives lim (ledger_snapshot s k)"
  "survives lim (usage_event s k k2 k3 t u e)"
  "survives lim (usage_hold k k2 u i)"
  unfolding apply_hold_def ledger_snapshot_def usage_event_def usage_hold_def Let_def
  by (rule steady | simp add: error_names)+

lemma steady_ledger_2 [steady]:
  "survives lim (usage_at s k k2 t u)"
  "steady lim (usage_of k k2)"
  "steady lim provider_available_balance"
  "survives lim (provider_reported_balance s)"
  "steady lim provider_balance_evidence"
  unfolding usage_at_def usage_of_def provider_available_balance_def provider_reported_balance_def
    provider_balance_evidence_def Let_def
  by (rule steady | simp add: error_names)+

lemma steady_ledger_3 [steady]:
  "steady lim (provider_authorize E i)"
  "survives lim (configured_balance s)"
  "steady lim (enforce_authority v33 q u p)"
  "survives lim (validate_policy_exposure s p)"
  "steady lim (append_ledger E v34 m opt k b)"
  unfolding provider_authorize_def configured_balance_def enforce_authority_def
    validate_policy_exposure_def append_ledger_def Let_def
  by (rule steady | simp add: error_names)+

lemma steady_ledger_4 [steady]:
  "steady lim (record_settled E i)"
  unfolding record_settled_def Let_def
  by (rule steady | simp add: error_names)+

section \<open>Auth\<close>

lemma steady_auth_1 [steady]:
  "steady lim (authenticate E k)"
  "survives lim (require_owner a)"
  "survives lim (require_agent a)"
  "survives lim (require_agent_scope s a k)"
  unfolding authenticate_def require_owner_def require_agent_def require_agent_scope_def Let_def
  by (rule steady | simp add: error_names)+

section \<open>Purchase\<close>

lemma steady_purchase_1 [steady]:
  "survives lim (canonical_request E q)"
  "steady lim (file_intent E k g p q v33)"
  "steady False (rate_limited E k p)"
  "steady lim (decide_and_file E k g p q u)"
  "steady False (create_intent E a q)"
  unfolding canonical_request_def file_intent_def rate_limited_def decide_and_file_def create_intent_def
    Let_def
  by (rule steady | simp add: error_names)+

lemma steady_purchase_2 [steady]:
  "survives lim (executable_state st)"
  "steady lim (intent_expired i p)"
  "steady lim (reserve_and_start E k k2 p i)"
  "steady lim (prepare_intent_execution E a k)"
  "steady lim (settle_outcome E i out)"
  unfolding executable_state_def intent_expired_def reserve_and_start_def prepare_intent_execution_def
    settle_outcome_def Let_def
  by (rule steady | simp add: error_names)+

lemma steady_purchase_3 [steady]:
  "steady lim (apply_provider_outcome E k k2 out)"
  "steady lim (complete_intent_execution E a k)"
  "steady lim (quarantine_execution E k k2)"
  "steady lim (execute_intent E a k)"
  "steady lim (cancel_intent E a k)"
  unfolding apply_provider_outcome_def complete_intent_execution_def quarantine_execution_def
    execute_intent_def cancel_intent_def Let_def
  by (rule steady | simp add: error_names)+

section \<open>Owner\<close>

lemma steady_owner_1 [steady]:
  "steady lim (put_policy k p)"
  "steady lim (enroll_agent E k p mode t b k2)"
  "steady lim (owner_create_agent E a k p mode t opt)"
  "steady lim (owner_arm_agent_session E a k t)"
  "steady lim (owner_update_policy E a k p)"
  unfolding put_policy_def enroll_agent_def owner_create_agent_def owner_arm_agent_session_def
    owner_update_policy_def Let_def
  by (rule steady | simp add: error_names)+

lemma steady_owner_2 [steady]:
  "steady lim (stop_agent E k)"
  "steady lim (owner_emergency_stop E a b)"
  "steady lim (owner_set_agent_mode E a k mode)"
  "steady lim (owner_revoke_agent E a k)"
  "steady lim (owner_rotate_agent_capability E a k t k2)"
  unfolding stop_agent_def owner_emergency_stop_def owner_set_agent_mode_def owner_revoke_agent_def
    owner_rotate_agent_capability_def Let_def
  by (rule steady | simp add: error_names)+

lemma steady_owner_3 [steady]:
  "survives lim (stored_intent s k)"
  "steady lim (owner_approve E a k)"
  "steady lim (owner_deny E a k)"
  "steady lim (owner_complete_manual_handoff E a k)"
  "steady lim (owner_approve_merchant E a k k2)"
  unfolding stored_intent_def owner_approve_def owner_deny_def owner_complete_manual_handoff_def
    owner_approve_merchant_def Let_def
  by (rule steady | simp add: error_names)+

section \<open>Treasury\<close>

lemma steady_treasury_1 [steady]:
  "steady lim (put_provider sp)"
  "steady lim manual_entry"
  "steady lim (put_manual_balance mp v35)"
  unfolding put_provider_def manual_entry_def put_manual_balance_def Let_def
  by (rule steady | simp add: error_names)+

lemma steady_settle_simulated [steady]: "steady lim (settle_simulated E i reference)"
  unfolding settle_simulated_def
  by (rule steady_paired steady_provider_results | rule steady)+

lemma steady_treasury_2 [steady]:
  "steady lim (settle_manual i opt)"
  "steady lim (mark_settled E i k)"
  "steady lim (reconcile_as_settled E i opt)"
  "steady lim (reconcile_as_declined E i)"
  unfolding settle_manual_def mark_settled_def reconcile_as_settled_def reconcile_as_declined_def
    Let_def
  by (rule steady | simp add: error_names)+

lemma steady_refund_simulated [steady]: "steady lim (refund_simulated i)"
proof -
  have "survives lim r" if "simulated_refund p k = (r, p')" for p k r p'
    using steady_provider_results(3) [of _ p k] that by simp
  note r = this
  show ?thesis
    unfolding refund_simulated_def Let_def
    by (rule steady_bind, rule steady)
      (auto split: prod.split intro!: steady_bind steady_basic(5) steady_treasury_1(1) intro: r)
qed

lemma steady_treasury_3 [steady]:
  "steady lim (refund_manual i b)"
  "steady lim (reconcile_as_refunded E i b opt)"
  "steady lim (owner_reconcile_inner E k oc opt)"
  "steady lim (owner_reconcile E a k oc opt)"
  "survives lim (verified_reinvestment s m opt)"
  unfolding refund_manual_def reconcile_as_refunded_def owner_reconcile_inner_def owner_reconcile_def
    verified_reinvestment_def Let_def
  by (rule steady | simp add: error_names)+

lemma steady_treasury_4 [steady]:
  "steady lim (credit_provider m)"
  "steady lim (file_deposit E m k b opt k2 k3 m2)"
  "steady lim (owner_record_deposit E a m k b opt k2)"
  "steady lim (owner_configure_receive E a k k2 k3)"
  "survives lim (validate_secret_reference E k k2)"
  unfolding credit_provider_def file_deposit_def owner_record_deposit_def owner_configure_receive_def
    validate_secret_reference_def Let_def
  by (rule steady | simp add: error_names)+

lemma steady_treasury_5 [steady]:
  "survives lim (check_configuration E s v36)"
  "steady lim (owner_configure_manual_provider E a v36)"
  unfolding check_configuration_def owner_configure_manual_provider_def Let_def
  by (rule steady | simp add: error_names)+

section \<open>Views\<close>

lemma steady_views_1 [steady]:
  "steady lim (get_status a)"
  "steady lim (get_capabilities a)"
  "survives lim (remaining_of p u)"
  "steady lim (get_budget a)"
  "steady lim (get_receive_instructions a)"
  unfolding get_status_def get_capabilities_def remaining_of_def get_budget_def
    get_receive_instructions_def Let_def
  by (rule steady | simp add: error_names)+

lemma steady_views_2 [steady]:
  "steady lim (dashboard_agent g)"
  "steady lim (owner_get_dashboard a)"
  "survives lim (scope_for_agent s a k)"
  "survives lim (visible_intent s a k k2)"
  "steady lim (get_intent a k)"
  unfolding dashboard_agent_def owner_get_dashboard_def scope_for_agent_def visible_intent_def
    get_intent_def Let_def
  by (rule steady | simp add: error_names)+

lemma steady_views_3 [steady]:
  "survives lim (page_start v37 opt)"
  "survives lim (intent_page_of v37 opt n)"
  "steady lim (list_transactions_page a opt n)"
  "steady lim (list_transactions a)"
  "steady lim (owner_list_transactions_page a opt n)"
  unfolding page_start_def intent_page_of_def list_transactions_page_def list_transactions_def
    owner_list_transactions_page_def Let_def
  by (rule steady | simp add: error_names)+

lemma steady_views_4 [steady]:
  "steady lim (get_receipt E a k)"
  "steady lim (chain_valid E s)"
  "steady lim (owner_list_audit E a)"
  "steady lim (owner_list_audit_recent E a)"
  "survives lim (audit_page_of v31 v30 n)"
  unfolding get_receipt_def chain_valid_def owner_list_audit_def owner_list_audit_recent_def
    audit_page_of_def Let_def
  by (rule steady | simp add: error_names)+

lemma steady_views_5 [steady]:
  "steady lim (owner_list_audit_page E a v30 n)"
  unfolding owner_list_audit_page_def Let_def
  by (rule steady | simp add: error_names)+

section \<open>Store\<close>

lemma steady_store_1 [steady]:
  "survives lim (require_that b k)"
  "survives lim (validate_quota s)"
  "survives lim (validate_stored_policy E v38)"
  "survives lim (validate_stored_agent E s v39)"
  "survives lim (validate_stored_receipt E i)"
  unfolding require_that_def validate_quota_def validate_stored_policy_def validate_stored_agent_def
    validate_stored_receipt_def Let_def
  by (rule steady | simp add: error_names)+

lemma steady_store_2 [steady]:
  "survives lim (validate_stored_intent E s v40)"
  "survives lim (validate_stored_event s e)"
  "survives lim (validate_provider E s)"
  "survives lim (validate_state E s)"
  "steady lim check_key_file"
  unfolding validate_stored_intent_def validate_stored_event_def validate_provider_def
    validate_state_def check_key_file_def Let_def
  by (rule steady | simp add: error_names)+

lemma steady_store_3 [steady]:
  "steady lim (save_to E C)"
  unfolding save_to_def Let_def
  by (rule steady | simp add: error_names)+

section \<open>Rpc\<close>

section \<open>The manual handoff\<close>

text \<open>The intent a preparation has reserved for is still stored, so the handoff finds it again.\<close>

lemma prepare_keeps_intent:
  assumes "prepare_intent_execution E a k w = (Inr (), v)"
  shows "bget (intents (w_state v)) k \<noteq> None"
proof -
  have "wp (prepare_intent_execution E a k) (\<lambda>_ v. bget (intents (w_state v)) k \<noteq> None) (\<lambda>_ _. True) w"
  proof (rule prepare_rule)
    fix aid p i and u :: "treasury_state world"
    assume "same_state w u" and "bget (intents (w_state w)) k = Some i"
    then have "bget (intents (w_state u)) k = Some i" by (simp add: same_state_def)
    then show "wp (reserve_and_start E aid k p i) (\<lambda>_ v. bget (intents (w_state v)) k \<noteq> None)
        (\<lambda>_ _. True) u"
      unfolding reserve_and_start_def append_ledger_def by (simp add: wp_simps)
  qed simp
  with assms show ?thesis by (simp add: wp_def)
qed

lemma error_rethrown: "steady lim m \<Longrightarrow> m w = (Inl e, v) \<Longrightarrow> \<not> bad lim e"
  by (drule steady_def [THEN iffD1, THEN spec, of _ _ w]) (simp add: wp_def)

lemma steady_survived:
  assumes "steady lim m" and "\<And>x v. m w = (Inr x, v) \<Longrightarrow> wp (f x) (\<lambda>_ _. True) (\<lambda>e _. \<not> bad lim e) v"
  shows "wp (bind m f) (\<lambda>_ _. True) (\<lambda>e _. \<not> bad lim e) w"
  using assms by (cases "m w"; cases "fst (m w)") (auto simp: wp_def bind_def dest: error_rethrown)

lemma steady_handoff_prepared:
  "steady lim (bind (prepare_intent_execution E a k) (\<lambda>_. bind (audit E who action iid pv dec det) (\<lambda>_.
     bind get_state (\<lambda>s. bind (lift (ok_or (Panic m) (bget (intents s) k))) (\<lambda>i. ret (f i))))))"
  unfolding steady_def
proof (rule allI, rule steady_survived)
  fix x v w
  assume "prepare_intent_execution E a k w = (Inr x, v)"
  then have "bget (intents (w_state v)) k \<noteq> None" by (simp add: prepare_keeps_intent)
  then show "wp (bind (audit E who action iid pv dec det) (\<lambda>_. bind get_state (\<lambda>s.
      bind (lift (ok_or (Panic m) (bget (intents s) k))) (\<lambda>i. ret (f i)))))
      (\<lambda>_ _. True) (\<lambda>e _. \<not> bad lim e) v"
    by (auto simp: wp_simps ok_or_def audit_full_def generation_full_def split: option.split)
qed (rule steady)

lemma steady_begin_handoff [steady]: "steady lim (owner_begin_manual_handoff E a k)"
  unfolding owner_begin_manual_handoff_def
  by (rule steady_handoff_prepared steady | simp)+

section \<open>Requests\<close>

lemma steady_handle [steady]: "steady False (handle E token r)"
  unfolding handle_def by (rule steady; (cases r; simp only: dispatch.simps; rule steady)?)+

lemma steady_dispatch:
  "\<forall>q. r \<noteq> CreatePurchaseIntent q \<Longrightarrow> steady lim (dispatch E a r)"
  by (cases r; simp only: dispatch.simps; (rule steady)?) simp

lemma steady_rollback [steady]: "steady lim m \<Longrightarrow> steady lim (rollback s m)"
  unfolding rollback_def by (rule steady_rethrow) (rule steady | assumption)+

lemma steady_execute_persisted [steady]: "steady lim (execute_persisted E C token k)"
  unfolding execute_persisted_def by (rule steady_rethrow steady | simp)+

lemma steady_attempted:
  assumes "steady lim m" and "\<And>v. steady lim (f (Inr v))" and "\<And>e. \<not> bad lim e \<Longrightarrow> steady lim (f (Inl e))"
  shows "steady lim (bind (attempt m) f)"
  unfolding steady_def wp_bind wp_attempt
  using assms by (auto simp: steady_def intro: wp_mono)

lemma steady_change_persisted [steady]: "steady False (change_persisted E C token r)"
  unfolding change_persisted_def
  by (rule steady_attempted steady | assumption | simp only: sum.case | simp)+

text \<open>
  C21: Whatever the request, the token and the state of the treasury, its files and its oracles, the
  persisted handler never panics: every failure is a proper error value.
\<close>

theorem requests_never_panic: "fst (handle_persisted E C token r w) \<noteq> Inl (Panic m)"
proof -
  have "steady False (handle_persisted E C token r)"
    unfolding handle_persisted_def by (cases r) (simp_all add: steady)
  then show ?thesis by (cases "handle_persisted E C token r w") (auto dest: error_rethrown)
qed

section \<open>Failed changes\<close>

text \<open>What a request refused for its rate leaves behind: nothing, or one audit entry.\<close>

definition rate_noted :: "treasury_state \<Rightarrow> treasury_state \<Rightarrow> bool" where
  "rate_noted s t \<longleftrightarrow> t = s \<or>
     (\<exists>entry. t = audited s entry \<and> au_action entry = ''transaction_rate_limited'')"

lemma rate_noted_calm: "same_state w v \<Longrightarrow> rate_noted (w_state w) (w_state v)"
  by (simp add: rate_noted_def same_state_def)

lemma unlimited_errors:
  "steady True m \<Longrightarrow> wp m (\<lambda>_ _. True) (\<lambda>e v. e = Forbidden rate_limit_message \<longrightarrow> Q v) w"
  by (rule wpI) (auto dest: error_rethrown simp: rate_limit_message_def)

lemma rate_limited_noted:
  "wp (rate_limited E aid p) (\<lambda>_ _. True) (\<lambda>_ v. rate_noted (w_state w) (w_state v)) w"
  by (auto simp: rate_limited_def wp_simps rate_noted_def intro: new_entry_action)

lemma create_noted:
  "wp (create_intent E a q) (\<lambda>_ _. True)
     (\<lambda>e v. e = Forbidden rate_limit_message \<longrightarrow> rate_noted (w_state w) (w_state v)) w"
proof -
  have used: "wp (bind (usage_of aid cur) (\<lambda>usage. if b usage then rate_limited E aid p else decide_and_file E aid g p q usage))
      (\<lambda>_ _. True) (\<lambda>e v. e = Forbidden rate_limit_message \<longrightarrow> rate_noted (w_state w) (w_state v)) v"
    if "same_state w v" for aid cur b p g q v
    unfolding wp_bind
  proof (rule wp_quiet [OF keeps_same_usage])
    fix usage u
    assume "same_state v u"
    with that have "w_state u = w_state w" by (simp add: same_state_def)
    then have "wp (rate_limited E aid p :: json top) (\<lambda>_ _. True)
        (\<lambda>e v. e = Forbidden rate_limit_message \<longrightarrow> rate_noted (w_state w) (w_state v)) u"
      by (intro wp_mono [OF rate_limited_noted]) simp_all
    with unlimited_errors [OF steady_purchase_1(4)]
    show "wp (if b usage then rate_limited E aid p else decide_and_file E aid g p q usage)
      (\<lambda>_ _. True) (\<lambda>e v. e = Forbidden rate_limit_message \<longrightarrow> rate_noted (w_state w) (w_state v)) u"
      by simp
  qed (use that rate_noted_calm in \<open>auto simp: same_state_def\<close>)
  have read: "wp (bind (bind now (\<lambda>at. ret (limit \<le> at))) f) Q R w =
      wp (f (limit \<le> w_clock w (w_reads w))) Q R (w\<lparr>w_reads := Suc (w_reads w)\<rparr>)"
    for limit Q R and f :: "bool \<Rightarrow> json top"
    by (simp add: wp_bind wp_now wp_basic)
  have same: "rate_noted s s" for s by (simp add: rate_noted_def)
  show ?thesis
    unfolding create_intent_def
    by (auto simp: wp_head_state wp_head_lift wp_head_ret read wp_basic wp_tail_if rate_limit_message_def
        same same_state_def intro!: used [unfolded rate_limit_message_def] split: option.split)
qed

lemma handle_noted:
  "wp (handle E token r) (\<lambda>_ _. True)
     (\<lambda>e v. e = Forbidden rate_limit_message \<longrightarrow>
        (\<exists>q. r = CreatePurchaseIntent q) \<and> rate_noted (w_state w) (w_state v)) w"
  unfolding handle_def wp_bind
proof (rule wp_mono [OF wp_authenticate], goal_cases)
  case (1 a v)
  then have st: "w_state v = w_state w" by (simp add: same_state_def)
  show "wp (dispatch E a r) (\<lambda>_ _. True) (\<lambda>e v. e = Forbidden rate_limit_message \<longrightarrow>
      (\<exists>q. r = CreatePurchaseIntent q) \<and> rate_noted (w_state w) (w_state v)) v"
  proof (cases "\<exists>q. r = CreatePurchaseIntent q")
    case True
    then obtain q where "r = CreatePurchaseIntent q" by blast
    with create_noted [of E a q v] show ?thesis by (simp add: st)
  next
    case False
    then show ?thesis by (intro wp_mono [OF unlimited_errors [OF steady_dispatch]]) auto
  qed
qed (simp add: rate_limit_message_def)

text \<open>
  C31: A persisted request that fails, in its operation or while it is saved, leaves the state as it
  was. This is said of \<open>change_persisted\<close>, through which every request goes but the execution of a
  purchase. The one exception is an agent that asks for a purchase beyond its rate: then one audit
  entry that notes it may stay, and nothing else.
\<close>

theorem failed_changes_roll_back:
  "wp (change_persisted E C token r) (\<lambda>_ _. True)
     (\<lambda>e v. w_state v = w_state w
        \<or> e = Forbidden rate_limit_message \<and> (\<exists>q. r = CreatePurchaseIntent q)
          \<and> (\<exists>entry. w_state v = audited (w_state w) entry
               \<and> au_action entry = ''transaction_rate_limited'')) w"
proof -
  let ?ok = "\<lambda>e v. w_state v = w_state w
    \<or> e = Forbidden rate_limit_message \<and> (\<exists>q. r = CreatePurchaseIntent q)
      \<and> (\<exists>entry. w_state v = audited (w_state w) entry \<and> au_action entry = ''transaction_rate_limited'')"
  have saved: "wp (rollback (w_state w) (save_to E C)) (\<lambda>_ v. w_state v = w_state u)
      (\<lambda>_ v. w_state v = w_state w) u" for u
    unfolding rollback_def wp_bind wp_attempt
    by (rule wp_mono [OF wp_kept [OF keeps_memory_save]]) (simp_all add: wp_simps same_memory_def)
  have then_ret: "wp (bind (rollback (w_state w) (save_to E C)) (\<lambda>_. ret x)) (\<lambda>_ _. True) ?ok u"
    for x :: json and u
    unfolding wp_bind by (rule wp_mono [OF saved]) (simp_all add: wp_basic)
  have then_fail: "wp (bind (rollback (w_state w) (save_to E C)) (\<lambda>_. fail e)) (\<lambda>_ _. True) ?ok u"
    if "?ok e u" for e u
    unfolding wp_bind by (rule wp_mono [OF saved]) (use that in \<open>simp_all add: wp_basic\<close>)
  show ?thesis
    unfolding change_persisted_def wp_head_state wp_bind [of "attempt _"] wp_attempt
  proof (rule wp_mono [OF handle_noted], goal_cases)
    case (1 x u)
    then show ?case by (simp add: wp_head_state wp_basic then_ret)
  next
    case (2 e u)
    then have "e = Forbidden rate_limit_message \<Longrightarrow> ?ok e u" by (simp add: rate_noted_def)
    then show ?case
      unfolding wp_head_state sum.case wp_tail_if by (intro conjI impI then_fail) (simp_all add: wp_reset)
  qed
qed


end
