(* ===== verification/Fuzz.thy ===== *)
theory Fuzz
  imports Example Panics
begin

text \<open>
  The fuzz targets (\<open>fuzz/fuzz_targets\<close>): what they run on arbitrary bytes, and that neither a panic
  nor their assertion can stop them. Whether bytes are UTF-8 and the decoder of a request are
  parameters.
\<close>

definition usize_saturating_mul :: "nat \<Rightarrow> nat \<Rightarrow> nat" where
  "usize_saturating_mul a b = min u64_max (a * b)"

definition domain_inputs :: "env \<Rightarrow> (string \<Rightarrow> bool) \<Rightarrow> string \<Rightarrow> bool" where
  "domain_inputs E utf8 data =
     (if 4096 < length data then True
      else if utf8 data
      then survives False (canonicalize_domain E data) \<and> survives False (validate_https_url E data)
        \<and> length (redact_sensitive E data)
            \<le> usize_saturating_add (usize_saturating_mul (length data) 4) 64
      else True)"

definition rpc_frames :: "(string \<Rightarrow> rpc_request res) \<Rightarrow> string \<Rightarrow> bool" where
  "rpc_frames decode data = (if length data \<le> 256 * 1024 then survives False (decode data) else True)"

text \<open>
  A match of the first pattern has at least 13 characters and is replaced by 14; a match of the
  second has at least 6, of which 3 or 4 digits are replaced by 14 characters. Matches do not overlap,
  so the text grows by these factors at most.
\<close>

lemma domain_inputs_pass:
  assumes "\<forall>s. 13 * length (replace_all E pan_pattern ''[REDACTED_PAN]'' s) \<le> 14 * length s"
    and "\<forall>s. 6 * length (replace_all E cvv_pattern ''$1$2[REDACTED_CVV]'' s) \<le> 17 * length s"
  shows "domain_inputs E utf8 data"
proof -
  let ?p = "replace_all E pan_pattern ''[REDACTED_PAN]'' data"
  have "13 * length ?p \<le> 14 * length data"
    and "6 * length (replace_all E cvv_pattern ''$1$2[REDACTED_CVV]'' ?p) \<le> 17 * length ?p"
    using assms by blast+
  then have "length (redact_sensitive E data) \<le> length data * 4 + 64"
    by (simp add: redact_sensitive_def)
  then show ?thesis
    by (simp add: domain_inputs_def steady usize_saturating_add_def
        usize_saturating_mul_def u64_max_def)
qed

lemma domain_inputs_pass_plain: "domain_inputs plain_env utf8 data"
  by (rule domain_inputs_pass) (simp_all add: plain_env_def)

end
