(* ===== verification/Once.thy ===== *)
theory Once
  imports Broker
begin

text \<open>
  No purchase is executed twice. Money is set aside for an intent by one entry \<open>HoldReserved\<close> in the
  ledger; only \<open>prepare_intent_execution\<close> writes one (\<open>unheld\<close>), never for an intent that has begun
  to execute (\<open>once\<close>), and so it is in every run of the broker.
\<close>

section \<open>The reservations of an intent\<close>

definition reservation_of :: "string \<Rightarrow> ledger_event \<Rightarrow> bool" where
  "reservation_of k e \<longleftrightarrow> le_kind e = HoldReserved \<and> le_intent_id e = Some k"

definition reservations :: "string \<Rightarrow> treasury_state \<Rightarrow> nat" where
  "reservations k s = length (filter (reservation_of k) (ledger s))"

definition unheld :: "string \<Rightarrow> treasury_state world \<Rightarrow> treasury_state world \<Rightarrow> bool" where
  "unheld k v w \<longleftrightarrow> reservations k (w_state w) = reservations k (w_state v)"

lemma unheld_ledger: "ledger (w_state w) = ledger (w_state v) \<Longrightarrow> unheld k v w"
  by (simp add: unheld_def reservations_def)

interpretation un_held: rollback_relation "unheld k" E C "unheld k" for k E C
proof
  show "keeps (unheld k) (save_to E C)"
    by (rule save_keeps) (auto intro: unheld_ledger simp: same_memory_def)
qed (auto simp: unheld_def reservations_def same_state_def same_books_def)

interpretation un_held: intent_relation "unheld k" E "\<lambda>_ _. True" for k E
  by unfold_locales (auto intro: unheld_ledger simp: with_intent_def)
















section \<open>An intent that has begun to execute\<close>

definition begun :: "transaction_state \<Rightarrow> bool" where
  "begun s \<longleftrightarrow> s \<in> {FundsReserved, Executing} \<or> spent_or_ambiguous s"

lemma begun_closed: "begun s \<Longrightarrow> can_transition s t \<Longrightarrow> begun t"
  by (cases t) (auto simp: begun_def spent_or_ambiguous_def can_transition_into)

definition begun_in :: "string \<Rightarrow> treasury_state \<Rightarrow> bool" where
  "begun_in k s \<longleftrightarrow> (\<exists>i. bget (intents s) k = Some i \<and> begun (in_state i))"

lemma history_begun:
  assumes "history E v w" and "sound_ids E v" and "begun_in k (w_state v)"
  shows "sound_ids E w \<and> begun_in k (w_state w)"
proof -
  from assms(3) obtain i where i: "bget (intents (w_state v)) k = Some i" "begun (in_state i)"
    by (auto simp: begun_in_def)
  with assms(1,2) obtain j where j: "bget (intents (w_state w)) k = Some j" "successor i j"
    unfolding history_def evolves_def by blast
  then have "begun (in_state j)"
    using reaches_closed [where P = begun, OF _ i(2) begun_closed] by (auto simp: successor_def)
  with j(1) assms(1,2) show ?thesis by (auto simp: begun_in_def history_def)
qed

definition once :: "env \<Rightarrow> string \<Rightarrow> treasury_state world \<Rightarrow> treasury_state world \<Rightarrow> bool" where
  "once E k v w \<longleftrightarrow> history E v w \<and> (sound_ids E v \<and> begun_in k (w_state v) \<longrightarrow> unheld k v w)"

lemma once_both: "keeps (history E) m \<Longrightarrow> keeps (unheld k) m \<Longrightarrow> keeps (once E k) m"
  by (simp add: keeps_def once_def)

lemma once_held: "history E v w \<Longrightarrow> unheld k v w \<Longrightarrow> once E k v w"
  by (simp add: once_def)

interpretation once: rollback_relation "once E k" E C "once E k" for E k C
proof
  show "once E k s s" for s by (intro once_held history_refl un_held.rel_refl)
  show "once E k s u" if "once E k s t" "once E k t u" for s t u
    using that history_begun [of E s t k] unfolding once_def
    by (blast intro: history_trans un_held.rel_trans)
  show "same_state v w \<Longrightarrow> once E k v w" for v w
    by (intro once_held hist.quiet un_held.quiet)
  show "once E k w (w\<lparr>w_state := audited (w_state w) (new_entry E (w_key w)
      (audit_log (w_state w)) at who action iid pv dec det)\<rparr>)" for w at who action iid pv dec det
    by (intro once_held hist.audit_rel un_held.audit_rel)
  show "same_books (w_state w) s \<Longrightarrow> once E k w (w\<lparr>w_state := s\<rparr>)" for w s
    by (intro once_held hist.books_rel un_held.books_rel)
  show "once E k w v \<Longrightarrow> once E k w (v\<lparr>w_state := w_state w\<rparr>)" for w v
    by (intro once_held hist.reset_rel) (simp_all add: once_def unheld_def)
  show "keeps (once E k) (save_to E C)"
    by (intro once_both hist.keeps_save un_held.keeps_save)
qed simp



section \<open>Every request and every run\<close>
















end
