(* ===== verification/Spec2Isabelle.thy ===== *)
theory Spec2Isabelle
  imports Safety Decisions Workflow Deposits Durability Providers Custody Containment Startup Program Findings Panics Fuzz Once
begin

text \<open>
  A verification development for cixa, a local treasury broker: an owner grants software agents
  a bounded authority to spend, the agents ask for purchases, and the broker checks each request
  against the owner's policy, reserves the money, has a payment provider or a supervised browser
  execute it, and keeps the ledger and a tamper-evident audit log.

  The program has two implementation files. \<open>src/crates/domain/src/lib.rs\<close> is the treasury: one
  state value behind request handlers, saved after each change. \<open>src/apps/daemon/src/main.rs\<close> is
  the daemon around it: sockets, admission control, the command line, the secret helper and the
  supervision of the checkout adapter.

  How the code runs and how the model follows it:
  \<^item> A method on \<open>&mut self\<close> is an action over a \<open>world\<close> (Base): the state, the files of the data
    directory, the audit key, an oracle of clock readings, random bytes and system-call results.
    It returns a value or a \<open>treasury_error\<close>, and in both cases the world after it, so that what
    a failed operation leaves behind can be stated. Prelude has the monad (\<open>bind\<close>, \<open>attempt\<close>,
    \<open>lift\<close>) and its weakest preconditions \<open>wp\<close>; Ordered_Map is \<open>BTreeMap\<close>.
  \<^item> Every clock reading and every system call may give a different answer, and each system call
    may fail, a write after part of its bytes. Nothing is assumed about them.
  \<^item> Machine integers are \<open>int\<close> or \<open>nat\<close> with the checks, saturation and wrap-around of the
    source written out (\<open>i64_add\<close>, \<open>u64_saturating_add\<close>); addresses are words.
  \<^item> Strings are UTF-8 byte lists.
  \<^item> Code of other packages is a parameter: the record \<open>env\<close> holds the hashes, the JSON text of a
    value, URL parsing, IDNA and the redaction patterns, \<open>codec\<close> the JSON reader of requests,
    states and keys. Where a theorem relies on one of them, the law it needs is a premise.

  Theories by part of the code, in import order:
  \<^item> \<open>lib.rs\<close>, data: Base, Files, Money, Net (domains, addresses, URLs), Policy, Intent (the
    transaction table), Provider (\<open>PaymentProvider\<close> as a locale with its two interpretations),
    State (\<open>TreasuryState\<close>).
  \<^item> \<open>lib.rs\<close>, operations: Audit_Log, Ledger, Auth, Purchase (create, prepare, complete, execute,
    cancel, recover), Owner (agents, policies, approval, emergency stop), Treasury
    (reconciliation, deposits, provider configuration), Views (queries), Store (\<open>bootstrap\<close>,
    \<open>save_to\<close>, \<open>load_from\<close>), Rpc (\<open>Request\<close>, its decoder, \<open>handle\<close>, the persisted handlers).
  \<^item> \<open>lib.rs\<close>, handoff: Secrets (grants, nonces, secret providers), Checkout (the handoff
    executor and its two persisted workflows).
  \<^item> \<open>main.rs\<close>: Admission (\<open>AgentAdmission\<close>), Daemon (connections, frames, checkout profiles and
    runtime), Parsing (the standard library's text functions), Supervisor (the adapter's process,
    in the Linux, the macOS and the other Unix build), Commands (each command's request),
    Sessions (the lock, token files, requests over the socket or on the data directory, \<open>init\<close>,
    \<open>create-agent\<close>, the helper's sessions, \<open>execute-handoff\<close>, the start of \<open>serve\<close>), Service (the
    sockets, \<open>serve_listener\<close> and \<open>handle_connection\<close>), Demo (\<open>run_demo\<close>), Program (\<open>main\<close>, \<open>run\<close>).

  What the lemmas show, by theory:
  \<^item> Relations, Preparation, Lifecycle, Outcomes: the locales \<open>treasury_relation\<close> and
    \<open>history_relation\<close> state what an operation must do to keep a relation between the state
    before and after; every operation is proved to keep them, up to \<open>handle_persisted\<close>. The
    instance \<open>history\<close> says that the audit chain is extended and intents move along the table.
    \<open>restored_relation\<close> is for what a rollback restores. Handoffs does the same for the checkout
    workflows, with the outcomes an executor may report as a parameter (\<open>checkout_relation\<close>).
  \<^item> Solvency: no operation makes the available authority negative. Preparation has the proof
    rule of an execution (\<open>prepare_rule\<close>).
  \<^item> Safety, Decisions, Workflow, Deposits, Providers: single operations, authentication, the
    emergency stop, the policy decision against a declarative reading, the store of intents,
    deposits, and the simulated provider, whose runs are runs of a bank of payments.
  \<^item> Forms: every request leaves a state that \<open>validate_state\<close> accepts, so it can be saved.
  \<^item> Durability: saving is atomic under failing system calls, loading refuses what was not written
    under the key, \<open>save_to\<close> and \<open>load_from\<close> are inverse, and a bootstrap starts well.
  \<^item> Custody: grants are redeemed once, secrets given once, a handoff calls its browser at most
    once even when the call fails, the browser's word never settles a purchase, the decoder is strict, admission is bounded.
  \<^item> Containment: the adapter is killed and reaped however its run ends, a pid reused by another
    process is not signalled (through a pidfd or an audit token), the scan of a settled process
    table ends and is complete.
  \<^item> Broker: the listeners and their workers as a step relation, in which any number of connections
    interleave wherever no mutex keeps them apart. The steps refine those of \<open>AgentAdmission\<close>, keep
    the connections within their limits and each mutex with one holder, keep the books, never
    deadlock and, while nothing new is accepted, end after a bounded number of steps at rest.
  \<^item> Once: over any interleaving, money is reserved for an intent at most once.
  \<^item> Restart, Startup: what is on disk after any interleaving and any failing system call is a
    solvent treasury, the broker starts only on one, holding the lock and having quarantined the
    executions that were interrupted, and its sockets are private before they accept, provided the
    two paths, which it requires to be written differently, name different places.
  \<^item> Frontend: tokens by role, the bound of a secret helper, the order in which an agent's token
    is written and activated.
  \<^item> This theory: what holds of every persisted request and every sequence of them.
  \<^item> Panics: no persisted request fails with \<open>Panic\<close>, operation by operation; only a refused
    purchase request fails with the rate-limit message, the one failure that leaves a record.
  \<^item> Fuzz: the fuzz targets, which no input makes panic or fail.
  \<^item> Findings: behaviours of the code that are not what it or its documents mean.
  \<^item> Example: a small treasury on which the witnesses run.

  Loops: there is no fuel. Loops over data are structural recursions; a loop that waits for an
  outside event consumes the list of events it is given, so every finite history is covered; the
  two loops of the supervisor that may run forever (\<open>descend\<close> over the process table, \<open>drain\<close>
  over the pipe) are partial functions whose value is \<open>None\<close> when they do not end, with theorems
  that they return. Bounds (16 KiB of adapter output, frame sizes, quotas) are the constants of
  the source.

  Threads: the listeners and workers are modelled as steps of Service. The mutex of the treasury
  and that of the admission control are part of its state: a worker waits until the one it needs is
  free, holds it while it works, and another thread may run in between; an owner's request takes
  the admission's mutex while it still holds the treasury's. The outcomes of socket calls are part
  of a step. The state of a mutex whose holder panicked is not modelled; Panics shows that a
  request the worker handles does not panic.

  Not modelled: the printing of results and the help text (an operation returns the value that is
  printed), the builds without Unix sockets beyond their refusal in \<open>run\<close>, \<open>Debug\<close> and \<open>Drop\<close>
  instances that only erase memory, and the unit tests.
\<close>

section \<open>Every persisted request\<close>

text \<open>C1: No request, whether it succeeds or fails, makes the treasury's authority negative.\<close>

theorem requests_stay_solvent:
  assumes "solvent (w_state w)" and "generation (w_state w) + 1 < u64_max"
  shows "solvent (w_state (snd (handle_persisted E C token r w)))"
proof -
  have "keeps_solvent w (snd (handle_persisted E C token r w))"
    using handle_persisted_solvent [OF assms(2), of E C token r]
    by (auto simp: wp_def split: prod.splits sum.splits)
  with assms(1) show ?thesis by (simp add: keeps_solvent_def)
qed

theorem requests_stay_solvent_witness:
  "solvent (w_state (snd (handle_persisted plain_env plain_codec ''token''
     (ExecutePurchaseIntent ''i1'') (small_world PolicyValidated))))"
  by (rule requests_stay_solvent) (simp_all add: small_solvent u64_max_def)

text \<open>
  C7: Money is set aside only for a cleared purchase. When \<open>prepare_intent_execution\<close> succeeds,
  the intent was executable, belongs to the acting agent, is within its session, its own lifetime and
  that of the card session, meets the policy (without needing the owner, or with the owner's
  approval), and passed the limits and the authority checks (\<open>cleared\<close>); the state after it is the
  state before with the intent moved to \<open>Executing\<close>, one hold in the ledger and one audit entry.
\<close>

theorem prepared_means_cleared:
  "wp (prepare_intent_execution E a k)
     (\<lambda>_ v. \<exists>i agent p u e entry at. cleared E a k w i agent p u
        \<and> w_state v = reserved_state (w_state w) i e entry at
        \<and> hold_event i e \<and> au_action entry = ''reserve_funds'')
     (\<lambda>_ _. True) w"
proof (rule wpI)
  fix x v
  assume "prepare_intent_execution E a k w = (Inr x, v)"
  then have "prepare_intent_execution E a k w = (Inr (), v)" by simp
  from prepare_Inr [OF this] obtain i agent p u t where
    c: "cleared E a k w i agent p u" and t: "same_state w t"
    and r: "reserve_and_start E (in_agent_id i) k p i t = (Inr (), v)" by blast
  from wp_OkD [OF reserve_wp r] t c show "\<exists>i agent p u e entry at. cleared E a k w i agent p u
      \<and> w_state v = reserved_state (w_state w) i e entry at
      \<and> hold_event i e \<and> au_action entry = ''reserve_funds''"
    by (auto simp: reserved_from_def same_state_def)
qed simp

text \<open>C12: Every request only appends to the audit log, and a chain that verified still verifies.\<close>

theorem requests_extend_the_audit_log:
  "log_extends E (w_key w) (w_state w) (w_state (snd (handle_persisted E C token r w)))"
  using keepsD [OF keeps_history_persisted] by (auto simp: history_def)

text \<open>
  C11: Whatever a persisted request does, a stored intent stays stored, keeps its request, agent,
  session and creation time, and its state moves only along the transition table.
\<close>

theorem requests_advance_intents:
  assumes "sound_ids E w" and "bget (intents (w_state w)) k = Some i"
  shows "\<exists>j. bget (intents (w_state (snd (handle_persisted E C token r w)))) k = Some j
    \<and> successor i j"
  using keepsD [OF keeps_history_persisted, of E w C token r] assms
  by (auto simp: history_def evolves_def)

theorem requests_advance_intents_witness:
  "\<exists>j. bget (intents (w_state (snd (handle_persisted plain_env plain_codec ''token''
     (ExecutePurchaseIntent ''i1'') (small_world PolicyValidated))))) ''i1'' = Some j
     \<and> successor (book_intent PolicyValidated) j"
  by (rule requests_advance_intents [OF small_sound]) simp

end
